(* ===== verification/GoPrelude.thy ===== *)
theory GoPrelude
  imports Main "HOL-Library.Word" "HOL-Library.AList" "HOL-Library.Multiset"
begin

text \<open>
  What every component of the model shares: the effect type of a Go function (state passing
  with panics and endless loops as outcomes of their own), Go errors as values, the machine
  integers and byte slices of the network code, the string functions of the standard library
  the code calls (\<open>strings.Join\<close>, \<open>strings.Split\<close>, the verbs \<open>%d\<close> and \<open>%x\<close> of \<open>fmt\<close>), and the
  lemma collections the component theories use: \<open>io_simps\<close> evaluates effectful code,
  \<open>keeps_intros\<close> proves that a piece of code keeps an invariant on every path, also the
  panicking ones.
\<close>

named_theorems io_simps
named_theorems keeps_intros

section \<open>Go values\<close>

type_synonym byte = "8 word"
type_synonym u32 = "32 word"
type_synonym u64 = "64 word"

text \<open>
  An \<open>error\<close> value keeps the format string and the arguments it was built from; \<open>nil\<close> is
  \<^const>\<open>None\<close>. \<open>errors.Wrap\<close> of a nil error is nil, as in the package's documentation.
\<close>

datatype go_error = Errorf string "string list" | Wrapf go_error string "string list"

type_synonym goerr = "go_error option"

definition wrap :: "goerr \<Rightarrow> string \<Rightarrow> string list \<Rightarrow> goerr" where
  "wrap err fmt args = map_option (\<lambda>e. Wrapf e fmt args) err"

lemma wrap_simps [simp]:
  "wrap None fmt args = None"
  "wrap (Some e) fmt args = Some (Wrapf e fmt args)"
  "wrap err fmt args = None \<longleftrightarrow> err = None"
  by (simp_all add: wrap_def)

section \<open>Effects\<close>

text \<open>
  A Go function with effects takes the state and gives an outcome and the new state. A panic
  keeps the state it was raised in: \<open>net/http\<close> recovers panics of a handler, so the process
  may go on from there. \<open>Diverged\<close> is a loop that never ends.
\<close>

datatype 'a outcome = Done 'a | Panic string | Diverged

type_synonym ('s, 'a) io = "'s \<Rightarrow> 'a outcome \<times> 's"

definition ret :: "'a \<Rightarrow> ('s, 'a) io" where
  "ret a = (\<lambda>s. (Done a, s))"

definition panic :: "string \<Rightarrow> ('s, 'a) io" where
  "panic msg = (\<lambda>s. (Panic msg, s))"

definition diverge :: "('s, 'a) io" where
  "diverge = (\<lambda>s. (Diverged, s))"

definition bnd :: "('s, 'a) io \<Rightarrow> ('a \<Rightarrow> ('s, 'b) io) \<Rightarrow> ('s, 'b) io" where
  "bnd m f = (\<lambda>s. case m s of
      (Done a, s') \<Rightarrow> f a s'
    | (Panic msg, s') \<Rightarrow> (Panic msg, s')
    | (Diverged, s') \<Rightarrow> (Diverged, s'))"

definition get_st :: "('s, 's) io" where
  "get_st = (\<lambda>s. (Done s, s))"

definition modify :: "('s \<Rightarrow> 's) \<Rightarrow> ('s, unit) io" where
  "modify f = (\<lambda>s. (Done (), f s))"

text \<open>Dereferencing a pointer: \<open>nil\<close> panics.\<close>

definition deref :: "'a option \<Rightarrow> ('s, 'a) io" where
  "deref p = (case p of None \<Rightarrow> panic ''nil pointer dereference'' | Some a \<Rightarrow> ret a)"

text \<open>A \<open>for\<close> loop over a list whose body may return early with a value.\<close>

primrec for_each :: "'a list \<Rightarrow> ('a \<Rightarrow> ('s, 'b option) io) \<Rightarrow> ('s, 'b option) io" where
  "for_each [] body = ret None"
| "for_each (x # xs) body =
     bnd (body x) (\<lambda>r. case r of Some b \<Rightarrow> ret (Some b) | None \<Rightarrow> for_each xs body)"

text \<open>The same without an early return.\<close>

primrec for_all :: "'a list \<Rightarrow> ('a \<Rightarrow> ('s, unit) io) \<Rightarrow> ('s, unit) io" where
  "for_all [] body = ret ()"
| "for_all (x # xs) body = bnd (body x) (\<lambda>_. for_all xs body)"

text \<open>A loop that carries a variable of the enclosing function.\<close>

primrec fold_each :: "'a list \<Rightarrow> 'b \<Rightarrow> ('a \<Rightarrow> 'b \<Rightarrow> ('s, 'b) io) \<Rightarrow> ('s, 'b) io" where
  "fold_each [] b body = ret b"
| "fold_each (x # xs) b body = bnd (body x b) (\<lambda>b'. fold_each xs b' body)"

lemma ret_apply [io_simps]: "ret a s = (Done a, s)"
  by (simp add: ret_def)

lemma panic_apply [io_simps]: "panic msg s = (Panic msg, s)"
  by (simp add: panic_def)

lemma diverge_apply [io_simps]: "diverge s = (Diverged, s)"
  by (simp add: diverge_def)

lemma get_st_apply [io_simps]: "get_st s = (Done s, s)"
  by (simp add: get_st_def)

lemma modify_apply [io_simps]: "modify f s = (Done (), f s)"
  by (simp add: modify_def)

lemma deref_apply [io_simps]:
  "deref None s = (Panic ''nil pointer dereference'', s)"
  "deref (Some a) s = (Done a, s)"
  by (simp_all add: deref_def panic_def ret_def)

lemma bnd_apply [io_simps]:
  "bnd m f s = (case m s of
      (Done a, s') \<Rightarrow> f a s'
    | (Panic msg, s') \<Rightarrow> (Panic msg, s')
    | (Diverged, s') \<Rightarrow> (Diverged, s'))"
  by (simp add: bnd_def)

lemma bnd_DoneE:
  assumes "bnd m f s = (Done b, t)"
  obtains a s' where "m s = (Done a, s')" "f a s' = (Done b, t)"
  using assms by (auto simp: bnd_apply split: prod.splits outcome.splits)

lemma bnd_ret [simp]: "bnd (ret a) f = f a"
  by (rule ext) (simp add: io_simps)

lemma bnd_assoc: "bnd (bnd m f) g = bnd m (\<lambda>a. bnd (f a) g)"
  by (rule ext) (simp add: io_simps split: prod.split outcome.split)

section \<open>Invariants of effectful code\<close>

text \<open>\<open>keeps I m\<close>: whatever way \<open>m\<close> ends, it leaves the invariant \<open>I\<close> of the state intact.\<close>

definition keeps :: "('s \<Rightarrow> bool) \<Rightarrow> ('s, 'a) io \<Rightarrow> bool" where
  "keeps I m \<longleftrightarrow> (\<forall>s. I s \<longrightarrow> I (snd (m s)))"

lemma keepsI: "(\<And>s. I s \<Longrightarrow> I (snd (m s))) \<Longrightarrow> keeps I m"
  by (simp add: keeps_def)

lemma keepsD: "keeps I m \<Longrightarrow> I s \<Longrightarrow> m s = (r, t) \<Longrightarrow> I t"
  by (metis keeps_def snd_conv)

lemma keeps_snd: "keeps I m \<Longrightarrow> I s \<Longrightarrow> I (snd (m s))"
  by (simp add: keeps_def)

lemma keeps_ret [keeps_intros]: "keeps I (ret a)"
  by (simp add: keeps_def ret_def)

lemma keeps_panic [keeps_intros]: "keeps I (panic msg)"
  by (simp add: keeps_def panic_def)

lemma keeps_diverge [keeps_intros]: "keeps I diverge"
  by (simp add: keeps_def diverge_def)

lemma keeps_get_st [keeps_intros]: "keeps I get_st"
  by (simp add: keeps_def get_st_def)

lemma keeps_deref [keeps_intros]: "keeps I (deref p)"
  by (cases p) (simp_all add: keeps_def io_simps)

lemma keeps_modify: "(\<And>s. I s \<Longrightarrow> I (f s)) \<Longrightarrow> keeps I (modify f)"
  by (simp add: keeps_def modify_def)

lemma keeps_bnd [keeps_intros]:
  assumes "keeps I m" and "\<And>a. keeps I (f a)"
  shows "keeps I (bnd m f)"
proof (rule keepsI)
  fix s
  assume "I s"
  then have "I (snd (m s))" using assms(1) by (simp add: keeps_def)
  then show "I (snd (bnd m f s))"
    using assms(2) by (auto simp: bnd_apply keeps_def split: prod.split outcome.split)
qed

text \<open>Reading the state first: the continuation may rely on the invariant of what was read.\<close>

lemma keeps_bnd_get_st:
  assumes "\<And>s. I s \<Longrightarrow> I (snd (f s s))"
  shows "keeps I (bnd get_st f)"
  using assms by (simp add: keeps_def io_simps)

lemma keeps_if [keeps_intros]:
  "keeps I m \<Longrightarrow> keeps I m' \<Longrightarrow> keeps I (if b then m else m')"
  by simp

lemma keeps_case_option [keeps_intros]:
  "keeps I m \<Longrightarrow> (\<And>a. keeps I (f a)) \<Longrightarrow> keeps I (case x of None \<Rightarrow> m | Some a \<Rightarrow> f a)"
  by (cases x) simp_all

lemma keeps_case_prod [keeps_intros]:
  "(\<And>a b. keeps I (f a b)) \<Longrightarrow> keeps I (case p of (a, b) \<Rightarrow> f a b)"
  by (cases p) simp

lemma keeps_for_each [keeps_intros]:
  "(\<And>x. keeps I (body x)) \<Longrightarrow> keeps I (for_each xs body)"
  by (induction xs) (auto intro!: keeps_intros)

lemma keeps_for_all [keeps_intros]:
  "(\<And>x. keeps I (body x)) \<Longrightarrow> keeps I (for_all xs body)"
  by (induction xs) (auto intro!: keeps_intros)

lemma keeps_fold_each [keeps_intros]:
  "(\<And>x b. keeps I (body x b)) \<Longrightarrow> keeps I (fold_each xs b body)"
  by (induction xs arbitrary: b) (auto intro!: keeps_intros)

section \<open>Strings\<close>

text \<open>\<open>fmt\<close>'s \<open>%d\<close> and \<open>%x\<close> of a non-negative integer: no padding, lower-case digits.\<close>

definition digit :: "nat \<Rightarrow> char" where
  "digit d = char_of (if d < 10 then 48 + d else 87 + d)"

fun radix :: "nat \<Rightarrow> nat \<Rightarrow> string" where
  "radix b n = (if b < 2 \<or> n < b then [digit n] else radix b (n div b) @ [digit (n mod b)])"

declare radix.simps [simp del]

abbreviation itoa :: "nat \<Rightarrow> string" where
  "itoa \<equiv> radix 10"

abbreviation hex :: "nat \<Rightarrow> string" where
  "hex \<equiv> radix 16"

definition digit_val :: "char \<Rightarrow> nat option" where
  "digit_val c = (let n = of_char c :: nat in
     if 48 \<le> n \<and> n \<le> 57 then Some (n - 48)
     else if 97 \<le> n \<and> n \<le> 102 then Some (n - 87)
     else if 65 \<le> n \<and> n \<le> 70 then Some (n - 55)
     else None)"

text \<open>The value of a string of digits of base \<open>b\<close>; \<^const>\<open>None\<close> at any other character.\<close>

fun digits_val :: "nat \<Rightarrow> nat \<Rightarrow> string \<Rightarrow> nat option" where
  "digits_val b acc [] = Some acc"
| "digits_val b acc (c # cs) = (case digit_val c of
     None \<Rightarrow> None
   | Some d \<Rightarrow> if d < b then digits_val b (acc * b + d) cs else None)"

text \<open>\<open>strings.Split\<close> by a separator of one character, and \<open>strings.Join\<close>.\<close>

fun split_on :: "char \<Rightarrow> string \<Rightarrow> string list" where
  "split_on c [] = [[]]"
| "split_on c (x # xs) =
     (if x = c then [] # split_on c xs
      else (case split_on c xs of [] \<Rightarrow> [[x]] | p # ps \<Rightarrow> (x # p) # ps))"

fun join_with :: "string \<Rightarrow> string list \<Rightarrow> string" where
  "join_with sep [] = []"
| "join_with sep [p] = p"
| "join_with sep (p # q # ps) = p @ sep @ join_with sep (q # ps)"

text \<open>A slice \<open>s[lo:hi]\<close>: out of range panics.\<close>

definition slice :: "'a list \<Rightarrow> nat \<Rightarrow> nat \<Rightarrow> ('s, 'a list) io" where
  "slice xs lo hi = (if lo \<le> hi \<and> hi \<le> length xs then ret (take (hi - lo) (drop lo xs))
     else panic ''slice bounds out of range'')"

lemma slice_apply [io_simps]:
  "slice xs lo hi s = (if lo \<le> hi \<and> hi \<le> length xs then (Done (take (hi - lo) (drop lo xs)), s)
     else (Panic ''slice bounds out of range'', s))"
  by (simp add: slice_def io_simps)

lemma keeps_slice [keeps_intros]: "keeps I (slice xs lo hi)"
  by (simp add: slice_def keeps_intros)

section \<open>Association lists as Go maps\<close>

lemma set_delete_alist: "set (AList.delete k al) = {p \<in> set al. fst p \<noteq> k}"
  by (auto simp: AList.delete_eq)

lemma ivl_disjoint:
  fixes a b m n :: nat
  shows "a + m \<le> b \<or> b + n \<le> a \<Longrightarrow> {a ..< a + m} \<inter> {b ..< b + n} = {}"
  by auto

end
