(* ===== verification/GoStrings.thy ===== *)
theory GoStrings
  imports GoPrelude
begin

text \<open>
  Facts on the string functions of the prelude: printing and reading numbers, joining and
  splitting at a separator. The components use them for keys (instance IDs, address strings)
  that must not collide.
\<close>

section \<open>Digits and numbers\<close>

lemma of_char_digit: "d < 16 \<Longrightarrow> (of_char (digit d) :: nat) = (if d < 10 then 48 + d else 87 + d)"
  by (simp add: digit_def)

lemma digit_val_digit [simp]: "d < 16 \<Longrightarrow> digit_val (digit d) = Some d"
  by (auto simp: digit_val_def of_char_digit Let_def)

lemma digit_neq:
  assumes "d < 16"
  shows "digit d \<noteq> CHR ''.''" "digit d \<noteq> CHR '':''" "digit d \<noteq> CHR ''_''" "digit d \<noteq> CHR ''-''"
  using of_char_digit [OF assms] by (auto split: if_splits)

lemma digits_val_append:
  "digits_val b acc (xs @ ys) = Option.bind (digits_val b acc xs) (\<lambda>a. digits_val b a ys)"
  by (induction b acc xs rule: digits_val.induct) (auto split: option.split)

lemma digits_val_radix: "2 \<le> b \<Longrightarrow> b \<le> 16 \<Longrightarrow> digits_val b 0 (radix b n) = Some n"
proof (induction b n rule: radix.induct)
  case (1 b n)
  show ?case
  proof (cases "n < b")
    case True
    with "1.prems" show ?thesis by (subst radix.simps) simp
  next
    case False
    with "1" have "digits_val b 0 (radix b (n div b)) = Some (n div b)" by simp
    moreover have "digit_val (digit (n mod b)) = Some (n mod b)"
      by (rule digit_val_digit) (use "1.prems" mod_less_divisor [of b n] in linarith)
    ultimately show ?thesis using False "1.prems"
      by (subst radix.simps) (simp add: digits_val_append del: digit_val_digit)
  qed
qed

lemma radix_inj: "2 \<le> b \<Longrightarrow> b \<le> 16 \<Longrightarrow> radix b m = radix b n \<Longrightarrow> m = n"
  by (metis digits_val_radix option.inject)

lemma set_radix: "2 \<le> b \<Longrightarrow> b \<le> 16 \<Longrightarrow> set (radix b n) \<subseteq> digit ` {..<16}"
proof (induction b n rule: radix.induct)
  case (1 b n)
  show ?case
  proof (cases "n < b")
    case True
    with "1.prems" show ?thesis by (subst radix.simps) auto
  next
    case False
    with "1" have "set (radix b (n div b)) \<subseteq> digit ` {..<16}" by simp
    moreover have "n mod b < 16"
      using "1.prems" mod_less_divisor [of b n] by linarith+
    ultimately show ?thesis using False "1.prems" by (subst radix.simps) auto
  qed
qed

lemma radix_chars:
  assumes "2 \<le> b" "b \<le> 16"
  shows "CHR ''.'' \<notin> set (radix b n)" "CHR '':'' \<notin> set (radix b n)"
    "CHR ''_'' \<notin> set (radix b n)" "CHR ''-'' \<notin> set (radix b n)"
  using set_radix [OF assms, of n] by (auto dest!: subsetD simp: digit_neq dest: digit_neq [THEN not_sym])

lemma radix_nonempty [simp]: "radix b n \<noteq> []"
  by (subst radix.simps) simp

lemma length_radix_le:
  assumes "2 \<le> b"
  shows "n < b ^ Suc k \<Longrightarrow> length (radix b n) \<le> Suc k"
proof (induction k arbitrary: n)
  case 0
  with assms show ?case by (subst radix.simps) simp
next
  case (Suc k)
  show ?case
  proof (cases "n < b")
    case True
    then show ?thesis by (subst radix.simps) simp
  next
    case False
    have "n div b < b ^ Suc k"
      using Suc.prems assms by (simp add: less_mult_imp_div_less mult.commute)
    then have "length (radix b (n div b)) \<le> Suc k" by (rule Suc.IH)
    with False assms show ?thesis by (subst radix.simps) simp
  qed
qed

lemma length_radix_gt:
  assumes "2 \<le> b"
  shows "b ^ k \<le> n \<Longrightarrow> k < length (radix b n)"
proof (induction k arbitrary: n)
  case 0
  then show ?case by simp
next
  case (Suc k)
  from Suc.prems assms have "b \<le> n"
    by (metis One_nat_def Suc_le_mono le_trans mult.right_neutral mult_le_mono2 not_less_eq_eq
        numeral_2_eq_2 one_le_power power_Suc zero_le)
  moreover have "b ^ k \<le> n div b"
    using Suc.prems assms by (simp add: less_eq_div_iff_mult_less_eq mult.commute)
  then have "k < length (radix b (n div b))" by (rule Suc.IH)
  ultimately show ?case using assms by (subst radix.simps) simp
qed

section \<open>Split and join\<close>

lemma split_on_nonempty [simp]: "split_on c s \<noteq> []"
  by (induction c s rule: split_on.induct) (auto split: list.split)

lemma join_with_Cons: "ps \<noteq> [] \<Longrightarrow> join_with sep (p # ps) = p @ sep @ join_with sep ps"
  by (cases ps) simp_all

lemma join_split: "join_with [c] (split_on c s) = s"
proof (induction c s rule: split_on.induct)
  case (2 c x xs)
  obtain p ps where ps: "split_on c xs = p # ps" by (meson list.exhaust split_on_nonempty)
  show ?case
  proof (cases "x = c")
    case True
    with "2" show ?thesis by (simp add: join_with_Cons)
  next
    case False
    with "2" ps show ?thesis by (cases ps) auto
  qed
qed simp

lemma split_on_free: "c \<notin> set s \<Longrightarrow> split_on c s = [s]"
  by (induction c s rule: split_on.induct) auto

lemma split_on_append: "c \<notin> set s \<Longrightarrow> split_on c (s @ c # t) = s # split_on c t"
  by (induction s) auto

lemma split_join:
  assumes "ps \<noteq> []" "\<forall>p \<in> set ps. c \<notin> set p"
  shows "split_on c (join_with [c] ps) = ps"
  using assms
proof (induction ps)
  case (Cons p ps)
  then show ?case by (cases ps) (simp_all add: split_on_free split_on_append)
qed simp

lemma join_with_inj:
  assumes "ps \<noteq> []" "qs \<noteq> []" "\<forall>p \<in> set ps. c \<notin> set p" "\<forall>q \<in> set qs. c \<notin> set q"
    and "join_with [c] ps = join_with [c] qs"
  shows "ps = qs"
  using split_join assms by metis

lemma append_sep_inj:
  assumes "c \<notin> set a" "c \<notin> set b" "a @ c # s = b @ c # t"
  shows "a = b \<and> s = t"
  using assms
proof (induction a arbitrary: b)
  case Nil
  then show ?case by (cases b) auto
next
  case (Cons x a)
  then show ?case by (cases b) auto
qed

end
