(* ===== verification/GoNet.thy ===== *)
theory GoNet
  imports GoStrings
begin

text \<open>
  What the code uses of Go's packages \<open>encoding/binary\<close>, \<open>net\<close> and \<open>hash/fnv\<close>: big-endian
  32-bit integers, \<open>IP.String\<close>, \<open>net.ParseIP\<close>, \<open>net.ParseCIDR\<close>, \<open>IPMask.Size\<close>, and the 64-bit
  FNV-1a hash. An address is the byte slice it is in Go: 4 bytes, 16 bytes, or empty for the nil
  and the zero \<open>net.IP\<close> (every function below treats these two alike).
  An IPv6 text with a dotted tail or a zone is rejected: no string the program builds has one.
\<close>

unbundle bit_operations_syntax

type_synonym ip_bytes = "byte list"

section \<open>Big-endian integers\<close>

definition be_uint32 :: "byte list \<Rightarrow> u32" where
  "be_uint32 b = (ucast (b ! 3) OR push_bit 8 (ucast (b ! 2)) OR push_bit 16 (ucast (b ! 1))
     OR push_bit 24 (ucast (b ! 0)))"

definition be_bytes :: "u32 \<Rightarrow> byte list" where
  "be_bytes v = [ucast (drop_bit 24 v), ucast (drop_bit 16 v), ucast (drop_bit 8 v), ucast v]"

lemma length_be_bytes [simp]: "length (be_bytes v) = 4"
  by (simp add: be_bytes_def)

lemma be_bytes_nonempty [simp]: "be_bytes v \<noteq> []"
  by (simp add: be_bytes_def)

lemma be_uint32_bytes [simp]: "be_uint32 (be_bytes v) = v"
proof (rule bit_word_eqI)
  fix n
  assume "n < LENGTH(32)"
  then have n: "n < 32" by simp
  have "n < 8 \<or> (8 \<le> n \<and> n < 16) \<or> (16 \<le> n \<and> n < 24) \<or> 24 \<le> n" by arith
  with n show "bit (be_uint32 (be_bytes v)) n = bit v n"
    by (auto simp: be_uint32_def be_bytes_def bit_or_iff bit_push_bit_iff bit_ucast_iff
        bit_drop_bit_eq)
qed

lemma be_bytes_inj: "be_bytes v = be_bytes w \<Longrightarrow> v = w"
  by (metis be_uint32_bytes)

lemma be_bytes_uint32: "be_bytes (be_uint32 [a, b, c, d]) = [a, b, c, d]"
  unfolding be_bytes_def list.inject
  by (intro conjI bit_word_eqI)
    (auto simp: be_uint32_def bit_or_iff bit_push_bit_iff bit_ucast_iff bit_drop_bit_eq
      dest: bit_imp_le_length)

lemma be_uint32_less:
  assumes "unat a < 16"
  shows "unat (be_uint32 [a, b, c, d]) < 2 ^ 28"
proof -
  have high: "\<not> bit a n" if "4 \<le> n" for n
  proof -
    have "take_bit 4 (unat a) = unat a" using assms by (simp add: take_bit_nat_eq_self)
    then have "bit (unat a) n \<longleftrightarrow> n < 4 \<and> bit (unat a) n" by (metis bit_take_bit_iff)
    with that have "\<not> bit (unat a) n" by simp
    then show ?thesis by (auto simp: bit_unsigned_iff dest: bit_imp_le_length)
  qed
  have "be_uint32 [a, b, c, d] = take_bit 28 (be_uint32 [a, b, c, d])"
    by (rule bit_word_eqI)
      (auto simp: be_uint32_def bit_or_iff bit_push_bit_iff bit_ucast_iff bit_take_bit_iff
        dest: bit_imp_le_length intro: ccontr simp: high)
  then have "unat (be_uint32 [a, b, c, d]) = take_bit 28 (unat (be_uint32 [a, b, c, d]))"
    by (metis unsigned_take_bit_eq)
  then show ?thesis by (metis take_bit_nat_less_exp)
qed

section \<open>Masks\<close>

definition byte_bits :: "byte \<Rightarrow> bool list" where
  "byte_bits b = map (bit b) [7, 6, 5, 4, 3, 2, 1, 0]"

text \<open>\<open>IPMask.Size\<close>: ones and bits, or (0, 0) when the mask is not ones followed by zeros.\<close>

definition mask_size :: "byte list \<Rightarrow> nat \<times> nat" where
  "mask_size m = (let bs = concat (map byte_bits m); ones = length (takeWhile id bs)
     in if list_all Not (drop ones bs) then (ones, 8 * length m) else (0, 0))"

definition cidr_mask :: "nat \<Rightarrow> nat \<Rightarrow> byte list" where
  "cidr_mask ones bits = map (\<lambda>i. if 8 * i + 8 \<le> ones then 255
     else if ones \<le> 8 * i then 0 else NOT (drop_bit (ones - 8 * i) (255 :: byte))) [0..<bits div 8]"

section \<open>Text of an address\<close>

definition v4_prefix :: "byte list" where
  "v4_prefix = [0, 0, 0, 0, 0, 0, 0, 0, 0, 0, 255, 255]"

definition to4 :: "ip_bytes \<Rightarrow> ip_bytes option" where
  "to4 ip = (if length ip = 4 then Some ip
     else if length ip = 16 \<and> take 12 ip = v4_prefix then Some (drop 12 ip) else None)"

definition to16 :: "ip_bytes \<Rightarrow> ip_bytes option" where
  "to16 ip = (if length ip = 4 then Some (v4_prefix @ ip)
     else if length ip = 16 then Some ip else None)"

fun hextets :: "byte list \<Rightarrow> nat list" where
  "hextets (a # b # bs) = (256 * unat a + unat b) # hextets bs"
| "hextets _ = []"

text \<open>The first longest run of at least two zero groups, as (start, length).\<close>

definition zero_run :: "nat list \<Rightarrow> nat \<Rightarrow> nat" where
  "zero_run gs i = length (takeWhile (\<lambda>g. g = 0) (drop i gs))"

definition best_run :: "nat list \<Rightarrow> nat \<times> nat" where
  "best_run gs = fold (\<lambda>i (s, l). let r = zero_run gs i in if 2 \<le> r \<and> l < r then (i, r) else (s, l))
     [0..<length gs] (0, 0)"

definition dotted :: "byte list \<Rightarrow> string" where
  "dotted b = join_with ''.'' (map (\<lambda>x. itoa (unat x)) b)"

definition ip_string :: "ip_bytes \<Rightarrow> string" where
  "ip_string ip =
     (if ip = [] then ''<nil>''
      else if length ip \<noteq> 4 \<and> length ip \<noteq> 16 then
        CHR ''?'' # concat (map (\<lambda>x. [digit (unat x div 16), digit (unat x mod 16)]) ip)
      else case to4 ip of
        Some b \<Rightarrow> dotted b
      | None \<Rightarrow> (let gs = hextets ip; (s, l) = best_run gs in
          if l = 0 then join_with '':'' (map hex gs)
          else join_with '':'' (map hex (take s gs)) @ ''::'' @
               join_with '':'' (map hex (drop (s + l) gs))))"

text \<open>\<open>net.ParseIP\<close>; the nil it returns for text that is no address is the empty list.\<close>

definition parse_octet :: "string \<Rightarrow> byte option" where
  "parse_octet p = (if p = [] \<or> (1 < length p \<and> hd p = CHR ''0'') then None
     else case digits_val 10 0 p of
       None \<Rightarrow> None
     | Some n \<Rightarrow> if n \<le> 255 then Some (of_nat n) else None)"

fun parse_all :: "('a \<Rightarrow> 'b option) \<Rightarrow> 'a list \<Rightarrow> 'b list option" where
  "parse_all f [] = Some []"
| "parse_all f (p # ps) = (case f p of None \<Rightarrow> None | Some b \<Rightarrow> map_option ((#) b) (parse_all f ps))"

definition parse_ipv4 :: "string \<Rightarrow> byte list option" where
  "parse_ipv4 s = (let ps = split_on CHR ''.'' s in
     if length ps = 4 then parse_all parse_octet ps else None)"

definition parse_hextet :: "string \<Rightarrow> byte list option" where
  "parse_hextet p = (if p = [] \<or> 4 < length p then None
     else map_option (\<lambda>n. [of_nat (n div 256), of_nat (n mod 256)]) (digits_val 16 0 p))"

definition parse_groups :: "string list \<Rightarrow> byte list option" where
  "parse_groups ps = map_option concat (parse_all parse_hextet ps)"

definition parse_ellipsis :: "string list \<Rightarrow> string list \<Rightarrow> byte list option" where
  "parse_ellipsis left right = (let right = (if right = [[]] then [] else right) in
     case (parse_groups left, parse_groups right) of
       (Some l, Some r) \<Rightarrow> if length left + length right \<le> 7
          then Some (l @ replicate (16 - length l - length r) 0 @ r) else None
     | _ \<Rightarrow> None)"

definition parse_ipv6 :: "string \<Rightarrow> byte list option" where
  "parse_ipv6 s = (let ps = split_on CHR '':'' s; left = takeWhile (\<lambda>p. p \<noteq> []) ps;
       rest = dropWhile (\<lambda>p. p \<noteq> []) ps in
     if rest = [] then (if length ps = 8 then parse_groups ps else None)
     else if left = [] then
       (case rest of [] # [] # right \<Rightarrow> if right = [] then None else parse_ellipsis [] right | _ \<Rightarrow> None)
     else if tl rest = [] then None
     else parse_ellipsis left (tl rest))"

definition parse_ip :: "string \<Rightarrow> ip_bytes" where
  "parse_ip s = (case find (\<lambda>c. c = CHR ''.'' \<or> c = CHR '':'' \<or> c = CHR ''%'') s of
     None \<Rightarrow> []
   | Some c \<Rightarrow>
       if c = CHR ''.'' then (case parse_ipv4 s of None \<Rightarrow> [] | Some b \<Rightarrow> v4_prefix @ b)
       else if c = CHR '':'' then (case parse_ipv6 s of None \<Rightarrow> [] | Some b \<Rightarrow> b)
       else [])"

record ip_net =
  net_ip :: ip_bytes
  net_mask :: "byte list"

definition mask_ip :: "ip_bytes \<Rightarrow> byte list \<Rightarrow> ip_bytes" where
  "mask_ip ip m = (let ip = (if length m = 4 \<and> length ip = 16 \<and> take 12 ip = v4_prefix
       then drop 12 ip else ip)
     in if length m = length ip then map2 (AND) ip m else [])"

definition parse_cidr :: "string \<Rightarrow> ip_net option" where
  "parse_cidr s = (case split_on CHR ''/'' s of
     [addr, len] \<Rightarrow>
       (let ip = parse_ip addr; bits = (if CHR '':'' \<in> set addr then 128 else 32) in
        case digits_val 10 0 len of
          Some n \<Rightarrow> if ip \<noteq> [] \<and> len \<noteq> [] \<and> n \<le> bits
             then Some \<lparr>net_ip = mask_ip ip (cidr_mask n bits), net_mask = cidr_mask n bits\<rparr> else None
        | None \<Rightarrow> None)
   | _ \<Rightarrow> None)"

section \<open>FNV-1a, 64 bits\<close>

definition fnv64a :: "byte list \<Rightarrow> u64" where
  "fnv64a bs = foldl (\<lambda>h b. (h XOR ucast b) * 1099511628211) 14695981039346656037 bs"

section \<open>Facts\<close>

lemma parse_octet_itoa: "n \<le> 255 \<Longrightarrow> parse_octet (itoa n) = Some (of_nat n)"
proof -
  assume n: "n \<le> 255"
  have "hd (itoa m) \<noteq> CHR ''0''" if "0 < m" for m :: nat
    using that
  proof (induction "10 :: nat" m rule: radix.induct)
    case (1 m)
    show ?case
    proof (cases "m < 10")
      case True
      then have "digit_val (digit m) = Some m" by simp
      moreover have "digit_val CHR ''0'' = Some 0" by (simp add: digit_val_def Let_def)
      ultimately have "digit m \<noteq> CHR ''0''" using "1.prems" by auto
      then show ?thesis using True by (subst radix.simps) simp
    next
      case False
      then have "0 < m div 10" by simp
      with False "1.hyps" show ?thesis by (subst radix.simps) (simp add: hd_append)
    qed
  qed
  moreover have "length (itoa 0) = 1" by (subst radix.simps) simp
  ultimately have "\<not> (1 < length (itoa n) \<and> hd (itoa n) = CHR ''0'')"
    by (cases "n = 0") auto
  with n show ?thesis by (simp add: parse_octet_def digits_val_radix)
qed

lemma parse_all_map: "(\<And>x. x \<in> set xs \<Longrightarrow> f (g x) = Some x) \<Longrightarrow> parse_all f (map g xs) = Some xs"
  by (induction xs) auto

lemma split_dotted: "b \<noteq> [] \<Longrightarrow> split_on CHR ''.'' (dotted b) = map (\<lambda>x. itoa (unat x)) b"
  unfolding dotted_def by (rule split_join) (auto simp: radix_chars)

lemma parse_ipv4_dotted:
  assumes "length b = 4"
  shows "parse_ipv4 (dotted b) = Some b"
proof -
  have "b \<noteq> []" using assms by auto
  have "parse_octet (itoa (unat x)) = Some x" for x :: byte
    using parse_octet_itoa [of "unat x"] unsigned_less [of x, where ?'a = nat] by simp
  then show ?thesis
    using assms \<open>b \<noteq> []\<close> by (simp add: parse_ipv4_def split_dotted parse_all_map Let_def)
qed

lemma dotted_inj: "length a = 4 \<Longrightarrow> length b = 4 \<Longrightarrow> dotted a = dotted b \<Longrightarrow> a = b"
  by (metis option.inject parse_ipv4_dotted)

lemma ip_string_4: "length b = 4 \<Longrightarrow> ip_string b = dotted b"
  by (auto simp: ip_string_def to4_def)

lemma find_append_first:
  "(\<And>x. x \<in> set xs \<Longrightarrow> \<not> P x) \<Longrightarrow> P y \<Longrightarrow> find P (xs @ y # ys) = Some y"
  by (induction xs) auto

lemma dotted_Cons: "b \<noteq> [] \<Longrightarrow> dotted (x # b) = itoa (unat x) @ CHR ''.'' # dotted b"
  by (simp add: dotted_def join_with_Cons)

lemma radix_no_sep:
  assumes "c \<in> set (itoa n)"
  shows "c \<noteq> CHR ''.''" "c \<noteq> CHR '':''" "c \<noteq> CHR ''%''"
proof -
  obtain d where d: "c = digit d" "d < 16" using set_radix [of 10 n] assms by auto
  then show "c \<noteq> CHR ''.''" "c \<noteq> CHR '':''" by (simp_all add: digit_neq)
  have "(of_char (CHR ''%'') :: nat) = 37" by simp
  then show "c \<noteq> CHR ''%''" using d of_char_digit [of d] by (auto split: if_splits)
qed

lemma parse_ip_dotted:
  assumes "length b = 4"
  shows "parse_ip (dotted b) = v4_prefix @ b"
proof -
  obtain x c where b: "b = x # c" "c \<noteq> []" using assms by (cases b) force+
  have "find (\<lambda>c. c = CHR ''.'' \<or> c = CHR '':'' \<or> c = CHR ''%'') (dotted b) = Some CHR ''.''"
    unfolding b(1) dotted_Cons [OF b(2)]
    by (rule find_append_first) (auto dest: radix_no_sep)
  then show ?thesis using assms by (simp add: parse_ip_def parse_ipv4_dotted)
qed

text \<open>A group of more than four digits is no address.\<close>

lemma parse_all_None: "p \<in> set ps \<Longrightarrow> f p = None \<Longrightarrow> parse_all f ps = None"
  by (induction ps) (auto split: option.split)

lemma parse_ellipsis_None:
  assumes "p \<in> set left \<union> set right" "p \<noteq> []" "parse_hextet p = None"
  shows "parse_ellipsis left right = None"
proof -
  have "right = [[]] \<Longrightarrow> p \<in> set left" using assms by auto
  then show ?thesis using assms
    by (auto simp: parse_ellipsis_def parse_groups_def Let_def dest: parse_all_None
        split: option.split)
qed

lemma parse_ipv6_None:
  assumes "p \<in> set (split_on CHR '':'' s)" "p \<noteq> []" "parse_hextet p = None"
  shows "parse_ipv6 s = None"
proof -
  let ?ps = "split_on CHR '':'' s" and ?P = "\<lambda>p :: string. p \<noteq> []"
  have split: "set ?ps = set (takeWhile ?P ?ps) \<union> set (dropWhile ?P ?ps)"
    by (metis set_append takeWhile_dropWhile_id)
  have hd: "dropWhile ?P ?ps = r # rs \<Longrightarrow> r = []" for r rs
    by (metis (mono_tags, lifting) dropWhile_eq_Cons_conv)
  show ?thesis
  proof (cases "dropWhile ?P ?ps")
    case Nil
    then show ?thesis using assms
      by (simp add: parse_ipv6_def Let_def parse_groups_def parse_all_None)
  next
    case (Cons r rs)
    with hd have r: "r = []" by blast
    with Cons split assms have in_rs: "p \<in> set (takeWhile ?P ?ps) \<union> set rs" by auto
    show ?thesis
    proof (cases "takeWhile ?P ?ps")
      case Nil
      with in_rs have "p \<in> set rs" by simp
      then obtain q qs where rs: "rs = q # qs" by (cases rs) simp_all
      show ?thesis
      proof (cases q)
        case Nil
        with rs \<open>p \<in> set rs\<close> assms(2) have "p \<in> set [] \<union> set qs" by simp
        then have "parse_ellipsis [] qs = None" using assms(2,3) by (rule parse_ellipsis_None)
        with Nil rs r Cons \<open>takeWhile ?P ?ps = []\<close> show ?thesis
          by (simp add: parse_ipv6_def Let_def del: dropWhile_eq_Nil_conv)
      next
        case (Cons c cs)
        with rs r \<open>dropWhile ?P ?ps = r # rs\<close> Nil show ?thesis
          by (simp add: parse_ipv6_def Let_def del: dropWhile_eq_Nil_conv)
      qed
    next
      case (Cons l ls)
      have "parse_ellipsis (takeWhile ?P ?ps) rs = None"
        using in_rs assms(2,3) by (rule parse_ellipsis_None)
      with Cons \<open>dropWhile ?P ?ps = r # rs\<close> show ?thesis
          by (simp add: parse_ipv6_def Let_def del: dropWhile_eq_Nil_conv)
    qed
  qed
qed

lemma find_in_set: "find P xs = Some x \<Longrightarrow> x \<in> set xs"
  by (induction xs) (auto split: if_splits)

lemma parse_ip_None:
  assumes "p \<in> set (split_on CHR '':'' s)" "p \<noteq> []" "parse_hextet p = None"
    and "CHR ''.'' \<notin> set s"
  shows "parse_ip s = []"
  using parse_ipv6_None [OF assms(1-3)] assms(4) find_in_set
  by (fastforce simp: parse_ip_def split: option.split)

end
