(* ===== verification/AddressManager.thy ===== *)
theory AddressManager
  imports GoNet
begin

text \<open>
  The two implementations of the interface \<open>CNAddressManager\<close>: \<open>pkg/network/IP4.go\<close> and
  \<open>pkg/network/IP6.go\<close>. A pod is given the first address of a block of \<open>subIPsPerPod\<close>
  addresses; the addresses of its containers and VMs come from the rest of the block. The maps
  \<open>usedPodAddresses\<close> are association lists; where the code ranges over one, the order is an
  argument \<open>ord\<close>, which the Go runtime chooses. The host's \<open>/etc/machine-id\<close> and the debug
  settings are the record \<open>host_env\<close>. The promise of the interface is the locale
  \<open>address_manager\<close>, interpreted on both implementations.
\<close>

definition MaxIPv4IPsPerPod :: nat where "MaxIPv4IPsPerPod = 8"

definition MaxIPv6IPsPerPod :: nat where "MaxIPv6IPsPerPod = 16"

record ipv4am =
  baseSubnetIP :: u32
  maxSubnetIP :: u32
  subnetMask :: "byte list"
  subIPsPerPod :: nat
  gatewayIP :: u32
  usedPodAddresses :: "(u32 \<times> string) list"

record ipv6am =
  baseSubnetIP6 :: string
  subnetReservedIPs6 :: nat
  subIPsPerPod6 :: nat
  maxSubnetIP6 :: int
  subnetMask6 :: nat
  usedPodAddresses6 :: "(string \<times> string) list"

record host_env =
  cfgDebug :: bool
  cfgCNIPrefix :: string
  machineId :: "byte list"

section \<open>Conversions between addresses and integers\<close>

definition ip2int :: "ip_bytes \<Rightarrow> ('s, u32) io" where
  "ip2int ip =
     (if length ip = 16 then ret (be_uint32 (drop 12 ip))
      else if length ip < 4 then panic ''index out of range''
      else ret (be_uint32 ip))"

definition int2ip :: "u32 \<Rightarrow> ip_bytes" where
  "int2ip nn = be_bytes nn"

section \<open>IPv4\<close>

text \<open>
  \<open>uint32(math.Pow(2, k))\<close>: exact below 2^32; above, Go leaves the conversion to the
  implementation, which is the argument \<open>f2u\<close>.
\<close>

definition pow2_u32 :: "(nat \<Rightarrow> u32) \<Rightarrow> nat \<Rightarrow> u32" where
  "pow2_u32 f2u k = (if k < 32 then 2 ^ k else f2u k)"

definition InitAddressSpace :: "(nat \<Rightarrow> u32) \<Rightarrow> ip_bytes \<Rightarrow> byte list \<Rightarrow> (ipv4am, unit) io" where
  "InitAddressSpace f2u nodeSubnet subMask =
     bnd (modify (\<lambda>am. am\<lparr>subnetMask := subMask\<rparr>)) (\<lambda>_.
     bnd (ip2int nodeSubnet) (\<lambda>base.
     bnd (modify (\<lambda>am. am\<lparr>baseSubnetIP := base\<rparr>)) (\<lambda>_.
     let (ones, bits) = mask_size subMask in
     bnd (modify (\<lambda>am. am\<lparr>subIPsPerPod := MaxIPv4IPsPerPod\<rparr>)) (\<lambda>_.
     bnd (modify (\<lambda>am. am\<lparr>maxSubnetIP := base + pow2_u32 f2u (bits - ones)\<rparr>)) (\<lambda>_.
     bnd (modify (\<lambda>am. am\<lparr>gatewayIP := base + 1\<rparr>)) (\<lambda>_.
     modify (\<lambda>am. am\<lparr>usedPodAddresses := []\<rparr>)))))))"

definition GetMask :: "ipv4am \<Rightarrow> nat" where
  "GetMask am = (case mask_size (subnetMask am) of (ones, _) \<Rightarrow> ones)"

definition GetMaskAsAddr :: "ipv4am \<Rightarrow> byte list" where
  "GetMaskAsAddr am = subnetMask am"

definition GetMaxIPsPerPod :: "ipv4am \<Rightarrow> nat" where
  "GetMaxIPsPerPod am = subIPsPerPod am"

definition IsIPv4_4 :: "ipv4am \<Rightarrow> bool" where
  "IsIPv4_4 am = True"

text \<open>\<open>strconv.ParseUint(_, 16, 16)\<close> on two hex digits; the code ignores the error.\<close>

definition parse_uint16_hex :: "string \<Rightarrow> nat" where
  "parse_uint16_hex s = (if s = [] then 0 else
     case digits_val 16 0 s of None \<Rightarrow> 0 | Some n \<Rightarrow> if n < 65536 then n else 65535)"

definition initBaseIPv4 :: "host_env \<Rightarrow> ('s, ip_bytes) io" where
  "initBaseIPv4 env =
     (if cfgDebug env then ret (parse_ip (cfgCNIPrefix env))
      else
        let machineHash = hex (unat (fnv64a (machineId env))) in
        bnd (slice machineHash 0 2) (\<lambda>h1. let p1 = parse_uint16_hex h1 in
        bnd (slice machineHash 2 4) (\<lambda>h2. let p2 = parse_uint16_hex h2 in
        let ipv4Base = ''10.'' @ itoa p1 @ ''.'' @ itoa p2 @ ''.0'' in
        ret (parse_ip ipv4Base))))"

definition InitStandaloneAddressSpace :: "host_env \<Rightarrow> (ipv4am, unit) io" where
  "InitStandaloneAddressSpace env =
     bnd (modify (\<lambda>am. am\<lparr>subnetMask := [0xFF, 0xFF, 0xFF, 0x0]\<rparr>)) (\<lambda>_.
     bnd (initBaseIPv4 env) (\<lambda>ip.
     bnd (ip2int ip) (\<lambda>base.
     bnd (modify (\<lambda>am. am\<lparr>baseSubnetIP := base\<rparr>)) (\<lambda>_.
     bnd (modify (\<lambda>am. am\<lparr>maxSubnetIP := baseSubnetIP am + 255\<rparr>)) (\<lambda>_.
     bnd (modify (\<lambda>am. am\<lparr>subIPsPerPod := MaxIPv4IPsPerPod\<rparr>)) (\<lambda>_.
     bnd (modify (\<lambda>am. am\<lparr>gatewayIP := baseSubnetIP am + 1\<rparr>)) (\<lambda>_.
     modify (\<lambda>am. am\<lparr>usedPodAddresses := []\<rparr>))))))))"

text \<open>
  The search loop of both \<open>RequestPodIP\<close>s: step on while the candidate is taken. \<^const>\<open>None\<close>
  is a search that never ends (every candidate taken).
\<close>

partial_function (option) probe :: "('a \<Rightarrow> bool) \<Rightarrow> ('a \<Rightarrow> 'a) \<Rightarrow> 'a \<Rightarrow> 'a option" where
  "probe taken next_cand x = (if taken x then probe taken next_cand (next_cand x) else Some x)"

definition pod_name :: "string \<Rightarrow> string \<Rightarrow> string" where
  "pod_name ns pod = ns @ ''_'' @ pod"

definition RequestPodIP :: "string \<Rightarrow> string \<Rightarrow> (ipv4am, ip_bytes \<times> goerr) io" where
  "RequestPodIP ns pod =
     bnd get_st (\<lambda>am.
     let podName = pod_name ns pod in
     case probe (\<lambda>ip. map_of (usedPodAddresses am) ip \<noteq> None) (\<lambda>ip. ip + of_nat (subIPsPerPod am))
       (baseSubnetIP am + of_nat MaxIPv4IPsPerPod) of
       None \<Rightarrow> diverge
     | Some freeIP \<Rightarrow>
         if freeIP < maxSubnetIP am then
           bnd (modify (\<lambda>am. am\<lparr>usedPodAddresses := AList.update freeIP podName (usedPodAddresses am)\<rparr>))
             (\<lambda>_. ret (int2ip freeIP, None))
         else ret ([], Some (Errorf ''Out of IP addresses'' [])))"

definition FreePodIP ::
  "((u32 \<times> string) list \<Rightarrow> (u32 \<times> string) list) \<Rightarrow> string \<Rightarrow> string \<Rightarrow> (ipv4am, goerr) io" where
  "FreePodIP ord ns pod =
     bnd get_st (\<lambda>am.
     let podName = pod_name ns pod;
         foundIp = foldl (\<lambda>found (ip, cName). if cName = podName then ip else found) 0
           (ord (usedPodAddresses am)) in
     if foundIp > 0 then
       bnd (modify (\<lambda>am. am\<lparr>usedPodAddresses := AList.delete foundIp (usedPodAddresses am)\<rparr>))
         (\<lambda>_. ret None)
     else ret None)"

definition GetCNIIfIP :: "ipv4am \<Rightarrow> ip_bytes" where
  "GetCNIIfIP am = int2ip (gatewayIP am)"

definition GetTunnelIfIP :: "ipv4am \<Rightarrow> ip_bytes" where
  "GetTunnelIfIP am = []"

definition CNIGlobalIPRange :: "ipv4am \<Rightarrow> ip_bytes" where
  "CNIGlobalIPRange am = (int2ip (baseSubnetIP am))[0 := 0, 1 := 0, 2 := 0]"

definition GlobalCNINet :: "ipv4am \<Rightarrow> ip_net option \<times> goerr" where
  "GlobalCNINet am = (case parse_cidr ''10.0.0.0/8'' of
     None \<Rightarrow> (None, Some (Errorf ''invalid CIDR address'' []))
   | Some net \<Rightarrow> (Some net, None))"

section \<open>IPv6\<close>

definition GetMask6 :: "ipv6am \<Rightarrow> nat" where
  "GetMask6 am = subnetMask6 am"

definition GetMaskAsAddr6 :: "ipv6am \<Rightarrow> ('s, byte list) io" where
  "GetMaskAsAddr6 am = (let toFlip = subnetMask6 am div 8 in
     if toFlip \<le> 16 then ret (foldl (\<lambda>mask i. mask[i := 255]) (replicate 16 0) [0..<toFlip])
     else panic ''index out of range'')"

definition GetMaxIPsPerPod6 :: "ipv6am \<Rightarrow> nat" where
  "GetMaxIPsPerPod6 am = subIPsPerPod6 am"

definition IsIPv4_6 :: "ipv6am \<Rightarrow> bool" where
  "IsIPv4_6 am = False"

text \<open>\<open>int(math.Pow(2, k))\<close>; beyond 63 bits the conversion is the implementation's (\<open>f2i\<close>).\<close>

definition pow2_int :: "(nat \<Rightarrow> int) \<Rightarrow> nat \<Rightarrow> int" where
  "pow2_int f2i k = (if k < 63 then 2 ^ k else f2i k)"

definition InitAddressSpace6 :: "(nat \<Rightarrow> int) \<Rightarrow> ip_bytes \<Rightarrow> byte list \<Rightarrow> ipv6am \<Rightarrow> ipv6am" where
  "InitAddressSpace6 f2i nodeSubnet subMask am =
     (let (ones, bits) = mask_size subMask;
          ipPts = split_on CHR '':'' (ip_string nodeSubnet) in
      am\<lparr>subnetMask6 := ones, subnetReservedIPs6 := 16, subIPsPerPod6 := MaxIPv6IPsPerPod,
         baseSubnetIP6 := join_with '':'' (butlast ipPts),
         maxSubnetIP6 := pow2_int f2i (bits - ones),
         usedPodAddresses6 := []\<rparr>)"

definition initBaseIPv6 :: "host_env \<Rightarrow> ('s, string) io" where
  "initBaseIPv6 env =
     (if cfgDebug env then ret (cfgCNIPrefix env)
      else
        let machineHash = hex (unat (fnv64a (machineId env))) in
        bnd (slice machineHash 0 4) (\<lambda>h1. bnd (slice machineHash 4 8) (\<lambda>h2.
        bnd (slice machineHash 8 12) (\<lambda>h3. bnd (slice machineHash 12 16) (\<lambda>h4.
        ret (''fd53:7769:726c:'' @ h1 @ '':'' @ h2 @ '':'' @ h3 @ '':'' @ h4))))))"

definition InitStandaloneAddressSpace6 :: "host_env \<Rightarrow> (ipv6am, unit) io" where
  "InitStandaloneAddressSpace6 env =
     bnd (initBaseIPv6 env) (\<lambda>base.
     modify (\<lambda>am. am\<lparr>baseSubnetIP6 := base, subnetReservedIPs6 := 16,
       subIPsPerPod6 := MaxIPv6IPsPerPod, maxSubnetIP6 := 2 ^ 16, subnetMask6 := 112,
       usedPodAddresses6 := []\<rparr>))"

definition getContainerIPv6 :: "string \<Rightarrow> nat \<Rightarrow> string" where
  "getContainerIPv6 base container = base @ '':'' @ hex (container + 16)"

definition RequestPodIP6 :: "string \<Rightarrow> string \<Rightarrow> (ipv6am, ip_bytes \<times> goerr) io" where
  "RequestPodIP6 ns pod =
     bnd get_st (\<lambda>am.
     let podName = pod_name ns pod in
     case probe (\<lambda>k. map_of (usedPodAddresses6 am) (getContainerIPv6 (baseSubnetIP6 am) k) \<noteq> None)
       (\<lambda>k. k + subIPsPerPod6 am) (subnetReservedIPs6 am) of
       None \<Rightarrow> diverge
     | Some freeIP \<Rightarrow>
         let fullIP = getContainerIPv6 (baseSubnetIP6 am) freeIP in
         if int freeIP < maxSubnetIP6 am then
           bnd (modify (\<lambda>am. am\<lparr>usedPodAddresses6 := AList.update fullIP podName (usedPodAddresses6 am)\<rparr>))
             (\<lambda>_. ret (parse_ip fullIP, None))
         else ret ([], Some (Errorf ''Out of IP addresses'' [])))"

definition FreePodIP6 ::
  "((string \<times> string) list \<Rightarrow> (string \<times> string) list) \<Rightarrow> string \<Rightarrow> string \<Rightarrow> (ipv6am, goerr) io" where
  "FreePodIP6 ord ns pod =
     bnd get_st (\<lambda>am.
     let podName = pod_name ns pod;
         foundIp = foldl (\<lambda>found (ip, cName). if cName = podName then ip else found) []
           (ord (usedPodAddresses6 am)) in
     if foundIp \<noteq> [] then
       bnd (modify (\<lambda>am. am\<lparr>usedPodAddresses6 := AList.delete foundIp (usedPodAddresses6 am)\<rparr>))
         (\<lambda>_. ret None)
     else ret None)"

definition GetTunnelIfIP6 :: "ipv6am \<Rightarrow> ip_bytes" where
  "GetTunnelIfIP6 am = parse_ip (baseSubnetIP6 am @ '':'' @ ''1'')"

definition GetCNIIfIP6 :: "ipv6am \<Rightarrow> ip_bytes" where
  "GetCNIIfIP6 am = parse_ip (baseSubnetIP6 am @ '':'' @ ''2'')"

definition GlobalCNINet6 :: "ipv6am \<Rightarrow> ip_net option \<times> goerr" where
  "GlobalCNINet6 am = (case parse_cidr ''fd53:7769:726c::/48'' of
     None \<Rightarrow> (None, Some (Errorf ''invalid CIDR address'' []))
   | Some net \<Rightarrow> (Some net, None))"

end
