(* ===== verification/AddressSpec.thy ===== *)
theory AddressSpec
  imports AddressManager
begin

text \<open>
  Correctness of the address managers. The search loop ends at the first free candidate; the
  invariants \<open>am_inv4\<close> and \<open>am_inv6\<close> say that the granted addresses are block starts inside the
  node's subnet, each with one owner; the locale \<open>address_manager\<close> states the contract the pod
  network relies on, and both implementations are instances of it.
\<close>

section \<open>The search loop\<close>

lemma probe_hit: "\<not> taken x \<Longrightarrow> probe taken nx x = Some x"
  by (subst probe.simps) simp

lemma probe_miss: "taken x \<Longrightarrow> probe taken nx x = probe taken nx (nx x)"
  by (subst probe.simps) simp

lemma probe_seq:
  assumes "\<And>j. f (Suc j) = nx (f j)" "\<And>j. j < k \<Longrightarrow> taken (f j)" "\<not> taken (f k)"
  shows "probe taken nx (f 0) = Some (f k)"
  using assms
proof (induction k arbitrary: f)
  case 0
  then show ?case by (simp add: probe_hit)
next
  case (Suc k)
  have "probe taken nx (f 0) = probe taken nx (f (Suc 0))"
    using Suc.prems(2) [of 0] Suc.prems(1) [of 0] by (simp add: probe_miss)
  also have "\<dots> = Some (f (Suc k))"
  proof (rule Suc.IH [of "\<lambda>j. f (Suc j)"])
    show "f (Suc (Suc j)) = nx (f (Suc j))" for j by (rule Suc.prems(1))
    show "taken (f (Suc j))" if "j < k" for j using that by (intro Suc.prems(2)) simp
    show "\<not> taken (f (Suc k))" by (rule Suc.prems(3))
  qed
  finally show ?case .
qed

text \<open>
  With finitely many candidates taken and the candidates distinct for long enough, the loop
  ends, and at the first candidate that is free.
\<close>

lemma probe_first_free:
  assumes step: "\<And>j. f (Suc j) = nx (f j)"
    and fin: "finite U" and inj: "inj_on f {..card U}"
    and U: "\<And>j. j \<le> card U \<Longrightarrow> taken (f j) \<Longrightarrow> f j \<in> U"
  obtains k where "k \<le> card U" "probe taken nx (f 0) = Some (f k)" "\<not> taken (f k)"
    "\<And>j. j < k \<Longrightarrow> taken (f j)"
proof -
  have "\<exists>k \<le> card U. \<not> taken (f k)"
  proof (rule ccontr)
    assume "\<not> ?thesis"
    then have "f ` {..card U} \<subseteq> U" using U by auto
    then have "card {..card U} \<le> card U" using fin inj by (metis card_image card_mono)
    then show False by simp
  qed
  then obtain k0 where k0: "k0 \<le> card U" "\<not> taken (f k0)" by blast
  define k where "k = (LEAST k. \<not> taken (f k))"
  have free: "\<not> taken (f k)" and le: "k \<le> k0"
    unfolding k_def by (rule LeastI [of _ k0], rule k0(2)) (rule Least_le, rule k0(2))
  have less: "\<And>j. j < k \<Longrightarrow> taken (f j)"
    unfolding k_def using not_less_Least by blast
  have "probe taken nx (f 0) = Some (f k)" using step less free by (intro probe_seq) auto
  then show thesis using that free less le k0(1) by (meson le_trans)
qed

section \<open>IPv4: blocks of the subnet\<close>

definition am_inv4 :: "ipv4am \<Rightarrow> bool" where
  "am_inv4 am \<longleftrightarrow> subIPsPerPod am = 8 \<and> unat (baseSubnetIP am) \<le> unat (maxSubnetIP am)
     \<and> unat (maxSubnetIP am) + 8 < 2 ^ 32 \<and> distinct (map fst (usedPodAddresses am))
     \<and> (\<forall>ip \<in> fst ` set (usedPodAddresses am). \<exists>k. unat ip = unat (baseSubnetIP am) + 8 + 8 * k
          \<and> unat ip < unat (maxSubnetIP am))"

text \<open>The \<open>k\<close>-th block of a subnet; the code's candidates, in order.\<close>

definition block4 :: "ipv4am \<Rightarrow> nat \<Rightarrow> u32" where
  "block4 am k = baseSubnetIP am + of_nat MaxIPv4IPsPerPod + of_nat (8 * k)"

lemma block4_Suc: "block4 am (Suc k) = block4 am k + of_nat 8"
  by (simp add: block4_def)

lemma unat_block4:
  assumes "unat (baseSubnetIP am) + 8 + 8 * k < 2 ^ 32"
  shows "unat (block4 am k) = unat (baseSubnetIP am) + 8 + 8 * k"
proof -
  have "block4 am k = of_nat (unat (baseSubnetIP am) + 8 + 8 * k)"
    by (simp add: block4_def MaxIPv4IPsPerPod_def)
  moreover have "unat (of_nat (unat (baseSubnetIP am) + 8 + 8 * k) :: u32)
      = unat (baseSubnetIP am) + 8 + 8 * k"
    using assms unat_of_nat [of "unat (baseSubnetIP am) + 8 + 8 * k", where ?'a = 32] by simp
  ultimately show ?thesis by (simp only:)
qed


text \<open>What the search loop finds, for a manager in the invariant.\<close>

definition taken4 :: "ipv4am \<Rightarrow> u32 \<Rightarrow> bool" where
  "taken4 am ip \<longleftrightarrow> map_of (usedPodAddresses am) ip \<noteq> None"

lemma taken4_iff: "taken4 am ip \<longleftrightarrow> ip \<in> fst ` set (usedPodAddresses am)"
  by (simp add: taken4_def map_of_eq_None_iff)

lemma probe4_first:
  assumes inv: "am_inv4 am"
  obtains k where
    "probe (taken4 am) (\<lambda>ip. ip + of_nat (subIPsPerPod am))
       (baseSubnetIP am + of_nat MaxIPv4IPsPerPod) = Some (block4 am k)"
    "unat (block4 am k) = unat (baseSubnetIP am) + 8 + 8 * k"
    "\<not> taken4 am (block4 am k)" "\<And>j. j < k \<Longrightarrow> taken4 am (block4 am j)"
proof -
  define m where "m = (unat (maxSubnetIP am) - unat (baseSubnetIP am)) div 8"
  have bound: "unat (baseSubnetIP am) + 8 + 8 * j < 2 ^ 32" if "j \<le> m" for j
  proof -
    have "8 * j \<le> unat (maxSubnetIP am) - unat (baseSubnetIP am)" using that m_def by simp
    moreover have "unat (baseSubnetIP am) \<le> unat (maxSubnetIP am)"
      "unat (maxSubnetIP am) + 8 < 2 ^ 32" using inv by (auto simp: am_inv4_def)
    ultimately show ?thesis by linarith
  qed
  have unat: "unat (block4 am j) = unat (baseSubnetIP am) + 8 + 8 * j" if "j \<le> m" for j
    using unat_block4 bound that by blast
  let ?U = "fst ` set (usedPodAddresses am)"
  have "?U \<subseteq> block4 am ` {..<m}"
  proof
    fix ip assume "ip \<in> ?U"
    with inv obtain j where j: "unat ip = unat (baseSubnetIP am) + 8 + 8 * j"
      "unat ip < unat (maxSubnetIP am)" unfolding am_inv4_def by blast
    then have "8 * Suc j \<le> unat (maxSubnetIP am) - unat (baseSubnetIP am)"
      by arith
    then have "j < m"
      by (simp add: m_def less_eq_div_iff_mult_less_eq Suc_le_eq [symmetric] mult.commute)
    moreover from this have "ip = block4 am j"
      using unat [of j] j(1) by (intro word_unat_eq_iff [THEN iffD2]) linarith
    ultimately show "ip \<in> block4 am ` {..<m}" by blast
  qed
  then have card: "card ?U \<le> m"
    using card_mono [of "block4 am ` {..<m}" ?U] card_image_le [of "{..<m}" "block4 am"] by simp
  have inj: "inj_on (block4 am) {..card ?U}"
  proof (rule inj_onI)
    fix i j assume ij: "i \<in> {..card ?U}" "j \<in> {..card ?U}" "block4 am i = block4 am j"
    from ij(1,2) have "i \<le> card ?U" "j \<le> card ?U" by simp_all
    then have "i \<le> m" "j \<le> m" using card by linarith+
    then have "unat (block4 am i) = unat (baseSubnetIP am) + 8 + 8 * i"
      "unat (block4 am j) = unat (baseSubnetIP am) + 8 + 8 * j" using unat by blast+
    moreover have "unat (block4 am i) = unat (block4 am j)" using ij(3) by simp
    ultimately show "i = j" by linarith
  qed
  have start: "block4 am 0 = baseSubnetIP am + of_nat MaxIPv4IPsPerPod" by (simp add: block4_def)
  have step: "block4 am (Suc j) = block4 am j + of_nat (subIPsPerPod am)" for j
    using inv by (simp add: block4_Suc am_inv4_def)
  have U: "block4 am j \<in> ?U" if "j \<le> card ?U" "taken4 am (block4 am j)" for j
    using that(2) by (simp only: taken4_iff)
  obtain k where k: "k \<le> card ?U"
      "probe (taken4 am) (\<lambda>ip. ip + of_nat (subIPsPerPod am)) (block4 am 0) = Some (block4 am k)"
      "\<not> taken4 am (block4 am k)" "\<And>j. j < k \<Longrightarrow> taken4 am (block4 am j)"
    using probe_first_free [OF step finite_imageI [OF finite_set] inj U] by blast
  show thesis
  proof (rule that [of k])
    show "unat (block4 am k) = unat (baseSubnetIP am) + 8 + 8 * k"
      by (rule unat) (use k(1) card in linarith)
  qed (use k in \<open>simp_all only: start not_False_eq_True\<close>)
qed


text \<open>\<open>RequestPodIP\<close> always returns, and with the first free block or with an error.\<close>

lemma RequestPodIP_cases:
  assumes inv: "am_inv4 am"
  obtains
    (granted) k where "RequestPodIP ns pod am = (Done (int2ip (block4 am k), None),
        am\<lparr>usedPodAddresses := AList.update (block4 am k) (pod_name ns pod) (usedPodAddresses am)\<rparr>)"
      "unat (block4 am k) = unat (baseSubnetIP am) + 8 + 8 * k"
      "unat (block4 am k) < unat (maxSubnetIP am)" "\<not> taken4 am (block4 am k)"
      "\<And>j. j < k \<Longrightarrow> taken4 am (block4 am j)"
  | (full) k where "RequestPodIP ns pod am = (Done ([], Some (Errorf ''Out of IP addresses'' [])), am)"
      "unat (maxSubnetIP am) \<le> unat (baseSubnetIP am) + 8 + 8 * k"
      "\<And>j. j < k \<Longrightarrow> taken4 am (block4 am j)"
proof -
  obtain k where k: "probe (taken4 am) (\<lambda>ip. ip + of_nat (subIPsPerPod am))
       (baseSubnetIP am + of_nat MaxIPv4IPsPerPod) = Some (block4 am k)"
    "unat (block4 am k) = unat (baseSubnetIP am) + 8 + 8 * k"
    "\<not> taken4 am (block4 am k)" "\<And>j. j < k \<Longrightarrow> taken4 am (block4 am j)"
    using probe4_first [OF inv] by blast
  have probe: "probe (\<lambda>ip. map_of (usedPodAddresses am) ip \<noteq> None)
      (\<lambda>ip. ip + of_nat (subIPsPerPod am)) (baseSubnetIP am + of_nat MaxIPv4IPsPerPod)
      = Some (block4 am k)"
    using k(1) unfolding taken4_def .
  show thesis
  proof (cases "block4 am k < maxSubnetIP am")
    case True
    then show thesis using k probe
      by (intro granted [of k]) (simp_all add: RequestPodIP_def io_simps word_less_nat_alt)
  next
    case False
    then show thesis using k probe
      by (intro full [of k]) (simp_all add: RequestPodIP_def io_simps word_less_nat_alt)
  qed
qed

lemma am_inv4_RequestPodIP:
  assumes inv: "am_inv4 am"
  shows "am_inv4 (snd (RequestPodIP ns pod am))"
  using inv
proof (cases rule: RequestPodIP_cases [where ns = ns and pod = pod])
  case (granted k)
  with inv show ?thesis
    by (auto simp: am_inv4_def distinct_update dom_update)
qed (use inv in simp)

lemma found_fold:
  "foldl (\<lambda>found (ip, c). if c = p then ip else found) x0 xs = x \<Longrightarrow>
     (x, p) \<in> set xs \<or> (x = x0 \<and> p \<notin> snd ` set xs)"
proof (induction xs arbitrary: x0)
  case (Cons a xs)
  obtain i c where a: "a = (i, c)" by (cases a)
  with Cons.IH [of "if c = p then i else x0"] Cons.prems show ?case by (auto split: if_splits)
qed simp

lemma FreePodIP_cases:
  assumes inv: "am_inv4 am" and ord: "\<And>xs. set (ord xs) = set xs"
  obtains
    (freed) ip where "map_of (usedPodAddresses am) ip = Some (pod_name ns pod)"
      "FreePodIP ord ns pod am = (Done None, am\<lparr>usedPodAddresses := AList.delete ip (usedPodAddresses am)\<rparr>)"
  | (none) "pod_name ns pod \<notin> ran (map_of (usedPodAddresses am))"
      "FreePodIP ord ns pod am = (Done None, am)"
proof -
  let ?used = "usedPodAddresses am"
  define ip where "ip = foldl (\<lambda>found (ip, c). if c = pod_name ns pod then ip else found) 0 (ord ?used)"
  have dist: "distinct (map fst ?used)" using inv by (simp add: am_inv4_def)
  have def: "FreePodIP ord ns pod am = (Done None, if 0 < ip
      then am\<lparr>usedPodAddresses := AList.delete ip ?used\<rparr> else am)"
    by (simp add: FreePodIP_def io_simps Let_def ip_def)
  consider "(ip, pod_name ns pod) \<in> set ?used" | "ip = 0" "pod_name ns pod \<notin> snd ` set ?used"
    using found_fold [of "pod_name ns pod" 0 "ord ?used" ip] ip_def ord by auto
  then show thesis
  proof cases
    case 1
    then have "ip \<in> fst ` set ?used" by force
    then have "0 < ip" using inv by (fastforce simp: am_inv4_def word_less_nat_alt)
    with 1 dist def show thesis by (intro freed [of ip]) simp_all
  next
    case 2
    with def dist show thesis by (intro none) (simp_all add: ran_distinct)
  qed
qed

lemma am_inv4_FreePodIP:
  assumes "am_inv4 am" "\<And>xs. set (ord xs) = set xs"
  shows "am_inv4 (snd (FreePodIP ord ns pod am))"
  using assms
proof (cases rule: FreePodIP_cases [where ns = ns and pod = pod])
  case (freed ip)
  with assms(1) show ?thesis
    by (auto simp: am_inv4_def distinct_delete set_delete_alist)
qed (use assms in auto)


section \<open>IPv6\<close>

definition taken6 :: "ipv6am \<Rightarrow> nat \<Rightarrow> bool" where
  "taken6 am k \<longleftrightarrow> map_of (usedPodAddresses6 am) (getContainerIPv6 (baseSubnetIP6 am) k) \<noteq> None"

definition am_inv6 :: "ipv6am \<Rightarrow> bool" where
  "am_inv6 am \<longleftrightarrow> subIPsPerPod6 am = 16 \<and> subnetReservedIPs6 am = 16
     \<and> distinct (map fst (usedPodAddresses6 am))
     \<and> (\<forall>a \<in> fst ` set (usedPodAddresses6 am). \<exists>j. int (16 + 16 * j) < maxSubnetIP6 am
          \<and> a = getContainerIPv6 (baseSubnetIP6 am) (16 + 16 * j))"

lemma getContainerIPv6_inj: "getContainerIPv6 b k = getContainerIPv6 b l \<Longrightarrow> k = l"
  using radix_inj [of 16 "k + 16" "l + 16"] by (simp add: getContainerIPv6_def)

lemma getContainerIPv6_nonempty: "getContainerIPv6 b k \<noteq> []"
  by (simp add: getContainerIPv6_def)

lemma finite_taken6: "finite {k. taken6 am k}"
proof -
  have "inj (getContainerIPv6 (baseSubnetIP6 am))" by (rule injI) (rule getContainerIPv6_inj)
  moreover have "{k. taken6 am k} = getContainerIPv6 (baseSubnetIP6 am) -` fst ` set (usedPodAddresses6 am)"
    by (auto simp: taken6_def map_of_eq_None_iff)
  ultimately show ?thesis by (simp add: finite_vimageI)
qed

lemma probe6_first:
  assumes inv: "am_inv6 am"
  obtains j where
    "probe (taken6 am) (\<lambda>k. k + subIPsPerPod6 am) (subnetReservedIPs6 am) = Some (16 + 16 * j)"
    "\<not> taken6 am (16 + 16 * j)" "\<And>i. i < j \<Longrightarrow> taken6 am (16 + 16 * i)"
proof -
  let ?f = "\<lambda>j :: nat. 16 + 16 * j"
  have "subIPsPerPod6 am = 16" "subnetReservedIPs6 am = 16" using inv by (auto simp: am_inv6_def)
  then have step: "?f (Suc j) = ?f j + subIPsPerPod6 am" and start: "?f 0 = subnetReservedIPs6 am" for j
    by simp_all
  have "inj_on ?f {..card {k. taken6 am k}}" by (rule inj_onI) simp
  then show thesis
    by (rule probe_first_free [of ?f "\<lambda>k. k + subIPsPerPod6 am" "{k. taken6 am k}" "taken6 am",
          OF step finite_taken6]) (use that start in auto)
qed

lemma RequestPodIP6_cases:
  assumes inv: "am_inv6 am"
  obtains
    (granted) j where "RequestPodIP6 ns pod am =
        (Done (parse_ip (getContainerIPv6 (baseSubnetIP6 am) (16 + 16 * j)), None),
         am\<lparr>usedPodAddresses6 := AList.update (getContainerIPv6 (baseSubnetIP6 am) (16 + 16 * j))
             (pod_name ns pod) (usedPodAddresses6 am)\<rparr>)"
      "int (16 + 16 * j) < maxSubnetIP6 am" "\<not> taken6 am (16 + 16 * j)"
      "\<And>i. i < j \<Longrightarrow> taken6 am (16 + 16 * i)"
  | (full) j where "RequestPodIP6 ns pod am = (Done ([], Some (Errorf ''Out of IP addresses'' [])), am)"
      "maxSubnetIP6 am \<le> int (16 + 16 * j)" "\<And>i. i < j \<Longrightarrow> taken6 am (16 + 16 * i)"
proof -
  obtain j where j: "probe (taken6 am) (\<lambda>k. k + subIPsPerPod6 am) (subnetReservedIPs6 am) = Some (16 + 16 * j)"
    "\<not> taken6 am (16 + 16 * j)" "\<And>i. i < j \<Longrightarrow> taken6 am (16 + 16 * i)"
    using probe6_first [OF inv] by blast
  then have probe: "probe (\<lambda>k. map_of (usedPodAddresses6 am) (getContainerIPv6 (baseSubnetIP6 am) k) \<noteq> None)
      (\<lambda>k. k + subIPsPerPod6 am) (subnetReservedIPs6 am) = Some (16 + 16 * j)"
    unfolding taken6_def by blast
  show thesis
  proof (cases "int (16 + 16 * j) < maxSubnetIP6 am")
    case True
    then show thesis using j probe
      by (intro granted [of j]) (simp_all add: RequestPodIP6_def io_simps Let_def)
  next
    case False
    then show thesis using j probe
      by (intro full [of j]) (simp_all add: RequestPodIP6_def io_simps Let_def)
  qed
qed

lemma am_inv6_RequestPodIP6:
  assumes inv: "am_inv6 am"
  shows "am_inv6 (snd (RequestPodIP6 ns pod am))"
  using inv
proof (cases rule: RequestPodIP6_cases [where ns = ns and pod = pod])
  case (granted j)
  with inv show ?thesis by (auto simp: am_inv6_def distinct_update dom_update)
qed (use inv in simp)

lemma FreePodIP6_cases:
  assumes inv: "am_inv6 am" and ord: "\<And>xs. set (ord xs) = set xs"
  obtains
    (freed) a where "map_of (usedPodAddresses6 am) a = Some (pod_name ns pod)"
      "FreePodIP6 ord ns pod am = (Done None, am\<lparr>usedPodAddresses6 := AList.delete a (usedPodAddresses6 am)\<rparr>)"
  | (none) "pod_name ns pod \<notin> ran (map_of (usedPodAddresses6 am))"
      "FreePodIP6 ord ns pod am = (Done None, am)"
proof -
  let ?used = "usedPodAddresses6 am"
  define a where "a = foldl (\<lambda>found (ip, c). if c = pod_name ns pod then ip else found) [] (ord ?used)"
  have dist: "distinct (map fst ?used)" using inv by (simp add: am_inv6_def)
  have def: "FreePodIP6 ord ns pod am = (Done None, if a \<noteq> []
      then am\<lparr>usedPodAddresses6 := AList.delete a ?used\<rparr> else am)"
    by (simp add: FreePodIP6_def io_simps Let_def a_def)
  consider "(a, pod_name ns pod) \<in> set ?used" | "a = []" "pod_name ns pod \<notin> snd ` set ?used"
    using found_fold [of "pod_name ns pod" "[]" "ord ?used" a] a_def ord by auto
  then show thesis
  proof cases
    case 1
    then have "a \<in> fst ` set ?used" by force
    then obtain j where "a = getContainerIPv6 (baseSubnetIP6 am) (16 + 16 * j)"
      using inv unfolding am_inv6_def by blast
    then have "a \<noteq> []" by (simp add: getContainerIPv6_nonempty)
    with 1 dist def show thesis by (intro freed [of a]) simp_all
  next
    case 2
    with def dist show thesis by (intro none) (simp_all add: ran_distinct)
  qed
qed

lemma am_inv6_FreePodIP6:
  assumes "am_inv6 am" "\<And>xs. set (ord xs) = set xs"
  shows "am_inv6 (snd (FreePodIP6 ord ns pod am))"
  using assms
proof (cases rule: FreePodIP6_cases [where ns = ns and pod = pod])
  case (freed a)
  with assms(1) show ?thesis
    by (auto simp: am_inv6_def distinct_delete set_delete_alist)
qed (use assms in auto)


section \<open>The interface\<close>

text \<open>
  A client's run of requests, one after the other, with the answers; \<open>granted\<close> are the
  addresses that came without an error.
\<close>

primrec request_all ::
  "(string \<Rightarrow> string \<Rightarrow> ('s, ip_bytes \<times> goerr) io) \<Rightarrow> (string \<times> string) list \<Rightarrow>
     ('s, (ip_bytes \<times> goerr) list) io" where
  "request_all request [] = ret []"
| "request_all request (p # ps) =
     bnd (request (fst p) (snd p)) (\<lambda>r. bnd (request_all request ps) (\<lambda>rs. ret (r # rs)))"

definition granted :: "(ip_bytes \<times> goerr) list \<Rightarrow> ip_bytes list" where
  "granted rs = map fst (filter (\<lambda>r. snd r = None) rs)"

lemma granted_simps [simp]:
  "granted [] = []"
  "granted ((ip, None) # rs) = ip # granted rs"
  "granted ((ip, Some e) # rs) = granted rs"
  by (simp_all add: granted_def)

text \<open>
  The contract: a request always returns; without an error it records a new owner for an
  address nobody had, with one it changes nothing and gives no address. A release takes one
  address from the pod, if the pod has one, whatever order the map is walked in.
\<close>

locale address_manager =
  fixes request :: "string \<Rightarrow> string \<Rightarrow> ('s, ip_bytes \<times> goerr) io"
    and free :: "('e list \<Rightarrow> 'e list) \<Rightarrow> string \<Rightarrow> string \<Rightarrow> ('s, goerr) io"
    and owner :: "'s \<Rightarrow> 'a \<Rightarrow> string option"
    and addr :: "'a \<Rightarrow> ip_bytes"
    and inv :: "'s \<Rightarrow> bool"
  assumes request_contract: "inv s \<Longrightarrow> \<exists>ip err s'. request ns pod s = (Done (ip, err), s') \<and> inv s' \<and>
      (case err of None \<Rightarrow> (\<exists>a. ip = addr a \<and> owner s a = None \<and> owner s' = (owner s)(a \<mapsto> pod_name ns pod))
       | Some _ \<Rightarrow> ip = [] \<and> s' = s)"
    and free_contract: "inv s \<Longrightarrow> (\<And>xs. set (ord xs) = set xs) \<Longrightarrow>
      \<exists>s'. free ord ns pod s = (Done None, s') \<and> inv s' \<and>
        ((\<exists>a. owner s a = Some (pod_name ns pod) \<and> owner s' = (owner s)(a := None))
         \<or> (pod_name ns pod \<notin> ran (owner s) \<and> s' = s))"
begin

lemma request_all_contract:
  assumes "inv s"
  shows "\<exists>rs s' keys. request_all request ps s = (Done rs, s') \<and> inv s' \<and> length rs = length ps
    \<and> granted rs = map addr keys \<and> distinct keys \<and> (\<forall>a \<in> set keys. owner s a = None)
    \<and> dom (owner s') = dom (owner s) \<union> set keys"
  using assms
proof (induction ps arbitrary: s)
  case Nil
  then show ?case by (auto simp: io_simps intro!: exI [of _ "[]"])
next
  case (Cons p ps)
  obtain ip err t where t: "request (fst p) (snd p) s = (Done (ip, err), t)" "inv t"
    "case err of None \<Rightarrow> (\<exists>a. ip = addr a \<and> owner s a = None
        \<and> owner t = (owner s)(a \<mapsto> pod_name (fst p) (snd p))) | Some _ \<Rightarrow> ip = [] \<and> t = s"
    using request_contract [OF Cons.prems, of "fst p" "snd p"] by blast
  obtain rs s' keys where IH: "request_all request ps t = (Done rs, s')" "inv s'"
    "length rs = length ps" "granted rs = map addr keys" "distinct keys"
    "\<forall>a \<in> set keys. owner t a = None" "dom (owner s') = dom (owner t) \<union> set keys"
    using Cons.IH [OF t(2)] by blast
  have run: "request_all request (p # ps) s = (Done ((ip, err) # rs), s')"
    using t(1) IH(1) by (simp add: io_simps)
  show ?case
  proof (cases err)
    case None
    with t(3) obtain a where a: "ip = addr a" "owner s a = None"
      "owner t = (owner s)(a \<mapsto> pod_name (fst p) (snd p))" by auto
    have keys: "\<forall>b \<in> set keys. b \<noteq> a \<and> owner s b = None" using IH(6) a(3) by (auto split: if_splits)
    have "granted ((ip, err) # rs) = map addr (a # keys)" using None a(1) IH(4) by simp
    moreover have "distinct (a # keys)" "\<forall>b \<in> set (a # keys). owner s b = None"
      "dom (owner s') = dom (owner s) \<union> set (a # keys)"
      using keys IH(5,7) a(2,3) by auto
    ultimately show ?thesis using run IH(2,3) by (metis length_Cons)
  next
    case (Some e)
    with t(3) have "t = s" by simp
    with Some IH have "granted ((ip, err) # rs) = map addr keys" "\<forall>b \<in> set keys. owner s b = None"
      "dom (owner s') = dom (owner s) \<union> set keys" by simp_all
    with run IH(2,3,5) show ?thesis by (metis length_Cons)
  qed
qed

lemma request_free:
  assumes inv: "inv s" and fresh: "pod_name ns pod \<notin> ran (owner s)"
    and req: "request ns pod s = (Done (ip, None), t)"
    and ord: "\<And>xs. set (ord xs) = set xs"
  shows "\<exists>s'. free ord ns pod t = (Done None, s') \<and> inv s' \<and> owner s' = owner s"
proof -
  obtain a where a: "inv t" "owner s a = None" "owner t = (owner s)(a \<mapsto> pod_name ns pod)"
    using request_contract [OF inv, of ns pod] req by auto
  obtain s' where s': "free ord ns pod t = (Done None, s')" "inv s'"
    "(\<exists>b. owner t b = Some (pod_name ns pod) \<and> owner s' = (owner t)(b := None))
      \<or> (pod_name ns pod \<notin> ran (owner t) \<and> s' = t)"
    using free_contract [OF a(1), of ord ns pod] ord by blast
  have "b = a" if "owner t b = Some (pod_name ns pod)" for b
    using that fresh a(3) by (auto split: if_splits intro: ranI)
  moreover have "pod_name ns pod \<in> ran (owner t)" using a(3) by (auto intro: ranI [of _ a])
  ultimately have "owner s' = (owner t)(a := None)" using s'(3) by blast
  then have "owner s' = owner s" using a(2,3) by (auto simp: fun_eq_iff)
  with s'(1,2) show ?thesis by blast
qed

end

interpretation am4: address_manager RequestPodIP FreePodIP "\<lambda>am. map_of (usedPodAddresses am)"
  int2ip am_inv4
proof
  show "\<exists>ip err t. RequestPodIP ns pod am = (Done (ip, err), t) \<and> am_inv4 t \<and>
      (case err of None \<Rightarrow> (\<exists>a. ip = int2ip a \<and> map_of (usedPodAddresses am) a = None
          \<and> map_of (usedPodAddresses t) = (map_of (usedPodAddresses am))(a \<mapsto> pod_name ns pod))
       | Some _ \<Rightarrow> ip = [] \<and> t = am)" if "am_inv4 am" for am ns pod
    using that am_inv4_RequestPodIP [OF that, of ns pod]
    by (cases rule: RequestPodIP_cases [OF that, where ns = ns and pod = pod])
      (auto simp: update_conv' taken4_def)
  show "\<exists>t. FreePodIP ord ns pod am = (Done None, t) \<and> am_inv4 t \<and>
      ((\<exists>a. map_of (usedPodAddresses am) a = Some (pod_name ns pod)
          \<and> map_of (usedPodAddresses t) = (map_of (usedPodAddresses am))(a := None))
       \<or> (pod_name ns pod \<notin> ran (map_of (usedPodAddresses am)) \<and> t = am))"
    if "am_inv4 am" "\<And>xs. set (ord xs) = set xs" for am ord ns pod
    using am_inv4_FreePodIP [OF that, where ns = ns and pod = pod]
    by (cases rule: FreePodIP_cases [OF that, where ns = ns and pod = pod])
      (auto simp: delete_conv')
qed


interpretation am6: address_manager RequestPodIP6 FreePodIP6 "\<lambda>am. map_of (usedPodAddresses6 am)"
  parse_ip am_inv6
proof
  show "\<exists>ip err t. RequestPodIP6 ns pod am = (Done (ip, err), t) \<and> am_inv6 t \<and>
      (case err of None \<Rightarrow> (\<exists>a. ip = parse_ip a \<and> map_of (usedPodAddresses6 am) a = None
          \<and> map_of (usedPodAddresses6 t) = (map_of (usedPodAddresses6 am))(a \<mapsto> pod_name ns pod))
       | Some _ \<Rightarrow> ip = [] \<and> t = am)" if "am_inv6 am" for am ns pod
    using that am_inv6_RequestPodIP6 [OF that, of ns pod]
    by (cases rule: RequestPodIP6_cases [OF that, where ns = ns and pod = pod])
      (auto simp: update_conv' taken6_def)
  show "\<exists>t. FreePodIP6 ord ns pod am = (Done None, t) \<and> am_inv6 t \<and>
      ((\<exists>a. map_of (usedPodAddresses6 am) a = Some (pod_name ns pod)
          \<and> map_of (usedPodAddresses6 t) = (map_of (usedPodAddresses6 am))(a := None))
       \<or> (pod_name ns pod \<notin> ran (map_of (usedPodAddresses6 am)) \<and> t = am))"
    if "am_inv6 am" "\<And>xs. set (ord xs) = set xs" for am ord ns pod
    using am_inv6_FreePodIP6 [OF that, where ns = ns and pod = pod]
    by (cases rule: FreePodIP6_cases [OF that, where ns = ns and pod = pod])
      (auto simp: delete_conv')
qed

section \<open>Properties of the address managers\<close>

definition sample_am4 :: ipv4am where
  "sample_am4 = \<lparr>baseSubnetIP = 0x0A010200, maxSubnetIP = 0x0A0102FF, subnetMask = [255, 255, 255, 0],
     subIPsPerPod = 8, gatewayIP = 0x0A010201, usedPodAddresses = []\<rparr>"

lemma am_inv4_sample: "am_inv4 sample_am4"
  by (simp add: am_inv4_def sample_am4_def)

lemma unat_granted4:
  assumes inv: "am_inv4 am" and run: "request_all RequestPodIP ps am = (Done rs, am')"
    and ip: "be_bytes w \<in> set (granted rs)"
  shows "\<exists>k. unat w = unat (baseSubnetIP am) + 8 + 8 * k \<and> unat w < unat (maxSubnetIP am)"
proof -
  have keep: "am_inv4 am' \<and> baseSubnetIP am' = baseSubnetIP am \<and> maxSubnetIP am' = maxSubnetIP am"
    using inv run
  proof (induction ps arbitrary: am rs)
    case (Cons p ps)
    obtain r t where t: "RequestPodIP (fst p) (snd p) am = (Done r, t)"
      "\<exists>rs'. request_all RequestPodIP ps t = (Done rs', am')"
      using Cons.prems(2) by (auto simp: io_simps split: prod.splits outcome.splits)
    have "am_inv4 t" using am_inv4_RequestPodIP [OF Cons.prems(1), of "fst p" "snd p"] t(1) by simp
    moreover have "baseSubnetIP t = baseSubnetIP am \<and> maxSubnetIP t = maxSubnetIP am"
      using t(1) by (cases rule: RequestPodIP_cases [OF Cons.prems(1), where ns = "fst p" and pod = "snd p"]) auto
    ultimately show ?case using Cons.IH t(2) by metis
  qed (simp add: io_simps)
  obtain keys where "granted rs = map int2ip keys"
    "dom (map_of (usedPodAddresses am')) = dom (map_of (usedPodAddresses am)) \<union> set keys"
    using am4.request_all_contract [OF inv, of ps] run by auto
  then have "w \<in> fst ` set (usedPodAddresses am')"
    using ip by (auto simp: int2ip_def dom_map_of_conv_image_fst dest!: be_bytes_inj)
  with keep show ?thesis unfolding am_inv4_def by fastforce
qed

end
