(* ===== verification/IpText.thy ===== *)
theory IpText
  imports GoNet
begin

text \<open>
  Printing and reading an address of sixteen bytes: \<open>net.ParseIP\<close> gives back what \<open>net.IP.String\<close>
  printed, with its longest run of zero groups left out, and so no two addresses share a text.
  The tables of the network managers are keyed by these texts.
\<close>

section \<open>Groups\<close>

definition group_bytes :: "nat \<Rightarrow> byte list" where
  "group_bytes n = [of_nat (n div 256), of_nat (n mod 256)]"

lemma hextets_bytes: "even (length bs) \<Longrightarrow> concat (map group_bytes (hextets bs)) = bs"
proof (induction bs rule: hextets.induct)
  case (1 a b bs)
  have "unat b < 256" using unsigned_less [of b, where ?'a = nat] by simp
  with 1 show ?case by (simp add: group_bytes_def)
qed auto

lemma hextets_less: "g \<in> set (hextets bs) \<Longrightarrow> g < 65536"
proof (induction bs rule: hextets.induct)
  case (1 a b bs)
  have "unat a < 256" "unat b < 256"
    using unsigned_less [of a, where ?'a = nat] unsigned_less [of b, where ?'a = nat] by simp_all
  with 1 show ?case by auto
qed auto

lemma length_hextets: "length (hextets bs) = length bs div 2"
  by (induction bs rule: hextets.induct) auto

lemma parse_hextet_hex: "g < 65536 \<Longrightarrow> parse_hextet (hex g) = Some (group_bytes g)"
  using length_radix_le [of 16 g 3] by (simp add: parse_hextet_def digits_val_radix group_bytes_def)

lemma parse_groups_hex: "\<forall>g \<in> set gs. g < 65536 \<Longrightarrow> parse_groups (map hex gs) = Some (concat (map group_bytes gs))"
  by (induction gs) (auto simp: parse_groups_def parse_hextet_hex)

lemma length_group_bytes: "length (concat (map group_bytes gs)) = 2 * length gs"
  by (induction gs) (simp_all add: group_bytes_def)

lemma zero_group_bytes: "concat (replicate l (group_bytes 0)) = replicate (2 * l) 0"
  by (induction l) (simp_all add: group_bytes_def)

section \<open>The run of zeros\<close>

lemma zero_run_zeros: "take (zero_run gs i) (drop i gs) = replicate (zero_run gs i) 0"
proof -
  have "take (zero_run gs i) (drop i gs) = takeWhile (\<lambda>g. g = 0) (drop i gs)"
    by (simp add: zero_run_def takeWhile_eq_take [symmetric])
  also have "\<dots> = replicate (zero_run gs i) 0"
    unfolding zero_run_def by (rule replicate_eqI [OF refl]) (auto dest: set_takeWhileD)
  finally show ?thesis .
qed

lemma zero_run_le: "i \<le> length gs \<Longrightarrow> i + zero_run gs i \<le> length gs"
  using length_takeWhile_le [of "\<lambda>g. g = 0" "drop i gs"] by (simp add: zero_run_def)

lemma best_run_zeros:
  assumes "best_run gs = (s, l)" "l \<noteq> 0"
  shows "2 \<le> l \<and> s + l \<le> length gs \<and> take l (drop s gs) = replicate l 0"
proof -
  let ?ok = "\<lambda>(s, l). l = 0 \<or> 2 \<le> l \<and> s + l \<le> length gs \<and> take l (drop s gs) = replicate l 0"
  let ?f = "\<lambda>i (s, l). let r = zero_run gs i in if 2 \<le> r \<and> l < r then (i, r) else (s, l)"
  have "?ok (fold ?f xs p)" if "?ok p" "\<forall>i \<in> set xs. i \<le> length gs" for xs p
    using that
  proof (induction xs arbitrary: p)
    case (Cons i xs)
    then have "?ok (?f i p)" using zero_run_zeros [of gs i] zero_run_le [of i gs] by (auto simp: Let_def split: prod.splits)
    with Cons show ?case by simp
  qed simp
  from this [of "(0, 0)" "[0..<length gs]"] assms show ?thesis by (simp add: best_run_def)
qed

lemma around_run:
  assumes "best_run gs = (s, l)" "l \<noteq> 0"
  shows "gs = take s gs @ replicate l 0 @ drop (s + l) gs"
proof -
  have "gs = take s gs @ take l (drop s gs) @ drop l (drop s gs)" by (simp only: append_take_drop_id)
  then show ?thesis using best_run_zeros [OF assms] by (simp add: add.commute)
qed

section \<open>Round trip\<close>

text \<open>The pieces between colons around a double colon.\<close>

definition ellipsis_parts :: "string list \<Rightarrow> string list \<Rightarrow> string list" where
  "ellipsis_parts l r = (if l = [] then [[], []] else l @ [[]]) @ (if r = [] then [[]] else r)"

lemma join_append: "xs \<noteq> [] \<Longrightarrow> ys \<noteq> [] \<Longrightarrow> join_with sep (xs @ ys) = join_with sep xs @ sep @ join_with sep ys"
proof (induction xs)
  case (Cons x xs)
  then show ?case by (cases "xs = []") (simp_all add: join_with_Cons)
qed simp

lemma join_ellipsis:
  "join_with '':'' (ellipsis_parts l r) = join_with '':'' l @ ''::'' @ join_with '':'' r"
  by (cases "l = []"; cases "r = []") (simp_all add: ellipsis_parts_def join_append join_with_Cons)

lemma parse_ipv6_parts:
  assumes "\<forall>p \<in> set l \<union> set r. p \<noteq> [] \<and> CHR '':'' \<notin> set p"
  shows "parse_ipv6 (join_with '':'' (ellipsis_parts l r)) = parse_ellipsis l r"
proof -
  have "split_on CHR '':'' (join_with '':'' (ellipsis_parts l r)) = ellipsis_parts l r"
    using assms by (intro split_join) (auto simp: ellipsis_parts_def)
  moreover have l: "takeWhile (\<lambda>p. p \<noteq> []) (l @ [] # xs) = l" "dropWhile (\<lambda>p. p \<noteq> []) (l @ [] # xs) = [] # xs" for xs
    using assms by (induction l) auto
  moreover have "parse_ellipsis l [[]] = parse_ellipsis l []" by (simp add: parse_ellipsis_def)
  ultimately show ?thesis using l [of "if r = [] then [[]] else r"]
    by (cases "l = []") (auto simp: parse_ipv6_def Let_def ellipsis_parts_def)
qed

lemma parse_ellipsis_hex:
  assumes "\<forall>g \<in> set gs. g < 65536" "\<forall>g \<in> set hs. g < 65536" "length gs + length hs \<le> 7"
  shows "parse_ellipsis (map hex gs) (map hex hs)
    = Some (concat (map group_bytes (gs @ replicate (8 - length gs - length hs) 0 @ hs)))"
proof -
  have "map hex hs \<noteq> [[]]" by (cases hs) auto
  moreover have "16 - 2 * length gs - 2 * length hs = 2 * (8 - length gs - length hs)" by simp
  ultimately show ?thesis using assms
    by (simp add: parse_ellipsis_def Let_def parse_groups_hex length_group_bytes zero_group_bytes)
qed

text \<open>Every address of sixteen bytes; one that wraps an IPv4 address is printed in dotted form.\<close>

lemma find_colon:
  assumes "CHR ''.'' \<notin> set s" "CHR ''%'' \<notin> set s" "CHR '':'' \<in> set s"
  shows "find (\<lambda>c. c = CHR ''.'' \<or> c = CHR '':'' \<or> c = CHR ''%'') s = Some CHR '':''"
  using assms by (induction s) auto

lemma colon_first: "CHR ''.'' \<notin> set s \<Longrightarrow> CHR ''%'' \<notin> set s \<Longrightarrow> CHR '':'' \<in> set s \<Longrightarrow>
    parse_ip s = (case parse_ipv6 s of None \<Rightarrow> [] | Some b \<Rightarrow> b)"
  by (simp add: parse_ip_def find_colon)

lemma set_join: "set (join_with sep ps) \<subseteq> set sep \<union> \<Union> (set ` set ps)"
proof (induction ps)
  case (Cons p ps)
  then show ?case by (cases "ps = []") (auto simp: join_with_Cons)
qed simp

lemma hex_no_sep: "c \<in> set (hex n) \<Longrightarrow> c \<noteq> CHR ''.'' \<and> c \<noteq> CHR '':'' \<and> c \<noteq> CHR ''%''"
proof -
  assume "c \<in> set (hex n)"
  then obtain d where d: "c = digit d" "d < 16" using set_radix [of 16 n] by auto
  have "(of_char (CHR ''%'') :: nat) = 37" by simp
  then show ?thesis using d of_char_digit [of d] by (auto simp: digit_neq split: if_splits)
qed

theorem parse_ip_string:
  assumes "length ip = 16"
  shows "parse_ip (ip_string ip) = ip"
proof (cases "to4 ip")
  case (Some b)
  then have "take 12 ip = v4_prefix" "b = drop 12 ip" using assms by (auto simp: to4_def split: if_splits)
  moreover have "ip_string ip = dotted b" using Some assms by (auto simp: ip_string_def)
  ultimately show ?thesis using assms parse_ip_dotted [of b] append_take_drop_id [of 12 ip] by simp
next
  case None
  let ?gs = "hextets ip"
  obtain s l where run: "best_run ?gs = (s, l)" by (cases "best_run ?gs")
  have len: "length ?gs = 8" using assms by (simp add: length_hextets)
  have small: "\<forall>g \<in> set ?gs. g < 65536" by (auto dest: hextets_less)
  have bytes: "concat (map group_bytes ?gs) = ip" using assms by (intro hextets_bytes) simp
  have printed: "ip_string ip = (if l = 0 then join_with '':'' (map hex ?gs)
      else join_with '':'' (map hex (take s ?gs)) @ ''::'' @ join_with '':'' (map hex (drop (s + l) ?gs)))"
    using None assms run by (auto simp: ip_string_def Let_def)
  have chars: "set (ip_string ip) \<subseteq> {CHR '':''} \<union> \<Union> (set ` hex ` UNIV)"
    unfolding printed using set_join [of "'':''" "map hex ?gs"] set_join [of "'':''" "map hex (take s ?gs)"]
      set_join [of "'':''" "map hex (drop (s + l) ?gs)"]
    by (auto split: if_splits)
  have "CHR '':'' \<in> set (ip_string ip)"
  proof (cases "l = 0")
    case True
    obtain g g' gs where "?gs = g # g' # gs" using len by (auto simp: numeral_eq_Suc length_Suc_conv)
    with True show ?thesis by (simp add: printed join_with_Cons)
  qed (simp add: printed)
  with chars have "parse_ip (ip_string ip) = (case parse_ipv6 (ip_string ip) of None \<Rightarrow> [] | Some b \<Rightarrow> b)"
    by (intro colon_first) (auto dest: hex_no_sep)
  moreover have "parse_ipv6 (ip_string ip) = Some ip"
  proof (cases "l = 0")
    case True
    have "?gs \<noteq> []" using len by auto
    then have "split_on CHR '':'' (ip_string ip) = map hex ?gs"
      unfolding printed using True by (auto intro!: split_join dest: hex_no_sep)
    then show ?thesis
      using len parse_groups_hex [OF small] bytes
      by (simp add: parse_ipv6_def Let_def takeWhile_eq_all_conv dropWhile_eq_Nil_conv)
  next
    case False
    let ?l = "take s ?gs" and ?r = "drop (s + l) ?gs"
    note zeros = best_run_zeros [OF run False]
    have "\<forall>p \<in> set (map hex ?l) \<union> set (map hex ?r). p \<noteq> [] \<and> CHR '':'' \<notin> set p"
      by (auto dest: hex_no_sep)
    from parse_ipv6_parts [OF this] False
    have "parse_ipv6 (ip_string ip) = parse_ellipsis (map hex ?l) (map hex ?r)"
      by (simp add: printed join_ellipsis)
    also have "\<dots> = Some (concat (map group_bytes (?l @ replicate (8 - length ?l - length ?r) 0 @ ?r)))"
      using small zeros len by (intro parse_ellipsis_hex) (auto dest: in_set_takeD in_set_dropD)
    also have "8 - length ?l - length ?r = l" using zeros len by simp
    also have "?l @ replicate l 0 @ ?r = ?gs" using around_run [OF run False] by simp
    finally show ?thesis by (simp add: bytes)
  qed
  ultimately show ?thesis by simp
qed

lemma ip_string_16_inj: "length a = 16 \<Longrightarrow> length b = 16 \<Longrightarrow> ip_string a = ip_string b \<Longrightarrow> a = b"
  by (metis parse_ip_string)

end
