(* ===== verification/AddressProps.thy ===== *)
theory AddressProps
  imports AddressSpec IpText
begin

text \<open>
  Properties of the address managers: what a request gives, how many pods a subnet holds, that
  releasing undoes requesting, how the standalone subnets are derived from the machine ID, and
  where the IPv6 manager gives an address that is none.
\<close>

lemma sample_two_grants:
  "request_all RequestPodIP [(''default'', ''a''), (''default'', ''b'')] sample_am4 =
     (Done [(be_bytes 0x0A010208, None), (be_bytes 0x0A010210, None)],
      sample_am4\<lparr>usedPodAddresses := [(0x0A010208, ''default_a''), (0x0A010210, ''default_b'')]\<rparr>)"
  by (simp add: sample_am4_def RequestPodIP_def io_simps probe_hit probe_miss MaxIPv4IPsPerPod_def
      int2ip_def pod_name_def)

lemma whole_block:
  fixes v b m n :: nat
  assumes "v = b + 8 + 8 * k" "v < m" "m - b = 8 * n"
  shows "v + 8 \<le> m"
  using assms by presburger

text \<open>
  C1. However many requests are made one after the other, in whatever state the IPv4 subnet is: every address
  that is granted is the start of a block of eight addresses that nobody held before, above the gateway and
  below the end of the subnet, and the block ends in the subnet too when the size of the subnet is a multiple
  of eight; and the blocks of different grants are disjoint.
\<close>

theorem RequestPodIP_blocks_disjoint:
  assumes "am_inv4 am" and "request_all RequestPodIP ps am = (Done rs, am')"
  shows "(\<forall>ip \<in> set (granted rs). \<exists>v. ip = be_bytes v \<and> map_of (usedPodAddresses am) v = None
      \<and> unat (baseSubnetIP am) + 8 \<le> unat v \<and> unat v < unat (maxSubnetIP am)
      \<and> (8 dvd unat (maxSubnetIP am) - unat (baseSubnetIP am) \<longrightarrow> unat v + 8 \<le> unat (maxSubnetIP am)))
    \<and> (\<forall>i j v w. i < j \<and> j < length (granted rs) \<and> granted rs ! i = be_bytes v \<and> granted rs ! j = be_bytes w
        \<longrightarrow> {unat v ..< unat v + 8} \<inter> {unat w ..< unat w + 8} = {})"
proof -
  obtain keys where keys: "granted rs = map int2ip keys" "distinct keys"
    "\<forall>a \<in> set keys. map_of (usedPodAddresses am) a = None"
    using am4.request_all_contract [OF assms(1), of ps] assms(2) by auto
  have start: "\<exists>k. unat v = unat (baseSubnetIP am) + 8 + 8 * k \<and> unat v < unat (maxSubnetIP am)" if "v \<in> set keys" for v
    using unat_granted4 [OF assms, of v] keys(1) that by (auto simp: int2ip_def)
  have apart: "{unat (keys ! i) ..< unat (keys ! i) + 8} \<inter> {unat (keys ! j) ..< unat (keys ! j) + 8} = {}"
    if "i < j" "j < length keys" for i j
  proof -
    from that have "keys ! i \<in> set keys" "keys ! j \<in> set keys" by simp_all
    then obtain k l where kl: "unat (keys ! i) = unat (baseSubnetIP am) + 8 + 8 * k"
      "unat (keys ! j) = unat (baseSubnetIP am) + 8 + 8 * l"
      using start by blast
    have "keys ! i \<noteq> keys ! j" using keys(2) that by (simp add: nth_eq_iff_index_eq)
    then have "unat (keys ! i) \<noteq> unat (keys ! j)" by (simp add: word_unat_eq_iff)
    with kl have "k \<noteq> l" by auto
    with kl have "unat (keys ! i) + 8 \<le> unat (keys ! j) \<or> unat (keys ! j) + 8 \<le> unat (keys ! i)" by linarith
    then show ?thesis by (rule ivl_disjoint)
  qed
  have whole: "8 dvd unat (maxSubnetIP am) - unat (baseSubnetIP am) \<longrightarrow> unat v + 8 \<le> unat (maxSubnetIP am)"
    if v: "v \<in> set keys" for v
  proof
    assume "8 dvd unat (maxSubnetIP am) - unat (baseSubnetIP am)"
    then obtain m where m: "unat (maxSubnetIP am) - unat (baseSubnetIP am) = 8 * m" by (rule dvdE)
    obtain k where k: "unat v = unat (baseSubnetIP am) + 8 + 8 * k" "unat v < unat (maxSubnetIP am)"
      using start [OF v] by blast
    show "unat v + 8 \<le> unat (maxSubnetIP am)" by (rule whole_block [OF k m])
  qed
  show ?thesis
  proof (intro conjI ballI allI impI)
    fix ip
    assume "ip \<in> set (granted rs)"
    then obtain v where "v \<in> set keys" "ip = be_bytes v" using keys(1) by (auto simp: int2ip_def)
    with start whole keys(3) show "\<exists>v. ip = be_bytes v \<and> map_of (usedPodAddresses am) v = None
      \<and> unat (baseSubnetIP am) + 8 \<le> unat v \<and> unat v < unat (maxSubnetIP am)
      \<and> (8 dvd unat (maxSubnetIP am) - unat (baseSubnetIP am) \<longrightarrow> unat v + 8 \<le> unat (maxSubnetIP am))"
      by (intro exI [of _ v]) fastforce
  next
    fix i j v w
    assume ij: "i < j \<and> j < length (granted rs) \<and> granted rs ! i = be_bytes v \<and> granted rs ! j = be_bytes w"
    with keys(1) have "keys ! i = v" "keys ! j = w" by (auto simp: int2ip_def dest: be_bytes_inj)
    with apart [of i j] ij keys(1) show "{unat v ..< unat v + 8} \<inter> {unat w ..< unat w + 8} = {}" by simp
  qed
qed

theorem RequestPodIP_blocks_disjoint_witness:
  "(\<exists>v. be_bytes 0x0A010210 = be_bytes v \<and> map_of (usedPodAddresses sample_am4) v = None)
   \<and> {unat (0x0A010208 :: u32) ..< unat (0x0A010208 :: u32) + 8}
     \<inter> {unat (0x0A010210 :: u32) ..< unat (0x0A010210 :: u32) + 8} = {}"
proof -
  let ?rs = "[(be_bytes 0x0A010208, None), (be_bytes 0x0A010210, None)] :: (ip_bytes \<times> goerr) list"
  note grants = RequestPodIP_blocks_disjoint [OF am_inv4_sample sample_two_grants]
  have "\<exists>v. be_bytes 0x0A010210 = be_bytes v \<and> map_of (usedPodAddresses sample_am4) v = None"
    using grants [THEN conjunct1] by fastforce
  moreover have "{unat (0x0A010208 :: u32) ..< unat (0x0A010208 :: u32) + 8}
     \<inter> {unat (0x0A010210 :: u32) ..< unat (0x0A010210 :: u32) + 8} = {}"
    by (rule grants [THEN conjunct2, rule_format, of 0 1]) simp
  ultimately show ?thesis by simp
qed

text \<open>
  C4. A request for an IPv4 block always returns: with the first block of the subnet that nobody
  holds, recorded for the pod, or, only when every block below the end is held, with the error
  and no change.
\<close>

theorem RequestPodIP_first_fit:
  assumes "am_inv4 am"
  shows "\<exists>k. (\<forall>j<k. map_of (usedPodAddresses am) (block4 am j) \<noteq> None)
    \<and> (if unat (baseSubnetIP am) + 8 + 8 * k < unat (maxSubnetIP am)
       then map_of (usedPodAddresses am) (block4 am k) = None
         \<and> RequestPodIP ns pod am = (Done (be_bytes (block4 am k), None),
              am\<lparr>usedPodAddresses := AList.update (block4 am k) (ns @ ''_'' @ pod) (usedPodAddresses am)\<rparr>)
       else RequestPodIP ns pod am = (Done ([], Some (Errorf ''Out of IP addresses'' [])), am))"
  using assms
proof (cases rule: RequestPodIP_cases [where ns = ns and pod = pod])
  case (granted k)
  then show ?thesis by (intro exI [of _ k]) (auto simp: taken4_def int2ip_def pod_name_def)
next
  case (full k)
  then show ?thesis by (intro exI [of _ k]) (auto simp: taken4_def)
qed

theorem RequestPodIP_first_fit_witness:
  "\<exists>k. (\<forall>j<k. map_of (usedPodAddresses sample_am4) (block4 sample_am4 j) \<noteq> None)
    \<and> (if unat (baseSubnetIP sample_am4) + 8 + 8 * k < unat (maxSubnetIP sample_am4)
       then map_of (usedPodAddresses sample_am4) (block4 sample_am4 k) = None
         \<and> RequestPodIP ''default'' ''a'' sample_am4 = (Done (be_bytes (block4 sample_am4 k), None),
              sample_am4\<lparr>usedPodAddresses := AList.update (block4 sample_am4 k) (''default'' @ ''_'' @ ''a'')
                 (usedPodAddresses sample_am4)\<rparr>)
       else RequestPodIP ''default'' ''a'' sample_am4
         = (Done ([], Some (Errorf ''Out of IP addresses'' [])), sample_am4))"
  by (rule RequestPodIP_first_fit [OF am_inv4_sample])

text \<open>How many blocks a subnet holds.\<close>

definition capacity4 :: "ipv4am \<Rightarrow> nat" where
  "capacity4 am = (unat (maxSubnetIP am) - unat (baseSubnetIP am) - 1) div 8"

lemma less_capacity4:
  assumes "am_inv4 am"
  shows "k < capacity4 am \<longleftrightarrow> unat (baseSubnetIP am) + 8 + 8 * k < unat (maxSubnetIP am)"
proof -
  have "k < capacity4 am \<longleftrightarrow> 8 * Suc k \<le> unat (maxSubnetIP am) - unat (baseSubnetIP am) - 1"
    by (simp add: capacity4_def less_eq_div_iff_mult_less_eq Suc_le_eq [symmetric] mult.commute)
  then show ?thesis by arith
qed

lemma fill_subnet4:
  assumes "am_inv4 am" "fst ` set (usedPodAddresses am) = block4 am ` {..<n}" "n \<le> capacity4 am"
    and "request_all RequestPodIP ps am = (Done rs, am')"
  shows "length (granted rs) = min (length ps) (capacity4 am - n)"
  using assms
proof (induction ps arbitrary: am n rs)
  case (Cons p ps)
  note inv = Cons.prems(1)
  obtain r rs' t where t: "RequestPodIP (fst p) (snd p) am = (Done r, t)"
    "request_all RequestPodIP ps t = (Done rs', am')" "rs = r # rs'"
    using Cons.prems(4) by (auto simp: io_simps split: prod.splits outcome.splits)
  have inv_t: "am_inv4 t" using am_inv4_RequestPodIP [OF inv, of "fst p" "snd p"] t(1) by simp
  have below: "taken4 am (block4 am j) \<longleftrightarrow> j < n" if "j < capacity4 am" for j
  proof
    assume "taken4 am (block4 am j)"
    then obtain i where i: "i < n" "block4 am j = block4 am i"
      using Cons.prems(2) by (auto simp: taken4_iff)
    have "unat (block4 am l) = unat (baseSubnetIP am) + 8 + 8 * l" if "l < capacity4 am" for l
      using that less_capacity4 [OF inv, of l] inv by (intro unat_block4) (simp add: am_inv4_def)
    from this [of i] this [of j] i \<open>j < capacity4 am\<close> Cons.prems(3) show "j < n" by simp
  next
    assume "j < n"
    then show "taken4 am (block4 am j)" using Cons.prems(2) by (auto simp: taken4_iff)
  qed
  from inv show ?case
  proof (cases rule: RequestPodIP_cases [where ns = "fst p" and pod = "snd p"])
    case (granted k)
    have k: "k < capacity4 am" using granted(2,3) less_capacity4 [OF inv] by simp
    have "k = n"
    proof (rule ccontr)
      assume "k \<noteq> n"
      with granted(4) below [OF k] have "n < k" by simp
      then show False using granted(5) below k by (metis order_less_irrefl order_less_trans)
    qed
    have eq: "block4 t = block4 am" "capacity4 t = capacity4 am"
      using granted(1) t(1) by (auto simp: block4_def capacity4_def fun_eq_iff)
    have "fst ` set (usedPodAddresses t) = block4 t ` {..<Suc n}"
      using granted(1) t(1) Cons.prems(2) \<open>k = n\<close> eq by (auto simp: dom_update lessThan_Suc)
    then have "length (granted rs') = min (length ps) (capacity4 am - Suc n)"
      using Cons.IH [OF inv_t _ _ t(2), of "Suc n"] k \<open>k = n\<close> eq by simp
    then show ?thesis using t granted(1) k \<open>k = n\<close> by auto
  next
    case (full k)
    have "capacity4 am \<le> k" using full(2) less_capacity4 [OF inv, of k] by simp
    have "n = capacity4 am"
    proof (rule ccontr)
      assume "n \<noteq> capacity4 am"
      with Cons.prems(3) have "n < capacity4 am" by simp
      then show False using full(3) [of n] below [of n] \<open>capacity4 am \<le> k\<close> by simp
    qed
    have "t = am" "r = ([], Some (Errorf ''Out of IP addresses'' []))" using full(1) t(1) by auto
    then have "length (granted rs') = min (length ps) (capacity4 am - n)"
      using Cons.IH [OF inv Cons.prems(2,3)] t(2) by simp
    then show ?thesis using t(3) \<open>r = _\<close> \<open>n = capacity4 am\<close> by simp
  qed
qed (auto simp: io_simps)

text \<open>
  C11. A fresh IPv4 subnet serves exactly as many pods as blocks after its reserved one start below its
  end: the first requests are all granted, every later one is refused. A standalone node has 31.
\<close>

theorem RequestPodIP_capacity:
  assumes "am_inv4 am" and "usedPodAddresses am = []"
    and "request_all RequestPodIP ps am = (Done rs, am')"
  shows "length (granted rs) = min (length ps) ((unat (maxSubnetIP am) - unat (baseSubnetIP am) - 1) div 8)"
  using fill_subnet4 [OF assms(1) _ _ assms(3), of 0] assms(2) by (simp add: capacity4_def)

theorem RequestPodIP_capacity_witness:
  "length (granted [(be_bytes 0x0A010208, None), (be_bytes 0x0A010210, None)])
     = min (length [(''default'', ''a''), (''default'', ''b'')])
         ((unat (maxSubnetIP sample_am4) - unat (baseSubnetIP sample_am4) - 1) div 8)
   \<and> (unat (maxSubnetIP sample_am4) - unat (baseSubnetIP sample_am4) - 1) div 8 = 31"
proof -
  have "usedPodAddresses sample_am4 = []" by (simp add: sample_am4_def)
  from RequestPodIP_capacity [OF am_inv4_sample this sample_two_grants]
  show ?thesis by (simp add: sample_am4_def)
qed

section \<open>Releasing\<close>

text \<open>
  C9. Releasing undoes requesting: after a request that was granted to a pod that held nothing,
  releasing the pod's address leaves every address with the owner it had before, in whatever
  order the map is walked.
\<close>

theorem FreePodIP_undoes_RequestPodIP:
  assumes "am_inv4 am" and "ns @ ''_'' @ pod \<notin> ran (map_of (usedPodAddresses am))"
    and "RequestPodIP ns pod am = (Done (ip, None), t)"
    and "\<And>xs. set (ord xs) = set xs"
  shows "\<exists>am'. FreePodIP ord ns pod t = (Done None, am') \<and> am_inv4 am'
    \<and> map_of (usedPodAddresses am') = map_of (usedPodAddresses am)"
  using am4.request_free [of am ns pod ip t ord] assms by (simp add: pod_name_def)

theorem FreePodIP_undoes_RequestPodIP_witness:
  "\<exists>am'. FreePodIP rev ''default'' ''a''
      (sample_am4\<lparr>usedPodAddresses := [(0x0A010208, ''default_a'')]\<rparr>) = (Done None, am') \<and> am_inv4 am'
    \<and> map_of (usedPodAddresses am') = map_of (usedPodAddresses sample_am4)"
proof (rule FreePodIP_undoes_RequestPodIP [OF am_inv4_sample])
  show "RequestPodIP ''default'' ''a'' sample_am4
      = (Done (be_bytes 0x0A010208, None), sample_am4\<lparr>usedPodAddresses := [(0x0A010208, ''default_a'')]\<rparr>)"
    by (simp add: sample_am4_def RequestPodIP_def io_simps probe_hit MaxIPv4IPsPerPod_def
        int2ip_def pod_name_def)
qed (simp_all add: sample_am4_def)

section \<open>IPv6 grants\<close>

lemma split_on_append_gen: "split_on c (s @ c # t) = split_on c s @ split_on c t"
  by (induction s) (auto split: list.split)

lemma parse_all_append:
  "parse_all f (xs @ ys) =
     (case (parse_all f xs, parse_all f ys) of (Some a, Some b) \<Rightarrow> Some (a @ b) | _ \<Rightarrow> None)"
  by (induction xs) (auto split: option.splits)

lemma parse_hextet_nonempty: "parse_hextet p = Some b \<Longrightarrow> p \<noteq> []"
  by (auto simp: parse_hextet_def split: if_splits)

lemma parse_all_Some_all:
  "parse_all f ps = Some b \<Longrightarrow> p \<in> set ps \<Longrightarrow> f p \<noteq> None"
  using parse_all_None [of p ps f] by fastforce

lemma digit_no_dot: "digits_val b acc s = Some n \<Longrightarrow> CHR ''.'' \<notin> set s \<and> CHR ''%'' \<notin> set s"
  by (induction s arbitrary: acc) (auto simp: digit_val_def split: option.splits if_splits)

text \<open>The seven leading groups of a standalone node's IPv6 subnet, as bytes.\<close>

definition base_prefix6 :: "string \<Rightarrow> byte list option" where
  "base_prefix6 base = (if length (split_on CHR '':'' base) = 7
     then parse_groups (split_on CHR '':'' base) else None)"

lemma base_no_dot:
  assumes "parse_all parse_hextet (split_on CHR '':'' base) = Some b"
  shows "CHR ''.'' \<notin> set base \<and> CHR ''%'' \<notin> set base"
proof -
  have "CHR ''.'' \<notin> set p \<and> CHR ''%'' \<notin> set p" if "p \<in> set (split_on CHR '':'' base)" for p
    using parse_all_Some_all [OF assms that] digit_no_dot [of 16 0 p]
    by (auto simp: parse_hextet_def split: if_splits)
  then show ?thesis
    using set_join [of "[CHR '':'']" "split_on CHR '':'' base"] by (auto simp: join_split)
qed

lemma parse_ipv6_full:
  assumes "length (split_on CHR '':'' s) = 8" "parse_all parse_hextet (split_on CHR '':'' s) = Some b"
  shows "parse_ipv6 s = Some (concat b)"
proof -
  have "\<forall>p \<in> set (split_on CHR '':'' s). p \<noteq> []"
    using parse_all_Some_all [OF assms(2)] parse_hextet_nonempty by fastforce
  then have "dropWhile (\<lambda>p. p \<noteq> []) (split_on CHR '':'' s) = []" by simp
  then show ?thesis using assms by (simp add: parse_ipv6_def Let_def parse_groups_def)
qed

lemma parse_container6:
  assumes "base_prefix6 base = Some b"
  shows "parse_ip (getContainerIPv6 base k) =
    (if k + 16 < 65536 then b @ group_bytes (k + 16) else [])"
proof -
  let ?s = "getContainerIPv6 base k"
  obtain gs where gs: "parse_all parse_hextet (split_on CHR '':'' base) = Some gs" "b = concat gs"
    "length (split_on CHR '':'' base) = 7"
    using assms by (auto simp: base_prefix6_def parse_groups_def split: if_splits)
  have split: "split_on CHR '':'' ?s = split_on CHR '':'' base @ [hex (k + 16)]"
    using radix_chars(2) [of 16 "k + 16"]
    by (simp add: getContainerIPv6_def split_on_append_gen split_on_free)
  have chars: "CHR ''.'' \<notin> set ?s" "CHR ''%'' \<notin> set ?s" "CHR '':'' \<in> set ?s"
    using base_no_dot [OF gs(1)] radix_chars(1) [of 16 "k + 16"]
      digit_no_dot [OF digits_val_radix [of 16 "k + 16"]] by (auto simp: getContainerIPv6_def)
  show ?thesis
  proof (cases "k + 16 < 65536")
    case True
    then show ?thesis
      using parse_ipv6_full [of ?s] gs parse_hextet_hex [OF True]
      by (simp add: parse_ip_def find_colon [OF chars] split parse_all_append)
  next
    case False
    then have "4 < length (hex (k + 16))" using length_radix_gt [of 16 4 "k + 16"] by simp
    then have "parse_hextet (hex (k + 16)) = None" by (simp add: parse_hextet_def)
    then show ?thesis
      using False parse_ip_None [of "hex (k + 16)" ?s] chars(1) split by simp
  qed
qed

text \<open>
  C10. What a granted IPv6 request is worth: it records for the pod the first free block of the
  subnet and answers the address the subnet's prefix and the block give, except for the last
  block of a full-size subnet, whose number no longer fits a group of four digits: that
  request is granted, and recorded, with a nil address.
\<close>

theorem RequestPodIP6_grant:
  assumes "am_inv6 am" and "base_prefix6 (baseSubnetIP6 am) = Some b"
    and "RequestPodIP6 ns pod am = (Done (ip, None), t)"
  shows "\<exists>j. (\<forall>i<j. taken6 am (16 + 16 * i)) \<and> \<not> taken6 am (16 + 16 * j)
    \<and> int (16 + 16 * j) < maxSubnetIP6 am
    \<and> usedPodAddresses6 t = AList.update (getContainerIPv6 (baseSubnetIP6 am) (16 + 16 * j))
        (ns @ ''_'' @ pod) (usedPodAddresses6 am)
    \<and> ip = (if 32 + 16 * j < 65536
        then b @ [of_nat ((32 + 16 * j) div 256), of_nat ((32 + 16 * j) mod 256)] else [])"
  using assms(1)
proof (cases rule: RequestPodIP6_cases [where ns = ns and pod = pod])
  case (granted j)
  then have "ip = parse_ip (getContainerIPv6 (baseSubnetIP6 am) (16 + 16 * j))"
    and "t = am\<lparr>usedPodAddresses6 := AList.update (getContainerIPv6 (baseSubnetIP6 am) (16 + 16 * j))
        (ns @ ''_'' @ pod) (usedPodAddresses6 am)\<rparr>"
    using assms(3) by (simp_all add: pod_name_def)
  with granted parse_container6 [OF assms(2), of "16 + 16 * j"] show ?thesis
    by (intro exI [of _ j]) (auto simp: taken6_def group_bytes_def)
qed (use assms(3) in auto)

text \<open>A standalone node's IPv6 subnet with every block but the last one given out.\<close>

definition almost_full6 :: ipv6am where
  "almost_full6 = \<lparr>baseSubnetIP6 = ''fd53:7769:726c:1:2:3:4'', subnetReservedIPs6 = 16, subIPsPerPod6 = 16,
     maxSubnetIP6 = 65536, subnetMask6 = 112,
     usedPodAddresses6 = map (\<lambda>j. (getContainerIPv6 ''fd53:7769:726c:1:2:3:4'' (16 + 16 * j), ''pod'')) [0..<4094]\<rparr>"

lemma taken_almost_full6: "taken6 almost_full6 (16 + 16 * j) \<longleftrightarrow> j < 4094"
proof -
  have "getContainerIPv6 b (16 + 16 * j) = getContainerIPv6 b (16 + 16 * i) \<longleftrightarrow> j = i" for b i
    using getContainerIPv6_inj by fastforce
  then have "(j < 4094) = (getContainerIPv6 ''fd53:7769:726c:1:2:3:4'' (16 + 16 * j)
      \<in> fst ` set (usedPodAddresses6 almost_full6))"
    by (auto simp: almost_full6_def image_iff simp del: upt.simps)
  moreover have "baseSubnetIP6 almost_full6 = ''fd53:7769:726c:1:2:3:4''" by (simp add: almost_full6_def)
  ultimately show ?thesis by (simp add: taken6_def map_of_eq_None_iff)
qed

lemma am_inv6_almost_full6: "am_inv6 almost_full6"
proof -
  have "inj_on (\<lambda>j. getContainerIPv6 ''fd53:7769:726c:1:2:3:4'' (16 + 16 * j)) {0..<4094}"
    by (rule inj_onI) (use getContainerIPv6_inj in fastforce)
  then have "distinct (map fst (usedPodAddresses6 almost_full6))"
    by (simp add: almost_full6_def comp_def distinct_map del: upt.simps)
  moreover have "\<exists>i. int (16 + 16 * i) < maxSubnetIP6 almost_full6
      \<and> getContainerIPv6 ''fd53:7769:726c:1:2:3:4'' (16 + 16 * j)
        = getContainerIPv6 (baseSubnetIP6 almost_full6) (16 + 16 * i)" if "j < 4094" for j
    by (rule exI [of _ j]) (use that in \<open>simp add: almost_full6_def\<close>)
  moreover have "fst ` set (usedPodAddresses6 almost_full6)
      = (\<lambda>j. getContainerIPv6 ''fd53:7769:726c:1:2:3:4'' (16 + 16 * j)) ` {0..<4094}"
    by (simp add: almost_full6_def image_image del: upt.simps)
  moreover have "subIPsPerPod6 almost_full6 = 16" "subnetReservedIPs6 almost_full6 = 16"
    by (simp_all add: almost_full6_def)
  ultimately show ?thesis unfolding am_inv6_def by auto
qed

lemma grant_almost_full6:
  "\<exists>ip t. RequestPodIP6 ''default'' ''late'' almost_full6 = (Done (ip, None), t)"
  using am_inv6_almost_full6
proof (cases rule: RequestPodIP6_cases [where ns = "''default''" and pod = "''late''"])
  case (full j)
  then have "4094 < j" by (simp add: almost_full6_def)
  with full(3) [of 4094] show ?thesis by (simp add: taken_almost_full6 [of 4094, simplified])
qed blast

theorem RequestPodIP6_grant_witness:
  "\<exists>t. RequestPodIP6 ''default'' ''late'' almost_full6 = (Done ([], None), t)
    \<and> taken6 t 65520"
proof -
  obtain ip t where run: "RequestPodIP6 ''default'' ''late'' almost_full6 = (Done (ip, None), t)"
    using grant_almost_full6 by blast
  have prefix: "base_prefix6 (baseSubnetIP6 almost_full6)
      = Some [0xfd, 0x53, 0x77, 0x69, 0x72, 0x6c, 0, 1, 0, 2, 0, 3, 0, 4]"
    by (simp add: almost_full6_def base_prefix6_def parse_groups_def parse_hextet_def digit_val_def Let_def)
  obtain j where j: "\<forall>i<j. taken6 almost_full6 (16 + 16 * i)" "\<not> taken6 almost_full6 (16 + 16 * j)"
    "usedPodAddresses6 t = AList.update (getContainerIPv6 (baseSubnetIP6 almost_full6) (16 + 16 * j))
        (''default'' @ ''_'' @ ''late'') (usedPodAddresses6 almost_full6)"
    "ip = [] \<or> 32 + 16 * j < 65536"
    using RequestPodIP6_grant [OF am_inv6_almost_full6 prefix run] by (auto split: if_splits)
  have "j = 4094"
  proof (rule ccontr)
    assume "j \<noteq> 4094"
    with j(2) have "4094 < j" by (simp add: taken_almost_full6)
    with j(1) show False using taken_almost_full6 [of 4094] by blast
  qed
  moreover have "baseSubnetIP6 t = baseSubnetIP6 almost_full6"
    using run
    by (cases rule: RequestPodIP6_cases [OF am_inv6_almost_full6, where ns = "''default''" and pod = "''late''"])
      auto
  ultimately show ?thesis using run j(3,4) by (auto simp: taken6_def update_conv')
qed

section \<open>Standalone subnets\<close>

lemma two_digits:
  assumes "set s \<subseteq> digit ` {..<16}" "length s = 2"
  obtains n where "n \<le> 255" "parse_uint16_hex s = n"
proof -
  obtain c d where s: "s = [c, d]" using assms(2) by (auto simp: numeral_2_eq_2 length_Suc_conv)
  with assms(1) obtain x y where "c = digit x" "d = digit y" "x < 16" "y < 16" by auto
  with s have "parse_uint16_hex s = x * 16 + y" "x * 16 + y \<le> 255"
    by (simp_all add: parse_uint16_hex_def)
  then show thesis using that by blast
qed

lemma parse_ip_octets:
  assumes "p1 \<le> 255" "p2 \<le> 255"
  shows "parse_ip (''10.'' @ itoa p1 @ ''.'' @ itoa p2 @ ''.0'') = v4_prefix @ [10, of_nat p1, of_nat p2, 0]"
proof -
  have "itoa 10 = ''10''" "itoa 0 = ''0''" by (simp_all add: radix.simps digit_def char_of_def bit_0)
  then have "''10.'' @ itoa p1 @ ''.'' @ itoa p2 @ ''.0'' = dotted [10, of_nat p1, of_nat p2, 0]"
    using assms by (simp add: dotted_def unat_of_nat)
  then show ?thesis by (simp add: parse_ip_dotted)
qed

lemma length_hex_ge: "Suc k \<le> length (hex n) \<longleftrightarrow> (k = 0 \<or> 16 ^ k \<le> n)"
proof (cases k)
  case 0
  have "hex n \<noteq> []" by simp
  then have "Suc 0 \<le> length (hex n)" by (simp add: Suc_le_eq)
  with 0 show ?thesis by simp
next
  case (Suc l)
  show ?thesis
  proof (cases "16 ^ k \<le> n")
    case True
    then show ?thesis using length_radix_gt [of 16 k n] by simp
  next
    case False
    then have "n < 16 ^ Suc l" using Suc by simp
    then have "length (hex n) \<le> Suc l" by (intro length_radix_le) simp_all
    with False Suc show ?thesis by simp
  qed
qed

lemma standalone_subnet:
  assumes "\<not> cfgDebug env"
  shows "if 4096 \<le> unat (fnv64a (machineId env))
    then \<exists>p1 p2 am'. p1 \<le> 255 \<and> p2 \<le> 255 \<and> InitStandaloneAddressSpace env am = (Done (), am')
      \<and> am_inv4 am' \<and> usedPodAddresses am' = [] \<and> unat (maxSubnetIP am') = unat (baseSubnetIP am') + 255
      \<and> int2ip (baseSubnetIP am') = [10, of_nat p1, of_nat p2, 0] \<and> gatewayIP am' = baseSubnetIP am' + 1
    else \<exists>am'. InitStandaloneAddressSpace env am = (Panic ''slice bounds out of range'', am')"
proof -
  let ?h = "hex (unat (fnv64a (machineId env)))"
  have len: "4 \<le> length ?h \<longleftrightarrow> 4096 \<le> unat (fnv64a (machineId env))"
    using length_hex_ge [of 3 "unat (fnv64a (machineId env))"] by simp
  have chars: "set ?h \<subseteq> digit ` {..<16}" by (rule set_radix) simp_all
  show ?thesis
  proof (cases "4096 \<le> unat (fnv64a (machineId env))")
    case True
    with len have l4: "4 \<le> length ?h" by simp
    have "set (take 2 ?h) \<subseteq> digit ` {..<16}" "length (take 2 ?h) = 2"
      using chars l4 by (auto dest: in_set_takeD)
    then obtain p1 where p1: "p1 \<le> 255" "parse_uint16_hex (take 2 ?h) = p1" by (rule two_digits)
    have "set (take 2 (drop 2 ?h)) \<subseteq> digit ` {..<16}" "length (take 2 (drop 2 ?h)) = 2"
      using chars l4 by (auto dest!: in_set_takeD in_set_dropD)
    then obtain p2 where p2: "p2 \<le> 255" "parse_uint16_hex (take 2 (drop 2 ?h)) = p2" by (rule two_digits)
    let ?b = "be_uint32 [10, of_nat p1, of_nat p2, 0]"
    have bound: "unat ?b < 2 ^ 28" by (rule be_uint32_less) simp
    then have top: "unat (?b + 255) = unat ?b + 255"
      by (simp add: unat_word_ariths)
    let ?am = "am\<lparr>subnetMask := [255, 255, 255, 0], baseSubnetIP := ?b, maxSubnetIP := ?b + 255,
      subIPsPerPod := 8, gatewayIP := ?b + 1, usedPodAddresses := []\<rparr>"
    have "InitStandaloneAddressSpace env am = (Done (), ?am)"
      using assms l4 p1(2) p2(2) parse_ip_octets [OF p1(1) p2(1)]
      by (simp add: InitStandaloneAddressSpace_def initBaseIPv4_def io_simps Let_def ip2int_def
          v4_prefix_def MaxIPv4IPsPerPod_def)
    moreover have "am_inv4 ?am" using bound top by (simp add: am_inv4_def)
    moreover have "int2ip ?b = [10, of_nat p1, of_nat p2, 0]" by (simp add: int2ip_def be_bytes_uint32)
    ultimately show ?thesis using True p1(1) p2(1) top
      by (simp only: if_True) (intro exI [of _ p1] exI [of _ p2] exI [of _ ?am] conjI; simp)
  next
    case False
    then show ?thesis using len assms
      by (auto simp: InitStandaloneAddressSpace_def initBaseIPv4_def io_simps Let_def)
  qed
qed

text \<open>
  C12. The IPv4 subnet of a standalone node is derived from the hash of the machine ID: it is
  10.p1.p2.0 with 255 addresses, empty and well-formed, for every hash of at least four hex
  digits; the hash is printed without padding, so that a smaller one ends in a slice panic.
\<close>

theorem InitStandaloneAddressSpace_outcome:
  assumes "\<not> cfgDebug env"
  shows "if 4096 \<le> unat (fnv64a (machineId env))
    then \<exists>p1 p2 am'. p1 \<le> 255 \<and> p2 \<le> 255 \<and> InitStandaloneAddressSpace env am = (Done (), am')
      \<and> am_inv4 am' \<and> usedPodAddresses am' = [] \<and> unat (maxSubnetIP am') = unat (baseSubnetIP am') + 255
      \<and> int2ip (baseSubnetIP am') = [10, of_nat p1, of_nat p2, 0] \<and> gatewayIP am' = baseSubnetIP am' + 1
    else \<exists>am'. InitStandaloneAddressSpace env am = (Panic ''slice bounds out of range'', am')"
  using standalone_subnet [OF assms] .

definition sample_env :: host_env where
  "sample_env = \<lparr>cfgDebug = False, cfgCNIPrefix = [], machineId = []\<rparr>"

lemma sample_hash: "unat (fnv64a (machineId sample_env)) = 14695981039346656037"
  by (simp add: sample_env_def fnv64a_def)

theorem InitStandaloneAddressSpace_outcome_witness:
  "\<exists>am'. InitStandaloneAddressSpace sample_env sample_am4 = (Done (), am') \<and> am_inv4 am'
    \<and> \<not> cfgDebug sample_env"
proof -
  have "\<not> cfgDebug sample_env" by (simp add: sample_env_def)
  from InitStandaloneAddressSpace_outcome [OF this, of sample_am4] this show ?thesis
    by (auto simp: sample_hash)
qed

lemma four_digits:
  assumes "set s \<subseteq> digit ` {..<16}" "length s = 4"
  obtains x y where "parse_hextet s = Some [x, y]" "CHR '':'' \<notin> set s"
proof -
  obtain a b c d where s: "s = [a, b, c, d]"
    using assms(2) by (auto simp: numeral_eq_Suc length_Suc_conv)
  with assms(1) obtain w x y z where "a = digit w" "b = digit x" "c = digit y" "d = digit z"
    "w < 16" "x < 16" "y < 16" "z < 16" by auto
  with s show thesis using that by (auto simp: parse_hextet_def digit_neq dest: digit_neq [THEN not_sym])
qed

lemma base_prefix6_standalone:
  assumes "length h = 16" "set h \<subseteq> digit ` {..<16}"
  shows "\<exists>b. base_prefix6 (''fd53:7769:726c:'' @ take 4 h @ '':'' @ take 4 (drop 4 h) @ '':''
      @ take 4 (drop 8 h) @ '':'' @ take 4 (drop 12 h)) = Some b
    \<and> take 6 b = [0xfd, 0x53, 0x77, 0x69, 0x72, 0x6c]"
proof -
  have part: "set (take 4 (drop k h)) \<subseteq> digit ` {..<16}" for k
    using assms(2) by (auto dest!: in_set_takeD in_set_dropD)
  have len: "length (take 4 (drop k h)) = 4" if "k \<le> 12" for k using assms(1) that by simp
  obtain x1 y1 where 1: "parse_hextet (take 4 (drop 0 h)) = Some [x1, y1]" "CHR '':'' \<notin> set (take 4 (drop 0 h))"
    using four_digits [OF part len, of 0] by auto
  obtain x2 y2 where 2: "parse_hextet (take 4 (drop 4 h)) = Some [x2, y2]" "CHR '':'' \<notin> set (take 4 (drop 4 h))"
    using four_digits [OF part len, of 4] by auto
  obtain x3 y3 where 3: "parse_hextet (take 4 (drop 8 h)) = Some [x3, y3]" "CHR '':'' \<notin> set (take 4 (drop 8 h))"
    using four_digits [OF part len, of 8] by auto
  obtain x4 y4 where 4: "parse_hextet (take 4 (drop 12 h)) = Some [x4, y4]" "CHR '':'' \<notin> set (take 4 (drop 12 h))"
    using four_digits [OF part len, of 12] by auto
  have fixed: "parse_hextet ''fd53'' = Some [0xfd, 0x53]" "parse_hextet ''7769'' = Some [0x77, 0x69]"
    "parse_hextet ''726c'' = Some [0x72, 0x6c]"
    by (simp_all add: parse_hextet_def digit_val_def)
  have "split_on CHR '':'' (''fd53:7769:726c:'' @ take 4 h @ '':'' @ take 4 (drop 4 h) @ '':''
      @ take 4 (drop 8 h) @ '':'' @ take 4 (drop 12 h)) = [''fd53'', ''7769'', ''726c'', take 4 (drop 0 h),
        take 4 (drop 4 h), take 4 (drop 8 h), take 4 (drop 12 h)]"
    using 1 2 3 4 by (simp add: split_on_append split_on_free)
  then show ?thesis using 1 2 3 4 fixed by (simp add: base_prefix6_def parse_groups_def)
qed

text \<open>
  C13. The IPv6 subnet of a standalone node lies under the prefix fd53:7769:726c, is empty,
  well-formed and of full size whenever the hash of the machine ID has its sixteen hex digits;
  with a leading zero digit in the hash, which is printed without padding, it is never set up.
\<close>

theorem InitStandaloneAddressSpace6_outcome:
  assumes "\<not> cfgDebug env"
  shows "if 16 ^ 15 \<le> unat (fnv64a (machineId env))
    then \<exists>am' b. InitStandaloneAddressSpace6 env am = (Done (), am') \<and> am_inv6 am'
      \<and> usedPodAddresses6 am' = [] \<and> maxSubnetIP6 am' = 65536
      \<and> base_prefix6 (baseSubnetIP6 am') = Some b \<and> take 6 b = [0xfd, 0x53, 0x77, 0x69, 0x72, 0x6c]
    else InitStandaloneAddressSpace6 env am = (Panic ''slice bounds out of range'', am)"
proof -
  let ?h = "hex (unat (fnv64a (machineId env)))"
  have len: "16 \<le> length ?h \<longleftrightarrow> 16 ^ 15 \<le> unat (fnv64a (machineId env))"
    using length_hex_ge [of 15 "unat (fnv64a (machineId env))"] by simp
  have chars: "set ?h \<subseteq> digit ` {..<16}" by (rule set_radix) simp_all
  have max: "length ?h \<le> 16"
    using length_radix_le [of 16 "unat (fnv64a (machineId env))" 15] unsigned_less [of "fnv64a (machineId env)"]
    by simp
  show ?thesis
  proof (cases "16 ^ 15 \<le> unat (fnv64a (machineId env))")
    case True
    with len max have l: "length ?h = 16" by simp
    let ?base = "''fd53:7769:726c:'' @ take 4 ?h @ '':'' @ take 4 (drop 4 ?h) @ '':''
      @ take 4 (drop 8 ?h) @ '':'' @ take 4 (drop 12 ?h)"
    obtain b where b: "base_prefix6 ?base = Some b" "take 6 b = [0xfd, 0x53, 0x77, 0x69, 0x72, 0x6c]"
      using base_prefix6_standalone [OF l chars] by blast
    let ?am = "am\<lparr>baseSubnetIP6 := ?base, subnetReservedIPs6 := 16,
       subIPsPerPod6 := 16, maxSubnetIP6 := 65536, subnetMask6 := 112, usedPodAddresses6 := []\<rparr>"
    have "InitStandaloneAddressSpace6 env am = (Done (), ?am)"
      using assms l
      by (simp add: InitStandaloneAddressSpace6_def initBaseIPv6_def io_simps Let_def MaxIPv6IPsPerPod_def)
    moreover have "am_inv6 ?am" by (simp add: am_inv6_def)
    ultimately show ?thesis using True b
      by (simp only: if_True) (intro exI [of _ ?am] exI [of _ b] conjI; simp)
  next
    case False
    then show ?thesis using len assms
      by (auto simp: InitStandaloneAddressSpace6_def initBaseIPv6_def io_simps Let_def)
  qed
qed

theorem InitStandaloneAddressSpace6_outcome_witness:
  "\<exists>am'. InitStandaloneAddressSpace6 sample_env almost_full6 = (Done (), am') \<and> am_inv6 am'
    \<and> \<not> cfgDebug sample_env"
proof -
  have "\<not> cfgDebug sample_env" by (simp add: sample_env_def)
  from InitStandaloneAddressSpace6_outcome [OF this, of almost_full6] this show ?thesis
    by (auto simp: sample_hash)
qed

end
