(* ===== verification/AddressPool.thy ===== *)
theory AddressPool
  imports AddressProps
begin

text \<open>
  An abstract specification of the address managers: a pool of numbered blocks, each free or held by a
  pod, as a transition system with nondeterministic releases. Both managers are refinements of it,
  with their words, strings and association lists: whatever is asked of one, in whatever order, the
  pool has the same run.
\<close>

section \<open>The pool\<close>

record pool =
  blocks :: nat
  holder :: "nat \<Rightarrow> string option"

datatype pool_call = Take string | Give string

datatype pool_answer = Block nat | OutOfBlocks | Given

text \<open>A request takes the first free block; a release gives back one block of the pod, if it has any.\<close>

inductive pool_step :: "pool \<Rightarrow> pool_call \<Rightarrow> pool_answer \<Rightarrow> pool \<Rightarrow> bool" where
  take_first: "k < blocks p \<Longrightarrow> holder p k = None \<Longrightarrow> (\<And>j. j < k \<Longrightarrow> holder p j \<noteq> None) \<Longrightarrow>
    pool_step p (Take name) (Block k) (p\<lparr>holder := (holder p)(k \<mapsto> name)\<rparr>)"
| take_none: "(\<And>j. j < blocks p \<Longrightarrow> holder p j \<noteq> None) \<Longrightarrow> pool_step p (Take name) OutOfBlocks p"
| give_one: "holder p k = Some name \<Longrightarrow> pool_step p (Give name) Given (p\<lparr>holder := (holder p)(k := None)\<rparr>)"
| give_none: "name \<notin> ran (holder p) \<Longrightarrow> pool_step p (Give name) Given p"

inductive_simps pool_take: "pool_step p (Take name) a q"
inductive_simps pool_give: "pool_step p (Give name) a q"

inductive pool_run :: "pool \<Rightarrow> pool_call list \<Rightarrow> pool_answer list \<Rightarrow> pool \<Rightarrow> bool" where
  run_none: "pool_run p [] [] p"
| run_more: "pool_step p c a q \<Longrightarrow> pool_run q cs as r \<Longrightarrow> pool_run p (c # cs) (a # as) r"

text \<open>What the pool guarantees by itself: a block that is taken had no holder, and others keep theirs.\<close>

lemma pool_step_blocks: "pool_step p c a q \<Longrightarrow> blocks q = blocks p"
  by (induction rule: pool_step.induct) simp_all

lemma pool_run_blocks: "pool_run p cs as q \<Longrightarrow> blocks q = blocks p"
  by (induction rule: pool_run.induct) (simp_all add: pool_step_blocks)

section \<open>Refinement\<close>

text \<open>
  A client's calls on a manager: requests for a pod and releases, each release with the order in which
  the runtime walks the map that time. \<open>pool_call_of\<close> is the call of the pool it stands for, and
  \<open>answers\<close> relates the two answers.
\<close>

datatype 'e client_call = Request string string | Release "'e list \<Rightarrow> 'e list" string string

type_synonym client_answer = "(ip_bytes \<times> goerr) option"

definition client_step :: "(string \<Rightarrow> string \<Rightarrow> ('s, ip_bytes \<times> goerr) io) \<Rightarrow>
    (('e list \<Rightarrow> 'e list) \<Rightarrow> string \<Rightarrow> string \<Rightarrow> ('s, goerr) io) \<Rightarrow> 'e client_call \<Rightarrow> ('s, client_answer) io" where
  "client_step request free c = (case c of
     Request ns pod \<Rightarrow> bnd (request ns pod) (\<lambda>r. ret (Some r))
   | Release ord ns pod \<Rightarrow> bnd (free ord ns pod) (\<lambda>_. ret None))"

primrec client_run :: "(string \<Rightarrow> string \<Rightarrow> ('s, ip_bytes \<times> goerr) io) \<Rightarrow>
    (('e list \<Rightarrow> 'e list) \<Rightarrow> string \<Rightarrow> string \<Rightarrow> ('s, goerr) io) \<Rightarrow> 'e client_call list \<Rightarrow> ('s, client_answer list) io" where
  "client_run request free [] = ret []"
| "client_run request free (c # cs) =
     bnd (client_step request free c) (\<lambda>r. bnd (client_run request free cs) (\<lambda>rs. ret (r # rs)))"

definition fair_call :: "'e client_call \<Rightarrow> bool" where
  "fair_call c \<longleftrightarrow> (case c of Request _ _ \<Rightarrow> True | Release ord _ _ \<Rightarrow> \<forall>xs. set (ord xs) = set xs)"

definition pool_call_of :: "'e client_call \<Rightarrow> pool_call" where
  "pool_call_of c = (case c of Request ns pod \<Rightarrow> Take (pod_name ns pod) | Release _ ns pod \<Rightarrow> Give (pod_name ns pod))"

fun answers :: "(nat \<Rightarrow> ip_bytes) \<Rightarrow> pool_answer \<Rightarrow> client_answer \<Rightarrow> bool" where
  "answers addr (Block k) (Some (ip, None)) \<longleftrightarrow> ip = addr k"
| "answers addr OutOfBlocks (Some (ip, Some e)) \<longleftrightarrow> ip = []"
| "answers addr Given None \<longleftrightarrow> True"
| "answers addr _ _ \<longleftrightarrow> False"

text \<open>The simulation squares a manager owes.\<close>

locale pool_refinement =
  fixes request :: "string \<Rightarrow> string \<Rightarrow> ('s, ip_bytes \<times> goerr) io"
    and free :: "('e list \<Rightarrow> 'e list) \<Rightarrow> string \<Rightarrow> string \<Rightarrow> ('s, goerr) io"
    and abstraction :: "'s \<Rightarrow> pool"
    and address :: "'s \<Rightarrow> nat \<Rightarrow> ip_bytes"
    and inv :: "'s \<Rightarrow> bool"
  assumes request_square: "inv s \<Longrightarrow> \<exists>r t a. request ns pod s = (Done r, t) \<and> inv t \<and> address t = address s
      \<and> pool_step (abstraction s) (Take (pod_name ns pod)) a (abstraction t) \<and> answers (address s) a (Some r)"
    and free_square: "inv s \<Longrightarrow> (\<And>xs. set (ord xs) = set xs) \<Longrightarrow> \<exists>t. free ord ns pod s = (Done None, t) \<and> inv t
      \<and> address t = address s \<and> pool_step (abstraction s) (Give (pod_name ns pod)) Given (abstraction t)"
begin

lemma step_refines:
  assumes "inv s" "fair_call c"
  shows "\<exists>r t a. client_step request free c s = (Done r, t) \<and> inv t \<and> address t = address s
      \<and> pool_step (abstraction s) (pool_call_of c) a (abstraction t) \<and> answers (address s) a r"
proof (cases c)
  case (Request ns pod)
  obtain r t a where "request ns pod s = (Done r, t)" "inv t" "address t = address s"
    "pool_step (abstraction s) (Take (pod_name ns pod)) a (abstraction t)" "answers (address s) a (Some r)"
    using request_square [OF assms(1)] by blast
  then show ?thesis unfolding Request pool_call_of_def client_step_def
    by (intro exI [of _ "Some r"] exI [of _ t] exI [of _ a]) (simp add: bnd_apply ret_apply)
next
  case (Release ord ns pod)
  have "set (ord xs) = set xs" for xs using assms(2) Release by (simp add: fair_call_def)
  then obtain t where "free ord ns pod s = (Done None, t)" "inv t" "address t = address s"
    "pool_step (abstraction s) (Give (pod_name ns pod)) Given (abstraction t)"
    using free_square [OF assms(1)] by blast
  then show ?thesis unfolding Release pool_call_of_def client_step_def
    by (intro exI [of _ None] exI [of _ t] exI [of _ Given]) (simp add: bnd_apply ret_apply)
qed

lemma run_refines:
  "inv s \<Longrightarrow> \<forall>c \<in> set cs. fair_call c \<Longrightarrow>
    \<exists>rs t as. client_run request free cs s = (Done rs, t) \<and> inv t \<and> address t = address s
     \<and> pool_run (abstraction s) (map pool_call_of cs) as (abstraction t) \<and> list_all2 (answers (address s)) as rs"
proof (induction cs arbitrary: s)
  case Nil
  then show ?case by (auto simp: ret_apply intro: run_none)
next
  case (Cons c cs)
  from Cons.prems have "fair_call c" by simp
  then obtain r t a where step: "client_step request free c s = (Done r, t)" "inv t" "address t = address s"
      "pool_step (abstraction s) (pool_call_of c) a (abstraction t)" "answers (address s) a r"
    using step_refines [OF Cons.prems(1)] by blast
  obtain rs u as where rest: "client_run request free cs t = (Done rs, u)" "inv u" "address u = address t"
    "pool_run (abstraction t) (map pool_call_of cs) as (abstraction u)" "list_all2 (answers (address t)) as rs"
    using Cons.IH [OF step(2)] Cons.prems(2) by auto
  have "pool_run (abstraction s) (map pool_call_of (c # cs)) (a # as) (abstraction u)"
    using run_more [OF step(4) rest(4)] by simp
  with step rest show ?case
    by (intro exI [of _ "r # rs"] exI [of _ u] exI [of _ "a # as"]) (simp add: bnd_apply ret_apply)
qed

end

section \<open>IPv4\<close>

definition pool4 :: "ipv4am \<Rightarrow> pool" where
  "pool4 am = \<lparr>blocks = capacity4 am,
     holder = (\<lambda>k. if k < capacity4 am then map_of (usedPodAddresses am) (block4 am k) else None)\<rparr>"

lemma pool4_simps [simp]:
  "blocks (pool4 am) = capacity4 am"
  "holder (pool4 am) k = (if k < capacity4 am then map_of (usedPodAddresses am) (block4 am k) else None)"
  by (simp_all add: pool4_def)

lemma unat_block4_below: "am_inv4 am \<Longrightarrow> k < capacity4 am \<Longrightarrow> unat (block4 am k) = unat (baseSubnetIP am) + 8 + 8 * k"
  using less_capacity4 [of am k] by (intro unat_block4) (auto simp: am_inv4_def)

lemma block4_inj: "am_inv4 am \<Longrightarrow> j < capacity4 am \<Longrightarrow> k < capacity4 am \<Longrightarrow> block4 am j = block4 am k \<longleftrightarrow> j = k"
  using unat_block4_below [of am j] unat_block4_below [of am k] by (metis add_left_cancel mult_left_cancel zero_neq_numeral)

lemma used_block4:
  assumes "am_inv4 am" "map_of (usedPodAddresses am) ip \<noteq> None"
  obtains k where "k < capacity4 am" "ip = block4 am k"
proof -
  have "ip \<in> fst ` set (usedPodAddresses am)" using assms(2) by (simp add: map_of_eq_None_iff)
  then obtain k where k: "unat ip = unat (baseSubnetIP am) + 8 + 8 * k" "unat ip < unat (maxSubnetIP am)"
    using assms(1) unfolding am_inv4_def by blast
  then have "k < capacity4 am" using less_capacity4 [OF assms(1)] by simp
  moreover from this k(1) have "ip = block4 am k"
    using unat_block4_below [OF assms(1)] by (simp add: word_unat_eq_iff)
  ultimately show thesis by (rule that)
qed

lemma used_fields [simp]:
  "capacity4 (am\<lparr>usedPodAddresses := u\<rparr>) = capacity4 am" "block4 (am\<lparr>usedPodAddresses := u\<rparr>) = block4 am"
  by (auto simp: capacity4_def block4_def)

lemma request_square4:
  assumes "am_inv4 am"
  shows "\<exists>r t a. RequestPodIP ns pod am = (Done r, t) \<and> am_inv4 t
      \<and> (\<lambda>k. be_bytes (block4 t k)) = (\<lambda>k. be_bytes (block4 am k))
      \<and> pool_step (pool4 am) (Take (pod_name ns pod)) a (pool4 t) \<and> answers (\<lambda>k. be_bytes (block4 am k)) a (Some r)"
  using assms
proof (cases rule: RequestPodIP_cases [where ns = ns and pod = pod])
  case (granted k)
  let ?t = "am\<lparr>usedPodAddresses := AList.update (block4 am k) (pod_name ns pod) (usedPodAddresses am)\<rparr>"
  have k: "k < capacity4 am" using granted(2,3) less_capacity4 [OF assms] by simp
  have "pool4 ?t = (pool4 am)\<lparr>holder := (holder (pool4 am))(k \<mapsto> pod_name ns pod)\<rparr>"
    using k block4_inj [OF assms] by (auto simp: pool4_def update_conv')
  moreover have "pool_step (pool4 am) (Take (pod_name ns pod)) (Block k)
      ((pool4 am)\<lparr>holder := (holder (pool4 am))(k \<mapsto> pod_name ns pod)\<rparr>)"
    using k granted(4,5) by (intro take_first) (auto simp: taken4_def)
  moreover have "am_inv4 ?t" using am_inv4_RequestPodIP [OF assms, of ns pod] granted(1) by simp
  ultimately show ?thesis using granted(1)
    by (intro exI [of _ "(int2ip (block4 am k), None)"] exI [of _ ?t] exI [of _ "Block k"]) (simp add: int2ip_def)
next
  case (full k)
  have "capacity4 am \<le> k" using full(2) less_capacity4 [OF assms, of k] by simp
  then have "pool_step (pool4 am) (Take (pod_name ns pod)) OutOfBlocks (pool4 am)"
    using full(3) by (intro take_none) (auto simp: taken4_def)
  with full(1) assms show ?thesis by fastforce
qed

lemma free_square4:
  assumes "am_inv4 am" "\<And>xs. set (ord xs) = set xs"
  shows "\<exists>t. FreePodIP ord ns pod am = (Done None, t) \<and> am_inv4 t
      \<and> (\<lambda>k. be_bytes (block4 t k)) = (\<lambda>k. be_bytes (block4 am k))
      \<and> pool_step (pool4 am) (Give (pod_name ns pod)) Given (pool4 t)"
  using assms
proof (cases rule: FreePodIP_cases [where ns = ns and pod = pod])
  case (freed ip)
  let ?t = "am\<lparr>usedPodAddresses := AList.delete ip (usedPodAddresses am)\<rparr>"
  obtain k where k: "k < capacity4 am" "ip = block4 am k" using used_block4 [OF assms(1)] freed(1) by blast
  have "pool4 ?t = (pool4 am)\<lparr>holder := (holder (pool4 am))(k := None)\<rparr>"
    using k block4_inj [OF assms(1)] by (auto simp: pool4_def delete_conv')
  moreover have "pool_step (pool4 am) (Give (pod_name ns pod)) Given ((pool4 am)\<lparr>holder := (holder (pool4 am))(k := None)\<rparr>)"
    using k freed(1) by (intro give_one) simp
  moreover have "am_inv4 ?t" using am_inv4_FreePodIP [OF assms, of ns pod] freed(2) by simp
  ultimately show ?thesis using freed(2) by (intro exI [of _ ?t]) simp
next
  case none
  have "pod_name ns pod \<notin> ran (holder (pool4 am))"
    using none(1) by (auto simp: ran_def split: if_splits)
  then have "pool_step (pool4 am) (Give (pod_name ns pod)) Given (pool4 am)" by (rule give_none)
  with none(2) assms(1) show ?thesis by blast
qed

interpretation pool4: pool_refinement RequestPodIP FreePodIP pool4 "\<lambda>am k. be_bytes (block4 am k)" am_inv4
  by (rule pool_refinement.intro) (rule request_square4 free_square4, assumption+)+

section \<open>IPv6\<close>

definition capacity6 :: "ipv6am \<Rightarrow> nat" where
  "capacity6 am = nat ((maxSubnetIP6 am - 1) div 16)"

lemma less_capacity6: "k < capacity6 am \<longleftrightarrow> int (16 + 16 * k) < maxSubnetIP6 am"
  unfolding capacity6_def by linarith

definition block6 :: "ipv6am \<Rightarrow> nat \<Rightarrow> string" where
  "block6 am k = getContainerIPv6 (baseSubnetIP6 am) (16 + 16 * k)"

lemma block6_inj [simp]: "block6 am j = block6 am k \<longleftrightarrow> j = k"
  using getContainerIPv6_inj [of "baseSubnetIP6 am" "16 + 16 * j" "16 + 16 * k"] by (auto simp: block6_def)

definition pool6 :: "ipv6am \<Rightarrow> pool" where
  "pool6 am = \<lparr>blocks = capacity6 am,
     holder = (\<lambda>k. if k < capacity6 am then map_of (usedPodAddresses6 am) (block6 am k) else None)\<rparr>"

lemma pool6_simps [simp]:
  "blocks (pool6 am) = capacity6 am"
  "holder (pool6 am) k = (if k < capacity6 am then map_of (usedPodAddresses6 am) (block6 am k) else None)"
  by (simp_all add: pool6_def)

lemma used_block6:
  assumes "am_inv6 am" "map_of (usedPodAddresses6 am) a \<noteq> None"
  obtains k where "k < capacity6 am" "a = block6 am k"
proof -
  have "a \<in> fst ` set (usedPodAddresses6 am)" using assms(2) by (simp add: map_of_eq_None_iff)
  then obtain k where "int (16 + 16 * k) < maxSubnetIP6 am" "a = getContainerIPv6 (baseSubnetIP6 am) (16 + 16 * k)"
    using assms(1) unfolding am_inv6_def by blast
  then show thesis using that [of k] less_capacity6 by (simp add: block6_def)
qed

lemma used_fields6 [simp]:
  "capacity6 (am\<lparr>usedPodAddresses6 := u\<rparr>) = capacity6 am" "block6 (am\<lparr>usedPodAddresses6 := u\<rparr>) = block6 am"
  by (auto simp: capacity6_def block6_def)

lemma request_square6:
  assumes "am_inv6 am"
  shows "\<exists>r t a. RequestPodIP6 ns pod am = (Done r, t) \<and> am_inv6 t
      \<and> (\<lambda>k. parse_ip (block6 t k)) = (\<lambda>k. parse_ip (block6 am k))
      \<and> pool_step (pool6 am) (Take (pod_name ns pod)) a (pool6 t) \<and> answers (\<lambda>k. parse_ip (block6 am k)) a (Some r)"
  using assms
proof (cases rule: RequestPodIP6_cases [where ns = ns and pod = pod])
  case (granted k)
  let ?t = "am\<lparr>usedPodAddresses6 := AList.update (block6 am k) (pod_name ns pod) (usedPodAddresses6 am)\<rparr>"
  have k: "k < capacity6 am" using granted(2) less_capacity6 by simp
  have run: "RequestPodIP6 ns pod am = (Done (parse_ip (block6 am k), None), ?t)" using granted(1) by (simp add: block6_def)
  have "pool6 ?t = (pool6 am)\<lparr>holder := (holder (pool6 am))(k \<mapsto> pod_name ns pod)\<rparr>"
    using k by (auto simp: pool6_def update_conv')
  moreover have "pool_step (pool6 am) (Take (pod_name ns pod)) (Block k)
      ((pool6 am)\<lparr>holder := (holder (pool6 am))(k \<mapsto> pod_name ns pod)\<rparr>)"
    using k granted(3,4) by (intro take_first) (auto simp: taken6_def block6_def)
  moreover have "am_inv6 ?t" using am_inv6_RequestPodIP6 [OF assms, of ns pod] run by simp
  ultimately show ?thesis using run
    by (intro exI [of _ "(parse_ip (block6 am k), None)"] exI [of _ ?t] exI [of _ "Block k"]) simp
next
  case (full k)
  have "capacity6 am \<le> k" using full(2) less_capacity6 [of k am] by simp
  then have "pool_step (pool6 am) (Take (pod_name ns pod)) OutOfBlocks (pool6 am)"
    using full(3) by (intro take_none) (auto simp: taken6_def block6_def)
  with full(1) assms show ?thesis by fastforce
qed

lemma free_square6:
  assumes "am_inv6 am" "\<And>xs. set (ord xs) = set xs"
  shows "\<exists>t. FreePodIP6 ord ns pod am = (Done None, t) \<and> am_inv6 t
      \<and> (\<lambda>k. parse_ip (block6 t k)) = (\<lambda>k. parse_ip (block6 am k))
      \<and> pool_step (pool6 am) (Give (pod_name ns pod)) Given (pool6 t)"
  using assms
proof (cases rule: FreePodIP6_cases [where ns = ns and pod = pod])
  case (freed a)
  let ?t = "am\<lparr>usedPodAddresses6 := AList.delete a (usedPodAddresses6 am)\<rparr>"
  obtain k where k: "k < capacity6 am" "a = block6 am k" using used_block6 [OF assms(1)] freed(1) by blast
  have "pool6 ?t = (pool6 am)\<lparr>holder := (holder (pool6 am))(k := None)\<rparr>"
    using k by (auto simp: pool6_def delete_conv')
  moreover have "pool_step (pool6 am) (Give (pod_name ns pod)) Given ((pool6 am)\<lparr>holder := (holder (pool6 am))(k := None)\<rparr>)"
    using k freed(1) by (intro give_one) simp
  moreover have "am_inv6 ?t" using am_inv6_FreePodIP6 [OF assms, of ns pod] freed(2) by simp
  ultimately show ?thesis using freed(2) by (intro exI [of _ ?t]) simp
next
  case none
  have "pod_name ns pod \<notin> ran (holder (pool6 am))"
    using none(1) by (auto simp: ran_def split: if_splits)
  then have "pool_step (pool6 am) (Give (pod_name ns pod)) Given (pool6 am)" by (rule give_none)
  with none(2) assms(1) show ?thesis by blast
qed

interpretation pool6: pool_refinement RequestPodIP6 FreePodIP6 pool6 "\<lambda>am k. parse_ip (block6 am k)" am_inv6
  by (rule pool_refinement.intro) (rule request_square6 free_square6, assumption+)+

section \<open>Both managers\<close>

text \<open>
  C5. Both address managers refine the same abstract pool of blocks. Whatever sequence of requests and
  releases they are given, with the maps walked in any order, they answer every call, and there is a
  run of the pool with corresponding answers: a granted address is that of the pool's first free
  block, a request is refused exactly when the pool has none, a release frees one block of the pod.
\<close>

theorem address_managers_refine_pool:
  "(am_inv4 am \<and> (\<forall>c \<in> set cs. fair_call c) \<longrightarrow>
     (\<exists>rs am' as. client_run RequestPodIP FreePodIP cs am = (Done rs, am') \<and> am_inv4 am'
       \<and> pool_run (pool4 am) (map pool_call_of cs) as (pool4 am') \<and> list_all2 (answers (\<lambda>k. be_bytes (block4 am k))) as rs))
   \<and> (am_inv6 am6 \<and> (\<forall>c \<in> set cs6. fair_call c) \<longrightarrow>
     (\<exists>rs am' as. client_run RequestPodIP6 FreePodIP6 cs6 am6 = (Done rs, am') \<and> am_inv6 am'
       \<and> pool_run (pool6 am6) (map pool_call_of cs6) as (pool6 am') \<and> list_all2 (answers (\<lambda>k. parse_ip (block6 am6 k))) as rs))"
  using pool4.run_refines [of am cs] pool6.run_refines [of am6 cs6] by blast

theorem address_managers_refine_pool_witness:
  "(\<exists>rs am' as. client_run RequestPodIP FreePodIP [Request ''default'' ''a'', Release rev ''default'' ''a''] sample_am4 = (Done rs, am')
     \<and> pool_run (pool4 sample_am4) [Take ''default_a'', Give ''default_a''] as (pool4 am')
     \<and> list_all2 (answers (\<lambda>k. be_bytes (block4 sample_am4 k))) as rs)
   \<and> (\<exists>rs am' as. client_run RequestPodIP6 FreePodIP6 [Request ''default'' ''a''] almost_full6 = (Done rs, am')
     \<and> pool_run (pool6 almost_full6) [Take ''default_a''] as (pool6 am'))"
proof -
  let ?cs = "[Request ''default'' ''a'', Release rev ''default'' ''a'']"
  have "\<forall>c \<in> set ?cs. fair_call c" by (simp add: fair_call_def)
  moreover have "\<forall>c \<in> set [Request ''default'' ''a'']. fair_call c" by (simp add: fair_call_def)
  ultimately show ?thesis
    using address_managers_refine_pool [of sample_am4 ?cs almost_full6 "[Request ''default'' ''a'']"]
      am_inv4_sample am_inv6_almost_full6
    by (simp add: pool_call_of_def pod_name_def) blast
qed

end
