(* ===== verification/AddressRace.thy ===== *)
theory AddressRace
  imports AddressSpec
begin

text \<open>
  Requests for blocks at the same time. Nothing in \<open>pkg/network\<close> or \<open>pkg/provider\<close> takes a lock, while
  the web service answers every request in a goroutine of its own and the library of the cluster mode
  creates pods from several workers (\<open>PodSyncWorkers\<close>). Here \<open>RequestPodIP\<close> is cut at its accesses to the
  shared map: a goroutine tests one candidate, begins to write the one it settled on, and ends that write.
  A schedule is the list of the goroutines that move. The candidates, the limit and the form of an address
  are read from fields that no request writes.

  Go's runtime ends the process with a fatal error when it sees an access to a map that another goroutine is
  writing (\<open>concurrent map read and map write\<close>, \<open>concurrent map writes\<close>). Its check is best effort, and Go
  promises nothing about an access it misses; either way the run is over, which is the outcome \<^const>\<open>None\<close>.
\<close>

section \<open>Goroutines\<close>

record ('s, 'a) request_ops =
  first_cand :: "'s \<Rightarrow> 'a"
  next_cand :: "'s \<Rightarrow> 'a \<Rightarrow> 'a"
  is_taken :: "'s \<Rightarrow> 'a \<Rightarrow> bool"
  in_subnet :: "'s \<Rightarrow> 'a \<Rightarrow> bool"
  store_cand :: "'a \<Rightarrow> string \<Rightarrow> 's \<Rightarrow> 's"
  cand_ip :: "'s \<Rightarrow> 'a \<Rightarrow> ip_bytes"

definition request_ops4 :: "(ipv4am, u32) request_ops" where
  "request_ops4 = \<lparr>first_cand = (\<lambda>am. baseSubnetIP am + of_nat MaxIPv4IPsPerPod),
     next_cand = (\<lambda>am ip. ip + of_nat (subIPsPerPod am)),
     is_taken = (\<lambda>am ip. map_of (usedPodAddresses am) ip \<noteq> None),
     in_subnet = (\<lambda>am ip. ip < maxSubnetIP am),
     store_cand = (\<lambda>ip podName am. am\<lparr>usedPodAddresses := AList.update ip podName (usedPodAddresses am)\<rparr>),
     cand_ip = (\<lambda>am. int2ip)\<rparr>"

definition request_ops6 :: "(ipv6am, nat) request_ops" where
  "request_ops6 = \<lparr>first_cand = subnetReservedIPs6,
     next_cand = (\<lambda>am k. k + subIPsPerPod6 am),
     is_taken = (\<lambda>am k. map_of (usedPodAddresses6 am) (getContainerIPv6 (baseSubnetIP6 am) k) \<noteq> None),
     in_subnet = (\<lambda>am k. int k < maxSubnetIP6 am),
     store_cand = (\<lambda>k podName am. am\<lparr>usedPodAddresses6 :=
        AList.update (getContainerIPv6 (baseSubnetIP6 am) k) podName (usedPodAddresses6 am)\<rparr>),
     cand_ip = (\<lambda>am k. parse_ip (getContainerIPv6 (baseSubnetIP6 am) k))\<rparr>"

text \<open>
  Where a goroutine is: before the test of a candidate, before or inside the write of its entry, or at one of
  the two returns.
\<close>

datatype 'a goroutine = Testing 'a | Storing 'a | Writing 'a | Granted 'a | Refused

fun goroutine_step :: "('s, 'a) request_ops \<Rightarrow> string \<Rightarrow> 's \<Rightarrow> 'a goroutine \<Rightarrow> 's \<times> 'a goroutine" where
  "goroutine_step r podName s (Testing x) =
     (s, if is_taken r s x then Testing (next_cand r s x) else if in_subnet r s x then Storing x else Refused)"
| "goroutine_step r podName s (Storing x) = (s, Writing x)"
| "goroutine_step r podName s (Writing x) = (store_cand r x podName s, Granted x)"
| "goroutine_step r podName s g = (s, g)"

fun reply :: "('s, 'a) request_ops \<Rightarrow> 's \<Rightarrow> 'a goroutine \<Rightarrow> (ip_bytes \<times> goerr) option" where
  "reply r s (Granted x) = Some (cand_ip r s x, None)"
| "reply r s Refused = Some ([], Some (Errorf ''Out of IP addresses'' []))"
| "reply r s g = None"

text \<open>A manager with the goroutines at work on it, each with the name of its pod.\<close>

type_synonym ('s, 'a) requests = "'s \<times> (string \<times> 'a goroutine) list"

definition begin_requests :: "('s, 'a) request_ops \<Rightarrow> string list \<Rightarrow> 's \<Rightarrow> ('s, 'a) requests" where
  "begin_requests r names s = (s, map (\<lambda>n. (n, Testing (first_cand r s))) names)"

text \<open>Whether the next move of a goroutine begins an access to the map, and whether another one is writing.\<close>

fun touches :: "'a goroutine \<Rightarrow> bool" where
  "touches (Testing x) = True"
| "touches (Storing x) = True"
| "touches g = False"

fun writing :: "'a goroutine \<Rightarrow> bool" where
  "writing (Writing x) = True"
| "writing g = False"

definition other_writes :: "nat \<Rightarrow> (string \<times> 'a goroutine) list \<Rightarrow> bool" where
  "other_writes i gs \<longleftrightarrow> list_ex (\<lambda>j. j \<noteq> i \<and> writing (snd (gs ! j))) [0..<length gs]"

definition move :: "('s, 'a) request_ops \<Rightarrow> nat \<Rightarrow> ('s, 'a) requests \<Rightarrow> ('s, 'a) requests option" where
  "move r i c = (case c of (s, gs) \<Rightarrow> if i < length gs
     then (case gs ! i of (n, g) \<Rightarrow> if touches g \<and> other_writes i gs then None
       else (case goroutine_step r n s g of (t, g') \<Rightarrow> Some (t, gs[i := (n, g')])))
     else Some (s, gs))"

primrec run_schedule :: "('s, 'a) request_ops \<Rightarrow> nat list \<Rightarrow> ('s, 'a) requests \<Rightarrow> ('s, 'a) requests option" where
  "run_schedule r [] c = Some c"
| "run_schedule r (i # sch) c = (case move r i c of None \<Rightarrow> None | Some c' \<Rightarrow> run_schedule r sch c')"

lemma run_schedule_append:
  "run_schedule r (xs @ ys) c = (case run_schedule r xs c of None \<Rightarrow> None | Some c' \<Rightarrow> run_schedule r ys c')"
  by (induction xs arbitrary: c) (simp_all split: option.split)

text \<open>The only end of a run before its schedule is an access to the map while another goroutine writes it.\<close>

lemma run_aborted:
  "run_schedule r sch c = None \<Longrightarrow> \<exists>xs i ys s gs. sch = xs @ i # ys \<and> run_schedule r xs c = Some (s, gs)
     \<and> i < length gs \<and> touches (snd (gs ! i)) \<and> other_writes i gs"
proof (induction sch arbitrary: c)
  case (Cons i sch)
  show ?case
  proof (cases "move r i c")
    case None
    then have "i < length (snd c) \<and> touches (snd (snd c ! i)) \<and> other_writes i (snd c)"
      by (auto simp: move_def split: if_splits prod.splits)
    then show ?thesis by (intro exI [of _ "[]"] exI [of _ i] exI [of _ sch] exI [of _ "fst c"] exI [of _ "snd c"]) simp
  next
    case (Some c')
    with Cons.prems have "run_schedule r sch c' = None" by simp
    from Cons.IH [OF this] obtain xs j ys s gs where "sch = xs @ j # ys" "run_schedule r xs c' = Some (s, gs)"
      "j < length gs" "touches (snd (gs ! j))" "other_writes j gs" by blast
    with Some show ?thesis by (intro exI [of _ "i # xs"]) auto
  qed
qed simp

lemma other_writes_iff: "other_writes i gs \<longleftrightarrow> (\<exists>j < length gs. j \<noteq> i \<and> writing (snd (gs ! j)))"
  by (auto simp: other_writes_def list_ex_iff)

lemma other_writes_update [simp]: "other_writes i (gs[i := x]) = other_writes i gs"
  by (auto simp: other_writes_iff)

lemma move_SomeE:
  assumes "move r i (s, gs) = Some c"
  obtains "\<not> i < length gs" "c = (s, gs)"
  | n g t g' where "i < length gs" "gs ! i = (n, g)" "\<not> (touches g \<and> other_writes i gs)"
      "goroutine_step r n s g = (t, g')" "c = (t, gs[i := (n, g')])"
  using assms by (fastforce simp: move_def split: if_splits prod.splits)

text \<open>
  Schedules in which a goroutine that has chosen a candidate ends the write of its entry before another one
  chooses.
\<close>

fun chosen :: "'a goroutine \<Rightarrow> 'a option" where
  "chosen (Storing x) = Some x"
| "chosen (Writing x) = Some x"
| "chosen g = None"

definition storing :: "('s, 'a) requests \<Rightarrow> nat" where
  "storing c = length (filter (\<lambda>g. chosen (snd g) \<noteq> None) (snd c))"

primrec one_at_a_time :: "('s, 'a) request_ops \<Rightarrow> nat list \<Rightarrow> ('s, 'a) requests \<Rightarrow> bool" where
  "one_at_a_time r [] c = True"
| "one_at_a_time r (i # sch) c \<longleftrightarrow> (case move r i c of None \<Rightarrow> True
     | Some c' \<Rightarrow> storing c' \<le> 1 \<and> one_at_a_time r sch c')"

text \<open>The whole request, as the managers have it.\<close>

definition request_of :: "('s, 'a) request_ops \<Rightarrow> string \<Rightarrow> ('s, ip_bytes \<times> goerr) io" where
  "request_of r podName = bnd get_st (\<lambda>s. case probe (is_taken r s) (next_cand r s) (first_cand r s) of
     None \<Rightarrow> diverge
   | Some x \<Rightarrow> if in_subnet r s x then bnd (modify (store_cand r x podName)) (\<lambda>_. ret (cand_ip r s x, None))
       else ret ([], Some (Errorf ''Out of IP addresses'' [])))"

lemma RequestPodIP_request_of: "RequestPodIP ns pod = request_of request_ops4 (pod_name ns pod)"
  by (rule ext) (simp add: RequestPodIP_def request_of_def request_ops4_def Let_def io_simps split: option.split)

lemma RequestPodIP6_request_of: "RequestPodIP6 ns pod = request_of request_ops6 (pod_name ns pod)"
  by (rule ext) (simp add: RequestPodIP6_def request_of_def request_ops6_def Let_def io_simps split: option.split)

section \<open>Searches that nobody disturbs\<close>

lemma probe_iterates:
  fixes x y :: 'b
  assumes "probe p f x = Some y"
  shows "\<exists>k. y = (f ^^ k) x \<and> \<not> p y \<and> (\<forall>j < k. p ((f ^^ j) x))"
proof -
  define P where "P p f x y \<longleftrightarrow> (\<exists>k. y = (f ^^ k) x \<and> \<not> p y \<and> (\<forall>j < k. p ((f ^^ j) x)))"
    for p and f :: "'b \<Rightarrow> 'b" and x y
  have once: "P p f x y" if "\<And>p f x y. loop p f x = Some y \<Longrightarrow> P p f x y"
    "(if p x then loop p f (f x) else Some x) = Some y" for loop p f and x y :: 'b
  proof (cases "p x")
    case True
    then have "P p f (f x) y" using that by simp
    then obtain k where k: "y = (f ^^ k) (f x)" "\<not> p y" "\<forall>j < k. p ((f ^^ j) (f x))"
      unfolding P_def by blast
    have "p ((f ^^ j) x)" if "j < Suc k" for j
      using that True k(3) by (cases j) (simp_all add: funpow_swap1)
    with k(1,2) show ?thesis unfolding P_def by (intro exI [of _ "Suc k"]) (simp add: funpow_swap1)
  next
    case False
    with that(2) show ?thesis unfolding P_def by (intro exI [of _ 0]) simp
  qed
  have "P p f x y"
    by (rule probe.raw_induct [of P "((p, f), x)" y, unfolded prod.case, OF _ assms]) (rule once)
  then show ?thesis unfolding P_def .
qed

lemma search_undisturbed:
  assumes "i < length gs" "gs ! i = (n, Testing x)" "\<not> other_writes i gs"
    and "probe (is_taken r s) (next_cand r s) x = Some y"
  shows "\<exists>k. run_schedule r (replicate k i) (s, gs)
    = Some (s, gs[i := (n, if in_subnet r s y then Storing y else Refused)])"
proof -
  obtain k where k: "y = (next_cand r s ^^ k) x" "\<not> is_taken r s y" "\<forall>j < k. is_taken r s ((next_cand r s ^^ j) x)"
    using probe_iterates [OF assms(4)] by blast
  have "run_schedule r (replicate (Suc k) i) (s, gs)
      = Some (s, gs[i := (n, if in_subnet r s y then Storing y else Refused)])"
    using assms(1-3) k
  proof (induction k arbitrary: x gs)
    case 0
    then show ?case by (simp add: move_def)
  next
    case (Suc k)
    let ?x = "next_cand r s x"
    have "is_taken r s x" using Suc.prems(6) by (auto dest: spec [of _ 0])
    then have "move r i (s, gs) = Some (s, gs[i := (n, Testing ?x)])" using Suc.prems(1-3) by (simp add: move_def)
    moreover have "\<forall>j < k. is_taken r s ((next_cand r s ^^ j) ?x)"
      using Suc.prems(6) by (auto simp: funpow_swap1 dest: spec [of _ "Suc _"])
    ultimately show ?case
      using Suc.IH [of "gs[i := (n, Testing ?x)]" ?x] Suc.prems by (simp add: funpow_swap1)
  qed
  then show ?thesis by blast
qed

text \<open>A goroutine with the table to itself does what the request does.\<close>

lemma alone: "\<not> other_writes 0 [g]"
  by (simp add: other_writes_iff)

lemma request_of_alone:
  assumes "request_of r n s = (Done a, t)" "\<And>x. cand_ip r (store_cand r x n s) = cand_ip r s"
  shows "\<exists>k g. run_schedule r (replicate k 0) (begin_requests r [n] s) = Some (t, [(n, g)]) \<and> reply r t g = Some a"
proof -
  obtain x where x: "probe (is_taken r s) (next_cand r s) (first_cand r s) = Some x"
    using assms(1) by (cases "probe (is_taken r s) (next_cand r s) (first_cand r s)") (simp_all add: request_of_def io_simps)
  obtain k where k: "run_schedule r (replicate k 0) (begin_requests r [n] s)
      = Some (s, [(n, if in_subnet r s x then Storing x else Refused)])"
    using search_undisturbed [of 0 "[(n, Testing (first_cand r s))]" n "first_cand r s" r s x] x alone
    by (auto simp: begin_requests_def)
  then have "run_schedule r (replicate k 0 @ replicate 2 0) (begin_requests r [n] s)
      = Some (t, [(n, if in_subnet r s x then Granted x else Refused)])"
    using assms(1) x
    by (auto simp: run_schedule_append move_def request_of_def io_simps alone numeral_2_eq_2)
  moreover have "reply r t (if in_subnet r s x then Granted x else Refused) = Some a"
    using assms x by (auto simp: request_of_def io_simps)
  ultimately show ?thesis by (metis replicate_add)
qed

lemma answered_stays:
  assumes "reply r s g = Some a"
  shows "run_schedule r (replicate k 0) (s, [(n, g)]) = Some (s, [(n, g)])"
  using assms by (induction k; cases g) (simp_all add: move_def)

lemma stored_alone:
  assumes "run_schedule r (replicate k 0) (s, [(n, Storing x)]) = Some (t, [(n, g)])" "reply r t g = Some a"
  shows "t = store_cand r x n s \<and> g = Granted x"
proof -
  obtain l where k: "k = Suc (Suc l)"
    using assms by (cases k; cases "k - 1") (auto simp: move_def alone)
  then have "Some (t, [(n, g)]) = Some (store_cand r x n s, [(n, Granted x)])"
    using assms(1) answered_stays [of r "store_cand r x n s" "Granted x" _ l n] by (simp add: move_def alone)
  then show ?thesis by simp
qed

lemma alone_request_of:
  assumes "run_schedule r (replicate k 0) (s, [(n, Testing x)]) = Some (t, [(n, g)])" "reply r t g = Some a"
    "\<And>x. cand_ip r (store_cand r x n s) = cand_ip r s"
  shows "\<exists>y. probe (is_taken r s) (next_cand r s) x = Some y \<and>
    (if in_subnet r s y then t = store_cand r y n s \<and> a = (cand_ip r s y, None)
     else t = s \<and> a = ([], Some (Errorf ''Out of IP addresses'' [])))"
  using assms
proof (induction k arbitrary: x)
  case (Suc k)
  show ?case
  proof (cases "is_taken r s x")
    case True
    with Suc show ?thesis by (simp add: move_def probe_miss alone)
  next
    case False
    show ?thesis
    proof (cases "in_subnet r s x")
      case True
      have run: "run_schedule r (replicate k 0) (s, [(n, Storing x)]) = Some (t, [(n, g)])"
        using Suc.prems(1) False True by (simp add: move_def alone)
      from stored_alone [OF this Suc.prems(2)] False True Suc.prems(2,3) show ?thesis by (auto simp: probe_hit)
    next
      case out: False
      then have "run_schedule r (replicate k 0) (s, [(n, Refused)]) = Some (t, [(n, g)])"
        using Suc.prems(1) False by (simp add: move_def alone)
      with False out Suc.prems(2) show ?thesis
        using answered_stays [of r s Refused _ k n] by (auto simp: probe_hit)
    qed
  qed
qed auto

lemma request_of_iff_alone:
  assumes "\<And>x. cand_ip r (store_cand r x n s) = cand_ip r s"
  shows "request_of r n s = (Done a, t) \<longleftrightarrow>
    (\<exists>k g. run_schedule r (replicate k 0) (begin_requests r [n] s) = Some (t, [(n, g)]) \<and> reply r t g = Some a)"
proof
  assume "request_of r n s = (Done a, t)"
  then show "\<exists>k g. run_schedule r (replicate k 0) (begin_requests r [n] s) = Some (t, [(n, g)]) \<and> reply r t g = Some a"
    using request_of_alone assms by metis
next
  assume "\<exists>k g. run_schedule r (replicate k 0) (begin_requests r [n] s) = Some (t, [(n, g)]) \<and> reply r t g = Some a"
  then obtain k g where "run_schedule r (replicate k 0) (s, [(n, Testing (first_cand r s))]) = Some (t, [(n, g)])"
    "reply r t g = Some a" by (auto simp: begin_requests_def)
  from alone_request_of [OF this assms] show "request_of r n s = (Done a, t)"
    by (auto simp: request_of_def io_simps split: if_splits)
qed

section \<open>Searches side by side\<close>

text \<open>All goroutines search before the first one stores: they settle on the same candidate.\<close>

lemma all_search:
  assumes "probe (is_taken r s) (next_cand r s) (first_cand r s) = Some x" "in_subnet r s x"
  shows "\<exists>sch. run_schedule r sch (s, map (\<lambda>n. (n, Storing x)) ms @ map (\<lambda>n. (n, Testing (first_cand r s))) ns)
    = Some (s, map (\<lambda>n. (n, Storing x)) (ms @ ns))"
proof (induction ns arbitrary: ms)
  case Nil
  show ?case by (intro exI [of _ "[]"]) simp
next
  case (Cons n ns)
  let ?gs = "map (\<lambda>n. (n, Storing x)) ms @ map (\<lambda>n. (n, Testing (first_cand r s))) (n # ns)"
  have "\<not> other_writes (length ms) ?gs"
    by (auto simp: other_writes_iff nth_append nth_Cons split: nat.split)
  then obtain k where k: "run_schedule r (replicate k (length ms)) (s, ?gs) = Some (s, ?gs[length ms := (n, Storing x)])"
    using search_undisturbed [of "length ms" ?gs n "first_cand r s" r s x] assms by (auto simp: nth_append)
  obtain sch where sch: "run_schedule r sch (s, map (\<lambda>n. (n, Storing x)) (ms @ [n])
      @ map (\<lambda>n. (n, Testing (first_cand r s))) ns) = Some (s, map (\<lambda>n. (n, Storing x)) ((ms @ [n]) @ ns))"
    using Cons.IH [of "ms @ [n]"] by blast
  have "?gs[length ms := (n, Storing x)]
      = map (\<lambda>n. (n, Storing x)) (ms @ [n]) @ map (\<lambda>n. (n, Testing (first_cand r s))) ns"
    by (simp add: list_update_append)
  with k sch have "run_schedule r (replicate k (length ms) @ sch) (s, ?gs) = Some (s, map (\<lambda>n. (n, Storing x)) (ms @ n # ns))"
    by (simp add: run_schedule_append)
  then show ?case by blast
qed

text \<open>Then each begins and ends its write, one after the other.\<close>

lemma store_undisturbed:
  assumes "i < length gs" "gs ! i = (n, Storing x)" "\<not> other_writes i gs"
  shows "run_schedule r [i, i] (s, gs) = Some (store_cand r x n s, gs[i := (n, Granted x)])"
  using assms by (simp add: move_def)

lemma all_store:
  "\<exists>sch. run_schedule r sch (s, map (\<lambda>n. (n, Granted x)) ms @ map (\<lambda>n. (n, Storing x)) ns)
    = Some (fold (store_cand r x) ns s, map (\<lambda>n. (n, Granted x)) (ms @ ns))"
proof (induction ns arbitrary: ms s)
  case Nil
  show ?case by (intro exI [of _ "[]"]) simp
next
  case (Cons n ns)
  let ?gs = "map (\<lambda>n. (n, Granted x)) ms @ map (\<lambda>n. (n, Storing x)) (n # ns)"
  have "\<not> other_writes (length ms) ?gs"
    by (auto simp: other_writes_iff nth_append nth_Cons split: nat.split)
  then have "run_schedule r [length ms, length ms] (s, ?gs) = Some (store_cand r x n s, ?gs[length ms := (n, Granted x)])"
    by (intro store_undisturbed) (simp_all add: nth_append)
  moreover have "?gs[length ms := (n, Granted x)] = map (\<lambda>n. (n, Granted x)) (ms @ [n]) @ map (\<lambda>n. (n, Storing x)) ns"
    by (simp add: list_update_append)
  moreover obtain sch where "run_schedule r sch (store_cand r x n s, map (\<lambda>n. (n, Granted x)) (ms @ [n]) @ map (\<lambda>n. (n, Storing x)) ns)
    = Some (fold (store_cand r x) ns (store_cand r x n s), map (\<lambda>n. (n, Granted x)) ((ms @ [n]) @ ns))"
    using Cons.IH [of "store_cand r x n s" "ms @ [n]"] by blast
  ultimately have "run_schedule r ([length ms, length ms] @ sch) (s, ?gs)
    = Some (fold (store_cand r x) (n # ns) s, map (\<lambda>n. (n, Granted x)) (ms @ n # ns))"
    by (simp only: run_schedule_append option.case) simp
  then show ?case by blast
qed

lemma all_granted_the_same:
  assumes "request_of r n s = (Done (ip, None), s')"
  shows "\<exists>sch x. run_schedule r sch (begin_requests r ns s) = Some (fold (store_cand r x) ns s, map (\<lambda>n. (n, Granted x)) ns)
    \<and> cand_ip r s x = ip \<and> s' = store_cand r x n s"
proof -
  obtain x where x: "probe (is_taken r s) (next_cand r s) (first_cand r s) = Some x" "in_subnet r s x"
    "cand_ip r s x = ip" "s' = store_cand r x n s"
    using assms by (auto simp: request_of_def io_simps split: option.splits if_splits)
  obtain sch where "run_schedule r sch (begin_requests r ns s) = Some (s, map (\<lambda>n. (n, Storing x)) ns)"
    using all_search [OF x(1,2), of "[]" ns] by (auto simp: begin_requests_def)
  moreover obtain sch' where "run_schedule r sch' (s, map (\<lambda>n. (n, Storing x)) ns)
      = Some (fold (store_cand r x) ns s, map (\<lambda>n. (n, Granted x)) ns)"
    using all_store [of r s x "[]" ns] by auto
  ultimately have "run_schedule r (sch @ sch') (begin_requests r ns s)
      = Some (fold (store_cand r x) ns s, map (\<lambda>n. (n, Granted x)) ns)"
    by (simp add: run_schedule_append)
  with x(3,4) show ?thesis by blast
qed

section \<open>What any table of candidates gives\<close>

text \<open>
  The laws of a table: a store takes its candidate and changes nothing else a request reads; candidates
  that are taken come closer to the end of the subnet, as \<open>rank\<close> measures.
\<close>

locale request_table =
  fixes r :: "('s, 'a) request_ops" and inv :: "'s \<Rightarrow> bool" and cand :: "'s \<Rightarrow> 'a \<Rightarrow> bool"
    and rank :: "'s \<Rightarrow> 'a \<Rightarrow> nat"
  assumes first_cand: "inv s \<Longrightarrow> cand s (first_cand r s)"
    and next_cand: "inv s \<Longrightarrow> cand s x \<Longrightarrow> is_taken r s x \<Longrightarrow>
       cand s (next_cand r s x) \<and> rank s (next_cand r s x) < rank s x"
    and inv_store: "inv s \<Longrightarrow> cand s x \<Longrightarrow> in_subnet r s x \<Longrightarrow> inv (store_cand r x n s)"
    and taken_store: "is_taken r (store_cand r x n s) y \<longleftrightarrow> y = x \<or> is_taken r s y"
    and frame_store: "in_subnet r (store_cand r x n s) = in_subnet r s" "cand_ip r (store_cand r x n s) = cand_ip r s"
      "cand (store_cand r x n s) = cand s" "rank (store_cand r x n s) = rank s"
begin

text \<open>What holds of the table and of every goroutine, however they are interleaved.\<close>

definition goroutine_ok :: "'s \<Rightarrow> 'a goroutine \<Rightarrow> bool" where
  "goroutine_ok s g = (case g of Testing x \<Rightarrow> cand s x | Storing x \<Rightarrow> cand s x \<and> in_subnet r s x
     | Writing x \<Rightarrow> cand s x \<and> in_subnet r s x
     | Granted x \<Rightarrow> cand s x \<and> in_subnet r s x \<and> is_taken r s x | Refused \<Rightarrow> True)"

definition requests_ok :: "('s, 'a) requests \<Rightarrow> bool" where
  "requests_ok c \<longleftrightarrow> inv (fst c) \<and> (\<forall>(n, g) \<in> set (snd c). goroutine_ok (fst c) g)"

lemma goroutine_ok_step:
  assumes "inv s" "goroutine_ok s g" "goroutine_step r n s g = (t, g')"
  shows "inv t" "goroutine_ok t g'" "goroutine_ok s h \<Longrightarrow> goroutine_ok t h"
  using assms by (cases g; cases h; auto simp: goroutine_ok_def inv_store taken_store frame_store next_cand)+

lemma requests_ok_at: "requests_ok (s, gs) \<Longrightarrow> i < length gs \<Longrightarrow> gs ! i = (n, g) \<Longrightarrow> inv s \<and> goroutine_ok s g"
  by (fastforce simp: requests_ok_def dest: nth_mem)

lemma requests_ok_move:
  assumes ok: "requests_ok c" and m: "move r i c = Some c'"
  shows "requests_ok c'"
proof -
  obtain s gs where c: "c = (s, gs)" by fastforce
  show ?thesis
  proof (rule move_SomeE [OF m [unfolded c]])
    fix n g t g'
    assume i: "i < length gs" "gs ! i = (n, g)" and step: "goroutine_step r n s g = (t, g')" and c': "c' = (t, gs[i := (n, g')])"
    have pre: "inv s" "goroutine_ok s g" using requests_ok_at [OF ok [unfolded c] i] by blast+
    have "goroutine_ok t h" if "(m, h) \<in> set gs" for m h
      using goroutine_ok_step(3) [OF pre step] ok c that by (auto simp: requests_ok_def)
    then show ?thesis
      using goroutine_ok_step(1,2) [OF pre step] unfolding c'
      by (auto simp: requests_ok_def dest!: set_update_subset_insert [THEN subsetD])
  qed (use ok c in simp)
qed

lemma requests_ok_begin: "inv s \<Longrightarrow> requests_ok (begin_requests r names s)"
  by (auto simp: requests_ok_def begin_requests_def goroutine_ok_def first_cand)

lemma requests_ok_run: "requests_ok c \<Longrightarrow> run_schedule r sch c = Some c' \<Longrightarrow> requests_ok c'"
  by (induction sch arbitrary: c) (auto split: option.splits dest: requests_ok_move)

text \<open>No interleaving keeps a search going: a goroutine answers after a number of moves of its own.\<close>

definition moves_left :: "'s \<Rightarrow> 'a goroutine \<Rightarrow> nat" where
  "moves_left s g = (case g of Testing x \<Rightarrow> rank s x + 3 | Storing x \<Rightarrow> 2 | Writing x \<Rightarrow> 1 | _ \<Rightarrow> 0)"

lemma moves_left_step:
  assumes "inv s" "goroutine_ok s g" "goroutine_step r n s g = (t, g')"
  shows "moves_left t g' \<le> moves_left s g - 1" "moves_left t h = moves_left s h"
  using assms next_cand by (cases g; cases h; fastforce simp: moves_left_def goroutine_ok_def frame_store)+

lemma moves_left_move:
  assumes "requests_ok (s, gs)" "i < length gs" "move r j (s, gs) = Some (t, hs)"
  shows "length hs = length gs \<and> moves_left t (snd (hs ! i)) \<le> moves_left s (snd (gs ! i)) - (if j = i then 1 else 0)"
proof (rule move_SomeE [OF assms(3)])
  fix n g u g'
  assume j: "j < length gs" "gs ! j = (n, g)" and step: "goroutine_step r n s g = (u, g')" and hs: "(t, hs) = (u, gs[j := (n, g')])"
  have pre: "inv s" "goroutine_ok s g" using requests_ok_at [OF assms(1) j] by blast+
  show ?thesis
    using moves_left_step(1) [OF pre step] moves_left_step(2) [OF pre step, of "snd (gs ! i)"] j hs assms(2)
    by (auto simp: nth_list_update)
qed (use assms(2) in auto)

lemma moves_left_run:
  "requests_ok (s, gs) \<Longrightarrow> i < length gs \<Longrightarrow> run_schedule r sch (s, gs) = Some (t, hs) \<Longrightarrow>
     length hs = length gs \<and> moves_left t (snd (hs ! i)) \<le> moves_left s (snd (gs ! i)) - count_list sch i"
proof (induction sch arbitrary: s gs)
  case (Cons j sch)
  from Cons.prems(3) obtain s1 gs1 where m: "move r j (s, gs) = Some (s1, gs1)"
    and run: "run_schedule r sch (s1, gs1) = Some (t, hs)" by (auto split: option.splits)
  show ?case
    using moves_left_move [OF Cons.prems(1,2) m] Cons.IH [OF requests_ok_move [OF Cons.prems(1) m] _ run] Cons.prems(2)
    by (auto split: if_splits)
qed simp

lemma answered_of_moves_left:
  "moves_left s g = 0 \<Longrightarrow> (\<exists>x. g = Granted x) \<or> g = Refused"
  by (cases g) (auto simp: moves_left_def)

text \<open>With one store at a time, no candidate is granted twice.\<close>

definition exclusive_ok :: "('s, 'a) requests \<Rightarrow> bool" where
  "exclusive_ok c \<longleftrightarrow> requests_ok c \<and> storing c \<le> 1
     \<and> (\<forall>i < length (snd c). \<forall>x. chosen (snd (snd c ! i)) = Some x \<longrightarrow> \<not> is_taken r (fst c) x)
     \<and> (\<forall>i < length (snd c). \<forall>j < length (snd c). \<forall>x. snd (snd c ! i) = Granted x \<and> snd (snd c ! j) = Granted x \<longrightarrow> i = j)"

lemma storing_unique:
  assumes "storing c \<le> 1" "i < length (snd c)" "j < length (snd c)"
    "chosen (snd (snd c ! i)) \<noteq> None" "chosen (snd (snd c ! j)) \<noteq> None"
  shows "i = j"
proof -
  define K where "K = {k. k < length (snd c) \<and> chosen (snd (snd c ! k)) \<noteq> None}"
  have "card K \<le> Suc 0" using assms(1) by (simp add: storing_def length_filter_conv_card K_def)
  moreover have "finite K" by (simp add: K_def)
  moreover have "i \<in> K" "j \<in> K" using assms(2-5) by (simp_all add: K_def)
  ultimately show ?thesis by (simp add: card_le_Suc0_iff_eq)
qed

lemma granted_is_taken:
  "requests_ok (s, gs) \<Longrightarrow> i < length gs \<Longrightarrow> snd (gs ! i) = Granted x \<Longrightarrow> is_taken r s x"
  by (fastforce simp: requests_ok_def goroutine_ok_def dest: nth_mem)

lemma exclusive_ok_move:
  assumes ok: "exclusive_ok c" and m: "move r i c = Some c'" and one: "storing c' \<le> 1"
  shows "exclusive_ok c'"
proof -
  obtain s gs where c: "c = (s, gs)" by fastforce
  have reqs: "requests_ok (s, gs)" "requests_ok c'" "storing (s, gs) \<le> 1"
    using ok c requests_ok_move [OF _ m] by (auto simp: exclusive_ok_def)
  have free: "\<not> is_taken r s x" if "j < length gs" "chosen (snd (gs ! j)) = Some x" for j x
    using ok c that by (auto simp: exclusive_ok_def)
  have inj: "j = k" if "j < length gs" "k < length gs" "snd (gs ! j) = Granted x" "snd (gs ! k) = Granted x" for j k x
    using ok c that by (auto simp: exclusive_ok_def)
  show ?thesis
  proof (rule move_SomeE [OF m [unfolded c]])
    fix n g t g'
    assume i: "i < length gs" "gs ! i = (n, g)" and step: "goroutine_step r n s g = (t, g')" and c': "c' = (t, gs[i := (n, g')])"
    have same: "gs[i := (n, g)] = gs" using list_update_id [of gs i] i(2) by simp
    show ?thesis
    proof (cases g)
      case (Testing x)
      with step reqs(2) one free inj i show ?thesis
        unfolding c' by (auto simp: exclusive_ok_def nth_list_update split: if_splits)
    next
      case (Storing x)
      then have "t = s" "g' = Writing x" using step by auto
      moreover have "\<not> is_taken r s x" using free [of i x] i Storing by simp
      ultimately show ?thesis using reqs(2) one free inj i
        unfolding c' by (auto simp: exclusive_ok_def nth_list_update split: if_splits)
    next
      case (Writing x)
      then have t: "t = store_cand r x n s" "g' = Granted x" using step by auto
      have "\<not> is_taken r s x" using free [of i x] i Writing by simp
      then have other: "y \<noteq> x" if "j < length gs" "snd (gs ! j) = Granted y" for j y
        using granted_is_taken [OF reqs(1) that] by blast
      have only: "j = i" if "j < length gs" "chosen (snd (gs ! j)) = Some y" for j y
        using storing_unique [OF reqs(3), of j i] i Writing that by simp
      let ?gs = "gs[i := (n, g')]"
      have "chosen (snd (?gs ! j)) \<noteq> Some y" if "j < length gs" for j y
        using only [of j y] that t(2) by (cases "j = i") auto
      moreover have "j = k" if "j < length gs" "k < length gs" "snd (?gs ! j) = Granted y" "snd (?gs ! k) = Granted y" for j k y
        using inj [of j k y] other [of j y] other [of k y] that t(2) by (cases "j = i"; cases "k = i") auto
      ultimately show ?thesis using reqs(2) one unfolding c' exclusive_ok_def by simp
    qed (use same ok step c c' in auto)
  qed (use ok c in simp)
qed

lemma exclusive_ok_run:
  "exclusive_ok c \<Longrightarrow> one_at_a_time r sch c \<Longrightarrow> run_schedule r sch c = Some c' \<Longrightarrow> exclusive_ok c'"
  by (induction sch arbitrary: c) (auto split: option.splits dest: exclusive_ok_move)

lemma exclusive_ok_begin: "inv s \<Longrightarrow> exclusive_ok (begin_requests r names s)"
  using requests_ok_begin [of s names]
  by (auto simp: exclusive_ok_def begin_requests_def storing_def)

end

section \<open>The two managers\<close>

text \<open>Candidates are starts of blocks; \<open>rank4\<close> counts the blocks up to the end of the subnet.\<close>

definition cand4 :: "ipv4am \<Rightarrow> u32 \<Rightarrow> bool" where
  "cand4 am ip \<longleftrightarrow> (\<exists>k. unat ip = unat (baseSubnetIP am) + 8 + 8 * k)"

definition rank4 :: "ipv4am \<Rightarrow> u32 \<Rightarrow> nat" where
  "rank4 am ip = (unat (maxSubnetIP am) + 7 - unat ip) div 8"

definition cand6 :: "ipv6am \<Rightarrow> nat \<Rightarrow> bool" where
  "cand6 am n \<longleftrightarrow> (\<exists>j. n = 16 + 16 * j)"

definition rank6 :: "ipv6am \<Rightarrow> nat \<Rightarrow> nat" where
  "rank6 am n = nat (maxSubnetIP6 am - int n)"

lemma cand4_step:
  assumes inv: "am_inv4 am" and "cand4 am ip" "map_of (usedPodAddresses am) ip \<noteq> None"
  shows "cand4 am (ip + of_nat (subIPsPerPod am)) \<and> rank4 am (ip + of_nat (subIPsPerPod am)) < rank4 am ip"
proof -
  have "ip \<in> fst ` set (usedPodAddresses am)" using assms(3) by (metis map_of_eq_None_iff)
  then have lt: "unat ip < unat (maxSubnetIP am)" using inv by (auto simp: am_inv4_def)
  moreover have "unat (maxSubnetIP am) + 8 < 2 ^ 32" "subIPsPerPod am = 8" using inv by (auto simp: am_inv4_def)
  ultimately have up: "unat (ip + of_nat (subIPsPerPod am)) = unat ip + 8"
    by (simp add: unat_word_ariths)
  obtain k where "unat ip = unat (baseSubnetIP am) + 8 + 8 * k" using assms(2) by (auto simp: cand4_def)
  with up have "unat (ip + of_nat (subIPsPerPod am)) = unat (baseSubnetIP am) + 8 + 8 * Suc k" by simp
  then have "cand4 am (ip + of_nat (subIPsPerPod am))" unfolding cand4_def by blast
  moreover have "(unat (maxSubnetIP am) + 7 - (unat ip + 8)) div 8 < (unat (maxSubnetIP am) + 7 - unat ip) div 8"
    using lt by linarith
  ultimately show ?thesis by (simp add: rank4_def up)
qed

interpretation table4: request_table request_ops4 am_inv4 cand4 rank4
proof
  fix am :: ipv4am and ip ip' :: u32 and n
  show "cand4 am (first_cand request_ops4 am)" if "am_inv4 am"
  proof -
    have "unat (baseSubnetIP am) + 8 < 2 ^ 32" using that by (auto simp: am_inv4_def)
    then have "unat (block4 am 0) = unat (baseSubnetIP am) + 8 + 8 * 0" by (intro unat_block4) simp
    then show ?thesis by (auto simp: cand4_def request_ops4_def block4_def)
  qed
  show "cand4 am (next_cand request_ops4 am ip) \<and> rank4 am (next_cand request_ops4 am ip) < rank4 am ip"
    if "am_inv4 am" "cand4 am ip" "is_taken request_ops4 am ip"
    using cand4_step [OF that(1,2)] that(3) by (simp add: request_ops4_def)
  show "am_inv4 (store_cand request_ops4 ip n am)" if "am_inv4 am" "cand4 am ip" "in_subnet request_ops4 am ip"
    using that by (auto simp: request_ops4_def am_inv4_def cand4_def distinct_update dom_update word_less_nat_alt)
  show "is_taken request_ops4 (store_cand request_ops4 ip n am) ip' \<longleftrightarrow> ip' = ip \<or> is_taken request_ops4 am ip'"
    by (simp add: request_ops4_def update_conv')
qed (simp_all add: request_ops4_def cand4_def rank4_def fun_eq_iff)

lemma cand6_step:
  assumes inv: "am_inv6 am" and "cand6 am n" "taken6 am n"
  shows "cand6 am (n + subIPsPerPod6 am) \<and> rank6 am (n + subIPsPerPod6 am) < rank6 am n"
proof -
  obtain j where j: "n = 16 + 16 * j" using assms(2) by (auto simp: cand6_def)
  have "getContainerIPv6 (baseSubnetIP6 am) n \<in> fst ` set (usedPodAddresses6 am)"
    using assms(3) by (simp add: taken6_def map_of_eq_None_iff)
  then obtain i where "int (16 + 16 * i) < maxSubnetIP6 am"
    "getContainerIPv6 (baseSubnetIP6 am) n = getContainerIPv6 (baseSubnetIP6 am) (16 + 16 * i)"
    using inv unfolding am_inv6_def by blast
  then have "int n < maxSubnetIP6 am" using getContainerIPv6_inj by metis
  moreover have "subIPsPerPod6 am = 16" using inv by (simp add: am_inv6_def)
  moreover have "cand6 am (n + 16)" unfolding cand6_def by (intro exI [of _ "Suc j"]) (simp add: j)
  ultimately show ?thesis by (simp add: rank6_def)
qed

interpretation table6: request_table request_ops6 am_inv6 cand6 rank6
proof
  fix am :: ipv6am and m m' :: nat and n
  show "cand6 am (first_cand request_ops6 am)" if "am_inv6 am"
    using that by (auto simp: cand6_def request_ops6_def am_inv6_def)
  show "cand6 am (next_cand request_ops6 am m) \<and> rank6 am (next_cand request_ops6 am m) < rank6 am m"
    if "am_inv6 am" "cand6 am m" "is_taken request_ops6 am m"
    using cand6_step [OF that(1,2)] that(3) by (simp add: request_ops6_def taken6_def)
  show "am_inv6 (store_cand request_ops6 m n am)" if "am_inv6 am" "cand6 am m" "in_subnet request_ops6 am m"
    using that by (auto simp: request_ops6_def am_inv6_def cand6_def distinct_update dom_update)
  show "is_taken request_ops6 (store_cand request_ops6 m n am) m' \<longleftrightarrow> m' = m \<or> is_taken request_ops6 am m'"
    using getContainerIPv6_inj by (auto simp: request_ops6_def update_conv')
qed (simp_all add: request_ops6_def cand6_def rank6_def fun_eq_iff)

end
