(* ===== verification/RaceProps.thy ===== *)
theory RaceProps
  imports AddressRace
begin

text \<open>
  What concurrent requests for blocks do: the same as \<open>RequestPodIP\<close> for one goroutine; under every
  schedule an answer to each, unless the runtime ends the process because one looks at the map while another
  writes it; the same block for all of them under some schedules, and different blocks when the choice of a
  block and its entry in the map are not interrupted by another choice.
\<close>

section \<open>One goroutine\<close>

text \<open>
  A goroutine that runs alone does what the request of its manager does: it answers exactly when the request
  returns, with the same answer and the same manager, for IPv4 and for IPv6. So the steps are those of the
  operation.
\<close>

lemma lone_goroutine_is_request:
  "RequestPodIP ns pod am = (Done a, am') \<longleftrightarrow>
     (\<exists>k g. run_schedule request_ops4 (replicate k 0) (begin_requests request_ops4 [ns @ ''_'' @ pod] am)
         = Some (am', [(ns @ ''_'' @ pod, g)]) \<and> reply request_ops4 am' g = Some a)"
  "RequestPodIP6 ns pod am6 = (Done a6, am6') \<longleftrightarrow>
     (\<exists>k g. run_schedule request_ops6 (replicate k 0) (begin_requests request_ops6 [ns @ ''_'' @ pod] am6)
         = Some (am6', [(ns @ ''_'' @ pod, g)]) \<and> reply request_ops6 am6' g = Some a6)"
  unfolding RequestPodIP_request_of RequestPodIP6_request_of pod_name_def
  by (intro request_of_iff_alone table4.frame_store table6.frame_store)+

section \<open>Answers under every schedule\<close>

lemma replied_iff: "(\<exists>a. reply r s g = Some a) \<longleftrightarrow> (\<exists>x. g = Granted x) \<or> g = Refused"
  by (cases g) auto

lemma rank4_first: "am_inv4 am \<Longrightarrow> rank4 am (first_cand request_ops4 am) \<le> (unat (maxSubnetIP am) - unat (baseSubnetIP am)) div 8"
  using unat_block4 [of am 0]
  by (simp add: rank4_def request_ops4_def am_inv4_def block4_def div_le_mono)

text \<open>
  C8. However the requests for IPv4 blocks are interleaved, one of two things happens. Either the process is
  ended by the runtime, and then because a goroutine came to the map while another one was writing it. Or the
  manager keeps its invariant, and a request has its answer after as many moves of its own as the subnet has
  blocks, and three more.
\<close>

theorem concurrent_requests_answered:
  assumes "am_inv4 am" "i < length names"
    "(unat (maxSubnetIP am) - unat (baseSubnetIP am)) div 8 + 3 \<le> count_list sch i"
  shows "case run_schedule request_ops4 sch (begin_requests request_ops4 names am) of
      None \<Rightarrow> (\<exists>xs j ys s gs. sch = xs @ j # ys
         \<and> run_schedule request_ops4 xs (begin_requests request_ops4 names am) = Some (s, gs)
         \<and> j < length gs \<and> touches (snd (gs ! j)) \<and> other_writes j gs)
    | Some (am', gs) \<Rightarrow> am_inv4 am' \<and> length gs = length names \<and> (\<exists>a. reply request_ops4 am' (snd (gs ! i)) = Some a)"
proof (cases "run_schedule request_ops4 sch (begin_requests request_ops4 names am)")
  case None
  with run_aborted [OF None] show ?thesis by simp
next
  case (Some c')
  obtain am' gs where c': "c' = (am', gs)" by fastforce
  let ?gs0 = "map (\<lambda>n. (n, Testing (first_cand request_ops4 am))) names"
  have run: "run_schedule request_ops4 sch (am, ?gs0) = Some (am', gs)"
    using Some c' by (simp add: begin_requests_def)
  have ok: "table4.requests_ok (am, ?gs0)"
    using table4.requests_ok_begin [OF assms(1), of names] by (simp add: begin_requests_def)
  have "am_inv4 am'" using table4.requests_ok_run [OF ok run] by (simp add: table4.requests_ok_def)
  moreover have "length gs = length names" "table4.moves_left am' (snd (gs ! i)) = 0"
    using table4.moves_left_run [OF ok _ run, of i] assms rank4_first [OF assms(1)]
    by (auto simp: table4.moves_left_def)
  ultimately show ?thesis
    using Some c' table4.answered_of_moves_left [of am' "snd (gs ! i)"] by (auto simp: replied_iff)
qed

text \<open>A subnet of one block: two requests, the second of which finds it full.\<close>

definition one_block :: ipv4am where
  "one_block = sample_am4\<lparr>maxSubnetIP := 0x0A010209\<rparr>"

lemma am_inv4_one_block: "am_inv4 one_block"
  by (simp add: am_inv4_def one_block_def sample_am4_def)

lemmas run_request_simps = begin_requests_def move_def other_writes_def
  request_ops4_def sample_am4_def MaxIPv4IPsPerPod_def storing_def

lemma one_block_run:
  "run_schedule request_ops4 [0, 0, 0, 1, 0, 1, 1, 0, 1] (begin_requests request_ops4 [''d_a'', ''d_b''] one_block)
    = Some (one_block\<lparr>usedPodAddresses := [(0x0A010208, ''d_a'')]\<rparr>, [(''d_a'', Granted 0x0A010208), (''d_b'', Refused)])"
  by (simp add: run_request_simps one_block_def)

theorem concurrent_requests_answered_witness:
  "am_inv4 (one_block\<lparr>usedPodAddresses := [(0x0A010208, ''d_a'')]\<rparr>)
   \<and> length [(''d_a'', Granted (0x0A010208 :: u32)), (''d_b'', Refused)] = length [''d_a'', ''d_b'']
   \<and> (\<exists>a. reply request_ops4 (one_block\<lparr>usedPodAddresses := [(0x0A010208, ''d_a'')]\<rparr>)
        (snd ([(''d_a'', Granted (0x0A010208 :: u32)), (''d_b'', Refused)] ! 1)) = Some a)"
  using concurrent_requests_answered [OF am_inv4_one_block, of 1 "[''d_a'', ''d_b'']" "[0, 0, 0, 1, 0, 1, 1, 0, 1]"]
  unfolding one_block_run by (simp add: one_block_def sample_am4_def)

text \<open>The runtime can end the process: the second request looks at the map inside the write of the first.\<close>

lemma overlap_aborts:
  "run_schedule request_ops4 [0, 0, 1] (begin_requests request_ops4 [''d_a'', ''d_b''] one_block) = None"
  by (simp add: run_request_simps one_block_def)

section \<open>Two pods in one block\<close>

text \<open>
  C6. When a request for an IPv4 block would be granted an address, there is a schedule that grants this
  address to every one of any number of concurrent requests; the map then knows the last of them only.
\<close>

theorem concurrent_requests_collide:
  assumes "RequestPodIP ns pod am = (Done (ip, None), t)"
  shows "\<exists>sch am' gs a. run_schedule request_ops4 sch (begin_requests request_ops4 names am) = Some (am', gs)
    \<and> map (\<lambda>(n, g). (n, reply request_ops4 am' g)) gs = map (\<lambda>n. (n, Some (ip, None))) names
    \<and> ip = int2ip a \<and> map_of (usedPodAddresses am')
        = (if names = [] then map_of (usedPodAddresses am) else (map_of (usedPodAddresses am))(a \<mapsto> last names))"
proof -
  obtain sch a where run: "run_schedule request_ops4 sch (begin_requests request_ops4 names am)
      = Some (fold (store_cand request_ops4 a) names am, map (\<lambda>n. (n, Granted a)) names)"
    "cand_ip request_ops4 am a = ip"
    using all_granted_the_same [of request_ops4 "pod_name ns pod" am ip t] assms RequestPodIP_request_of by metis
  have "map_of (usedPodAddresses (fold (store_cand request_ops4 a) ns am))
      = (if ns = [] then map_of (usedPodAddresses am) else (map_of (usedPodAddresses am))(a \<mapsto> last ns))" for ns
    by (induction ns rule: rev_induct) (auto simp: request_ops4_def update_conv')
  moreover have "ip = int2ip a" "cand_ip request_ops4 u a = ip" for u
    using run(2) by (simp_all add: request_ops4_def)
  ultimately show ?thesis using run(1) by (fastforce simp: comp_def)
qed

lemma sample_request4:
  "RequestPodIP ''d'' ''a'' sample_am4 = (Done (int2ip 0x0A010208, None), sample_am4\<lparr>usedPodAddresses := [(0x0A010208, ''d_a'')]\<rparr>)"
  by (simp add: RequestPodIP_def io_simps probe_hit sample_am4_def MaxIPv4IPsPerPod_def pod_name_def)

theorem concurrent_requests_collide_witness:
  "\<exists>sch am' gs a. run_schedule request_ops4 sch (begin_requests request_ops4 [''d_a'', ''d_b''] sample_am4) = Some (am', gs)
    \<and> map (\<lambda>(n, g). (n, reply request_ops4 am' g)) gs
      = map (\<lambda>n. (n, Some (int2ip 0x0A010208, None))) [''d_a'', ''d_b'']
    \<and> int2ip 0x0A010208 = int2ip a \<and> map_of (usedPodAddresses am')
        = (if [''d_a'', ''d_b''] = [] then map_of (usedPodAddresses sample_am4)
           else (map_of (usedPodAddresses sample_am4))(a \<mapsto> last [''d_a'', ''d_b'']))"
  by (rule concurrent_requests_collide [OF sample_request4])

section \<open>Different blocks\<close>

text \<open>
  C7. A lock around the choice of a block and its entry keeps the blocks apart, also while the searches run
  side by side (when the runtime may still end the process): under every schedule in which no goroutine
  chooses while another is about to store, the addresses granted to different requests differ.
\<close>

theorem exclusive_requests_differ:
  assumes "am_inv4 am" "one_at_a_time request_ops4 sch (begin_requests request_ops4 names am)"
    "run_schedule request_ops4 sch (begin_requests request_ops4 names am) = Some (am', gs)"
    "i < length gs" "j < length gs" "i \<noteq> j"
    "reply request_ops4 am' (snd (gs ! i)) = Some (ip, None)" "reply request_ops4 am' (snd (gs ! j)) = Some (ip', None)"
  shows "ip \<noteq> ip'"
proof -
  have "table4.exclusive_ok (am', gs)"
    by (rule table4.exclusive_ok_run [OF table4.exclusive_ok_begin [OF assms(1)] assms(2,3)])
  moreover obtain x y where "snd (gs ! i) = Granted x" "snd (gs ! j) = Granted y" "ip = int2ip x" "ip' = int2ip y"
    using assms(7,8) by (cases "snd (gs ! i)"; cases "snd (gs ! j)") (auto simp: request_ops4_def)
  ultimately show ?thesis using assms(4-6) be_bytes_inj by (auto simp: table4.exclusive_ok_def int2ip_def)
qed

theorem exclusive_requests_differ_witness: "int2ip 0x0A010208 \<noteq> int2ip 0x0A010210"
  by (rule exclusive_requests_differ [OF am_inv4_sample, where sch = "[0, 0, 0, 1, 1, 1, 1]" and names = "[''d_a'', ''d_b'']"
        and i = 0 and j = 1
        and gs = "[(''d_a'', Granted (0x0A010208 :: u32)), (''d_b'', Granted (0x0A010210 :: u32))]"
        and am' = "sample_am4\<lparr>usedPodAddresses := [(0x0A010208, ''d_a''), (0x0A010210, ''d_b'')]\<rparr>"])
    (simp_all add: run_request_simps)

end
