(* ===== verification/Kernel.thy ===== *)
theory Kernel
  imports AddressSpec
begin

text \<open>
  The world around \<open>pkg/network\<close>: the record \<open>kernel\<close> holds the operations of the packages
  the code calls and that are not part of the repository (\<open>vishvananda/netlink\<close>,
  \<open>vishvananda/netns\<close>, \<open>cilium/ebpf\<close>), the shell, \<open>net.InterfaceByName\<close>, the random numbers
  and the order in which the Go runtime walks a map. It is an argument of every definition of
  the network components; its operations work on a state \<open>'w\<close> of their own, may fail, panic or
  never return. Handles of namespaces, BPF maps, programs and links are numbers; \<open>nil\<close> is
  \<^const>\<open>None\<close>. \<open>time.Sleep\<close> and the log have no effect here.

  The state of the package is the record \<open>net_state\<close>: the global \<open>PodAddressManager\<close>, the maps
  of the network manager and the byte arrays that \<open>net.IP\<close> values refer to. A \<open>net.IP\<close> is a
  slice: copying one shares its array, which \<open>getNextSubPodIP\<close> writes to, so a \<open>net.IP\<close> is a
  reference here.
\<close>

section \<open>Devices, routes, BPF objects\<close>

record link =
  l_name :: string
  l_index :: int
  l_hwaddr :: "byte list"

record net_interface =
  if_index :: int
  if_hwaddr :: "byte list"

datatype new_link = NewBridge string | NewTuntap string | NewVeth string string

record nl_route =
  r_dst :: "ip_net option"
  r_link_index :: int
  r_gw :: ip_bytes

type_synonym ns_handle = int
type_synonym bpf_map = nat
type_synonym bpf_prog = nat
type_synonym tc_link = nat
type_synonym bpf_spec = nat

text \<open>A \<open>*link.Link\<close>: nil, or a pointer to an interface value that may itself be nil.\<close>

type_synonym tc_link_ptr = "tc_link option option"

text \<open>The values the code puts into BPF maps (\<open>EBPF.go\<close>).\<close>

record RedirectRoute =
  rr_TargetIfIndex :: u32
  rr_SMac :: "byte list"
  rr_DMac :: "byte list"

record 'a RedirectLhRoute =
  lh_TargetIfIndex :: u32
  lh_SAddr :: 'a
  lh_DAddr :: 'a
  lh_SMac :: "byte list"
  lh_DMac :: "byte list"

record 'a SplitLhRoute =
  sl_Active :: u32
  sl_TargetIfIndex :: u32
  sl_SAddr :: 'a
  sl_DAddr :: 'a
  sl_SMac :: "byte list"
  sl_DMac :: "byte list"

record 'a SplitRoute =
  sr_Active :: u32
  sr_TargetIfIndex :: u32
  sr_DAddr :: 'a
  sr_SMac :: "byte list"
  sr_DMac :: "byte list"

type_synonym addr16 = "byte list"

datatype bpf_val =
    ValU32 u32
  | ValRedirect RedirectRoute
  | ValRedirectLh4 "u32 RedirectLhRoute" | ValRedirectLh6 "addr16 RedirectLhRoute"
  | ValSplitLh4 "u32 SplitLhRoute" | ValSplitLh6 "addr16 SplitLhRoute"
  | ValSplit4 "u32 SplitRoute" | ValSplit6 "addr16 SplitRoute"

datatype bpf_key = Key32 u32 | Key16 addr16

text \<open>
  A struct \<open>BpfObjects...\<close> is its field tags; what \<open>LoadAndAssign\<close> fills in is a handle per
  tag, \<open>nil\<close> where it did not.
\<close>

record bpf_objects =
  map_tags :: "string list"
  prog_tag :: string

record bpf_loaded =
  o_maps :: "(string \<times> bpf_map) list"
  o_prog :: "bpf_prog option"

definition o_map :: "string \<Rightarrow> bpf_loaded \<Rightarrow> bpf_map option" where
  "o_map tag objs = map_of (o_maps objs) tag"

section \<open>The kernel\<close>

record 'w kernel =
  LinkAdd :: "new_link \<Rightarrow> ('w, goerr) io"
  LinkByName :: "string \<Rightarrow> ('w, link option \<times> goerr) io"
  LinkSetUp :: "link option \<Rightarrow> ('w, goerr) io"
  LinkSetMaster :: "link option \<Rightarrow> link option \<Rightarrow> ('w, goerr) io"
  LinkSetNsFd :: "link option \<Rightarrow> ns_handle \<Rightarrow> ('w, goerr) io"
  LinkDel :: "link option \<Rightarrow> ('w, goerr) io"
  ParseAddr :: "string \<Rightarrow> ip_net option \<times> goerr"
  AddrAdd :: "link option \<Rightarrow> ip_net option \<Rightarrow> ('w, goerr) io"
  ParseIPNet :: "string \<Rightarrow> ip_net option \<times> goerr"
  RouteAdd :: "nl_route \<Rightarrow> ('w, goerr) io"
  RouteDel :: "nl_route \<Rightarrow> ('w, goerr) io"
  NsGet :: "('w, ns_handle \<times> goerr) io"
  NsSet :: "ns_handle \<Rightarrow> ('w, goerr) io"
  NsNewNamed :: "string \<Rightarrow> ('w, ns_handle \<times> goerr) io"
  NsDeleteNamed :: "string \<Rightarrow> ('w, goerr) io"
  LoadCollectionSpec :: "string \<Rightarrow> ('w, bpf_spec option \<times> goerr) io"
  LoadAndAssign :: "bpf_spec option \<Rightarrow> bpf_objects \<Rightarrow> ('w, bpf_loaded \<times> goerr) io"
  MapPut :: "bpf_map option \<Rightarrow> bpf_key \<Rightarrow> bpf_val \<Rightarrow> ('w, goerr) io"
  MapLookup :: "bpf_map option \<Rightarrow> bpf_key \<Rightarrow> bpf_val \<Rightarrow> ('w, bpf_val \<times> goerr) io"
  ProgFD :: "bpf_prog option \<Rightarrow> ('w, int) io"
  AttachTCX :: "int \<Rightarrow> bpf_prog option \<Rightarrow> ('w, tc_link option \<times> goerr) io"
  AttachXDP :: "int \<Rightarrow> bpf_prog option \<Rightarrow> ('w, tc_link option \<times> goerr) io"
  ShellOutput :: "string \<Rightarrow> ('w, string \<times> goerr) io"
  InterfaceByName :: "string \<Rightarrow> ('w, net_interface option \<times> goerr) io"
  RandIntn :: "nat \<Rightarrow> ('w, nat) io"
  RandRead :: "nat \<Rightarrow> ('w, byte list \<times> goerr) io"
  RangeOrder :: "nat \<Rightarrow> ('w, nat list) io"

section \<open>The state of the package\<close>

datatype addr_manager = AM4 ipv4am | AM6 ipv6am

type_synonym ip_ref = "nat option"

record pod_devices =
  baseAddr :: ip_ref
  podBridge :: "link option"
  addressesUsed :: "(string \<times> link option) list option"
  internalDevices :: "(string \<times> byte list) list option"
  toSubpodBpfMap :: "bpf_map option"
  fromSubpodBpfMap :: "bpf_map option"
  fromLocalhostBpfMaps :: "(string \<times> bpf_map option) list option"
  linksToKeep :: "tc_link_ptr list"
  mapsToKeep :: "bpf_map option list"
  bpfProgLink :: tc_link_ptr
  bpfToProg :: "bpf_prog option"
  bpfFromProg :: "bpf_prog option"

text \<open>The zero value of the struct: what a lookup of a missing pod gives.\<close>

definition no_pod_devices :: pod_devices where
  "no_pod_devices = \<lparr>baseAddr = None, podBridge = None, addressesUsed = None, internalDevices = None,
     toSubpodBpfMap = None, fromSubpodBpfMap = None, fromLocalhostBpfMaps = None, linksToKeep = [],
     mapsToKeep = [], bpfProgLink = None, bpfToProg = None, bpfFromProg = None\<rparr>"

record 'w net_state =
  heap :: "ip_bytes list"
  PodAddressManager :: "addr_manager option"
  podNamespaces :: "(string \<times> ns_handle) list"
  podDevices :: "(string \<times> pod_devices) list"
  dn_bridge :: "link option"
  kern :: 'w

type_synonym ('w, 'a) nio = "('w net_state, 'a) io"

definition kio :: "('w, 'a) io \<Rightarrow> ('w, 'a) nio" where
  "kio m = (\<lambda>s. case m (kern s) of (r, w) \<Rightarrow> (r, s\<lparr>kern := w\<rparr>))"

lemma kio_apply [io_simps]: "kio m s = (case m (kern s) of (r, w) \<Rightarrow> (r, s\<lparr>kern := w\<rparr>))"
  by (simp add: kio_def)

text \<open>\<open>for k, v := range m\<close>: the runtime picks the order.\<close>

definition range_map :: "'w kernel \<Rightarrow> 'e list \<Rightarrow> ('w, 'e list) nio" where
  "range_map k al = bnd (kio (RangeOrder k (length al))) (\<lambda>p.
     ret (map (\<lambda>i. al ! i) (filter (\<lambda>i. i < length al) p)))"

text \<open>Writing to a map: a nil map panics.\<close>

definition map_assign :: "'k \<Rightarrow> 'v \<Rightarrow> ('k \<times> 'v) list option \<Rightarrow> ('s, ('k \<times> 'v) list option) io" where
  "map_assign k v m = (case m of None \<Rightarrow> panic ''assignment to entry in nil map''
     | Some al \<Rightarrow> ret (Some (AList.update k v al)))"

text \<open>\<open>[n]byte(slice)\<close>: a shorter slice panics.\<close>

definition to_array :: "nat \<Rightarrow> 'a list \<Rightarrow> ('s, 'a list) io" where
  "to_array n xs = (if length xs < n then panic ''cannot convert slice to array'' else ret (take n xs))"

section \<open>Addresses in memory\<close>

definition ip_new :: "ip_bytes \<Rightarrow> ('w, ip_ref) nio" where
  "ip_new b = (\<lambda>s. (Done (Some (length (heap s))), s\<lparr>heap := heap s @ [b]\<rparr>))"

definition ip_bytes_of :: "ip_bytes list \<Rightarrow> ip_ref \<Rightarrow> ip_bytes" where
  "ip_bytes_of h r = (case r of None \<Rightarrow> [] | Some i \<Rightarrow> if i < length h then h ! i else [])"

definition ip_load :: "ip_ref \<Rightarrow> ('w, ip_bytes) nio" where
  "ip_load r = bnd get_st (\<lambda>s. ret (ip_bytes_of (heap s) r))"

text \<open>\<open>ip[i] += d\<close>, through the shared array.\<close>

definition ip_add_at :: "ip_ref \<Rightarrow> nat \<Rightarrow> byte \<Rightarrow> ('w, unit) nio" where
  "ip_add_at r i d = bnd get_st (\<lambda>s. case r of
     Some j \<Rightarrow> if j < length (heap s) \<and> i < length (heap s ! j)
       then modify (\<lambda>s. s\<lparr>heap := (heap s)[j := (heap s ! j)[i := heap s ! j ! i + d]]\<rparr>)
       else panic ''index out of range''
   | None \<Rightarrow> panic ''index out of range'')"

section \<open>The address manager behind the interface\<close>

definition am4_io :: "ipv4am \<Rightarrow> (ipv4am, 'a) io \<Rightarrow> ('w, 'a) nio" where
  "am4_io a m = (case m a of (r, a') \<Rightarrow> (\<lambda>s. (r, s\<lparr>PodAddressManager := Some (AM4 a')\<rparr>)))"

definition am6_io :: "ipv6am \<Rightarrow> (ipv6am, 'a) io \<Rightarrow> ('w, 'a) nio" where
  "am6_io a m = (case m a of (r, a') \<Rightarrow> (\<lambda>s. (r, s\<lparr>PodAddressManager := Some (AM6 a')\<rparr>)))"

definition pam :: "('w, addr_manager) nio" where
  "pam = bnd get_st (\<lambda>s. deref (PodAddressManager s))"

definition am_RequestPodIP :: "string \<Rightarrow> string \<Rightarrow> ('w, ip_ref \<times> goerr) nio" where
  "am_RequestPodIP ns pod = bnd pam (\<lambda>a.
     bnd (case a of AM4 a4 \<Rightarrow> am4_io a4 (RequestPodIP ns pod) | AM6 a6 \<Rightarrow> am6_io a6 (RequestPodIP6 ns pod))
       (\<lambda>(ip, err). bnd (ip_new ip) (\<lambda>r. ret (r, err))))"

definition am_IsIPv4 :: "('w, bool) nio" where
  "am_IsIPv4 = bnd pam (\<lambda>a. ret (case a of AM4 a4 \<Rightarrow> IsIPv4_4 a4 | AM6 a6 \<Rightarrow> IsIPv4_6 a6))"

definition am_GetMaxIPsPerPod :: "('w, nat) nio" where
  "am_GetMaxIPsPerPod = bnd pam (\<lambda>a. ret (case a of AM4 a4 \<Rightarrow> GetMaxIPsPerPod a4 | AM6 a6 \<Rightarrow> GetMaxIPsPerPod6 a6))"

definition am_GetMask :: "('w, nat) nio" where
  "am_GetMask = bnd pam (\<lambda>a. ret (case a of AM4 a4 \<Rightarrow> GetMask a4 | AM6 a6 \<Rightarrow> GetMask6 a6))"

definition am_GetCNIIfIP :: "('w, ip_ref) nio" where
  "am_GetCNIIfIP = bnd pam (\<lambda>a. ip_new (case a of AM4 a4 \<Rightarrow> GetCNIIfIP a4 | AM6 a6 \<Rightarrow> GetCNIIfIP6 a6))"

definition am_GlobalCNINet :: "('w, ip_net option \<times> goerr) nio" where
  "am_GlobalCNINet = bnd pam (\<lambda>a. ret (case a of AM4 a4 \<Rightarrow> GlobalCNINet a4 | AM6 a6 \<Rightarrow> GlobalCNINet6 a6))"

end
