(* ===== verification/EBPF.thy ===== *)
theory EBPF
  imports Kernel
begin

text \<open>
  \<open>pkg/network/EBPF.go\<close>: loading the compiled BPF programs, attaching them to devices, and the
  route values the managers put into their maps. The two \<open>putNext...\<close> functions look for the
  first slot that is not active; the loop bound is the IPv4 block size for both families, as in
  the code.
\<close>

section \<open>Loading\<close>

definition no_objects :: bpf_loaded where
  "no_objects = \<lparr>o_maps = [], o_prog = None\<rparr>"

text \<open>The body the \<open>loadBpf...\<close> functions share, and that of the \<open>loadObjects...\<close> functions.\<close>

definition load_spec :: "'w kernel \<Rightarrow> string \<Rightarrow> ('w, bpf_spec option \<times> goerr) nio" where
  "load_spec k file = bnd (kio (LoadCollectionSpec k file)) (\<lambda>(spec, err).
     if err \<noteq> None then ret (None, wrap err ''can't load bpf: %w'' []) else ret (spec, err))"

definition load_objects ::
  "'w kernel \<Rightarrow> ('w, bpf_spec option \<times> goerr) nio \<Rightarrow> bpf_objects \<Rightarrow> ('w, bpf_loaded \<times> goerr) nio" where
  "load_objects k load obj = bnd load (\<lambda>(spec, err).
     if err \<noteq> None then ret (no_objects, err) else kio (LoadAndAssign k spec obj))"

definition BpfObjectsTailCallIpv4TC :: bpf_objects where
  "BpfObjectsTailCallIpv4TC = \<lparr>map_tags = [''jump_table'', ''ip_map''], prog_tag = ''lh_tails_ipv4''\<rparr>"

definition loadBpfTailCallIpv4TC :: "'w kernel \<Rightarrow> ('w, bpf_spec option \<times> goerr) nio" where
  "loadBpfTailCallIpv4TC k = load_spec k ''bpf_tail_call_ipv4.o''"

definition loadObjectsBpfTailCallIpv4TC :: "'w kernel \<Rightarrow> ('w, bpf_loaded \<times> goerr) nio" where
  "loadObjectsBpfTailCallIpv4TC k =
     load_objects k (loadBpfTailCallIpv4TC k) BpfObjectsTailCallIpv4TC"

definition BpfObjectsTailCallIpv6TC :: bpf_objects where
  "BpfObjectsTailCallIpv6TC = \<lparr>map_tags = [''jump_table'', ''ip_map''], prog_tag = ''lh_tails_ipv6''\<rparr>"

definition loadBpfTailCallIpv6TC :: "'w kernel \<Rightarrow> ('w, bpf_spec option \<times> goerr) nio" where
  "loadBpfTailCallIpv6TC k = load_spec k ''bpf_tail_call_ipv6_tc.o''"

definition loadObjectsBpfTailCallIpv6TC :: "'w kernel \<Rightarrow> ('w, bpf_loaded \<times> goerr) nio" where
  "loadObjectsBpfTailCallIpv6TC k =
     load_objects k (loadBpfTailCallIpv6TC k) BpfObjectsTailCallIpv6TC"

definition BpfObjectsTranslateRedirectLhIpv4TC :: bpf_objects where
  "BpfObjectsTranslateRedirectLhIpv4TC = \<lparr>map_tags = [''tc_redirect_map''], prog_tag = ''tc_lhredirect''\<rparr>"

definition loadBpfTranslateRedirectLhIpv4TC :: "'w kernel \<Rightarrow> ('w, bpf_spec option \<times> goerr) nio" where
  "loadBpfTranslateRedirectLhIpv4TC k = load_spec k ''translate_redirect_lh_ipv4_tc.o''"

definition loadObjectsTranslateRedirectLhIpv4TC :: "'w kernel \<Rightarrow> ('w, bpf_loaded \<times> goerr) nio" where
  "loadObjectsTranslateRedirectLhIpv4TC k =
     load_objects k (loadBpfTranslateRedirectLhIpv4TC k) BpfObjectsTranslateRedirectLhIpv4TC"

definition BpfObjectsTranslateRedirectLhIpv4XDP :: bpf_objects where
  "BpfObjectsTranslateRedirectLhIpv4XDP = \<lparr>map_tags = [''xdp_redirect_map''], prog_tag = ''xdp_lhredirect''\<rparr>"

definition loadBpfTranslateRedirectLhIpv4XDP :: "'w kernel \<Rightarrow> ('w, bpf_spec option \<times> goerr) nio" where
  "loadBpfTranslateRedirectLhIpv4XDP k = load_spec k ''translate_redirect_lh_ipv4_xdp.o''"

definition loadObjectsTranslateRedirectLhIpv4XDP :: "'w kernel \<Rightarrow> ('w, bpf_loaded \<times> goerr) nio" where
  "loadObjectsTranslateRedirectLhIpv4XDP k =
     load_objects k (loadBpfTranslateRedirectLhIpv4XDP k) BpfObjectsTranslateRedirectLhIpv4XDP"

definition BpfObjectsTranslateRedirectLhIpv6TC :: bpf_objects where
  "BpfObjectsTranslateRedirectLhIpv6TC = \<lparr>map_tags = [''tc_redirect_map''], prog_tag = ''tc_lhredirect''\<rparr>"

definition loadBpfTranslateRedirectLhIpv6TC :: "'w kernel \<Rightarrow> ('w, bpf_spec option \<times> goerr) nio" where
  "loadBpfTranslateRedirectLhIpv6TC k = load_spec k ''translate_redirect_lh_ipv6_tc.o''"

definition loadObjectsTranslateRedirectLhIpv6TC :: "'w kernel \<Rightarrow> ('w, bpf_loaded \<times> goerr) nio" where
  "loadObjectsTranslateRedirectLhIpv6TC k =
     load_objects k (loadBpfTranslateRedirectLhIpv6TC k) BpfObjectsTranslateRedirectLhIpv6TC"

definition BpfObjectsTranslateRedirectLhIpv6XDP :: bpf_objects where
  "BpfObjectsTranslateRedirectLhIpv6XDP = \<lparr>map_tags = [''xdp_redirect_map''], prog_tag = ''xdp_lhredirect''\<rparr>"

definition loadBpfTranslateRedirectLhIpv6XDP :: "'w kernel \<Rightarrow> ('w, bpf_spec option \<times> goerr) nio" where
  "loadBpfTranslateRedirectLhIpv6XDP k = load_spec k ''translate_redirect_lh_ipv6_xdp.o''"

definition loadObjectsTranslateRedirectLhIpv6XDP :: "'w kernel \<Rightarrow> ('w, bpf_loaded \<times> goerr) nio" where
  "loadObjectsTranslateRedirectLhIpv6XDP k =
     load_objects k (loadBpfTranslateRedirectLhIpv6XDP k) BpfObjectsTranslateRedirectLhIpv6XDP"

definition BpfObjectsTranslateRedirectSubpodIpv4TC :: bpf_objects where
  "BpfObjectsTranslateRedirectSubpodIpv4TC = \<lparr>map_tags = [''tc_redirect_map''], prog_tag = ''tc_subpodredirect''\<rparr>"

definition loadBpfTranslateRedirectSubpodIpv4TC :: "'w kernel \<Rightarrow> ('w, bpf_spec option \<times> goerr) nio" where
  "loadBpfTranslateRedirectSubpodIpv4TC k = load_spec k ''translate_redirect_subpod_ipv4_tc.o''"

definition loadObjectsTranslateRedirectSubpodIpv4TC :: "'w kernel \<Rightarrow> ('w, bpf_loaded \<times> goerr) nio" where
  "loadObjectsTranslateRedirectSubpodIpv4TC k =
     load_objects k (loadBpfTranslateRedirectSubpodIpv4TC k) BpfObjectsTranslateRedirectSubpodIpv4TC"

definition BpfObjectsTranslateRedirectSubpodIpv6TC :: bpf_objects where
  "BpfObjectsTranslateRedirectSubpodIpv6TC = \<lparr>map_tags = [''tc_redirect_map''], prog_tag = ''tc_subpodredirect''\<rparr>"

definition loadBpfTranslateRedirectSubpodIpv6TC :: "'w kernel \<Rightarrow> ('w, bpf_spec option \<times> goerr) nio" where
  "loadBpfTranslateRedirectSubpodIpv6TC k = load_spec k ''translate_redirect_subpod_ipv6_tc.o''"

definition loadObjectsTranslateRedirectSubpodIpv6TC :: "'w kernel \<Rightarrow> ('w, bpf_loaded \<times> goerr) nio" where
  "loadObjectsTranslateRedirectSubpodIpv6TC k =
     load_objects k (loadBpfTranslateRedirectSubpodIpv6TC k) BpfObjectsTranslateRedirectSubpodIpv6TC"

definition BpfObjectsSplitLhRedirectIPv4TC :: bpf_objects where
  "BpfObjectsSplitLhRedirectIPv4TC = \<lparr>map_tags = [''tc_lh_map'', ''tc_lhaddr_map''], prog_tag = ''tc_lh2split''\<rparr>"

definition loadBpfSplitLhRedirectIPv4TC :: "'w kernel \<Rightarrow> ('w, bpf_spec option \<times> goerr) nio" where
  "loadBpfSplitLhRedirectIPv4TC k = load_spec k ''split_redirect_lh_ipv4_tc.o''"

definition loadObjectsBpfSplitLhRedirectIPv4TC :: "'w kernel \<Rightarrow> ('w, bpf_loaded \<times> goerr) nio" where
  "loadObjectsBpfSplitLhRedirectIPv4TC k =
     load_objects k (loadBpfSplitLhRedirectIPv4TC k) BpfObjectsSplitLhRedirectIPv4TC"

definition BpfObjectsSplitLhRedirectIPv6TC :: bpf_objects where
  "BpfObjectsSplitLhRedirectIPv6TC = \<lparr>map_tags = [''tc_lh_map'', ''tc_lhaddr_map''], prog_tag = ''tc_lh2split''\<rparr>"

definition loadBpfSplitLhRedirectIPv6TC :: "'w kernel \<Rightarrow> ('w, bpf_spec option \<times> goerr) nio" where
  "loadBpfSplitLhRedirectIPv6TC k = load_spec k ''split_redirect_lh_ipv6_tc.o''"

definition loadObjectsBpfSplitLhRedirectIPv6TC :: "'w kernel \<Rightarrow> ('w, bpf_loaded \<times> goerr) nio" where
  "loadObjectsBpfSplitLhRedirectIPv6TC k =
     load_objects k (loadBpfSplitLhRedirectIPv6TC k) BpfObjectsSplitLhRedirectIPv6TC"

definition BpfObjectsSplitGenericRedirectIPv4TC :: bpf_objects where
  "BpfObjectsSplitGenericRedirectIPv4TC = \<lparr>map_tags = [''tc_split_map''], prog_tag = ''tc_generic2split''\<rparr>"

definition loadBpfSplitGenericRedirectIPv4TC :: "'w kernel \<Rightarrow> ('w, bpf_spec option \<times> goerr) nio" where
  "loadBpfSplitGenericRedirectIPv4TC k = load_spec k ''split_redirect_generic_ipv4_tc.o''"

definition loadObjectsBpfSplitGenericRedirectIPv4TC :: "'w kernel \<Rightarrow> ('w, bpf_loaded \<times> goerr) nio" where
  "loadObjectsBpfSplitGenericRedirectIPv4TC k =
     load_objects k (loadBpfSplitGenericRedirectIPv4TC k) BpfObjectsSplitGenericRedirectIPv4TC"

definition BpfObjectsSplitGenericRedirectIPv6TC :: bpf_objects where
  "BpfObjectsSplitGenericRedirectIPv6TC = \<lparr>map_tags = [''tc_split_map''], prog_tag = ''tc_generic2split''\<rparr>"

definition loadBpfSplitGenericRedirectIPv6TC :: "'w kernel \<Rightarrow> ('w, bpf_spec option \<times> goerr) nio" where
  "loadBpfSplitGenericRedirectIPv6TC k = load_spec k ''split_redirect_generic_ipv6_tc.o''"

definition loadObjectsBpfSplitGenericRedirectIPv6TC :: "'w kernel \<Rightarrow> ('w, bpf_loaded \<times> goerr) nio" where
  "loadObjectsBpfSplitGenericRedirectIPv6TC k =
     load_objects k (loadBpfSplitGenericRedirectIPv6TC k) BpfObjectsSplitGenericRedirectIPv6TC"

section \<open>Attaching\<close>

definition loadToSubPodTC :: "'w kernel \<Rightarrow> ('w, bpf_prog option \<times> bpf_map option) nio" where
  "loadToSubPodTC k = bnd am_IsIPv4 (\<lambda>v4.
     if v4 then
       bnd (loadObjectsBpfSplitGenericRedirectIPv4TC k) (\<lambda>(objs, err).
         ret (o_prog objs, o_map ''tc_split_map'' objs))
     else
       bnd (loadObjectsBpfSplitGenericRedirectIPv6TC k) (\<lambda>(objs, err).
         if err \<noteq> None then ret (None, None) else ret (o_prog objs, o_map ''tc_split_map'' objs)))"

definition setupSubpodTC ::
  "'w kernel \<Rightarrow> link option \<Rightarrow> ip_ref \<Rightarrow> bpf_prog option \<Rightarrow> bpf_prog option \<Rightarrow>
     ('w, tc_link_ptr \<times> bpf_map option list) nio" where
  "setupSubpodTC k podIf subnet fromSN toSN = bnd am_IsIPv4 (\<lambda>v4.
     if v4 then
       bnd (loadObjectsBpfTailCallIpv4TC k) (\<lambda>(objs, _).
       let jumpTable = o_map ''jump_table'' objs; subnetMap = o_map ''ip_map'' objs in
       bnd (kio (ProgFD k toSN)) (\<lambda>toFD.
       bnd (kio (MapPut k jumpTable (Key32 0) (ValU32 (of_int toFD)))) (\<lambda>_.
       bnd (kio (ProgFD k fromSN)) (\<lambda>fromFD.
       bnd (kio (MapPut k jumpTable (Key32 1) (ValU32 (of_int fromFD)))) (\<lambda>_.
       bnd (ip_load subnet) (\<lambda>b.
       bnd (ip2int b) (\<lambda>addr.
       bnd (kio (MapPut k subnetMap (Key32 0) (ValU32 addr))) (\<lambda>_.
       bnd (kio (ProgFD k fromSN)) (\<lambda>_.
       bnd (kio (ProgFD k toSN)) (\<lambda>_.
       bnd (deref podIf) (\<lambda>la.
       bnd (kio (AttachTCX k (l_index la) (o_prog objs))) (\<lambda>(l, _).
       ret (Some l, [subnetMap, jumpTable])))))))))))))
     else
       bnd (loadObjectsBpfTailCallIpv6TC k) (\<lambda>(objs, err).
       if err \<noteq> None then panic ''panic(err)''
       else
       bnd (deref podIf) (\<lambda>la.
       bnd (kio (AttachTCX k (l_index la) (o_prog objs))) (\<lambda>(l, _).
       ret (Some l, [o_map ''ip_map'' objs, o_map ''jump_table'' objs])))))"

definition loadFromSubPodTC :: "'w kernel \<Rightarrow> ('w, bpf_prog option \<times> bpf_map option) nio" where
  "loadFromSubPodTC k = bnd am_IsIPv4 (\<lambda>v4.
     if v4 then
       bnd (loadObjectsTranslateRedirectSubpodIpv4TC k) (\<lambda>(objs, err).
         if err \<noteq> None then ret (None, None) else ret (o_prog objs, o_map ''tc_redirect_map'' objs))
     else
       bnd (loadObjectsTranslateRedirectSubpodIpv6TC k) (\<lambda>(objs, err).
         if err \<noteq> None then ret (None, None) else ret (o_prog objs, o_map ''tc_redirect_map'' objs)))"

definition setupToLhXDP :: "'w kernel \<Rightarrow> link option \<Rightarrow> ('w, tc_link_ptr \<times> bpf_map option) nio" where
  "setupToLhXDP k podIf = bnd am_IsIPv4 (\<lambda>v4.
     bnd (if v4 then loadObjectsTranslateRedirectLhIpv4XDP k else loadObjectsTranslateRedirectLhIpv6XDP k)
       (\<lambda>(objs, err).
     if err \<noteq> None then ret (None, None)
     else
       bnd (deref podIf) (\<lambda>la.
       bnd (kio (AttachXDP k (l_index la) (o_prog objs))) (\<lambda>(l, err).
       if err \<noteq> None then ret (None, None) else ret (Some l, o_map ''xdp_redirect_map'' objs)))))"

definition setupFromLhTC ::
  "'w kernel \<Rightarrow> link option \<Rightarrow> ip_ref \<Rightarrow> ('w, tc_link_ptr \<times> bpf_map option \<times> bpf_map option) nio" where
  "setupFromLhTC k podLhIf lhIP = bnd am_IsIPv4 (\<lambda>v4.
     bnd (if v4 then loadObjectsBpfSplitLhRedirectIPv4TC k else loadObjectsBpfSplitLhRedirectIPv6TC k)
       (\<lambda>(objs, err).
     if err \<noteq> None then ret (None, None, None)
     else
       let lhAddrMap = o_map ''tc_lhaddr_map'' objs in
       bnd (ip_load lhIP) (\<lambda>b.
       bnd (ip2int b) (\<lambda>addr.
       bnd (kio (MapPut k lhAddrMap (Key32 0) (ValU32 addr))) (\<lambda>err.
       if err \<noteq> None then ret (None, None, None)
       else
         bnd (deref podLhIf) (\<lambda>la.
         bnd (kio (AttachTCX k (l_index la) (o_prog objs))) (\<lambda>(l, err).
         if err \<noteq> None then ret (None, None, None)
         else ret (Some l, o_map ''tc_lh_map'' objs, lhAddrMap))))))))"

section \<open>Route values\<close>

definition makeRedirectLhMapObject :: "link option \<Rightarrow> ip_ref \<Rightarrow> ('w, bpf_val) nio" where
  "makeRedirectLhMapObject targetIf lhIp =
     bnd (deref targetIf) (\<lambda>_.
     bnd (ip_load lhIp) (\<lambda>b.
     bnd am_IsIPv4 (\<lambda>v4.
     if v4 then bnd (ip2int b) (\<lambda>a. ret (ValRedirectLh4
       \<lparr>lh_TargetIfIndex = 0, lh_SAddr = a, lh_DAddr = 0, lh_SMac = replicate 6 0, lh_DMac = replicate 6 0\<rparr>))
     else bnd (to_array 16 b) (\<lambda>a. ret (ValRedirectLh6
       \<lparr>lh_TargetIfIndex = 0, lh_SAddr = a, lh_DAddr = replicate 16 0, lh_SMac = replicate 6 0,
        lh_DMac = replicate 6 0\<rparr>)))))"

definition makeSplitLhRouteMapObject ::
  "link option \<Rightarrow> byte list \<Rightarrow> ip_ref \<Rightarrow> ip_bytes \<Rightarrow> ('w, bpf_val) nio" where
  "makeSplitLhRouteMapObject srcIf targetIf src dest =
     bnd (deref srcIf) (\<lambda>la.
     bnd (ip_load src) (\<lambda>srcb.
     bnd am_IsIPv4 (\<lambda>v4.
     if v4 then
       bnd (ip2int dest) (\<lambda>d. bnd (ip2int srcb) (\<lambda>s.
       bnd (to_array 6 (l_hwaddr la)) (\<lambda>smac. bnd (to_array 6 targetIf) (\<lambda>dmac.
       ret (ValSplitLh4 \<lparr>sl_Active = 1, sl_TargetIfIndex = of_int (l_index la), sl_SAddr = s, sl_DAddr = d,
         sl_SMac = smac, sl_DMac = dmac\<rparr>)))))
     else
       bnd (to_array 16 dest) (\<lambda>d. bnd (to_array 16 srcb) (\<lambda>s.
       bnd (to_array 6 (l_hwaddr la)) (\<lambda>smac. bnd (to_array 6 targetIf) (\<lambda>dmac.
       ret (ValSplitLh6 \<lparr>sl_Active = 1, sl_TargetIfIndex = of_int (l_index la), sl_SAddr = s, sl_DAddr = d,
         sl_SMac = smac, sl_DMac = dmac\<rparr>))))))))"

definition makeSplitRouteMapObjectMac :: "link option \<Rightarrow> byte list \<Rightarrow> ip_ref \<Rightarrow> ('w, bpf_val) nio" where
  "makeSplitRouteMapObjectMac srcIf targetIf destination =
     bnd am_IsIPv4 (\<lambda>v4.
     bnd (deref srcIf) (\<lambda>la.
     bnd (ip_load destination) (\<lambda>b.
     if v4 then
       bnd (ip2int b) (\<lambda>d.
       bnd (to_array 6 (l_hwaddr la)) (\<lambda>smac. bnd (to_array 6 targetIf) (\<lambda>dmac.
       ret (ValSplit4 \<lparr>sr_Active = 1, sr_TargetIfIndex = of_int (l_index la), sr_DAddr = d,
         sr_SMac = smac, sr_DMac = dmac\<rparr>))))
     else
       bnd (to_array 16 b) (\<lambda>d.
       bnd (to_array 6 (l_hwaddr la)) (\<lambda>smac. bnd (to_array 6 targetIf) (\<lambda>dmac.
       ret (ValSplit6 \<lparr>sr_Active = 1, sr_TargetIfIndex = of_int (l_index la), sr_DAddr = d,
         sr_SMac = smac, sr_DMac = dmac\<rparr>)))))))"

definition makeSplitRouteMapObject :: "link option \<Rightarrow> link option \<Rightarrow> ip_ref \<Rightarrow> ('w, bpf_val) nio" where
  "makeSplitRouteMapObject srcIf targetIf destination =
     bnd am_IsIPv4 (\<lambda>v4.
     bnd (deref srcIf) (\<lambda>la.
     bnd (ip_load destination) (\<lambda>b.
     if v4 then
       bnd (ip2int b) (\<lambda>d.
       bnd (to_array 6 (l_hwaddr la)) (\<lambda>smac.
       bnd (deref targetIf) (\<lambda>lb. bnd (to_array 6 (l_hwaddr lb)) (\<lambda>dmac.
       ret (ValSplit4 \<lparr>sr_Active = 1, sr_TargetIfIndex = of_int (l_index la), sr_DAddr = d,
         sr_SMac = smac, sr_DMac = dmac\<rparr>)))))
     else
       bnd (to_array 16 b) (\<lambda>d.
       bnd (to_array 6 (l_hwaddr la)) (\<lambda>smac.
       bnd (deref targetIf) (\<lambda>lb. bnd (to_array 6 (l_hwaddr lb)) (\<lambda>dmac.
       ret (ValSplit6 \<lparr>sr_Active = 1, sr_TargetIfIndex = of_int (l_index la), sr_DAddr = d,
         sr_SMac = smac, sr_DMac = dmac\<rparr>))))))))"

section \<open>The next free slot of a split map\<close>

text \<open>The zero items the lookups fill in, and the field the loops test.\<close>

definition zero_SplitRoute :: "'a \<Rightarrow> 'a SplitRoute" where
  "zero_SplitRoute z = \<lparr>sr_Active = 0, sr_TargetIfIndex = 0, sr_DAddr = z, sr_SMac = replicate 6 0,
     sr_DMac = replicate 6 0\<rparr>"

definition zero_SplitLhRoute :: "'a \<Rightarrow> 'a SplitLhRoute" where
  "zero_SplitLhRoute z = \<lparr>sl_Active = 0, sl_TargetIfIndex = 0, sl_SAddr = z, sl_DAddr = z,
     sl_SMac = replicate 6 0, sl_DMac = replicate 6 0\<rparr>"

fun val_active :: "bpf_val \<Rightarrow> u32" where
  "val_active (ValSplit4 r) = sr_Active r"
| "val_active (ValSplit6 r) = sr_Active r"
| "val_active (ValSplitLh4 r) = sl_Active r"
| "val_active (ValSplitLh6 r) = sl_Active r"
| "val_active _ = 0"

definition putNextLhSplitRouteObj :: "'w kernel \<Rightarrow> bpf_map option \<Rightarrow> bpf_val \<Rightarrow> ('w, goerr) nio" where
  "putNextLhSplitRouteObj k bpfMap routeObj =
     bnd (for_each [0..<MaxIPv4IPsPerPod] (\<lambda>i.
       bnd am_IsIPv4 (\<lambda>v4.
       bnd (kio (MapLookup k bpfMap (Key32 (of_nat i))
           (if v4 then ValSplitLh4 (zero_SplitLhRoute 0) else ValSplitLh6 (zero_SplitLhRoute (replicate 16 0)))))
         (\<lambda>(item, err).
       if err = None \<and> val_active item = 0 then
         bnd (kio (MapPut k bpfMap (Key32 (of_nat i)) routeObj)) (\<lambda>err. ret (Some err))
       else ret None))))
     (\<lambda>r. case r of Some err \<Rightarrow> ret err
       | None \<Rightarrow> ret (Some (Errorf ''No more space in map to put routeobject %v'' [])))"

definition putNextSplitRouteObj :: "'w kernel \<Rightarrow> bpf_map option \<Rightarrow> bpf_val \<Rightarrow> ('w, goerr) nio" where
  "putNextSplitRouteObj k bpfMap routeObj =
     bnd (for_each [0..<MaxIPv4IPsPerPod] (\<lambda>i.
       bnd am_IsIPv4 (\<lambda>v4.
       bnd (kio (MapLookup k bpfMap (Key32 (of_nat i))
           (if v4 then ValSplit4 (zero_SplitRoute 0) else ValSplit6 (zero_SplitRoute (replicate 16 0)))))
         (\<lambda>(item, err).
       if err = None \<and> val_active item = 0 then
         bnd (kio (MapPut k bpfMap (Key32 (of_nat i)) routeObj)) (\<lambda>err. ret (Some err))
       else ret None))))
     (\<lambda>r. case r of Some err \<Rightarrow> ret err
       | None \<Rightarrow> ret (Some (Errorf ''No more space in map to put routeobject %v'' [])))"

end
