(* ===== verification/ContainerNet.thy ===== *)
theory ContainerNet
  imports EBPF
begin

text \<open>
  \<open>pkg/network/ContainerNetworking.go\<close>, \<open>NetNsManagement.go\<close> and the shell helper of \<open>pkg/util\<close>
  they use: bridges, veth pairs and namespaces of pods, the retry loops around netlink, and the
  addresses inside a pod's block. \<open>setupPodNetNs\<close> switches the namespace of the calling thread
  to the pod's and, when all goes well, back.
\<close>

section \<open>Retry loops\<close>

text \<open>
  \<open>for err != nil \{ ... err = op() \}\<close>: repeat the operation until it gives no error;
  \<^const>\<open>None\<close> if it never does.
\<close>

partial_function (option) retry ::
  "('s, 'a \<times> goerr) io \<Rightarrow> 's \<Rightarrow> ('a outcome \<times> 's) option" where
  "retry m s = (case m s of
     (Done (a, err), t) \<Rightarrow> if err = None then Some (Done a, t) else retry m t
   | (Panic msg, t) \<Rightarrow> Some (Panic msg, t)
   | (Diverged, t) \<Rightarrow> Some (Diverged, t))"

definition until_ok :: "('s, 'a \<times> goerr) io \<Rightarrow> ('s, 'a) io" where
  "until_ok m = (\<lambda>s. case retry m s of None \<Rightarrow> (Diverged, s) | Some r \<Rightarrow> r)"

definition tryGetLink :: "'w kernel \<Rightarrow> string \<Rightarrow> ('w, link option \<times> goerr) nio" where
  "tryGetLink k podIfName = bnd (until_ok (kio (LinkByName k podIfName))) (\<lambda>l. ret (l, None))"

definition trySetNs :: "'w kernel \<Rightarrow> ns_handle \<Rightarrow> ('w, goerr) nio" where
  "trySetNs k handle =
     bnd (until_ok (bnd (kio (NsSet k handle)) (\<lambda>err. ret ((), err)))) (\<lambda>_. ret None)"

definition trySetLinkUp :: "'w kernel \<Rightarrow> link option \<Rightarrow> ('w, goerr) nio" where
  "trySetLinkUp k l =
     bnd (until_ok (bnd (kio (LinkSetUp k l)) (\<lambda>err. ret ((), err)))) (\<lambda>_. ret None)"

section \<open>The public interface\<close>

definition ExecShellCommand :: "'w kernel \<Rightarrow> string \<Rightarrow> ('w, string \<times> goerr) nio" where
  "ExecShellCommand k cmd = bnd (kio (ShellOutput k cmd)) (\<lambda>(stdout, err).
     if err \<noteq> None then ret ([], err) else ret (stdout, None))"

definition GetRouteDev :: "'w kernel \<Rightarrow> string \<Rightarrow> ('w, string \<times> goerr) nio" where
  "GetRouteDev k publicIP =
     (let cmd = ''ip route get '' @ publicIP @ '' | grep -E -o '' @ [CHR 0x27] @ ''[0-9'' @ [CHR 0x5C]
        @ ''.]* dev [a-z0-9]*'' @ [CHR 0x27] in
      bnd (ExecShellCommand k cmd) (\<lambda>(route, err).
      if err \<noteq> None then ret ([], err)
      else
        let parts = split_on CHR '' '' route in
        if length parts < 3 then panic ''index out of range'' else ret (parts ! 2, None)))"

text \<open>\<open>strings.Trim(s, newline)\<close>.\<close>

definition trim_newlines :: "string \<Rightarrow> string" where
  "trim_newlines s = rev (dropWhile (\<lambda>c. c = CHR 0x0A) (rev (dropWhile (\<lambda>c. c = CHR 0x0A) s)))"

definition getPublicIface :: "'w kernel \<Rightarrow> ('w, net_interface option \<times> goerr) nio" where
  "getPublicIface k = bnd am_IsIPv4 (\<lambda>v4.
     let pubIp = (if v4 then ''0.0.0.1'' else ''::0'') in
     bnd (GetRouteDev k pubIp) (\<lambda>(dev, err).
     if err \<noteq> None then ret (None, err)
     else
       let ifaceName = trim_newlines dev in
       kio (InterfaceByName k ifaceName)))"

section \<open>Random names\<close>

definition letterRunes :: string where
  "letterRunes = ''abcdef0123456789''"

primrec RandStringRunes :: "'w kernel \<Rightarrow> nat \<Rightarrow> ('w, string) nio" where
  "RandStringRunes k 0 = ret []"
| "RandStringRunes k (Suc n) = bnd (kio (RandIntn k (length letterRunes))) (\<lambda>i.
     if i < length letterRunes then bnd (RandStringRunes k n) (\<lambda>rest. ret (letterRunes ! i # rest))
     else panic ''index out of range'')"

definition generateMac :: "'w kernel \<Rightarrow> ('w, byte list) nio" where
  "generateMac k = bnd (kio (RandRead k 6)) (\<lambda>(filled, _).
     let buf = take 6 (filled @ replicate 6 0) in
     ret (buf[0 := 0x46, 1 := 0x0C, 2 := 0x3B]))"

section \<open>Bridges and dummies\<close>

definition cidr_text :: "ip_bytes \<Rightarrow> nat \<Rightarrow> string" where
  "cidr_text ip n = ip_string ip @ ''/'' @ itoa n"

definition setupCNI0 :: "'w kernel \<Rightarrow> ('w, link option option \<times> goerr) nio" where
  "setupCNI0 k =
     bnd (kio (LinkAdd k (NewBridge ''cni0''))) (\<lambda>err.
     if err \<noteq> None then ret (None, err)
     else
       bnd (kio (LinkByName k ''cni0'')) (\<lambda>(brdevice, _).
       bnd am_GetCNIIfIP (\<lambda>r. bnd (ip_load r) (\<lambda>ip.
       bnd am_GetMask (\<lambda>mask.
       let (addr, _) = ParseAddr k (cidr_text ip mask) in
       bnd (kio (AddrAdd k brdevice addr)) (\<lambda>_.
       bnd (kio (LinkSetUp k brdevice)) (\<lambda>err.
       if err \<noteq> None then ret (None, err) else ret (Some brdevice, None))))))))"

definition setupCNIDummy :: "'w kernel \<Rightarrow> ip_ref \<Rightarrow> string \<Rightarrow> ('w, link option option \<times> goerr) nio" where
  "setupCNIDummy k ip ident =
     (let podIfName = ''dum'' @ ident in
      bnd (kio (LinkAdd k (NewTuntap podIfName))) (\<lambda>err.
      if err \<noteq> None then ret (None, err)
      else
        bnd (ip_load ip) (\<lambda>b.
        let netSize = (if length b = 4 then 32 else 128) in
        bnd (kio (LinkByName k podIfName)) (\<lambda>(poddevice, _).
        let (addr, _) = ParseAddr k (cidr_text b netSize) in
        bnd (kio (AddrAdd k poddevice addr)) (\<lambda>err.
        bnd (if err \<noteq> None then bnd (deref poddevice) (\<lambda>_. ret ()) else ret ()) (\<lambda>_.
        bnd (kio (LinkSetUp k poddevice)) (\<lambda>err.
        bnd (if err \<noteq> None then bnd (deref poddevice) (\<lambda>_. ret ()) else ret ()) (\<lambda>_.
        if err \<noteq> None then ret (None, err) else ret (Some poddevice, None)))))))))"

definition stopCNI0 :: "'w kernel \<Rightarrow> ('w, goerr) nio" where
  "stopCNI0 k = bnd (kio (LinkByName k ''cni0'')) (\<lambda>(brdevice, _). kio (LinkDel k brdevice))"

section \<open>Namespaces\<close>

definition GetNetNs :: "string \<Rightarrow> string \<Rightarrow> string" where
  "GetNetNs ns pod = ns @ ''-'' @ pod"

definition teardownNamespaces :: "'w kernel \<Rightarrow> (string \<times> ns_handle) list \<Rightarrow> ('w, goerr) nio" where
  "teardownNamespaces k nss =
     bnd (range_map k nss) (\<lambda>es.
     bnd (for_each es (\<lambda>(netNs, _).
       bnd (kio (NsDeleteNamed k netNs)) (\<lambda>err. ret (map_option Some err))))
     (\<lambda>r. case r of Some err \<Rightarrow> ret err | None \<Rightarrow> ret None))"

type_synonym pod_netns = "link option option \<times> link option option \<times> ns_handle option \<times> goerr"

text \<open>
  The body of \<open>setupPodNetNs\<close> after the switch into the namespace of the pod, up to the switch
  back: address, default route, loopback.
\<close>

definition configure_pod_side ::
  "'w kernel \<Rightarrow> ip_ref \<Rightarrow> ip_ref \<Rightarrow> link option \<Rightarrow> nat \<Rightarrow> ('w, goerr) nio" where
  "configure_pod_side k gwIp ip contIf netSize =
     bnd (ip_load ip) (\<lambda>b.
     let (addr, _) = ParseAddr k (cidr_text b netSize) in
     bnd (kio (AddrAdd k contIf addr)) (\<lambda>_.
     bnd (kio (LinkSetUp k contIf)) (\<lambda>_.
     let (defaultIP, err) = ParseIPNet k ''0.0.0.0/0'' in
     if err \<noteq> None then ret err
     else
       bnd (deref contIf) (\<lambda>la.
       bnd (ip_load gwIp) (\<lambda>gw.
       bnd (kio (RouteAdd k \<lparr>r_dst = defaultIP, r_link_index = l_index la, r_gw = gw\<rparr>)) (\<lambda>err.
       if err \<noteq> None then ret err
       else
         bnd (kio (LinkByName k ''lo'')) (\<lambda>(nsLoopback, err).
         if err \<noteq> None then ret err
         else bnd (trySetLinkUp k nsLoopback) (\<lambda>_. ret None))))))))"

definition setupPodNetNs ::
  "'w kernel \<Rightarrow> string \<Rightarrow> ip_ref \<Rightarrow> ip_ref \<Rightarrow> link option \<Rightarrow> ('w, pod_netns) nio" where
  "setupPodNetNs k netNsName gwIp ip bridge =
     bnd (kio (NsGet k)) (\<lambda>(rootNetns, _).
     bnd (kio (NsNewNamed k netNsName)) (\<lambda>(nsid, err).
     bnd (trySetNs k rootNetns) (\<lambda>_.
     if err \<noteq> None then ret (None, None, None, err)
     else
       bnd (RandStringRunes k 4) (\<lambda>runes.
       let hostIfName = ''veth'' @ runes; contIfName = ''eth'' @ runes in
       bnd (kio (LinkAdd k (NewVeth contIfName hostIfName))) (\<lambda>err.
       if err \<noteq> None then ret (None, None, None, err)
       else
         bnd (tryGetLink k hostIfName) (\<lambda>(hostIf, err).
         if err \<noteq> None then ret (None, None, None, err)
         else
           bnd (trySetLinkUp k hostIf) (\<lambda>err.
           if err \<noteq> None then ret (None, None, None, err)
           else
             bnd (kio (LinkSetMaster k hostIf bridge)) (\<lambda>err.
             if err \<noteq> None then ret (None, None, None, err)
             else
               bnd (tryGetLink k contIfName) (\<lambda>(contIf, _).
               bnd (ip_load ip) (\<lambda>b.
               let netSize = (if length b = 4 then 24 else 112) in
               bnd (kio (LinkSetNsFd k contIf nsid)) (\<lambda>_.
               bnd (trySetNs k nsid) (\<lambda>_.
               bnd (configure_pod_side k gwIp ip contIf netSize) (\<lambda>err.
               if err \<noteq> None then ret (None, None, None, err)
               else
                 bnd (trySetNs k rootNetns) (\<lambda>_.
                 ret (Some hostIf, Some contIf, Some nsid, None)))))))))))))))"

section \<open>The next address of a pod's block\<close>

definition getNextSubPodIP :: "pod_devices \<Rightarrow> ('w, ip_ref \<times> goerr) nio" where
  "getNextSubPodIP podState =
     (let start = baseAddr podState;
          used = length (case addressesUsed podState of None \<Rightarrow> [] | Some al \<Rightarrow> al) in
      bnd am_GetMaxIPsPerPod (\<lambda>mx.
      bnd (ip_load start) (\<lambda>b.
      if int used = int mx - 1 then
        bnd (ip_new []) (\<lambda>r.
        ret (r, Some (Errorf ''No IP addresses left for pod starting with %s'' [ip_string b])))
      else if length b = 4 then
        bnd (ip2int b) (\<lambda>a. bnd (ip_new (int2ip (a + of_nat used + 1))) (\<lambda>r. ret (r, None)))
      else
        bnd (ip_add_at start 15 (of_nat (used + 1))) (\<lambda>_. ret (start, None)))))"

end
