(* ===== verification/MultiRuntime.thy ===== *)
theory MultiRuntime
  imports ContainerNet
begin

text \<open>
  \<open>pkg/network/MultiRuntimeNetworking.go\<close>: one bridge per pod, a namespace for its containers
  and a tap device per VM, each with the next address of the pod's block, wired together by BPF
  programs. A lookup of a pod that is not in \<open>podDevices\<close> gives the zero struct, as in Go.
  \<open>InitPodNetwork\<close> logs the errors of \<open>RequestPodIP\<close> and \<open>setupPodBridge\<close> and goes on.
\<close>

section \<open>The table of pods\<close>

definition get_pod :: "string \<Rightarrow> ('w, pod_devices) nio" where
  "get_pod name = bnd get_st (\<lambda>s. ret (case map_of (podDevices s) name of None \<Rightarrow> no_pod_devices | Some d \<Rightarrow> d))"

definition put_pod :: "string \<Rightarrow> pod_devices \<Rightarrow> ('w, unit) nio" where
  "put_pod name d = modify (\<lambda>s. s\<lparr>podDevices := AList.update name d (podDevices s)\<rparr>)"

definition put_ns :: "string \<Rightarrow> ns_handle \<Rightarrow> ('w, unit) nio" where
  "put_ns name h = modify (\<lambda>s. s\<lparr>podNamespaces := AList.update name h (podNamespaces s)\<rparr>)"

definition InitContainerNetworking :: "('w, goerr) nio" where
  "InitContainerNetworking =
     bnd (modify (\<lambda>s. s\<lparr>podNamespaces := [], podDevices := []\<rparr>)) (\<lambda>_. ret None)"

section \<open>Routing between pods\<close>

text \<open>The key of an address in the redirect maps.\<close>

definition route_key :: "bool \<Rightarrow> ip_ref \<Rightarrow> ('w, bpf_key) nio" where
  "route_key v4 r = bnd (ip_load r) (\<lambda>b.
     if v4 then bnd (ip2int b) (\<lambda>a. ret (Key32 a))
     else bnd (to_array 16 (case to16 b of None \<Rightarrow> [] | Some b' \<Rightarrow> b')) (\<lambda>a. ret (Key16 a)))"

definition make_redirect :: "int \<Rightarrow> byte list \<Rightarrow> byte list \<Rightarrow> ('w, bpf_val) nio" where
  "make_redirect ix src dst =
     bnd (to_array 6 src) (\<lambda>smac. bnd (to_array 6 dst) (\<lambda>dmac.
     ret (ValRedirect \<lparr>rr_TargetIfIndex = of_int ix, rr_SMac = smac, rr_DMac = dmac\<rparr>)))"

definition initFromSubpodRouting :: "'w kernel \<Rightarrow> link option \<Rightarrow> string \<Rightarrow> ('w, bpf_prog option) nio" where
  "initFromSubpodRouting k podBridge0 netNsName =
     bnd (loadFromSubPodTC k) (\<lambda>(prog, xdpBpfMap).
     bnd get_st (\<lambda>s.
     bnd (range_map k (podDevices s)) (\<lambda>devs.
     bnd (for_all devs (\<lambda>(_, dev).
       bnd (deref (podBridge dev)) (\<lambda>db. bnd (deref podBridge0) (\<lambda>pb.
       if l_name db \<noteq> l_name pb then
         bnd (make_redirect (l_index db) (l_hwaddr pb) (l_hwaddr db)) (\<lambda>rroute.
         bnd am_IsIPv4 (\<lambda>v4.
         bnd (route_key v4 (baseAddr dev)) (\<lambda>key.
         bnd (kio (MapPut k xdpBpfMap key rroute)) (\<lambda>_. ret ()))))
       else ret ())))) (\<lambda>_.
     bnd (getPublicIface k) (\<lambda>(publicIf, _).
     bnd (deref publicIf) (\<lambda>pif. bnd (deref podBridge0) (\<lambda>pb.
     bnd (make_redirect (if_index pif) (l_hwaddr pb) (if_hwaddr pif)) (\<lambda>rroute.
     bnd am_IsIPv4 (\<lambda>v4.
     bnd (kio (MapPut k xdpBpfMap (if v4 then Key32 0 else Key16 (replicate 16 0)) rroute)) (\<lambda>_.
     bnd (get_pod netNsName) (\<lambda>podDev.
     bnd (put_pod netNsName (podDev\<lparr>fromSubpodBpfMap := xdpBpfMap, bpfFromProg := prog\<rparr>)) (\<lambda>_.
     ret prog))))))))))))"

definition updateSubpodRouting :: "'w kernel \<Rightarrow> link option \<Rightarrow> ip_ref \<Rightarrow> ('w, unit) nio" where
  "updateSubpodRouting k podBridge0 podIp =
     bnd get_st (\<lambda>s.
     bnd (range_map k (podDevices s)) (\<lambda>devs.
     for_all devs (\<lambda>(idx, dev).
       bnd (deref (podBridge dev)) (\<lambda>db. bnd (deref podBridge0) (\<lambda>pb.
       if l_name db \<noteq> l_name pb then
         bnd (make_redirect (l_index pb) (l_hwaddr db) (l_hwaddr pb)) (\<lambda>rroute.
         bnd am_IsIPv4 (\<lambda>v4.
         bnd (route_key v4 podIp) (\<lambda>key.
         bnd (kio (MapPut k (fromSubpodBpfMap dev) key rroute)) (\<lambda>_.
         put_pod idx dev))))
       else ret ())))))"

section \<open>Pods\<close>

definition setupPodBridge :: "'w kernel \<Rightarrow> string \<Rightarrow> ip_ref \<Rightarrow> ('w, link option option \<times> goerr) nio" where
  "setupPodBridge k ident ip =
     (let podIfName = ''pod'' @ ident in
      bnd (kio (LinkAdd k (NewBridge podIfName))) (\<lambda>err.
      if err \<noteq> None then ret (None, err)
      else
        bnd (tryGetLink k podIfName) (\<lambda>(poddevice, _).
        bnd (ip_load ip) (\<lambda>b.
        let netSize = (if length b = 4 then 30 else 126);
            (addr, err) = ParseAddr k (cidr_text b netSize) in
        if err \<noteq> None then ret (None, err)
        else
          bnd (kio (AddrAdd k poddevice addr)) (\<lambda>_.
          bnd (trySetLinkUp k poddevice) (\<lambda>err.
          if err \<noteq> None then ret (None, err) else ret (Some poddevice, None)))))))"

text \<open>The redirecting towards the namespace, and then between the pods: the common last part of
  \<open>InitPodNetwork\<close> of both multi-runtime managers.\<close>

definition start_redirects ::
  "'w kernel \<Rightarrow> string \<Rightarrow> ip_ref \<Rightarrow> ip_ref \<Rightarrow> link option \<Rightarrow> link option \<Rightarrow> ns_handle \<Rightarrow> ('w, goerr) nio" where
  "start_redirects k netNsName podIp netNsIp podLink contIf nsid =
     bnd (loadToSubPodTC k) (\<lambda>(toProg, toBpfMap).
     bnd (makeSplitRouteMapObject podLink contIf netNsIp) (\<lambda>routeObj.
     bnd (kio (MapPut k toBpfMap (Key32 0) routeObj)) (\<lambda>_.
     bnd (get_pod netNsName) (\<lambda>podDev.
     bnd (put_pod netNsName (podDev\<lparr>toSubpodBpfMap := toBpfMap, bpfToProg := toProg\<rparr>)) (\<lambda>_.
     bnd (initFromSubpodRouting k podLink netNsName) (\<lambda>fromProg.
     bnd (updateSubpodRouting k podLink podIp) (\<lambda>_.
     bnd (setupSubpodTC k podLink podIp fromProg toProg) (\<lambda>(l, maps).
     bnd (get_pod netNsName) (\<lambda>podDev.
     bnd (put_pod netNsName (podDev\<lparr>bpfProgLink := l, mapsToKeep := maps\<rparr>)) (\<lambda>_.
     bnd (put_ns netNsName nsid) (\<lambda>_.
     ret None)))))))))))"

definition InitPodNetwork :: "'w kernel \<Rightarrow> string \<Rightarrow> string \<Rightarrow> ('w, goerr) nio" where
  "InitPodNetwork k cns podname =
     (let netNsName = GetNetNs cns podname in
      bnd (am_RequestPodIP cns podname) (\<lambda>(podIp, _).
      bnd (RandStringRunes k 4) (\<lambda>runes.
      bnd (setupPodBridge k runes podIp) (\<lambda>(podLinkPtr, _).
      bnd (deref podLinkPtr) (\<lambda>podLink.
      bnd (put_pod netNsName (no_pod_devices\<lparr>baseAddr := podIp, podBridge := podLink,
        addressesUsed := Some []\<rparr>)) (\<lambda>_.
      bnd (bnd (get_pod netNsName) getNextSubPodIP) (\<lambda>(netNsIp, err).
      if err \<noteq> None then ret err
      else
        bnd (setupPodNetNs k netNsName podIp netNsIp podLink) (\<lambda>(hostIfPtr, contIfPtr, nsidPtr, err).
        if err \<noteq> None then ret err
        else
          bnd (get_pod netNsName) (\<lambda>podDev.
          bnd (deref hostIfPtr) (\<lambda>hostIf.
          bnd (ip_load netNsIp) (\<lambda>ipb.
          bnd (map_assign (ip_string ipb) hostIf (addressesUsed podDev)) (\<lambda>used.
          bnd (put_pod netNsName (podDev\<lparr>addressesUsed := used\<rparr>)) (\<lambda>_.
          bnd (deref contIfPtr) (\<lambda>contIf.
          bnd (deref nsidPtr) (\<lambda>nsid.
          start_redirects k netNsName podIp netNsIp podLink contIf nsid)))))))))))))))"

definition StopPodNetwork :: "'w kernel \<Rightarrow> string \<Rightarrow> string \<Rightarrow> ('w, goerr) nio" where
  "StopPodNetwork k cns podname =
     (let ns = GetNetNs cns podname in
      bnd (kio (NsDeleteNamed k ns)) (\<lambda>err.
      if err \<noteq> None then ret err
      else
        bnd (get_pod ns) (\<lambda>dev.
        bnd (kio (LinkDel k (podBridge dev))) (\<lambda>err.
        if err \<noteq> None then ret err else ret None))))"

definition GetNetNsHandle :: "string \<Rightarrow> string \<Rightarrow> ('w, ns_handle option \<times> goerr) nio" where
  "GetNetNsHandle cns podname =
     (let netNsname = GetNetNs cns podname in
      bnd get_st (\<lambda>s. case map_of (podNamespaces s) netNsname of
        None \<Rightarrow> ret (None, Some (Errorf ''Container network namespace for %s not found'' [netNsname]))
      | Some netNs \<Rightarrow> ret (Some netNs, None)))"

definition GetNetNsPath :: "string \<Rightarrow> string \<Rightarrow> ('w, string \<times> goerr) nio" where
  "GetNetNsPath cns podname =
     (let netNsname = GetNetNs cns podname in
      bnd get_st (\<lambda>s. case map_of (podNamespaces s) netNsname of
        None \<Rightarrow> ret ([], Some (Errorf ''Container network namespace for %s not found'' [netNsname]))
      | Some _ \<Rightarrow> ret (netNsname, None)))"

definition TeardownContainerNetworking :: "'w kernel \<Rightarrow> ('w, goerr) nio" where
  "TeardownContainerNetworking k =
     bnd get_st (\<lambda>s.
     bnd (teardownNamespaces k (podNamespaces s)) (\<lambda>err.
     bnd get_st (\<lambda>s.
     bnd (range_map k (podDevices s)) (\<lambda>devs.
     fold_each devs err (\<lambda>(_, dev) _.
       bnd (kio (LinkDel k (podBridge dev))) (\<lambda>err.
       bnd (range_map k (case addressesUsed dev of None \<Rightarrow> [] | Some al \<Rightarrow> al)) (\<lambda>subifs.
       fold_each subifs err (\<lambda>(_, subif) _.
         bnd (kio (LinkDel k subif)) (\<lambda>err.
         if err \<noteq> None then bnd (deref subif) (\<lambda>_. ret err) else ret err)))))))))"

section \<open>VMs\<close>

type_synonym vm_tun = "string \<times> ip_ref \<times> byte list \<times> goerr"

definition CreateVMTun :: "'w kernel \<Rightarrow> string \<Rightarrow> string \<Rightarrow> string \<Rightarrow> ('w, vm_tun) nio" where
  "CreateVMTun k cns podname containername =
     (let netNsName = GetNetNs cns podname in
      bnd (get_pod netNsName) (\<lambda>podDevs.
      bnd (getNextSubPodIP podDevs) (\<lambda>(vmIp, err).
      if err \<noteq> None then bnd (ip_new []) (\<lambda>r. ret ([], r, [], err))
      else
        bnd (RandStringRunes k 4) (\<lambda>runes.
        let ifName = ''vtap'' @ runes in
        bnd (kio (LinkAdd k (NewTuntap ifName))) (\<lambda>err.
        if err \<noteq> None then bnd (ip_new []) (\<lambda>r. ret ([], r, [], err))
        else
          bnd (kio (LinkByName k ifName)) (\<lambda>(tapIf, _).
          bnd (kio (LinkSetUp k tapIf)) (\<lambda>err.
          if err \<noteq> None then bnd (ip_new []) (\<lambda>r. ret ([], r, [], err))
          else
            bnd (kio (LinkSetMaster k tapIf (podBridge podDevs))) (\<lambda>err.
            if err \<noteq> None then bnd (ip_new []) (\<lambda>r. ret ([], r, [], err))
            else
              bnd (ip_load vmIp) (\<lambda>ipb.
              bnd (map_assign (ip_string ipb) tapIf (addressesUsed podDevs)) (\<lambda>used.
              let podDevs = podDevs\<lparr>addressesUsed := used\<rparr> in
              bnd (put_pod netNsName podDevs) (\<lambda>_.
              bnd (generateMac k) (\<lambda>mac.
              bnd (makeSplitRouteMapObjectMac (podBridge podDevs) mac vmIp) (\<lambda>routeObj.
              bnd (putNextSplitRouteObj k (toSubpodBpfMap podDevs) routeObj) (\<lambda>_.
              bnd (put_pod netNsName podDevs) (\<lambda>_.
              ret (ifName, vmIp, mac, None))))))))))))))))"

definition GetGatewayAddress :: "string \<Rightarrow> string \<Rightarrow> ('w, ip_ref) nio" where
  "GetGatewayAddress cns podname =
     bnd (get_pod (GetNetNs cns podname)) (\<lambda>podDevs. ret (baseAddr podDevs))"

end
