(* ===== verification/PodLocal.thy ===== *)
theory PodLocal
  imports MultiRuntime
begin

text \<open>
  \<open>pkg/network/MultiRuntimePodLocalNetworking.go\<close>: the multi-runtime manager with a pod-local
  localhost: traffic to the gateway address is copied to every workload of the pod. The parts
  that are equal to \<open>MultiRuntimeNetworking.go\<close> up to their logging share its definitions.
\<close>

definition InitContainerNetworkingPL :: "'w kernel \<Rightarrow> ('w, goerr) nio" where
  "InitContainerNetworkingPL k =
     bnd (modify (\<lambda>s. s\<lparr>podNamespaces := [], podDevices := []\<rparr>)) (\<lambda>_.
     bnd am_GetCNIIfIP (\<lambda>ip.
     bnd (setupCNIDummy k ip ''0'') (\<lambda>_.
     ret None)))"

definition DeleteForTestPL :: "'w kernel \<Rightarrow> ('w, unit) nio" where
  "DeleteForTestPL k =
     bnd (get_pod ''vmtest-debug'') (\<lambda>poddevs.
     bnd (kio (MapPut k (toSubpodBpfMap poddevs) (Key32 0)
       (ValSplit4 \<lparr>sr_Active = 0, sr_TargetIfIndex = 0, sr_DAddr = 0, sr_SMac = replicate 6 0,
          sr_DMac = replicate 6 0\<rparr>))) (\<lambda>_.
     ret ()))"

definition attachLocalhostBpfPrograms ::
  "'w kernel \<Rightarrow> string \<Rightarrow> ip_ref \<Rightarrow> ip_ref \<Rightarrow> string \<Rightarrow> ('w, bpf_map option \<times> goerr) nio" where
  "attachLocalhostBpfPrograms k netNsName lhIp ip attachIfName =
     bnd (kio (LinkByName k attachIfName)) (\<lambda>(attachIf, err).
     if err \<noteq> None then ret (None, err)
     else
       bnd (setupFromLhTC k attachIf lhIp) (\<lambda>(fromLhLink, fromLhMap, fromKeepMap).
       if fromLhLink = None then
         ret (None, Some (Errorf ''couldn't set up localhost from netns %s'' [netNsName]))
       else
         bnd (get_pod netNsName) (\<lambda>podDev.
         bnd (ip_load ip) (\<lambda>ipb.
         bnd (map_assign (ip_string ipb) fromLhMap (fromLocalhostBpfMaps podDev)) (\<lambda>bpfMaps.
         bnd (put_pod netNsName (podDev\<lparr>fromLocalhostBpfMaps := bpfMaps,
           mapsToKeep := mapsToKeep podDev @ [fromKeepMap],
           linksToKeep := linksToKeep podDev @ [fromLhLink]\<rparr>)) (\<lambda>_.
         ret (fromLhMap, None)))))))"

text \<open>The zero value a missing hardware address has.\<close>

definition get_mac :: "pod_devices \<Rightarrow> string \<Rightarrow> byte list" where
  "get_mac d ip = (case internalDevices d of None \<Rightarrow> []
     | Some al \<Rightarrow> (case map_of al ip of None \<Rightarrow> [] | Some mac \<Rightarrow> mac))"

definition updateLocalhostBpfMaps ::
  "'w kernel \<Rightarrow> string \<Rightarrow> ip_ref \<Rightarrow> byte list \<Rightarrow> bpf_map option \<Rightarrow> ('w, goerr) nio" where
  "updateLocalhostBpfMaps k netNsName newIp newLink splitMap =
     bnd (get_pod netNsName) (\<lambda>podDevs.
     let lhIp = baseAddr podDevs in
     bnd (range_map k (case fromLocalhostBpfMaps podDevs of None \<Rightarrow> [] | Some al \<Rightarrow> al)) (\<lambda>maps.
     bnd (for_each maps (\<lambda>(ip, bpfMap).
       bnd (ip_load newIp) (\<lambda>newb.
       if ip \<noteq> ip_string newb then
         bnd (makeSplitLhRouteMapObject (podBridge podDevs) newLink lhIp newb) (\<lambda>routeObj.
         bnd (putNextLhSplitRouteObj k bpfMap routeObj) (\<lambda>err.
         if err \<noteq> None then ret (Some err)
         else
           bnd (makeSplitLhRouteMapObject (podBridge podDevs) (get_mac podDevs ip) lhIp (parse_ip ip)) (\<lambda>routeObj.
           bnd (putNextLhSplitRouteObj k splitMap routeObj) (\<lambda>err.
           if err \<noteq> None then ret (Some err) else ret None))))
       else ret None)))
     (\<lambda>r. case r of Some err \<Rightarrow> ret err
     | None \<Rightarrow>
         bnd (ip_load newIp) (\<lambda>newb.
         bnd (makeSplitLhRouteMapObject (podBridge podDevs) newLink lhIp newb) (\<lambda>routeObj.
         bnd (putNextLhSplitRouteObj k splitMap routeObj) (\<lambda>err.
         if err \<noteq> None then ret err else ret None))))))"

definition InitPodNetworkPL :: "'w kernel \<Rightarrow> string \<Rightarrow> string \<Rightarrow> ('w, goerr) nio" where
  "InitPodNetworkPL k cns podname =
     (let netNsName = GetNetNs cns podname in
      bnd (am_RequestPodIP cns podname) (\<lambda>(podIp, _).
      bnd (RandStringRunes k 4) (\<lambda>runes.
      bnd (setupPodBridge k runes podIp) (\<lambda>(podLinkPtr, _).
      bnd (deref podLinkPtr) (\<lambda>podLink.
      bnd (put_pod netNsName (no_pod_devices\<lparr>baseAddr := podIp, podBridge := podLink,
        addressesUsed := Some [], internalDevices := Some [], fromLocalhostBpfMaps := Some []\<rparr>)) (\<lambda>_.
      bnd (bnd (get_pod netNsName) getNextSubPodIP) (\<lambda>(netNsIp, err).
      if err \<noteq> None then ret err
      else
        bnd (setupPodNetNs k netNsName podIp netNsIp podLink) (\<lambda>(hostIfPtr, contIfPtr, nsidPtr, err).
        if err \<noteq> None then ret err
        else
          bnd (get_pod netNsName) (\<lambda>podDev.
          bnd (deref hostIfPtr) (\<lambda>hostIf.
          bnd (ip_load netNsIp) (\<lambda>ipb.
          bnd (map_assign (ip_string ipb) hostIf (addressesUsed podDev)) (\<lambda>used.
          bnd (put_pod netNsName (podDev\<lparr>addressesUsed := used\<rparr>)) (\<lambda>_.
          bnd (deref contIfPtr) (\<lambda>contIf.
          bnd (deref contIf) (\<lambda>contLa.
          bnd (map_assign (ip_string ipb) (l_hwaddr contLa) (internalDevices podDev)) (\<lambda>internal.
          bnd (put_pod netNsName (podDev\<lparr>addressesUsed := used, internalDevices := internal\<rparr>)) (\<lambda>_.
          bnd am_GetCNIIfIP (\<lambda>lhIp.
          bnd (deref hostIf) (\<lambda>hostLa.
          bnd (attachLocalhostBpfPrograms k netNsName lhIp netNsIp (l_name hostLa)) (\<lambda>(fromMap, err).
          if err \<noteq> None then ret err
          else
            bnd (updateLocalhostBpfMaps k netNsName netNsIp (l_hwaddr contLa) fromMap) (\<lambda>err.
            if err \<noteq> None then ret err
            else
              bnd (deref nsidPtr) (\<lambda>nsid.
              start_redirects k netNsName podIp netNsIp podLink contIf nsid))))))))))))))))))))))"

definition initFromSubpodRoutingPL :: "'w kernel \<Rightarrow> link option \<Rightarrow> string \<Rightarrow> ('w, bpf_prog option) nio" where
  "initFromSubpodRoutingPL = initFromSubpodRouting"

definition updateSubpodRoutingPL :: "'w kernel \<Rightarrow> link option \<Rightarrow> ip_ref \<Rightarrow> ('w, unit) nio" where
  "updateSubpodRoutingPL = updateSubpodRouting"

definition StopPodNetworkPL :: "'w kernel \<Rightarrow> string \<Rightarrow> string \<Rightarrow> ('w, goerr) nio" where
  "StopPodNetworkPL = StopPodNetwork"

definition GetNetNsHandlePL :: "string \<Rightarrow> string \<Rightarrow> ('w, ns_handle option \<times> goerr) nio" where
  "GetNetNsHandlePL = GetNetNsHandle"

definition TeardownContainerNetworkingPL :: "'w kernel \<Rightarrow> ('w, goerr) nio" where
  "TeardownContainerNetworkingPL = TeardownContainerNetworking"

definition GetNetNsPathPL :: "string \<Rightarrow> string \<Rightarrow> ('w, string \<times> goerr) nio" where
  "GetNetNsPathPL = GetNetNsPath"

definition GetGatewayAddressPL :: "string \<Rightarrow> string \<Rightarrow> ('w, ip_ref) nio" where
  "GetGatewayAddressPL = GetGatewayAddress"

definition CreateVMTunPL :: "'w kernel \<Rightarrow> string \<Rightarrow> string \<Rightarrow> string \<Rightarrow> ('w, vm_tun) nio" where
  "CreateVMTunPL k cns podname containername =
     (let netNsName = GetNetNs cns podname in
      bnd (get_pod netNsName) (\<lambda>podDevs.
      bnd (getNextSubPodIP podDevs) (\<lambda>(vmIp, err).
      if err \<noteq> None then bnd (ip_new []) (\<lambda>r. ret ([], r, [], err))
      else
        bnd (RandStringRunes k 4) (\<lambda>runes.
        let ifName = ''vtap'' @ runes in
        bnd (kio (LinkAdd k (NewTuntap ifName))) (\<lambda>err.
        if err \<noteq> None then bnd (ip_new []) (\<lambda>r. ret ([], r, [], err))
        else
          bnd (tryGetLink k ifName) (\<lambda>(tapIf, _).
          bnd (kio (LinkSetUp k tapIf)) (\<lambda>err.
          if err \<noteq> None then bnd (ip_new []) (\<lambda>r. ret ([], r, [], err))
          else
            bnd (kio (LinkSetMaster k tapIf (podBridge podDevs))) (\<lambda>err.
            if err \<noteq> None then bnd (ip_new []) (\<lambda>r. ret ([], r, [], err))
            else
              bnd (ip_load vmIp) (\<lambda>ipb.
              bnd (map_assign (ip_string ipb) tapIf (addressesUsed podDevs)) (\<lambda>used.
              let podDevs = podDevs\<lparr>addressesUsed := used\<rparr> in
              bnd (put_pod netNsName podDevs) (\<lambda>_.
              bnd (generateMac k) (\<lambda>mac.
              bnd (map_assign (ip_string ipb) mac (internalDevices podDevs)) (\<lambda>internal.
              let podDevs = podDevs\<lparr>internalDevices := internal\<rparr> in
              bnd (put_pod netNsName podDevs) (\<lambda>_.
              bnd (makeSplitRouteMapObjectMac (podBridge podDevs) mac vmIp) (\<lambda>routeObj.
              bnd (putNextSplitRouteObj k (toSubpodBpfMap podDevs) routeObj) (\<lambda>_.
              bnd (put_pod netNsName podDevs) (\<lambda>_.
              bnd am_GetCNIIfIP (\<lambda>lhIp.
              bnd (deref tapIf) (\<lambda>tapLa.
              bnd (attachLocalhostBpfPrograms k netNsName lhIp vmIp (l_name tapLa)) (\<lambda>(splitMap, _).
              bnd (updateLocalhostBpfMaps k netNsName vmIp mac splitMap) (\<lambda>_.
              ret (ifName, vmIp, mac, None))))))))))))))))))))))"

end
