(* ===== verification/DefaultNet.thy ===== *)
theory DefaultNet
  imports MultiRuntime
begin

text \<open>
  \<open>pkg/network/DefaultNetworking.go\<close>, one bridge \<open>cni0\<close> for all pods, and the two
  implementations of \<open>WanAccessManager\<close>: \<open>LegacyAccess.go\<close> (routes to the other nodes through
  the public interface) and \<open>WarrensAccess.go\<close> (nothing to do).
\<close>

section \<open>The default manager\<close>

definition InitContainerNetworkingD :: "'w kernel \<Rightarrow> ('w, goerr) nio" where
  "InitContainerNetworkingD k =
     bnd (setupCNI0 k) (\<lambda>(brdevice, err).
     if err \<noteq> None then ret err
     else
       bnd (modify (\<lambda>s. s\<lparr>podNamespaces := []\<rparr>)) (\<lambda>_.
       bnd (deref brdevice) (\<lambda>br.
       bnd (modify (\<lambda>s. s\<lparr>dn_bridge := br\<rparr>)) (\<lambda>_.
       ret None))))"

definition TeardownContainerNetworkingD :: "'w kernel \<Rightarrow> ('w, goerr) nio" where
  "TeardownContainerNetworkingD k =
     bnd get_st (\<lambda>s.
     bnd (teardownNamespaces k (podNamespaces s)) (\<lambda>_.
     stopCNI0 k))"

definition InitPodNetworkD :: "'w kernel \<Rightarrow> string \<Rightarrow> string \<Rightarrow> ('w, goerr) nio" where
  "InitPodNetworkD k cns podname =
     (let netNsName = GetNetNs cns podname in
      bnd (am_RequestPodIP cns podname) (\<lambda>(ip, err).
      if err \<noteq> None then ret err
      else
        bnd am_GetCNIIfIP (\<lambda>gw.
        bnd get_st (\<lambda>s.
        bnd (setupPodNetNs k netNsName gw ip (dn_bridge s)) (\<lambda>(_, _, nsidPtr, err).
        if err \<noteq> None then ret err
        else
          bnd (deref nsidPtr) (\<lambda>nsid.
          bnd (put_ns netNsName nsid) (\<lambda>_.
          ret None)))))))"

definition StopPodNetworkD :: "'w kernel \<Rightarrow> string \<Rightarrow> string \<Rightarrow> ('w, goerr) nio" where
  "StopPodNetworkD k cns podname = kio (NsDeleteNamed k (GetNetNs cns podname))"

definition GetNetNsHandleD :: "string \<Rightarrow> string \<Rightarrow> ('w, ns_handle option \<times> goerr) nio" where
  "GetNetNsHandleD = GetNetNsHandle"

definition GetNetNsPathD :: "string \<Rightarrow> string \<Rightarrow> ('w, string \<times> goerr) nio" where
  "GetNetNsPathD = GetNetNsPath"

definition CreateVMTunD :: "'w kernel \<Rightarrow> string \<Rightarrow> string \<Rightarrow> string \<Rightarrow> ('w, vm_tun) nio" where
  "CreateVMTunD k cns podname containername =
     bnd (am_RequestPodIP cns podname) (\<lambda>(vmIp, err).
     if err \<noteq> None then bnd (ip_new []) (\<lambda>r. ret ([], r, [], err))
     else
       bnd (RandStringRunes k 4) (\<lambda>runes.
       let ifName = ''vtap'' @ runes in
       bnd (kio (LinkAdd k (NewTuntap ifName))) (\<lambda>err.
       if err \<noteq> None then bnd (ip_new []) (\<lambda>r. ret ([], r, [], err))
       else
         bnd (kio (LinkByName k ifName)) (\<lambda>(tapIf, _).
         bnd (kio (LinkSetUp k tapIf)) (\<lambda>err.
         if err \<noteq> None then bnd (ip_new []) (\<lambda>r. ret ([], r, [], err))
         else
           bnd get_st (\<lambda>s.
           bnd (kio (LinkSetMaster k tapIf (dn_bridge s))) (\<lambda>err.
           if err \<noteq> None then bnd (ip_new []) (\<lambda>r. ret ([], r, [], err))
           else ret (ifName, vmIp, [], None))))))))"

definition GetGatewayAddressD :: "string \<Rightarrow> string \<Rightarrow> ('w, ip_ref) nio" where
  "GetGatewayAddressD cns podname = am_GetCNIIfIP"

section \<open>Routes to other nodes\<close>

definition InitExternalAccess :: "'w kernel \<Rightarrow> ('w, goerr) nio" where
  "InitExternalAccess k =
     bnd (getPublicIface k) (\<lambda>(iface, err).
     if err \<noteq> None then ret err
     else
       bnd am_GlobalCNINet (\<lambda>(globalNet, err).
       if err \<noteq> None then ret err
       else
         bnd (deref iface) (\<lambda>i.
         kio (RouteAdd k \<lparr>r_dst = globalNet, r_link_index = if_index i, r_gw = []\<rparr>))))"

definition TeardownExternalAccess :: "'w kernel \<Rightarrow> ('w, goerr) nio" where
  "TeardownExternalAccess k =
     bnd (getPublicIface k) (\<lambda>(iface, err).
     if err \<noteq> None then ret err
     else
       bnd am_GlobalCNINet (\<lambda>(globalNet, err).
       if err \<noteq> None then ret err
       else
         bnd (deref iface) (\<lambda>i.
         kio (RouteDel k \<lparr>r_dst = globalNet, r_link_index = if_index i, r_gw = []\<rparr>))))"

definition AddExternalNode :: "'w kernel \<Rightarrow> ip_bytes \<Rightarrow> ip_net option \<Rightarrow> ('w, goerr) nio" where
  "AddExternalNode k nodeIP cniRange =
     bnd (getPublicIface k) (\<lambda>(iface, err).
     if err \<noteq> None then ret err
     else
       bnd (deref iface) (\<lambda>i.
       bnd (kio (RouteAdd k \<lparr>r_dst = cniRange, r_link_index = if_index i, r_gw = nodeIP\<rparr>)) (\<lambda>_.
       ret None)))"

definition InitExternalAccessW :: "('w, goerr) nio" where
  "InitExternalAccessW = ret None"

definition TeardownExternalAccessW :: "('w, goerr) nio" where
  "TeardownExternalAccessW = ret None"

definition AddExternalNodeW :: "ip_bytes \<Rightarrow> ip_net option \<Rightarrow> ('w, goerr) nio" where
  "AddExternalNodeW nodeIP cniRange = ret None"

end
