(* ===== verification/NetLogic.thy ===== *)
theory NetLogic
  imports PodLocal DefaultNet
begin

text \<open>
  Reasoning about the network components for any kernel. \<open>ext s t\<close>: from \<open>s\<close> to \<open>t\<close> only the
  kernel changed and new addresses were allocated; \<open>neutral m\<close>: that is all \<open>m\<close> does, whatever
  the kernel answers and however \<open>m\<close> ends. \<open>ensures P m Q I\<close>: started in \<open>P\<close>, \<open>m\<close> ends in \<open>Q\<close>
  of its result, or panics or diverges in \<open>I\<close>. The collection \<open>neutral_intros\<close> proves the first
  for every helper of the managers.
\<close>

named_theorems neutral_intros

definition ext :: "'w net_state \<Rightarrow> 'w net_state \<Rightarrow> bool" where
  "ext s t \<longleftrightarrow> podDevices t = podDevices s \<and> podNamespaces t = podNamespaces s
     \<and> PodAddressManager t = PodAddressManager s \<and> (\<exists>h. heap t = heap s @ h)"

lemma ext_refl [simp]: "ext s s"
  by (simp add: ext_def)

lemma ext_trans: "ext s t \<Longrightarrow> ext t u \<Longrightarrow> ext s u"
  by (auto simp: ext_def)

definition neutral :: "('w, 'a) nio \<Rightarrow> bool" where
  "neutral m \<longleftrightarrow> (\<forall>s. ext s (snd (m s)))"

lemma neutralD: "neutral m \<Longrightarrow> m s = (r, t) \<Longrightarrow> ext s t"
  by (metis neutral_def snd_conv)

lemma neutral_ret [neutral_intros]: "neutral (ret a)"
  by (simp add: neutral_def ret_def)

lemma neutral_panic [neutral_intros]: "neutral (panic msg)"
  by (simp add: neutral_def panic_def)

lemma neutral_get_st [neutral_intros]: "neutral get_st"
  by (simp add: neutral_def get_st_def)

lemma neutral_deref [neutral_intros]: "neutral (deref p)"
  by (cases p) (simp_all add: neutral_def io_simps)

lemma neutral_kio [neutral_intros]: "neutral (kio m)"
  by (simp add: neutral_def kio_def ext_def split: prod.split)

lemma neutral_bnd [neutral_intros]:
  assumes "neutral m" "\<And>a. neutral (f a)"
  shows "neutral (bnd m f)"
  unfolding neutral_def
proof
  fix s
  obtain r t where t: "m s = (r, t)" by (cases "m s")
  with assms(1) have "ext s t" by (rule neutralD)
  with assms(2) t show "ext s (snd (bnd m f s))"
    by (cases r) (auto simp: bnd_apply neutral_def intro: ext_trans)
qed

lemma neutral_if [neutral_intros]: "neutral m \<Longrightarrow> neutral m' \<Longrightarrow> neutral (if b then m else m')"
  by simp

lemma neutral_Let [neutral_intros]: "(\<And>x. neutral (f x)) \<Longrightarrow> neutral (let x = a in f x)"
  by simp

lemma neutral_case_option [neutral_intros]:
  "neutral m \<Longrightarrow> (\<And>a. neutral (f a)) \<Longrightarrow> neutral (case x of None \<Rightarrow> m | Some a \<Rightarrow> f a)"
  by (cases x) simp_all

lemma neutral_case_prod [neutral_intros]:
  "(\<And>a b. neutral (f a b)) \<Longrightarrow> neutral (case p of (a, b) \<Rightarrow> f a b)"
  by (cases p) simp

lemma neutral_for_each [neutral_intros]:
  "(\<And>x. neutral (body x)) \<Longrightarrow> neutral (for_each xs body)"
  by (induction xs) (auto intro!: neutral_intros)

lemma neutral_for_all [neutral_intros]:
  "(\<And>x. neutral (body x)) \<Longrightarrow> neutral (for_all xs body)"
  by (induction xs) (auto intro!: neutral_intros)

lemma neutral_fold_each [neutral_intros]:
  "(\<And>x b. neutral (body x b)) \<Longrightarrow> neutral (fold_each xs b body)"
  by (induction xs arbitrary: b) (auto intro!: neutral_intros)

lemma neutral_ip_new [neutral_intros]: "neutral (ip_new b)"
  by (simp add: neutral_def ip_new_def ext_def)

lemma neutral_ip_load [neutral_intros]: "neutral (ip_load r)"
  by (simp add: ip_load_def neutral_intros)

lemma neutral_ip2int [neutral_intros]: "neutral (ip2int b)"
  by (simp add: ip2int_def neutral_intros)

lemma neutral_to_array [neutral_intros]: "neutral (to_array n xs)"
  by (simp add: to_array_def neutral_intros)

lemma neutral_map_assign [neutral_intros]: "neutral (map_assign key v m)"
  by (simp add: map_assign_def neutral_intros)

lemma neutral_range_map [neutral_intros]: "neutral (range_map k al)"
  by (simp add: range_map_def neutral_intros)

lemma neutral_pam [neutral_intros]: "neutral pam"
  by (simp add: pam_def neutral_intros)

lemma neutral_am [neutral_intros]:
  "neutral am_IsIPv4" "neutral am_GetMaxIPsPerPod" "neutral am_GetMask" "neutral am_GetCNIIfIP"
  "neutral am_GlobalCNINet"
  by (auto simp: am_IsIPv4_def am_GetMaxIPsPerPod_def am_GetMask_def am_GetCNIIfIP_def am_GlobalCNINet_def
      intro!: neutral_intros)

text \<open>A retry loop of a neutral operation is neutral.\<close>

lemma retry_ext:
  assumes "neutral m" and "retry m s = Some (r, t)"
  shows "ext s t"
proof -
  have "neutral m \<longrightarrow> ext s (snd p)" if "retry m s = Some p" for p
  proof (rule retry.raw_induct [where P = "\<lambda>m s p. neutral m \<longrightarrow> ext s (snd p)", OF _ that])
    fix rec m s p
    assume "\<And>m s p. rec m s = Some p \<Longrightarrow> neutral m \<longrightarrow> ext s (snd p)"
      and "(case m s of (Done (a, err), t) \<Rightarrow> if err = None then Some (Done a, t) else rec m t
        | (Panic msg, t) \<Rightarrow> Some (Panic msg, t) | (Diverged, t) \<Rightarrow> Some (Diverged, t)) = Some p"
    then show "neutral m \<longrightarrow> ext s (snd p)"
      by (cases "m s", cases p) (auto split: outcome.splits if_splits prod.splits dest: neutralD intro: ext_trans)
  qed
  with assms show ?thesis by fastforce
qed

lemma neutral_until_ok [neutral_intros]: "neutral m \<Longrightarrow> neutral (until_ok m)"
  unfolding neutral_def [of "until_ok m"]
  by (auto simp: until_ok_def split: option.split intro: retry_ext)

lemma neutral_try [neutral_intros]:
  "neutral (tryGetLink k name)" "neutral (trySetNs k h)" "neutral (trySetLinkUp k l)"
  by (simp_all add: tryGetLink_def trySetNs_def trySetLinkUp_def neutral_intros)

lemma neutral_RandStringRunes [neutral_intros]: "neutral (RandStringRunes k n)"
  by (induction n) (auto intro!: neutral_intros)

lemma neutral_container [neutral_intros]:
  "neutral (ExecShellCommand k cmd)" "neutral (GetRouteDev k p)" "neutral (getPublicIface k)"
  "neutral (generateMac k)"
  by (auto simp: ExecShellCommand_def GetRouteDev_def getPublicIface_def generateMac_def Let_def
      intro!: neutral_intros)

lemma neutral_setupPodNetNs [neutral_intros]: "neutral (setupPodNetNs k n gw ip br)"
  by (auto simp: setupPodNetNs_def configure_pod_side_def Let_def intro!: neutral_intros)

lemma neutral_links [neutral_intros]:
  "neutral (setupCNIDummy k ip i)" "neutral (stopCNI0 k)" "neutral (teardownNamespaces k nss)"
  "neutral (setupPodBridge k i ip)"
  by (auto simp: setupCNIDummy_def stopCNI0_def teardownNamespaces_def setupPodBridge_def Let_def
      intro!: neutral_intros split: prod.split)

lemma neutral_load [neutral_intros]:
  "neutral (load_spec k f)"
  "neutral l \<Longrightarrow> neutral (load_objects k l obj)"
  by (auto simp: load_spec_def load_objects_def intro!: neutral_intros)

lemmas load_defs = loadBpfTailCallIpv4TC_def loadObjectsBpfTailCallIpv4TC_def
  loadBpfTailCallIpv6TC_def loadObjectsBpfTailCallIpv6TC_def
  loadBpfTranslateRedirectSubpodIpv4TC_def loadObjectsTranslateRedirectSubpodIpv4TC_def
  loadBpfTranslateRedirectSubpodIpv6TC_def loadObjectsTranslateRedirectSubpodIpv6TC_def
  loadBpfSplitLhRedirectIPv4TC_def loadObjectsBpfSplitLhRedirectIPv4TC_def
  loadBpfSplitLhRedirectIPv6TC_def loadObjectsBpfSplitLhRedirectIPv6TC_def
  loadBpfSplitGenericRedirectIPv4TC_def loadObjectsBpfSplitGenericRedirectIPv4TC_def
  loadBpfSplitGenericRedirectIPv6TC_def loadObjectsBpfSplitGenericRedirectIPv6TC_def

lemma neutral_setup [neutral_intros]:
  "neutral (loadToSubPodTC k)" "neutral (loadFromSubPodTC k)"
  "neutral (setupSubpodTC k l r p q)" "neutral (setupFromLhTC k l r)"
  by (auto simp: loadToSubPodTC_def loadFromSubPodTC_def setupSubpodTC_def setupFromLhTC_def
      load_defs Let_def intro!: neutral_intros)

lemma neutral_route_values [neutral_intros]:
  "neutral (makeSplitLhRouteMapObject l m src dest)" "neutral (makeSplitRouteMapObjectMac l m r)"
  "neutral (makeSplitRouteMapObject l l' r)" "neutral (putNextLhSplitRouteObj k mp v)"
  "neutral (putNextSplitRouteObj k mp v)" "neutral (route_key b r)" "neutral (make_redirect i a c)"
  by (auto simp: makeSplitLhRouteMapObject_def makeSplitRouteMapObjectMac_def makeSplitRouteMapObject_def
      putNextLhSplitRouteObj_def putNextSplitRouteObj_def route_key_def make_redirect_def
      intro!: neutral_intros)

text \<open>Not a hint: proofs about the table treat \<open>get_pod\<close> on their own.\<close>

lemma neutral_get_pod: "neutral (get_pod n)"
  by (simp add: get_pod_def neutral_intros)

lemma neutral_updateLocalhostBpfMaps [neutral_intros]: "neutral (updateLocalhostBpfMaps k n r mac mp)"
  by (auto simp: updateLocalhostBpfMaps_def Let_def intro!: neutral_intros neutral_get_pod)

section \<open>Triples\<close>

definition ensures ::
  "('s \<Rightarrow> bool) \<Rightarrow> ('s, 'a) io \<Rightarrow> ('a \<Rightarrow> 's \<Rightarrow> bool) \<Rightarrow> ('s \<Rightarrow> bool) \<Rightarrow> bool" where
  "ensures P m Q I \<longleftrightarrow> (\<forall>s. P s \<longrightarrow> (case m s of (Done a, t) \<Rightarrow> Q a t | (_, t) \<Rightarrow> I t))"

lemma ensuresI:
  "(\<And>s r t. P s \<Longrightarrow> m s = (r, t) \<Longrightarrow> (case r of Done a \<Rightarrow> Q a t | _ \<Rightarrow> I t)) \<Longrightarrow> ensures P m Q I"
  by (auto simp: ensures_def split: prod.split outcome.split)

lemma ensuresD:
  assumes "ensures P m Q I" "P s" "m s = (r, t)"
  shows "case r of Done a \<Rightarrow> Q a t | _ \<Rightarrow> I t"
  using assms by (auto simp: ensures_def split: outcome.splits)

lemma ensures_Done: "ensures P m Q I \<Longrightarrow> P s \<Longrightarrow> m s = (Done a, t) \<Longrightarrow> Q a t"
  by (fastforce dest: ensuresD)

lemma ensures_keeps: "ensures I m (\<lambda>_. I) I \<longleftrightarrow> keeps I m"
  by (auto simp: ensures_def keeps_def split: prod.splits outcome.splits)
    (metis fst_conv outcome.exhaust snd_conv surj_pair)+

lemma ensures_bnd:
  assumes "ensures P m R I" "\<And>a. ensures (R a) (f a) Q I"
  shows "ensures P (bnd m f) Q I"
proof (rule ensuresI)
  fix s r t
  assume s: "P s" "bnd m f s = (r, t)"
  obtain r' t' where t': "m s = (r', t')" by (cases "m s")
  from ensuresD [OF assms(1) s(1) t'] show "case r of Done a \<Rightarrow> Q a t | _ \<Rightarrow> I t"
    using s(2) t' ensuresD [OF assms(2)] by (cases r') (auto simp: bnd_apply)
qed

lemma ensures_by_state: "(\<And>s. P s \<Longrightarrow> ensures (\<lambda>n. n = s) m Q I) \<Longrightarrow> ensures P m Q I"
  by (simp add: ensures_def)

lemma keeps_then:
  "keeps I m \<Longrightarrow> (\<And>a. ensures I (f a) Q (\<lambda>_. True)) \<Longrightarrow> ensures I (bnd m f) Q (\<lambda>_. True)"
  by (rule ensures_bnd [where R = "\<lambda>_. I"])
    (auto simp: ensures_def split: prod.split outcome.split dest: keepsD)

lemma ensures_ret: "(\<And>s. P s \<Longrightarrow> Q a s) \<Longrightarrow> ensures P (ret a) Q I"
  by (simp add: ensures_def ret_def)

lemma ensures_pre: "ensures P' m Q I \<Longrightarrow> (\<And>s. P s \<Longrightarrow> P' s) \<Longrightarrow> ensures P m Q I"
  by (auto simp: ensures_def)

lemma ensures_post:
  "ensures P m Q' I \<Longrightarrow> (\<And>a s. Q' a s \<Longrightarrow> Q a s) \<Longrightarrow> ensures P m Q I"
  by (auto simp: ensures_def split: prod.splits outcome.splits)

lemma ensures_if:
  "(b \<Longrightarrow> ensures P m Q I) \<Longrightarrow> (\<not> b \<Longrightarrow> ensures P m' Q I) \<Longrightarrow> ensures P (if b then m else m') Q I"
  by simp

lemma ensures_True: "ensures P m (\<lambda>_ _. True) (\<lambda>_. True)"
  by (auto simp: ensures_def split: prod.split outcome.split)

definition stable :: "('w net_state \<Rightarrow> bool) \<Rightarrow> bool" where
  "stable P \<longleftrightarrow> (\<forall>s t. P s \<longrightarrow> ext s t \<longrightarrow> P t)"

lemma stableD: "stable P \<Longrightarrow> P s \<Longrightarrow> ext s t \<Longrightarrow> P t"
  by (simp add: stable_def)

lemma ensures_neutral:
  assumes "neutral m" "stable P" "\<And>s. P s \<Longrightarrow> I s"
  shows "ensures P m (\<lambda>_. P) I"
  using assms by (auto intro!: ensuresI dest: neutralD stableD split: outcome.split)

lemma keeps_neutral: "neutral m \<Longrightarrow> stable I \<Longrightarrow> keeps I m"
  by (auto intro!: keepsI dest: neutralD stableD simp: neutral_def)

lemma step_neutral:
  assumes "neutral m" "stable P" "\<And>s. P s \<Longrightarrow> I s" "\<And>a. ensures P (f a) Q I"
  shows "ensures P (bnd m f) Q I"
  by (rule ensures_bnd [OF ensures_neutral [OF assms(1-3)] assms(4)])

lemma ensures_case_prod:
  "(\<And>a b. p = (a, b) \<Longrightarrow> ensures P (f a b) Q I) \<Longrightarrow> ensures P (case p of (a, b) \<Rightarrow> f a b) Q I"
  by (cases p) simp

lemma ensures_Let: "(\<And>x. x = a \<Longrightarrow> ensures P (f x) Q I) \<Longrightarrow> ensures P (let x = a in f x) Q I"
  by simp

lemmas ensures_cases = ensures_case_prod ensures_Let ensures_if

section \<open>The table of pods\<close>

lemma get_pod_apply [io_simps]:
  "get_pod n s = (Done (case map_of (podDevices s) n of None \<Rightarrow> no_pod_devices | Some d \<Rightarrow> d), s)"
  by (simp add: get_pod_def io_simps)

lemma put_pod_apply [io_simps]:
  "put_pod n d s = (Done (), s\<lparr>podDevices := AList.update n d (podDevices s)\<rparr>)"
  by (simp add: put_pod_def io_simps)

lemma put_ns_apply [io_simps]:
  "put_ns n h s = (Done (), s\<lparr>podNamespaces := AList.update n h (podNamespaces s)\<rparr>)"
  by (simp add: put_ns_def io_simps)

lemma ip_load_apply [io_simps]: "ip_load r s = (Done (ip_bytes_of (heap s) r), s)"
  by (simp add: ip_load_def io_simps)

lemma ip_new_apply [io_simps]: "ip_new b s = (Done (Some (length (heap s))), s\<lparr>heap := heap s @ [b]\<rparr>)"
  by (simp add: ip_new_def)

lemma snd_update_alist: "snd ` set (AList.update a v al) \<subseteq> insert v (snd ` set al)"
  by (induction al) auto

lemma update_alist_new: "a \<notin> fst ` set al \<Longrightarrow> AList.update a v al = al @ [(a, v)]"
  by (induction al) auto

end
