(* ===== verification/NetSpec.thy ===== *)
theory NetSpec
  imports NetLogic
begin

text \<open>
  What the network managers promise. \<open>net_inv4\<close> is the invariant of an IPv4 node: the addresses
  in use inside a pod are the ones right after the pod's own, without gaps, at most seven.
\<close>

definition pod_ok4 :: "ip_bytes list \<Rightarrow> pod_devices \<Rightarrow> bool" where
  "pod_ok4 h d \<longleftrightarrow> (case baseAddr d of None \<Rightarrow> True | Some r \<Rightarrow> r < length h)
     \<and> (ip_bytes_of h (baseAddr d) = [] \<or> length (ip_bytes_of h (baseAddr d)) = 4)
     \<and> (case addressesUsed d of None \<Rightarrow> True
        | Some al \<Rightarrow> length al < 8 \<and> (al \<noteq> [] \<longrightarrow> length (ip_bytes_of h (baseAddr d)) = 4)
            \<and> map fst al = map (\<lambda>i. ip_string (be_bytes (be_uint32 (ip_bytes_of h (baseAddr d)) + of_nat i)))
                [1..<Suc (length al)])"

definition net_inv4 :: "'w net_state \<Rightarrow> bool" where
  "net_inv4 s \<longleftrightarrow> (\<exists>am. PodAddressManager s = Some (AM4 am) \<and> am_inv4 am)
     \<and> (\<forall>d \<in> snd ` set (podDevices s). pod_ok4 (heap s) d)"

lemma ip_bytes_of_append:
  "(case r of None \<Rightarrow> True | Some i \<Rightarrow> i < length h) \<Longrightarrow> ip_bytes_of (h @ x) r = ip_bytes_of h r"
  by (auto simp: ip_bytes_of_def nth_append split: option.splits)

lemma pod_ok4_append: "pod_ok4 h d \<Longrightarrow> pod_ok4 (h @ x) d"
  by (auto simp: pod_ok4_def ip_bytes_of_append split: option.splits)

lemma pod_ok4_none [simp]: "pod_ok4 h no_pod_devices"
  by (simp add: pod_ok4_def no_pod_devices_def ip_bytes_of_def)

lemma pod_ok4_ext: "pod_ok4 (heap s) d \<Longrightarrow> ext s t \<Longrightarrow> pod_ok4 (heap t) d"
  using pod_ok4_append by (auto simp: ext_def)

lemma net_inv4_ext: "net_inv4 s \<Longrightarrow> ext s t \<Longrightarrow> net_inv4 t"
  using pod_ok4_ext [of s _ t] unfolding net_inv4_def by (simp add: ext_def)

lemma stable_net_inv4: "stable net_inv4"
  by (simp add: stable_def net_inv4_ext)

lemma stable_pod_ok4: "stable (\<lambda>s. pod_ok4 (heap s) d)"
  using pod_ok4_ext by (fastforce simp: stable_def)

lemma stable_conj: "stable P \<Longrightarrow> stable Q \<Longrightarrow> stable (\<lambda>s. P s \<and> Q s)"
  unfolding stable_def by blast

lemma stable_map_of: "stable (\<lambda>s. map_of (podDevices s) n = x)"
  by (simp add: stable_def ext_def)

lemma stable_bytes: "stable (\<lambda>s. (case r of None \<Rightarrow> True | Some i \<Rightarrow> i < length (heap s))
    \<and> P (ip_bytes_of (heap s) r))"
  unfolding stable_def ext_def by (fastforce simp: ip_bytes_of_append split: option.split)

section \<open>The pod table keeps the invariant\<close>

text \<open>A set of devices known to be in order beside the table, for loops over a copy of it.\<close>

definition net_inv4_and :: "pod_devices set \<Rightarrow> 'w net_state \<Rightarrow> bool" where
  "net_inv4_and D s \<longleftrightarrow> net_inv4 s \<and> (\<forall>d \<in> D. pod_ok4 (heap s) d)"

lemma stable_net_inv4_and: "stable (net_inv4_and D)"
  using net_inv4_ext pod_ok4_ext by (fastforce simp: stable_def net_inv4_and_def)

lemma keeps_put_pod:
  assumes "\<And>h. \<forall>d \<in> D. pod_ok4 h d \<Longrightarrow> pod_ok4 h d'"
  shows "keeps (net_inv4_and D) (put_pod n d')"
  using assms snd_update_alist [of n d']
  by (fastforce intro!: keepsI simp: io_simps net_inv4_and_def net_inv4_def)

lemma keeps_get_pod:
  assumes "\<And>d. keeps (net_inv4_and (insert d D)) (f d)"
  shows "keeps (net_inv4_and D) (bnd (get_pod n) f)"
proof (rule keepsI)
  fix s :: "'a net_state"
  let ?d = "case map_of (podDevices s) n of None \<Rightarrow> no_pod_devices | Some d \<Rightarrow> d"
  assume s: "net_inv4_and D s"
  then have "net_inv4_and (insert ?d D) s"
    by (force simp: net_inv4_and_def net_inv4_def split: option.split dest: map_of_SomeD)
  then have "net_inv4_and (insert ?d D) (snd (f ?d s))" using assms by (simp add: keeps_def)
  then show "net_inv4_and D (snd (bnd (get_pod n) f s))"
    by (simp add: io_simps net_inv4_and_def)
qed

lemma keeps_for_all_mem:
  "(\<And>x. x \<in> set xs \<Longrightarrow> keeps I (body x)) \<Longrightarrow> keeps I (for_all xs body)"
  by (induction xs) (auto intro!: keeps_intros)

lemma keeps_range_pods:
  assumes "\<And>devs. keeps (net_inv4_and (snd ` set devs \<union> D)) (f devs)"
  shows "keeps (net_inv4_and D) (bnd get_st (\<lambda>s. bnd (range_map k (podDevices s)) f))"
proof (rule keepsI)
  fix s :: "'a net_state"
  assume s: "net_inv4_and D s"
  obtain r t where t: "range_map k (podDevices s) s = (r, t)" by (cases "range_map k (podDevices s) s")
  then have "ext s t" using neutral_range_map neutralD by blast
  then have inv: "net_inv4_and D t" using s stableD [OF stable_net_inv4_and] by blast
  have heap: "\<forall>d \<in> snd ` set (podDevices s). pod_ok4 (heap t) d"
    using inv \<open>ext s t\<close> by (simp add: net_inv4_and_def net_inv4_def ext_def)
  have "set devs \<subseteq> set (podDevices s)" if "r = Done devs" for devs
    using t that by (auto simp: range_map_def io_simps split: prod.splits outcome.splits)
  with heap inv have "net_inv4_and (snd ` set devs \<union> D) t" if "r = Done devs" for devs
    using that by (fastforce simp: net_inv4_and_def)
  then have "net_inv4_and D (snd (f devs t))" if "r = Done devs" for devs
    using assms that by (fastforce simp: keeps_def net_inv4_and_def)
  then show "net_inv4_and D (snd (bnd get_st (\<lambda>s. bnd (range_map k (podDevices s)) f) s))"
    using t inv by (cases r) (simp_all add: io_simps)
qed

lemma keeps_step:
  assumes "neutral m" "\<And>a. keeps (net_inv4_and D) (f a)"
  shows "keeps (net_inv4_and D) (bnd m f)"
  by (intro keeps_bnd keeps_neutral stable_net_inv4_and assms)

lemma keeps_put_step:
  assumes "\<And>h. \<forall>d \<in> D. pod_ok4 h d \<Longrightarrow> pod_ok4 h d'" "keeps (net_inv4_and D) m"
  shows "keeps (net_inv4_and D) (bnd (put_pod n d') (\<lambda>_. m))"
  by (intro keeps_bnd keeps_put_pod assms)

lemma keeps_put_same:
  assumes "d \<in> D" "baseAddr d' = baseAddr d" "addressesUsed d' = addressesUsed d" "keeps (net_inv4_and D) m"
  shows "keeps (net_inv4_and D) (bnd (put_pod n d') (\<lambda>_. m))"
proof (rule keeps_put_step [OF _ assms(4)])
  fix h
  have "pod_ok4 h d' = pod_ok4 h d" unfolding pod_ok4_def assms(2,3) by (rule refl)
  then show "\<forall>d \<in> D. pod_ok4 h d \<Longrightarrow> pod_ok4 h d'" using assms(1) by blast
qed

lemma keeps_put_ns: "keeps (net_inv4_and D) (put_ns n h)"
  by (auto intro!: keepsI simp: io_simps net_inv4_and_def net_inv4_def)

text \<open>Updates of the fields the invariant does not speak of.\<close>

lemma pod_ok4_fields [simp]:
  "pod_ok4 h (d\<lparr>toSubpodBpfMap := a\<rparr>) = pod_ok4 h d"
  "pod_ok4 h (d\<lparr>fromSubpodBpfMap := a\<rparr>) = pod_ok4 h d"
  "pod_ok4 h (d\<lparr>fromLocalhostBpfMaps := b\<rparr>) = pod_ok4 h d"
  "pod_ok4 h (d\<lparr>internalDevices := c\<rparr>) = pod_ok4 h d"
  "pod_ok4 h (d\<lparr>mapsToKeep := e\<rparr>) = pod_ok4 h d"
  "pod_ok4 h (d\<lparr>linksToKeep := g\<rparr>) = pod_ok4 h d"
  "pod_ok4 h (d\<lparr>bpfProgLink := l\<rparr>) = pod_ok4 h d"
  "pod_ok4 h (d\<lparr>bpfToProg := p\<rparr>) = pod_ok4 h d"
  "pod_ok4 h (d\<lparr>bpfFromProg := p\<rparr>) = pod_ok4 h d"
  by (cases "addressesUsed d"; simp add: pod_ok4_def)+

lemma keeps_updateSubpodRouting: "keeps (net_inv4_and D) (updateSubpodRouting k br r)"
  unfolding updateSubpodRouting_def
proof (rule keeps_range_pods, rule keeps_for_all_mem)
  fix devs :: "(string \<times> pod_devices) list" and x
  assume "x \<in> set devs"
  moreover obtain idx dev where "x = (idx, dev)" by (cases x)
  ultimately have "dev \<in> snd ` set devs" by force
  then have "keeps (net_inv4_and (snd ` set devs \<union> D)) (put_pod idx dev)"
    by (intro keeps_put_pod) blast
  with \<open>x = _\<close> show "keeps (net_inv4_and (snd ` set devs \<union> D)) (case x of (idx, dev) \<Rightarrow>
      bnd (deref (podBridge dev)) (\<lambda>db. bnd (deref br) (\<lambda>pb.
       if l_name db \<noteq> l_name pb then
         bnd (make_redirect (l_index pb) (l_hwaddr db) (l_hwaddr pb)) (\<lambda>rroute.
         bnd am_IsIPv4 (\<lambda>v4.
         bnd (route_key v4 r) (\<lambda>key.
         bnd (kio (MapPut k (fromSubpodBpfMap dev) key rroute)) (\<lambda>_.
         put_pod idx dev))))
       else ret ())))"
    by (auto intro!: keeps_step neutral_intros keeps_ret)
qed

lemma keeps_initFromSubpodRouting: "keeps (net_inv4_and D) (initFromSubpodRouting k br n)"
  unfolding initFromSubpodRouting_def
  apply (rule keeps_step, rule neutral_intros, rule keeps_case_prod)
  apply (rule keeps_range_pods)
  apply (rule keeps_step, (fastforce intro!: neutral_intros)[1])
  apply (rule keeps_step, rule neutral_intros, rule keeps_case_prod)
  apply (rule keeps_step, rule neutral_intros)+
  apply (rule keeps_get_pod)
  apply (rule keeps_put_step, simp, rule keeps_ret)
  done

lemma keeps_start_redirects: "keeps (net_inv4_and D) (start_redirects k n podIp netNsIp podLink contIf nsid)"
  unfolding start_redirects_def
  apply (rule keeps_step, rule neutral_intros, rule keeps_case_prod)
  apply (rule keeps_step, rule neutral_intros)+
  apply (rule keeps_get_pod)
  apply (rule keeps_put_step, simp)
  apply (rule keeps_bnd, rule keeps_initFromSubpodRouting)
  apply (rule keeps_bnd, rule keeps_updateSubpodRouting)
  apply (rule keeps_step, rule neutral_intros, rule keeps_case_prod)
  apply (rule keeps_get_pod)
  apply (rule keeps_put_step, simp)
  apply (rule keeps_bnd, rule keeps_put_ns)
  apply (rule keeps_ret)
  done

lemma keeps_attachLocalhostBpfPrograms:
  "keeps (net_inv4_and D) (attachLocalhostBpfPrograms k n lhIp ip i)"
  unfolding attachLocalhostBpfPrograms_def
  apply (rule keeps_step, rule neutral_intros, rule keeps_case_prod)
  apply (rule keeps_if, rule keeps_ret)
  apply (rule keeps_step, rule neutral_intros, (rule keeps_case_prod)+)
  apply (rule keeps_if, rule keeps_ret)
  apply (rule keeps_get_pod)
  apply (rule keeps_step, rule neutral_intros)+
  apply (rule keeps_put_step, simp, rule keeps_ret)
  done

section \<open>The addresses inside a pod\<close>

lemma ip_string_inj4: "ip_string (be_bytes v) = ip_string (be_bytes w) \<longleftrightarrow> v = w"
  using dotted_inj [of "be_bytes v" "be_bytes w"] be_bytes_inj by (auto simp: ip_string_4)

lemma of_nat_less8_inj:
  "i < 9 \<Longrightarrow> j < 9 \<Longrightarrow> (x :: u32) + of_nat i = x + of_nat j \<longleftrightarrow> i = j"
proof -
  assume small: "i < 9" "j < 9"
  have "(of_nat i :: u32) = of_nat j \<longleftrightarrow> unat (of_nat i :: u32) = unat (of_nat j :: u32)"
    by (rule word_unat_eq_iff)
  also have "\<dots> \<longleftrightarrow> i = j" using small by (simp add: unat_of_nat)
  finally show ?thesis by simp
qed

text \<open>One more workload: the next address is new, and the table stays without gaps.\<close>

lemma pod_ok4_add:
  assumes ok: "pod_ok4 h d" and used: "addressesUsed d = Some al" "length al < 7"
    and len: "length (ip_bytes_of h (baseAddr d)) = 4"
    and ip: "ipb = be_bytes (be_uint32 (ip_bytes_of h (baseAddr d)) + of_nat (Suc (length al)))"
  shows "ip_string ipb \<notin> fst ` set al"
    and "pod_ok4 h (d\<lparr>addressesUsed := Some (AList.update (ip_string ipb) l al)\<rparr>)"
proof -
  let ?x = "be_uint32 (ip_bytes_of h (baseAddr d))"
  have keys: "map fst al = map (\<lambda>i. ip_string (be_bytes (?x + of_nat i))) [1..<Suc (length al)]"
    using ok used by (simp add: pod_ok4_def)
  then have "fst ` set al = (\<lambda>i. ip_string (be_bytes (?x + of_nat i))) ` {1..<Suc (length al)}"
    by (metis set_map set_upt)
  moreover have "?x + of_nat (Suc (length al)) \<noteq> ?x + of_nat i" if "i \<in> {1..<Suc (length al)}" for i
    using used(2) that of_nat_less8_inj [of "Suc (length al)" i ?x] by auto
  ultimately show new: "ip_string ipb \<notin> fst ` set al"
    unfolding ip by (auto simp only: ip_string_inj4 image_iff)
  have "AList.update (ip_string ipb) l al = al @ [(ip_string ipb, l)]" using new by (rule update_alist_new)
  then show "pod_ok4 h (d\<lparr>addressesUsed := Some (AList.update (ip_string ipb) l al)\<rparr>)"
    using ok used len keys ip by (simp add: pod_ok4_def)
qed

lemma ip_bytes_of_new: "ip_bytes_of (h @ [b]) (Some (length h)) = b"
  by (simp add: ip_bytes_of_def)

lemma ip_add_at_panics: "ip_bytes_of (heap s) r = [] \<Longrightarrow> ip_add_at r i x s = (Panic ''index out of range'', s)"
  by (auto simp: ip_add_at_def io_simps ip_bytes_of_def split: option.splits if_splits)

definition used_of :: "pod_devices \<Rightarrow> (string \<times> link option) list" where
  "used_of d = (case addressesUsed d of None \<Rightarrow> [] | Some al \<Rightarrow> al)"

text \<open>\<open>ip\<close> refers to the next address of the pod \<open>d\<close>.\<close>

definition next_ip :: "pod_devices \<Rightarrow> ip_ref \<Rightarrow> 'w net_state \<Rightarrow> bool" where
  "next_ip d ip s \<longleftrightarrow> length (used_of d) < 7 \<and> length (ip_bytes_of (heap s) (baseAddr d)) = 4
     \<and> (case ip of None \<Rightarrow> True | Some i \<Rightarrow> i < length (heap s))
     \<and> ip_bytes_of (heap s) ip
         = be_bytes (be_uint32 (ip_bytes_of (heap s) (baseAddr d)) + of_nat (Suc (length (used_of d))))"

lemma next_ip_ext: "next_ip d ip s \<Longrightarrow> pod_ok4 (heap s) d \<Longrightarrow> ext s t \<Longrightarrow> next_ip d ip t"
  unfolding next_ip_def ext_def pod_ok4_def
  by (elim conjE exE, intro conjI) (simp_all add: ip_bytes_of_append split: option.splits)

lemma getNextSubPodIP_ensures:
  assumes "stable P" "\<And>s. P s \<Longrightarrow> net_inv4 s \<and> pod_ok4 (heap s) d"
  shows "ensures P (getNextSubPodIP d) (\<lambda>(ip, err) s. P s \<and> (err = None \<longrightarrow> next_ip d ip s)) net_inv4"
proof (rule ensuresI)
  fix s :: "'a net_state" and r t
  assume s: "P s" "getNextSubPodIP d s = (r, t)"
  let ?b = "ip_bytes_of (heap s) (baseAddr d)"
  have inv: "net_inv4 s" and ok: "pod_ok4 (heap s) d" using assms(2) s(1) by auto
  obtain am where am: "PodAddressManager s = Some (AM4 am)" "subIPsPerPod am = 8"
    using inv by (auto simp: net_inv4_def am_inv4_def)
  have len: "?b = [] \<or> length ?b = 4" and le: "length (used_of d) < 8"
    using ok by (auto simp: pod_ok4_def used_of_def split: option.splits)
  have P_app: "P (s\<lparr>heap := heap s @ [x]\<rparr>)" for x
    by (rule stableD [OF assms(1) s(1)]) (simp add: ext_def)
  have base: "ip_bytes_of (heap s @ [x]) (baseAddr d) = ?b" for x
    using ok by (intro ip_bytes_of_append) (simp add: pod_ok4_def)
  note run = s(2) [unfolded getNextSubPodIP_def Let_def used_of_def [symmetric]]
  consider (full) "length (used_of d) = 7" | (four) "length (used_of d) < 7" "length ?b = 4"
    | (nil) "length (used_of d) < 7" "?b = []"
    using len le by linarith
  then show "case r of Done a \<Rightarrow> (\<lambda>(ip, err) s. P s \<and> (err = None \<longrightarrow> next_ip d ip s)) a t
    | _ \<Rightarrow> net_inv4 t"
  proof cases
    case full
    then show ?thesis using run am P_app
      by (auto simp: am_GetMaxIPsPerPod_def GetMaxIPsPerPod_def pam_def io_simps)
  next
    case four
    then show ?thesis using run am P_app base
      by (auto simp: am_GetMaxIPsPerPod_def GetMaxIPsPerPod_def pam_def io_simps ip2int_def int2ip_def
          ip_bytes_of_new next_ip_def algebra_simps)
  next
    case nil
    then show ?thesis using run am inv
      by (auto simp: am_GetMaxIPsPerPod_def GetMaxIPsPerPod_def pam_def io_simps ip_add_at_panics)
  qed
qed

definition fresh_ip4 :: "ip_ref \<Rightarrow> 'w net_state \<Rightarrow> bool" where
  "fresh_ip4 r s \<longleftrightarrow> (case r of None \<Rightarrow> True | Some i \<Rightarrow> i < length (heap s))
     \<and> (ip_bytes_of (heap s) r = [] \<or> length (ip_bytes_of (heap s) r) = 4)"

lemma stable_fresh_ip4: "stable (fresh_ip4 r)"
  using stable_bytes [of r "\<lambda>b. b = [] \<or> length b = 4"] by (simp add: fresh_ip4_def [abs_def])

lemma am_RequestPodIP_ensures:
  "ensures net_inv4 (am_RequestPodIP ns pod) (\<lambda>(r, err) s. net_inv4 s \<and> fresh_ip4 r s) net_inv4"
proof (rule ensuresI)
  fix s :: "'a net_state" and r t
  assume s: "net_inv4 s" "am_RequestPodIP ns pod s = (r, t)"
  obtain am where am: "PodAddressManager s = Some (AM4 am)" "am_inv4 am" "\<forall>d \<in> snd ` set (podDevices s). pod_ok4 (heap s) d"
    using s(1) by (auto simp: net_inv4_def)
  obtain ip err am' where ip: "RequestPodIP ns pod am = (Done (ip, err), am')" "am_inv4 am'"
    "ip = [] \<or> length ip = 4"
    using am4.request_contract [OF am(2), of ns pod] by (auto simp: int2ip_def split: option.splits)
  show "case r of Done a \<Rightarrow> (\<lambda>(r, err) s. net_inv4 s \<and> fresh_ip4 r s) a t | _ \<Rightarrow> net_inv4 t"
    using s(2) am ip pod_ok4_append
    by (auto simp: am_RequestPodIP_def pam_def io_simps am4_io_def net_inv4_def fresh_ip4_def ip_bytes_of_new)
qed

lemma ensures_bnd_prod:
  assumes "ensures P m (\<lambda>(a, b). R a b) I" "\<And>a b. ensures (R a b) (f a b) Q I"
  shows "ensures P (bnd m (\<lambda>(a, b). f a b)) Q I"
  by (rule ensures_bnd [OF assms(1)]) (auto intro: assms(2))

text \<open>Recording the next address for a workload and putting the pod back.\<close>

lemma ensures_claim:
  assumes "\<And>ipb used. keeps (net_inv4_and {d\<lparr>addressesUsed := used\<rparr>}) (m ipb used)"
    and P: "\<And>s. P s \<Longrightarrow> net_inv4 s \<and> pod_ok4 (heap s) d \<and> next_ip d ip s"
  shows "ensures P (bnd (ip_load ip) (\<lambda>ipb. bnd (map_assign (ip_string ipb) l (addressesUsed d)) (\<lambda>used.
    bnd (put_pod n (d\<lparr>addressesUsed := used\<rparr>)) (\<lambda>_. m ipb used)))) (\<lambda>_. net_inv4) net_inv4"
proof (rule ensuresI)
  fix s :: "'a net_state" and r t
  let ?m = "bnd (ip_load ip) (\<lambda>ipb. bnd (map_assign (ip_string ipb) l (addressesUsed d)) (\<lambda>used.
    bnd (put_pod n (d\<lparr>addressesUsed := used\<rparr>)) (\<lambda>_. m ipb used)))"
  assume s: "P s" "?m s = (r, t)"
  note inv = P [OF s(1)]
  have "net_inv4 t"
  proof (cases "addressesUsed d")
    case None
    then show ?thesis using s(2) inv by (auto simp: io_simps map_assign_def)
  next
    case (Some al)
    let ?used = "Some (AList.update (ip_string (ip_bytes_of (heap s) ip)) l al)"
    let ?s = "s\<lparr>podDevices := AList.update n (d\<lparr>addressesUsed := ?used\<rparr>) (podDevices s)\<rparr>"
    have "pod_ok4 (heap s) (d\<lparr>addressesUsed := ?used\<rparr>)"
      using inv Some by (intro pod_ok4_add(2)) (auto simp: next_ip_def used_of_def)
    then have "net_inv4_and {d\<lparr>addressesUsed := ?used\<rparr>} ?s"
      using inv snd_update_alist [of n "d\<lparr>addressesUsed := ?used\<rparr>" "podDevices s"]
      by (fastforce simp: net_inv4_and_def net_inv4_def)
    moreover have "m (ip_bytes_of (heap s) ip) ?used ?s = (r, t)" using s(2) Some by (simp add: io_simps map_assign_def)
    ultimately show ?thesis using assms(1) keepsD by (fastforce simp: net_inv4_and_def)
  qed
  then show "case r of Done a \<Rightarrow> net_inv4 t | _ \<Rightarrow> net_inv4 t" by (cases r) simp_all
qed

section \<open>The managers keep the invariant\<close>

lemma net_inv4_and_empty: "net_inv4_and {} = net_inv4"
  by (simp add: net_inv4_and_def fun_eq_iff)

lemma ensures_get_pod:
  assumes "\<And>d. ensures (\<lambda>s. net_inv4 s \<and> pod_ok4 (heap s) d) (f d) (\<lambda>_. net_inv4) net_inv4"
  shows "ensures net_inv4 (bnd (get_pod n) f) (\<lambda>_. net_inv4) net_inv4"
proof (rule ensuresI)
  fix s :: "'a net_state" and r t
  let ?d = "case map_of (podDevices s) n of None \<Rightarrow> no_pod_devices | Some d \<Rightarrow> d"
  assume s: "net_inv4 s" "bnd (get_pod n) f s = (r, t)"
  have "pod_ok4 (heap s) ?d"
    using s(1) by (force simp: net_inv4_def split: option.split dest: map_of_SomeD)
  then show "case r of Done a \<Rightarrow> net_inv4 t | _ \<Rightarrow> net_inv4 t"
    using ensuresD [OF assms, of s ?d r t] s by (simp add: io_simps)
qed

lemma keeps_as_ensures: "ensures net_inv4 m (\<lambda>_. net_inv4) net_inv4 \<Longrightarrow> keeps net_inv4 m"
  by (simp add: ensures_keeps)

lemma ensures_return: "ensures (\<lambda>s. net_inv4 s \<and> P s) (ret a) (\<lambda>_. net_inv4) net_inv4"
  by (rule ensures_ret) simp

lemma ensures_fail:
  "ensures (\<lambda>s. net_inv4 s \<and> pod_ok4 (heap s) d) (bnd (ip_new []) (\<lambda>r. ret (g r))) (\<lambda>_. net_inv4) net_inv4"
  by (rule step_neutral [OF neutral_ip_new stable_conj [OF stable_net_inv4 stable_pod_ok4]])
    (auto intro: ensures_return)

definition claiming :: "pod_devices \<Rightarrow> ip_ref \<Rightarrow> 'w net_state \<Rightarrow> bool" where
  "claiming d ip s \<longleftrightarrow> (net_inv4 s \<and> pod_ok4 (heap s) d) \<and> next_ip d ip s"

lemma stable_claiming: "stable (claiming d ip)"
  unfolding stable_def claiming_def using net_inv4_ext pod_ok4_ext next_ip_ext by blast

lemma claiming_inv: "claiming d ip s \<Longrightarrow> net_inv4 s"
  by (simp add: claiming_def)

lemma claim_step:
  "neutral m \<Longrightarrow> (\<And>a. ensures (claiming d ip) (f a) (\<lambda>_. net_inv4) net_inv4) \<Longrightarrow>
    ensures (claiming d ip) (bnd m f) (\<lambda>_. net_inv4) net_inv4"
  using step_neutral [of m "claiming d ip" net_inv4] stable_claiming claiming_inv by blast

text \<open>An early return on an error, or the next step.\<close>

lemma claim_fail:
  assumes "\<not> b \<Longrightarrow> ensures (claiming d ip) m (\<lambda>_. net_inv4) net_inv4"
  shows "ensures (claiming d ip) (if b then bnd (ip_new []) (\<lambda>r. ret (g r)) else m) (\<lambda>_. net_inv4) net_inv4"
  using assms by (auto intro: ensures_pre [OF ensures_fail [of d]] simp: claiming_def)

lemma claim_put:
  assumes "\<And>ipb used. keeps (net_inv4_and {d\<lparr>addressesUsed := used\<rparr>}) (m ipb used)"
  shows "ensures (claiming d ip)
    (bnd (ip_load ip) (\<lambda>ipb. bnd (map_assign (ip_string ipb) l (addressesUsed d)) (\<lambda>used.
      bnd (put_pod n (d\<lparr>addressesUsed := used\<rparr>)) (\<lambda>_. m ipb used)))) (\<lambda>_. net_inv4) net_inv4"
  by (rule ensures_claim [OF assms]) (simp add: claiming_def)

lemma ensures_next:
  assumes "\<And>ip err. err \<noteq> None \<Longrightarrow>
      ensures (\<lambda>s. net_inv4 s \<and> pod_ok4 (heap s) d) (f (ip, err)) (\<lambda>_. net_inv4) net_inv4"
    and "\<And>ip. ensures (claiming d ip) (f (ip, None)) (\<lambda>_. net_inv4) net_inv4"
  shows "ensures (\<lambda>s. net_inv4 s \<and> pod_ok4 (heap s) d) (bnd (getNextSubPodIP d) f) (\<lambda>_. net_inv4) net_inv4"
proof (rule ensures_bnd [OF getNextSubPodIP_ensures [OF stable_conj [OF stable_net_inv4 stable_pod_ok4]]])
  fix a :: "ip_ref \<times> goerr"
  obtain ip err where "a = (ip, err)" by (cases a)
  then show "ensures ((\<lambda>(ip, err) s. (net_inv4 s \<and> pod_ok4 (heap s) d) \<and> (err = None \<longrightarrow> next_ip d ip s)) a)
      (f a) (\<lambda>_. net_inv4) net_inv4"
    using assms(1) [of err ip] assms(2) [of ip]
    by (cases err) (auto elim!: ensures_pre simp: claiming_def)
qed simp

lemma keeps_CreateVMTun: "keeps net_inv4 (CreateVMTun k cns pod c)"
  apply (rule keeps_as_ensures)
  apply (unfold CreateVMTun_def Let_def)
  apply (rule ensures_get_pod, rule ensures_next)
   apply (simp add: ensures_fail)
  apply (simp only: prod.case if_False simp_thms option.simps)
  apply (rule claim_step, rule neutral_intros)+
  apply (rule claim_fail)
  apply (rule claim_step, rule neutral_intros, rule ensures_case_prod)
  apply (rule claim_step, rule neutral_intros)
  apply (rule claim_fail)
  apply (rule claim_step, rule neutral_intros)
  apply (rule claim_fail)
  apply (rule claim_put)
   apply (rule keeps_step, rule neutral_intros)+
   apply (rule keeps_put_step, simp, rule keeps_ret)
  done

lemma keeps_CreateVMTunPL: "keeps net_inv4 (CreateVMTunPL k cns pod c)"
  apply (rule keeps_as_ensures)
  apply (unfold CreateVMTunPL_def Let_def)
  apply (rule ensures_get_pod, rule ensures_next)
   apply (simp add: ensures_fail)
  apply (simp only: prod.case if_False simp_thms option.simps)
  apply (rule claim_step, rule neutral_intros)+
  apply (rule claim_fail)
  apply (rule claim_step, rule neutral_intros, rule ensures_case_prod)
  apply (rule claim_step, rule neutral_intros)
  apply (rule claim_fail)
  apply (rule claim_step, rule neutral_intros)
  apply (rule claim_fail)
  apply (rule claim_put)
   apply (rule keeps_step, rule neutral_intros)+
   apply (rule keeps_put_step, simp)
   apply (rule keeps_step, rule neutral_intros)+
   apply (rule keeps_put_step, simp)
   apply (rule keeps_step, rule neutral_intros)+
   apply (rule keeps_bnd, rule keeps_attachLocalhostBpfPrograms, rule keeps_case_prod)
   apply (rule keeps_step, rule neutral_intros, rule keeps_ret)
  done

definition claiming_new :: "string \<Rightarrow> pod_devices \<Rightarrow> ip_ref \<Rightarrow> 'w net_state \<Rightarrow> bool" where
  "claiming_new n d ip s \<longleftrightarrow> claiming d ip s \<and> map_of (podDevices s) n = Some d"

lemma stable_claiming_new: "stable (claiming_new n d ip)"
  unfolding claiming_new_def by (intro stable_conj stable_claiming stable_map_of)

lemma claiming_new_inv: "claiming_new n d ip s \<Longrightarrow> net_inv4 s"
  unfolding claiming_new_def using claiming_inv by blast

lemma claim_new_step:
  "neutral m \<Longrightarrow> (\<And>a. ensures (claiming_new n d ip) (f a) (\<lambda>_. net_inv4) net_inv4) \<Longrightarrow>
    ensures (claiming_new n d ip) (bnd m f) (\<lambda>_. net_inv4) net_inv4"
  using step_neutral [of m "claiming_new n d ip" net_inv4] stable_claiming_new claiming_new_inv
  by blast

lemma claim_new_get:
  assumes "ensures (claiming d ip) (f d) (\<lambda>_. net_inv4) net_inv4"
  shows "ensures (claiming_new n d ip) (bnd (get_pod n) f) (\<lambda>_. net_inv4) net_inv4"
  using assms by (auto simp: ensures_def claiming_new_def io_simps)

lemma claim_new_fail:
  assumes "\<not> b \<Longrightarrow> ensures (claiming_new n d ip) m (\<lambda>_. net_inv4) net_inv4"
  shows "ensures (claiming_new n d ip) (if b then ret a else m) (\<lambda>_. net_inv4) net_inv4"
  using assms by (auto intro!: ensures_ret simp: claiming_new_def claiming_def)

text \<open>Entering a pod into the table and asking for its first address.\<close>

lemma ensures_new_pod:
  assumes d: "baseAddr d = podIp" "addressesUsed d = Some []"
    and cont: "\<And>ip. ensures (claiming_new n d ip) (f ip) (\<lambda>_. net_inv4) net_inv4"
  shows "ensures (\<lambda>s. net_inv4 s \<and> fresh_ip4 podIp s)
    (bnd (put_pod n d) (\<lambda>_. bnd (bnd (get_pod n) getNextSubPodIP) (\<lambda>(ip, err).
       if err \<noteq> None then ret (g err) else f ip))) (\<lambda>_. net_inv4) net_inv4"
proof -
  let ?P = "\<lambda>s. (net_inv4 s \<and> pod_ok4 (heap s) d) \<and> map_of (podDevices s) n = Some d"
  let ?rest = "\<lambda>a. case a of (ip, err) \<Rightarrow> if err \<noteq> None then ret (g err) else f ip"
  have P: "stable ?P" by (intro stable_conj stable_net_inv4 stable_pod_ok4 stable_map_of)
  have put: "ensures (\<lambda>s. net_inv4 s \<and> fresh_ip4 podIp s) (put_pod n d) (\<lambda>_. ?P) net_inv4"
  proof (rule ensuresI)
    fix s r t
    assume s: "net_inv4 s \<and> fresh_ip4 podIp s" "put_pod n d s = (r, t)"
    have "pod_ok4 (heap s) d" using s(1) d by (simp add: pod_ok4_def fresh_ip4_def)
    then show "case r of Done a \<Rightarrow> ?P t | _ \<Rightarrow> net_inv4 t"
      using s snd_update_alist [of n d "podDevices s"]
      by (fastforce simp: io_simps net_inv4_def update_conv')
  qed
  have get: "ensures ?P (bnd (get_pod n) getNextSubPodIP)
      (\<lambda>(ip, err) s. ?P s \<and> (err = None \<longrightarrow> next_ip d ip s)) net_inv4"
  proof -
    have "ensures ?P (getNextSubPodIP d) (\<lambda>(ip, err) s. ?P s \<and> (err = None \<longrightarrow> next_ip d ip s)) net_inv4"
      by (rule getNextSubPodIP_ensures [OF P]) simp
    then show ?thesis by (simp add: ensures_def io_simps)
  qed
  have rest: "ensures ((\<lambda>(ip, err) s. ?P s \<and> (err = None \<longrightarrow> next_ip d ip s)) a) (?rest a)
      (\<lambda>_. net_inv4) net_inv4" for a
  proof -
    obtain ip err where "a = (ip, err)" by (cases a)
    with cont [of ip] show ?thesis
      by (cases err) (auto elim!: ensures_pre intro!: ensures_ret simp: claiming_new_def claiming_def)
  qed
  show ?thesis by (rule ensures_bnd [OF put ensures_bnd [OF get rest]])
qed

lemma fresh_step:
  "neutral m \<Longrightarrow> (\<And>a. ensures (\<lambda>s. net_inv4 s \<and> fresh_ip4 r s) (f a) (\<lambda>_. net_inv4) net_inv4) \<Longrightarrow>
    ensures (\<lambda>s. net_inv4 s \<and> fresh_ip4 r s) (bnd m f) (\<lambda>_. net_inv4) net_inv4"
  using step_neutral [of m "\<lambda>s. net_inv4 s \<and> fresh_ip4 r s" net_inv4]
    stable_conj [OF stable_net_inv4 stable_fresh_ip4] by blast

lemma keeps_InitPodNetwork: "keeps net_inv4 (InitPodNetwork k cns pod)"
  apply (rule keeps_as_ensures)
  apply (unfold InitPodNetwork_def Let_def)
  apply (rule ensures_bnd_prod, rule am_RequestPodIP_ensures)
  apply (rule fresh_step, rule neutral_intros)
  apply (rule fresh_step, rule neutral_intros, rule ensures_case_prod)
  apply (rule fresh_step, rule neutral_intros)
  apply (rule ensures_new_pod, simp, simp)
  apply (rule claim_new_step, rule neutral_intros, (rule ensures_case_prod)+)
  apply (rule claim_new_fail, rule claim_new_get)
  apply (rule claim_step, rule neutral_intros)
  apply (rule claim_put)
  apply (rule keeps_step, rule neutral_intros)+
  apply (rule keeps_start_redirects)
  done

lemma keeps_InitPodNetworkPL: "keeps net_inv4 (InitPodNetworkPL k cns pod)"
  apply (rule keeps_as_ensures)
  apply (unfold InitPodNetworkPL_def Let_def)
  apply (rule ensures_bnd_prod, rule am_RequestPodIP_ensures)
  apply (rule fresh_step, rule neutral_intros)
  apply (rule fresh_step, rule neutral_intros, rule ensures_case_prod)
  apply (rule fresh_step, rule neutral_intros)
  apply (rule ensures_new_pod, simp, simp)
  apply (rule claim_new_step, rule neutral_intros, (rule ensures_case_prod)+)
  apply (rule claim_new_fail, rule claim_new_get)
  apply (rule claim_step, rule neutral_intros)
  apply (rule claim_put)
  apply (rule keeps_step, rule neutral_intros)+
  apply (rule keeps_put_same, rule singletonI, simp, simp)
  apply (rule keeps_step, rule neutral_intros)+
  apply (rule keeps_bnd, rule keeps_attachLocalhostBpfPrograms, rule keeps_case_prod)
  apply (rule keeps_if, rule keeps_ret)
  apply (rule keeps_step, rule neutral_intros)
  apply (rule keeps_if, rule keeps_ret)
  apply (rule keeps_step, rule neutral_intros)
  apply (rule keeps_start_redirects)
  done

end
