(* ===== verification/NetManagers.thy ===== *)
theory NetManagers
  imports NetSpec
begin

text \<open>
  The Go interface \<open>CNIManager\<close> as a record of operations, its three implementations as values of
  it, the calls a node makes on a manager as a step relation, and the contract of the interface
  as a locale that each implementation satisfies. The last call on a panicking manager counts
  as a step too: the HTTP server recovers the panic of a handler and the node goes on.
\<close>

record 'w CNIManager =
  cni_InitContainerNetworking :: "('w, goerr) nio"
  cni_TeardownContainerNetworking :: "('w, goerr) nio"
  cni_InitPodNetwork :: "string \<Rightarrow> string \<Rightarrow> ('w, goerr) nio"
  cni_StopPodNetwork :: "string \<Rightarrow> string \<Rightarrow> ('w, goerr) nio"
  cni_GetNetNsHandle :: "string \<Rightarrow> string \<Rightarrow> ('w, ns_handle option \<times> goerr) nio"
  cni_GetNetNsPath :: "string \<Rightarrow> string \<Rightarrow> ('w, string \<times> goerr) nio"
  cni_CreateVMTun :: "string \<Rightarrow> string \<Rightarrow> string \<Rightarrow> ('w, vm_tun) nio"
  cni_GetGatewayAddress :: "string \<Rightarrow> string \<Rightarrow> ('w, ip_ref) nio"

definition multi_runtime_manager :: "'w kernel \<Rightarrow> 'w CNIManager" where
  "multi_runtime_manager k = \<lparr>
     cni_InitContainerNetworking = InitContainerNetworking,
     cni_TeardownContainerNetworking = TeardownContainerNetworking k,
     cni_InitPodNetwork = InitPodNetwork k,
     cni_StopPodNetwork = StopPodNetwork k,
     cni_GetNetNsHandle = GetNetNsHandle,
     cni_GetNetNsPath = GetNetNsPath,
     cni_CreateVMTun = CreateVMTun k,
     cni_GetGatewayAddress = GetGatewayAddress\<rparr>"

definition pod_local_manager :: "'w kernel \<Rightarrow> 'w CNIManager" where
  "pod_local_manager k = \<lparr>
     cni_InitContainerNetworking = InitContainerNetworkingPL k,
     cni_TeardownContainerNetworking = TeardownContainerNetworkingPL k,
     cni_InitPodNetwork = InitPodNetworkPL k,
     cni_StopPodNetwork = StopPodNetworkPL k,
     cni_GetNetNsHandle = GetNetNsHandlePL,
     cni_GetNetNsPath = GetNetNsPathPL,
     cni_CreateVMTun = CreateVMTunPL k,
     cni_GetGatewayAddress = GetGatewayAddressPL\<rparr>"

definition default_manager :: "'w kernel \<Rightarrow> 'w CNIManager" where
  "default_manager k = \<lparr>
     cni_InitContainerNetworking = InitContainerNetworkingD k,
     cni_TeardownContainerNetworking = TeardownContainerNetworkingD k,
     cni_InitPodNetwork = InitPodNetworkD k,
     cni_StopPodNetwork = StopPodNetworkD k,
     cni_GetNetNsHandle = GetNetNsHandleD,
     cni_GetNetNsPath = GetNetNsPathD,
     cni_CreateVMTun = CreateVMTunD k,
     cni_GetGatewayAddress = GetGatewayAddressD\<rparr>"

lemmas manager_defs = multi_runtime_manager_def pod_local_manager_def default_manager_def
  TeardownContainerNetworkingPL_def StopPodNetworkPL_def GetNetNsHandlePL_def GetNetNsPathPL_def
  GetGatewayAddressPL_def GetNetNsHandleD_def GetNetNsPathD_def

text \<open>What a node does with its manager once it is initialised.\<close>

inductive cni_step :: "'w CNIManager \<Rightarrow> 'w net_state \<Rightarrow> 'w net_state \<Rightarrow> bool" for mgr where
  init_pod: "cni_step mgr s (snd (cni_InitPodNetwork mgr cns pod s))"
| stop_pod: "cni_step mgr s (snd (cni_StopPodNetwork mgr cns pod s))"
| create_vm: "cni_step mgr s (snd (cni_CreateVMTun mgr cns pod c s))"
| gateway: "cni_step mgr s (snd (cni_GetGatewayAddress mgr cns pod s))"

inductive cni_reach :: "'w CNIManager \<Rightarrow> 'w net_state \<Rightarrow> 'w net_state \<Rightarrow> bool" for mgr s where
  reach_refl: "cni_reach mgr s s"
| reach_step: "cni_reach mgr s t \<Longrightarrow> cni_step mgr t u \<Longrightarrow> cni_reach mgr s u"

inductive_cases cni_stepE: "cni_step mgr s t"

section \<open>The contract\<close>

locale cni_contract =
  fixes mgr :: "'w CNIManager" and inv :: "'w net_state \<Rightarrow> bool"
  assumes keeps_init: "keeps inv (cni_InitPodNetwork mgr cns pod)"
    and keeps_stop: "keeps inv (cni_StopPodNetwork mgr cns pod)"
    and keeps_vm: "keeps inv (cni_CreateVMTun mgr cns pod c)"
    and keeps_gateway: "keeps inv (cni_GetGatewayAddress mgr cns pod)"
    and init_path: "cni_InitPodNetwork mgr cns pod s = (Done None, t) \<Longrightarrow>
      cni_GetNetNsPath mgr cns pod t = (Done (GetNetNs cns pod, None), t)"
    and stop_tables: "cni_StopPodNetwork mgr cns pod s = (r, t) \<Longrightarrow>
      podNamespaces t = podNamespaces s \<and> PodAddressManager t = PodAddressManager s"
    and path_table: "fst (cni_GetNetNsPath mgr cns pod s)
      = (case map_of (podNamespaces s) (GetNetNs cns pod) of
           None \<Rightarrow> Done ([], Some (Errorf ''Container network namespace for %s not found'' [GetNetNs cns pod]))
         | Some _ \<Rightarrow> Done (GetNetNs cns pod, None))"
    and path_reads: "snd (cni_GetNetNsPath mgr cns pod s) = s"
begin

lemma step_keeps: "cni_step mgr s t \<Longrightarrow> inv s \<Longrightarrow> inv t"
  using keeps_init keeps_stop keeps_vm keeps_gateway
  by (elim cni_stepE) (auto simp: keeps_def)

lemma reach_keeps: "cni_reach mgr s t \<Longrightarrow> inv s \<Longrightarrow> inv t"
  by (induction rule: cni_reach.induct) (auto intro: step_keeps)

text \<open>Stopping a pod leaves its namespace path, and its address, taken.\<close>

lemma path_survives_stop:
  assumes "cni_InitPodNetwork mgr cns pod s = (Done None, t)"
    and "cni_StopPodNetwork mgr cns pod t = (r, u)"
  shows "fst (cni_GetNetNsPath mgr cns pod u) = Done (GetNetNs cns pod, None)
    \<and> PodAddressManager u = PodAddressManager t"
  using init_path [OF assms(1)] stop_tables [OF assms(2)] path_table [of cns pod t] path_table [of cns pod u]
  by simp

end

section \<open>The implementations\<close>

abbreviation path_known :: "string \<Rightarrow> goerr \<Rightarrow> 'w net_state \<Rightarrow> bool" where
  "path_known n err s \<equiv> err = None \<longrightarrow> map_of (podNamespaces s) n \<noteq> None"

lemma anyway:
  "(\<And>a. ensures (\<lambda>_. True) (f a) Q (\<lambda>_. True)) \<Longrightarrow> ensures (\<lambda>_. True) (bnd m f) Q (\<lambda>_. True)"
  by (rule ensures_bnd [OF ensures_True]) (auto elim: ensures_pre)

lemma known_err: "err \<noteq> None \<Longrightarrow> ensures (\<lambda>_. True) (ret err) (path_known n) (\<lambda>_. True)"
  by (rule ensures_ret) blast

lemma known_put: "ensures (\<lambda>_. True) (bnd (put_ns n h) (\<lambda>_. ret None)) (path_known n) (\<lambda>_. True)"
  by (simp add: ensures_def io_simps update_conv')

lemmas known_intros = ensures_cases known_err known_put anyway

lemma known_start_redirects:
  "ensures (\<lambda>_. True) (start_redirects k n a b c d h) (path_known n) (\<lambda>_. True)"
  unfolding start_redirects_def by (intro known_intros)

lemma known_InitPodNetwork:
  "ensures (\<lambda>_. True) (InitPodNetwork k cns pod) (path_known (GetNetNs cns pod)) (\<lambda>_. True)"
  unfolding InitPodNetwork_def Let_def by (intro ensures_cases known_err known_start_redirects anyway)

lemma known_InitPodNetworkPL:
  "ensures (\<lambda>_. True) (InitPodNetworkPL k cns pod) (path_known (GetNetNs cns pod)) (\<lambda>_. True)"
  unfolding InitPodNetworkPL_def Let_def by (intro ensures_cases known_err known_start_redirects anyway)

lemma known_InitPodNetworkD:
  "ensures (\<lambda>_. True) (InitPodNetworkD k cns pod) (path_known (GetNetNs cns pod)) (\<lambda>_. True)"
  unfolding InitPodNetworkD_def Let_def by (intro known_intros)

lemma GetNetNsPath_known:
  "map_of (podNamespaces t) (GetNetNs cns pod) \<noteq> None \<Longrightarrow>
    GetNetNsPath cns pod t = (Done (GetNetNs cns pod, None), t)"
  by (auto simp: GetNetNsPath_def Let_def io_simps)

lemma neutral_stop:
  "neutral (StopPodNetwork k cns pod)" "neutral (StopPodNetworkD k cns pod)"
  "neutral (GetGatewayAddress cns pod)" "neutral (GetGatewayAddressD cns pod)"
  by (auto simp: StopPodNetwork_def StopPodNetworkD_def GetGatewayAddress_def GetGatewayAddressD_def Let_def
      intro!: neutral_intros neutral_get_pod)

lemmas keeps_neutral4 = keeps_neutral [OF _ stable_net_inv4]

lemma keeps_put_path:
  "ensures net_inv4 (bnd (put_ns n h) (\<lambda>_. ret a)) (\<lambda>_. net_inv4) net_inv4"
  unfolding ensures_keeps by (intro keeps_bnd keeps_ret keeps_put_ns [of "{}", unfolded net_inv4_and_empty])

lemma keeps_InitPodNetworkD: "keeps net_inv4 (InitPodNetworkD k cns pod)"
  apply (rule keeps_as_ensures)
  apply (unfold InitPodNetworkD_def Let_def)
  apply (rule ensures_bnd_prod, rule am_RequestPodIP_ensures)
  apply (rule ensures_if, rule ensures_return)
  apply (rule fresh_step, rule neutral_intros)+
  apply ((rule ensures_case_prod)+, rule ensures_if, rule ensures_return)
  apply (rule fresh_step, rule neutral_intros)
  apply (rule ensures_pre [OF keeps_put_path])
  apply (erule conjunct1)
  done

lemma keeps_am_RequestPodIP: "keeps net_inv4 (am_RequestPodIP cns pod)"
  unfolding ensures_keeps [symmetric] by (rule ensures_post [OF am_RequestPodIP_ensures]) auto

lemma keeps_CreateVMTunD: "keeps net_inv4 (CreateVMTunD k cns pod c)"
  unfolding CreateVMTunD_def Let_def
  by (rule keeps_bnd [OF keeps_am_RequestPodIP], rule keeps_neutral4) (auto intro!: neutral_intros)

lemma stop_tables_neutral:
  "m s = (r, t) \<Longrightarrow> neutral m \<Longrightarrow> podNamespaces t = podNamespaces s \<and> PodAddressManager t = PodAddressManager s"
  by (drule neutralD) (auto simp: ext_def)

lemma fst_GetNetNsPath:
  "fst (GetNetNsPath cns pod s) = (case map_of (podNamespaces s) (GetNetNs cns pod) of
       None \<Rightarrow> Done ([], Some (Errorf ''Container network namespace for %s not found'' [GetNetNs cns pod]))
     | Some _ \<Rightarrow> Done (GetNetNs cns pod, None))"
  by (simp add: GetNetNsPath_def Let_def io_simps split: option.split)

lemma known_path:
  assumes "ensures (\<lambda>_. True) m (path_known (GetNetNs cns pod)) (\<lambda>_. True)" "m s = (Done None, t)"
  shows "GetNetNsPath cns pod t = (Done (GetNetNs cns pod, None), t)"
  using ensures_Done [OF assms(1) TrueI assms(2)] by (intro GetNetNsPath_known) simp

lemma init_paths:
  "InitPodNetwork k cns pod s = (Done None, t) \<Longrightarrow> GetNetNsPath cns pod t = (Done (GetNetNs cns pod, None), t)"
  "InitPodNetworkPL k cns pod s = (Done None, t) \<Longrightarrow> GetNetNsPath cns pod t = (Done (GetNetNs cns pod, None), t)"
  "InitPodNetworkD k cns pod s = (Done None, t) \<Longrightarrow> GetNetNsPath cns pod t = (Done (GetNetNs cns pod, None), t)"
  by (erule known_path [OF known_InitPodNetwork] known_path [OF known_InitPodNetworkPL]
      known_path [OF known_InitPodNetworkD])+

lemma stop_keeps_tables:
  "StopPodNetwork k cns pod s = (r, t) \<Longrightarrow>
    podNamespaces t = podNamespaces s \<and> PodAddressManager t = PodAddressManager s"
  "StopPodNetworkD k cns pod s = (r, t) \<Longrightarrow>
    podNamespaces t = podNamespaces s \<and> PodAddressManager t = PodAddressManager s"
  by (erule stop_tables_neutral, rule neutral_stop)+

lemma snd_GetNetNsPath: "snd (GetNetNsPath cns pod s) = s"
  by (simp add: GetNetNsPath_def Let_def io_simps split: option.split)

lemmas contract_facts = keeps_InitPodNetwork keeps_InitPodNetworkPL keeps_InitPodNetworkD
  keeps_CreateVMTun keeps_CreateVMTunPL keeps_CreateVMTunD fst_GetNetNsPath snd_GetNetNsPath
  keeps_neutral4 [OF neutral_stop(1)] keeps_neutral4 [OF neutral_stop(2)]
  keeps_neutral4 [OF neutral_stop(3)] keeps_neutral4 [OF neutral_stop(4)]

interpretation mr: cni_contract "multi_runtime_manager k" net_inv4 for k
  by unfold_locales
    (auto simp: manager_defs contract_facts init_paths dest: stop_keeps_tables)

interpretation pl: cni_contract "pod_local_manager k" net_inv4 for k
  by unfold_locales
    (auto simp: manager_defs contract_facts init_paths dest: stop_keeps_tables)

interpretation dm: cni_contract "default_manager k" net_inv4 for k
  by unfold_locales
    (auto simp: manager_defs contract_facts init_paths dest: stop_keeps_tables)

end
