(* ===== verification/SimKernel.thy ===== *)
theory SimKernel
  imports NetManagers
begin

text \<open>
  A small concrete kernel, for the witnesses: every link can be made and found, BPF maps are
  arrays of zero items until written, \<open>netns.NewNamed\<close> switches to the namespace it makes, as the
  real one does, and adding routes fails when \<open>sim_route_err\<close> says so.
\<close>

record sim =
  sim_ns :: int
  sim_next :: nat
  sim_maps :: "nat \<Rightarrow> bpf_key \<Rightarrow> bpf_val option"
  sim_route_err :: goerr

definition sim_link :: "string \<Rightarrow> link" where
  "sim_link name = \<lparr>l_name = name, l_index = 7, l_hwaddr = [2, 0, 0, 0, 0, 1]\<rparr>"

definition sim_kernel :: "sim kernel" where
  "sim_kernel = \<lparr>
     LinkAdd = (\<lambda>_. ret None),
     LinkByName = (\<lambda>n. ret (Some (sim_link n), None)),
     LinkSetUp = (\<lambda>_. ret None),
     LinkSetMaster = (\<lambda>_ _. ret None),
     LinkSetNsFd = (\<lambda>_ _. ret None),
     LinkDel = (\<lambda>_. ret None),
     ParseAddr = (\<lambda>_. (Some \<lparr>net_ip = [], net_mask = []\<rparr>, None)),
     AddrAdd = (\<lambda>_ _. ret None),
     ParseIPNet = (\<lambda>_. (Some \<lparr>net_ip = [], net_mask = []\<rparr>, None)),
     RouteAdd = (\<lambda>_ w. (Done (sim_route_err w), w)),
     RouteDel = (\<lambda>_ w. (Done (sim_route_err w), w)),
     NsGet = (\<lambda>w. (Done (sim_ns w, None), w)),
     NsSet = (\<lambda>h w. (Done None, w\<lparr>sim_ns := h\<rparr>)),
     NsNewNamed = (\<lambda>_ w. (Done (int (sim_next w), None),
       w\<lparr>sim_ns := int (sim_next w), sim_next := sim_next w + 1\<rparr>)),
     NsDeleteNamed = (\<lambda>_. ret None),
     LoadCollectionSpec = (\<lambda>_. ret (Some 0, None)),
     LoadAndAssign = (\<lambda>_ obj w. (Done (\<lparr>o_maps = zip (map_tags obj) [sim_next w..<sim_next w + length (map_tags obj)],
         o_prog = Some (sim_next w)\<rparr>, None), w\<lparr>sim_next := sim_next w + length (map_tags obj)\<rparr>)),
     MapPut = (\<lambda>m key v w. case m of None \<Rightarrow> (Panic ''nil map'', w)
       | Some i \<Rightarrow> (Done None, w\<lparr>sim_maps := (sim_maps w)(i := (sim_maps w i)(key \<mapsto> v))\<rparr>)),
     MapLookup = (\<lambda>m key item w. case m of None \<Rightarrow> (Panic ''nil map'', w)
       | Some i \<Rightarrow> (Done (case sim_maps w i key of None \<Rightarrow> item | Some v \<Rightarrow> v, None), w)),
     ProgFD = (\<lambda>_. ret 3),
     AttachTCX = (\<lambda>_ _. ret (Some 0, None)),
     AttachXDP = (\<lambda>_ _. ret (Some 0, None)),
     ShellOutput = (\<lambda>_. ret (''0.0.0.1 dev eth0'', None)),
     InterfaceByName = (\<lambda>_. ret (Some \<lparr>if_index = 2, if_hwaddr = [2, 0, 0, 0, 0, 9]\<rparr>, None)),
     RandIntn = (\<lambda>_. ret 0),
     RandRead = (\<lambda>n. ret (replicate n 1, None)),
     RangeOrder = (\<lambda>n. ret [0..<n])\<rparr>"

lemma sim_ops [simp]:
  "LinkAdd sim_kernel = (\<lambda>_. ret None)"
  "LinkByName sim_kernel = (\<lambda>n. ret (Some (sim_link n), None))"
  "LinkSetUp sim_kernel = (\<lambda>_. ret None)"
  "LinkSetMaster sim_kernel = (\<lambda>_ _. ret None)"
  "LinkSetNsFd sim_kernel = (\<lambda>_ _. ret None)"
  "LinkDel sim_kernel = (\<lambda>_. ret None)"
  "ParseAddr sim_kernel = (\<lambda>_. (Some \<lparr>net_ip = [], net_mask = []\<rparr>, None))"
  "AddrAdd sim_kernel = (\<lambda>_ _. ret None)"
  "ParseIPNet sim_kernel = (\<lambda>_. (Some \<lparr>net_ip = [], net_mask = []\<rparr>, None))"
  "RouteAdd sim_kernel = (\<lambda>_ w. (Done (sim_route_err w), w))"
  "RouteDel sim_kernel = (\<lambda>_ w. (Done (sim_route_err w), w))"
  "NsGet sim_kernel = (\<lambda>w. (Done (sim_ns w, None), w))"
  "NsSet sim_kernel = (\<lambda>h w. (Done None, w\<lparr>sim_ns := h\<rparr>))"
  "NsNewNamed sim_kernel = (\<lambda>_ w. (Done (int (sim_next w), None), w\<lparr>sim_ns := int (sim_next w), sim_next := sim_next w + 1\<rparr>))"
  "NsDeleteNamed sim_kernel = (\<lambda>_. ret None)"
  "LoadCollectionSpec sim_kernel = (\<lambda>_. ret (Some 0, None))"
  "LoadAndAssign sim_kernel = (\<lambda>_ obj w. (Done (\<lparr>o_maps = zip (map_tags obj) [sim_next w..<sim_next w + length (map_tags obj)], o_prog = Some (sim_next w)\<rparr>, None), w\<lparr>sim_next := sim_next w + length (map_tags obj)\<rparr>))"
  "MapPut sim_kernel = (\<lambda>m key v w. case m of None \<Rightarrow> (Panic ''nil map'', w) | Some i \<Rightarrow> (Done None, w\<lparr>sim_maps := (sim_maps w)(i := (sim_maps w i)(key \<mapsto> v))\<rparr>))"
  "MapLookup sim_kernel = (\<lambda>m key item w. case m of None \<Rightarrow> (Panic ''nil map'', w) | Some i \<Rightarrow> (Done (case sim_maps w i key of None \<Rightarrow> item | Some v \<Rightarrow> v, None), w))"
  "ProgFD sim_kernel = (\<lambda>_. ret 3)"
  "AttachTCX sim_kernel = (\<lambda>_ _. ret (Some 0, None))"
  "AttachXDP sim_kernel = (\<lambda>_ _. ret (Some 0, None))"
  "ShellOutput sim_kernel = (\<lambda>_. ret (''0.0.0.1 dev eth0'', None))"
  "InterfaceByName sim_kernel = (\<lambda>_. ret (Some \<lparr>if_index = 2, if_hwaddr = [2, 0, 0, 0, 0, 9]\<rparr>, None))"
  "RandIntn sim_kernel = (\<lambda>_. ret 0)"
  "RandRead sim_kernel = (\<lambda>n. ret (replicate n 1, None))"
  "RangeOrder sim_kernel = (\<lambda>n. ret [0..<n])"
  by (simp_all add: sim_kernel_def)

definition sim_world :: "goerr \<Rightarrow> sim" where
  "sim_world route_err = \<lparr>sim_ns = 1, sim_next = 2, sim_maps = (\<lambda>_ _. None), sim_route_err = route_err\<rparr>"

definition sim_state :: "addr_manager \<Rightarrow> goerr \<Rightarrow> sim net_state" where
  "sim_state am route_err = \<lparr>heap = [], PodAddressManager = Some am, podNamespaces = [], podDevices = [],
     dn_bridge = Some (sim_link ''cni0''), kern = sim_world route_err\<rparr>"

lemma until_ok_now: "m s = (Done (a, None), t) \<Longrightarrow> until_ok m s = (Done a, t)"
  by (simp add: until_ok_def retry.simps)

lemmas sim_simps = io_simps until_ok_now tryGetLink_def trySetNs_def trySetLinkUp_def
  ExecShellCommand_def GetRouteDev_def getPublicIface_def trim_newlines_def letterRunes_def
  pam_def am_IsIPv4_def am_GetMaxIPsPerPod_def am_GetCNIIfIP_def IsIPv4_4_def

lemma sim_RandStringRunes [simp]: "RandStringRunes sim_kernel 4 s = (Done ''aaaa'', s)"
  by (simp add: numeral_eq_Suc sim_simps)

lemma sim_setupPodNetNs:
  "setupPodNetNs sim_kernel n gw ip br s =
     (if sim_route_err (kern s) = None
      then (Done (Some (Some (sim_link ''vethaaaa'')), Some (Some (sim_link ''ethaaaa'')),
              Some (int (sim_next (kern s))), None),
            s\<lparr>kern := (kern s)\<lparr>sim_next := sim_next (kern s) + 1\<rparr>\<rparr>)
      else (Done (None, None, None, sim_route_err (kern s)),
            s\<lparr>kern := (kern s)\<lparr>sim_ns := int (sim_next (kern s)), sim_next := sim_next (kern s) + 1\<rparr>\<rparr>))"
  by (simp add: setupPodNetNs_def configure_pod_side_def sim_simps Let_def)

lemma sim_setupPodBridge [simp]: "setupPodBridge sim_kernel i ip s = (Done (Some (Some (sim_link (''pod'' @ i))), None), s)"
  by (simp add: setupPodBridge_def sim_simps Let_def)

lemma sim_grant:
  assumes "usedPodAddresses am = []" "baseSubnetIP am + 8 < maxSubnetIP am"
  shows "am_RequestPodIP ''default'' ''a'' (sim_state (AM4 am) e) =
   (Done (Some 0, None), (sim_state (AM4 (am\<lparr>usedPodAddresses := [(baseSubnetIP am + 8, ''default_a'')]\<rparr>)) e)
      \<lparr>heap := [be_bytes (baseSubnetIP am + 8)]\<rparr>)"
  using assms by (simp add: am_RequestPodIP_def sim_state_def RequestPodIP_def io_simps probe_hit MaxIPv4IPsPerPod_def
      int2ip_def pod_name_def am4_io_def pam_def)

lemma sample_am4_free:
  "usedPodAddresses sample_am4 = []" "baseSubnetIP sample_am4 + 8 < maxSubnetIP sample_am4"
  "subIPsPerPod sample_am4 = 8" "baseSubnetIP sample_am4 = 0x0A010200"
  by (simp_all add: sample_am4_def)

lemma sim_load_tc:
  assumes "PodAddressManager s = Some (AM4 a)"
  shows "loadToSubPodTC sim_kernel s = (Done (Some (sim_next (kern s)), Some (sim_next (kern s))),
      s\<lparr>kern := (kern s)\<lparr>sim_next := Suc (sim_next (kern s))\<rparr>\<rparr>)"
    and "loadFromSubPodTC sim_kernel s = (Done (Some (sim_next (kern s)), Some (sim_next (kern s))),
      s\<lparr>kern := (kern s)\<lparr>sim_next := Suc (sim_next (kern s))\<rparr>\<rparr>)"
  using assms
  by (simp_all add: loadToSubPodTC_def loadFromSubPodTC_def load_defs load_objects_def load_spec_def sim_simps
    o_map_def BpfObjectsSplitGenericRedirectIPv4TC_def BpfObjectsTranslateRedirectSubpodIpv4TC_def)

lemma sim_getPublicIface:
  assumes "PodAddressManager s = Some (AM4 a)"
  shows "getPublicIface sim_kernel s = (Done (Some \<lparr>if_index = 2, if_hwaddr = [2, 0, 0, 0, 0, 9]\<rparr>, None), s)"
  using assms by (simp add: sim_simps Let_def)

text \<open>The state after the first pod has its network.\<close>

definition one_pod :: "ipv4am \<Rightarrow> pod_devices \<Rightarrow> sim net_state \<Rightarrow> bool" where
  "one_pod am d s \<longleftrightarrow> podDevices s = [(''default-a'', d)]
     \<and> heap s = [be_bytes (baseSubnetIP am + 8), be_bytes (baseSubnetIP am + 9)]
     \<and> baseAddr d = Some 0 \<and> podBridge d = Some (sim_link ''podaaaa'')
     \<and> addressesUsed d = Some [(ip_string (be_bytes (baseSubnetIP am + 9)), Some (sim_link ''vethaaaa''))]
     \<and> PodAddressManager s = Some (AM4 (am\<lparr>usedPodAddresses := [(baseSubnetIP am + 8, ''default_a'')]\<rparr>))
     \<and> sim_route_err (kern s) = None"

lemma sim_first_pod:
  assumes am: "usedPodAddresses am = []" "baseSubnetIP am + 8 < maxSubnetIP am" "subIPsPerPod am = 8"
  shows "\<exists>t d. InitPodNetwork sim_kernel ''default'' ''a'' (sim_state (AM4 am) None) = (Done None, t) \<and> one_pod am d t"
  apply (unfold InitPodNetwork_def Let_def, subst bnd_apply, simp add: sim_grant am)
  apply (simp add: Let_def am sim_simps ip_bytes_of_def getNextSubPodIP_def GetMaxIPsPerPod_def ip2int_def
   sim_setupPodNetNs ip_string_4 sim_world_def map_assign_def GetNetNs_def sim_state_def no_pod_devices_def ip_new_def)
  apply (simp add: start_redirects_def io_simps sim_load_tc makeSplitRouteMapObject_def sim_simps sim_link_def to_array_def ip2int_def
    ip_bytes_of_def int2ip_def)
  apply (simp add: initFromSubpodRouting_def io_simps sim_load_tc range_map_def sim_getPublicIface make_redirect_def
    to_array_def sim_simps)
  apply (simp add: updateSubpodRouting_def io_simps range_map_def setupSubpodTC_def load_defs load_objects_def load_spec_def sim_simps
    o_map_def BpfObjectsTailCallIpv4TC_def Let_def ip2int_def ip_bytes_of_def)
  apply (simp add: one_pod_def sim_link_def ip_string_4 add.commute [of 9])
  done

lemma sim_InitPodNetwork_at:
  assumes am: "usedPodAddresses am = []" "baseSubnetIP am + 8 < maxSubnetIP am" "subIPsPerPod am = 8"
  shows "\<exists>t d. InitPodNetwork sim_kernel ''default'' ''a'' (sim_state (AM4 am) None) = (Done None, t)
    \<and> podDevices t = [(''default-a'', d)]
    \<and> addressesUsed d = Some [(ip_string (be_bytes (baseSubnetIP am + 9)), Some (sim_link ''vethaaaa''))]
    \<and> ip_bytes_of (heap t) (baseAddr d) = be_bytes (baseSubnetIP am + 8)"
  using sim_first_pod [OF am] by (auto simp: one_pod_def ip_bytes_of_def)

lemma sim_InitPodNetwork:
  "\<exists>t d. InitPodNetwork sim_kernel ''default'' ''a'' (sim_state (AM4 sample_am4) None) = (Done None, t)
    \<and> podDevices t = [(''default-a'', d)]
    \<and> addressesUsed d = Some [(ip_string (be_bytes 0x0A010209), Some (sim_link ''vethaaaa''))]
    \<and> ip_bytes_of (heap t) (baseAddr d) = be_bytes 0x0A010208"
  using sim_InitPodNetwork_at [OF sample_am4_free(1-3)] by (simp add: sample_am4_free)

lemma sim_putNextLh:
  assumes "PodAddressManager s = Some (AM4 a)" "sim_maps (kern s) m (Key32 0) = None"
  shows "putNextLhSplitRouteObj sim_kernel (Some m) v s =
    (Done None, s\<lparr>kern := (kern s)\<lparr>sim_maps := (sim_maps (kern s))(m := (sim_maps (kern s) m)(Key32 0 \<mapsto> v))\<rparr>\<rparr>)"
  using assms
  by (simp add: putNextLhSplitRouteObj_def MaxIPv4IPsPerPod_def upt_conv_Cons sim_simps zero_SplitLhRoute_def)

lemma sim_setupFromLhTC:
  assumes "PodAddressManager s = Some (AM4 a)" "length (ip_bytes_of (heap s) r) = 4"
  shows "setupFromLhTC sim_kernel (Some (sim_link n)) r s =
    (Done (Some (Some 0), Some (sim_next (kern s)), Some (Suc (sim_next (kern s)))),
     s\<lparr>kern := (kern s)\<lparr>sim_next := sim_next (kern s) + 2,
       sim_maps := (sim_maps (kern s))(Suc (sim_next (kern s)) := (sim_maps (kern s) (Suc (sim_next (kern s))))
         (Key32 0 \<mapsto> ValU32 (be_uint32 (ip_bytes_of (heap s) r))))\<rparr>\<rparr>)"
  using assms by (simp add: setupFromLhTC_def load_defs load_objects_def load_spec_def sim_simps
    o_map_def BpfObjectsSplitLhRedirectIPv4TC_def Let_def ip2int_def upt_conv_Cons)

lemma sim_InitPodNetworkPL:
  "\<exists>t d. InitPodNetworkPL sim_kernel ''default'' ''a'' (sim_state (AM4 sample_am4) None) = (Done None, t)
    \<and> podDevices t = [(''default-a'', d)]
    \<and> addressesUsed d = Some [(ip_string (be_bytes 0x0A010209), Some (sim_link ''vethaaaa''))]"
  apply (unfold InitPodNetworkPL_def Let_def, subst bnd_apply, simp add: sim_grant [OF sample_am4_free(1,2)])
  apply (simp add: Let_def sample_am4_def sim_simps ip_bytes_of_def getNextSubPodIP_def GetMaxIPsPerPod_def ip2int_def
   sim_setupPodNetNs ip_string_4 sim_world_def map_assign_def GetNetNs_def sim_state_def no_pod_devices_def ip_new_def
   int2ip_def)
  apply (simp add: attachLocalhostBpfPrograms_def io_simps sim_setupFromLhTC ip_bytes_of_def GetCNIIfIP_def int2ip_def
    GetNetNs_def map_assign_def updateLocalhostBpfMaps_def range_map_def Let_def ip_string_4)
  apply (simp add: makeSplitLhRouteMapObject_def sim_simps sim_link_def to_array_def ip2int_def ip_bytes_of_def sim_putNextLh GetNetNs_def)
  apply (simp add: GetNetNs_def start_redirects_def io_simps sim_load_tc makeSplitRouteMapObject_def sim_simps sim_link_def to_array_def ip2int_def
    ip_bytes_of_def int2ip_def)
  apply (simp add: initFromSubpodRouting_def io_simps sim_load_tc range_map_def sim_getPublicIface make_redirect_def
    to_array_def sim_simps)
  apply (simp add: updateSubpodRouting_def io_simps range_map_def setupSubpodTC_def load_defs load_objects_def load_spec_def sim_simps
    o_map_def BpfObjectsTailCallIpv4TC_def Let_def ip2int_def ip_bytes_of_def)
  done

end
