(* ===== verification/NetProps.thy ===== *)
theory NetProps
  imports SimKernel
begin

text \<open>
  Properties of the network managers, for every kernel: the addresses of the workloads of a pod,
  what the tables say after a pod was started and stopped, where an IPv6 pod's addresses drift,
  the namespace of the calling thread, the slots of the split maps and the retry loops.
\<close>

lemma net_inv4_sim: "net_inv4 (sim_state (AM4 sample_am4) e)"
  using am_inv4_sample by (simp add: net_inv4_def sim_state_def)

section \<open>The workloads of a pod\<close>

lemma workloads_of_inv:
  assumes "net_inv4 t" "(name, d) \<in> set (podDevices t)" "addressesUsed d = Some al"
  shows "length al \<le> 7 \<and> distinct (map fst al)
    \<and> (\<forall>i < length al. fst (al ! i)
         = ip_string (be_bytes (be_uint32 (ip_bytes_of (heap t) (baseAddr d)) + of_nat (i + 1))))"
proof -
  let ?f = "\<lambda>i. ip_string (be_bytes (be_uint32 (ip_bytes_of (heap t) (baseAddr d)) + of_nat i))"
  have "pod_ok4 (heap t) d" using assms(1,2) by (force simp: net_inv4_def)
  then have al: "length al < 8" "map fst al = map ?f [1..<Suc (length al)]"
    using assms(3) by (simp_all add: pod_ok4_def)
  have "inj_on ?f {1..<Suc (length al)}"
    by (rule inj_onI) (use al(1) of_nat_less8_inj in \<open>auto simp: ip_string_inj4\<close>)
  then have "distinct (map fst al)" unfolding al(2) by (simp add: distinct_map del: upt_Suc)
  moreover have "fst (al ! i) = ?f (i + 1)" if "i < length al" for i
  proof -
    have "fst (al ! i) = map fst al ! i" using that by simp
    also have "\<dots> = ?f (i + 1)" using that unfolding al(2) by (simp del: upt_Suc add: add.commute)
    finally show ?thesis .
  qed
  ultimately show ?thesis using al(1) by auto
qed

text \<open>
  In every state an IPv4 node reaches through the multi-runtime manager, whatever the kernel
  answers and in whatever order pods are started and stopped and VMs are added, a pod has at
  most seven workloads, no two of them share an address, and the i-th has the i-th address after
  the pod's own.
\<close>

theorem multi_runtime_workloads:
  assumes "net_inv4 s" and "cni_reach (multi_runtime_manager k) s t"
    and "(name, d) \<in> set (podDevices t)" and "addressesUsed d = Some al"
  shows "length al \<le> 7 \<and> distinct (map fst al)
    \<and> (\<forall>i < length al. fst (al ! i)
         = ip_string (be_bytes (be_uint32 (ip_bytes_of (heap t) (baseAddr d)) + of_nat (i + 1))))"
  using workloads_of_inv [OF mr.reach_keeps [OF assms(2,1)] assms(3,4)] .

theorem multi_runtime_workloads_witness:
  "\<exists>t d al. cni_reach (multi_runtime_manager sim_kernel) (sim_state (AM4 sample_am4) None) t
    \<and> podDevices t = [(''default-a'', d)] \<and> addressesUsed d = Some al \<and> length al = 1 \<and> distinct (map fst al)"
proof -
  obtain t d where t: "InitPodNetwork sim_kernel ''default'' ''a'' (sim_state (AM4 sample_am4) None) = (Done None, t)"
    "podDevices t = [(''default-a'', d)]"
    "addressesUsed d = Some [(ip_string (be_bytes 0x0A010209), Some (sim_link ''vethaaaa''))]"
    using sim_InitPodNetwork by blast
  have "cni_step (multi_runtime_manager sim_kernel) (sim_state (AM4 sample_am4) None) t"
    using cni_step.init_pod [of "multi_runtime_manager sim_kernel" "sim_state (AM4 sample_am4) None"
        "''default''" "''a''"] t(1) by (simp add: multi_runtime_manager_def)
  then have reach: "cni_reach (multi_runtime_manager sim_kernel) (sim_state (AM4 sample_am4) None) t"
    by (rule cni_reach.reach_step [OF cni_reach.reach_refl])
  have "(''default-a'', d) \<in> set (podDevices t)" using t(2) by simp
  from multi_runtime_workloads [OF net_inv4_sim reach this t(3)] t reach show ?thesis by auto
qed

text \<open>
  The same holds for the pod-local manager, which also keeps maps for the pod's localhost.
\<close>

theorem pod_local_workloads:
  assumes "net_inv4 s" and "cni_reach (pod_local_manager k) s t"
    and "(name, d) \<in> set (podDevices t)" and "addressesUsed d = Some al"
  shows "length al \<le> 7 \<and> distinct (map fst al)
    \<and> (\<forall>i < length al. fst (al ! i)
         = ip_string (be_bytes (be_uint32 (ip_bytes_of (heap t) (baseAddr d)) + of_nat (i + 1))))"
  using workloads_of_inv [OF pl.reach_keeps [OF assms(2,1)] assms(3,4)] .

theorem pod_local_workloads_witness:
  "\<exists>t d al. cni_reach (pod_local_manager sim_kernel) (sim_state (AM4 sample_am4) None) t
    \<and> podDevices t = [(''default-a'', d)] \<and> addressesUsed d = Some al \<and> length al = 1 \<and> distinct (map fst al)"
proof -
  obtain t d where t: "InitPodNetworkPL sim_kernel ''default'' ''a'' (sim_state (AM4 sample_am4) None) = (Done None, t)"
    "podDevices t = [(''default-a'', d)]"
    "addressesUsed d = Some [(ip_string (be_bytes 0x0A010209), Some (sim_link ''vethaaaa''))]"
    using sim_InitPodNetworkPL by blast
  have "cni_step (pod_local_manager sim_kernel) (sim_state (AM4 sample_am4) None) t"
    using cni_step.init_pod [of "pod_local_manager sim_kernel" "sim_state (AM4 sample_am4) None"
        "''default''" "''a''"] t(1) by (simp add: pod_local_manager_def)
  then have reach: "cni_reach (pod_local_manager sim_kernel) (sim_state (AM4 sample_am4) None) t"
    by (rule cni_reach.reach_step [OF cni_reach.reach_refl])
  have "(''default-a'', d) \<in> set (podDevices t)" using t(2) by simp
  from pod_local_workloads [OF net_inv4_sim reach this t(3)] t reach show ?thesis by auto
qed

section \<open>Starting and stopping\<close>

text \<open>
  A pod network that was set up without error has the namespace path that the runtimes ask
  for; it still has it after the pod's network was stopped, whatever that call answers, and the
  address manager is unchanged: neither the entry nor the address is ever released.
\<close>

theorem multi_runtime_path_after_stop:
  assumes "InitPodNetwork k cns pod s = (Done None, t)" and "StopPodNetwork k cns pod t = (r, u)"
  shows "GetNetNsPath cns pod t = (Done (cns @ ''-'' @ pod, None), t)
    \<and> fst (GetNetNsPath cns pod u) = Done (cns @ ''-'' @ pod, None)
    \<and> PodAddressManager u = PodAddressManager t"
  using mr.init_path [of k cns pod s t] mr.path_survives_stop [of k cns pod s t r u] assms
  by (simp add: multi_runtime_manager_def GetNetNs_def)

theorem multi_runtime_path_after_stop_witness:
  "\<exists>t u. InitPodNetwork sim_kernel ''default'' ''a'' (sim_state (AM4 sample_am4) None) = (Done None, t)
    \<and> StopPodNetwork sim_kernel ''default'' ''a'' t = (Done None, u)
    \<and> fst (GetNetNsPath ''default'' ''a'' u) = Done (''default-a'', None)"
proof -
  obtain t d where t: "InitPodNetwork sim_kernel ''default'' ''a'' (sim_state (AM4 sample_am4) None) = (Done None, t)"
    using sim_InitPodNetwork by blast
  have stop: "StopPodNetwork sim_kernel ''default'' ''a'' t = (Done None, t)"
    by (simp add: StopPodNetwork_def Let_def io_simps)
  from multi_runtime_path_after_stop [OF t stop] t stop show ?thesis by auto
qed

section \<open>IPv6 pods\<close>

text \<open>
  On an IPv6 node the next address of a pod is written into the array of the pod's own
  address: the pod's base, its gateway and every address given out before all become the new
  address, whose last byte is the old one plus the number of addresses in use plus one.
\<close>

theorem getNextSubPodIP_ipv6_aliases:
  assumes "PodAddressManager s = Some (AM6 am)" and "subIPsPerPod6 am = 16"
    and "map_of (podDevices s) (GetNetNs cns pod) = Some d" and "baseAddr d = Some r"
    and "r < length (heap s)" and "length (heap s ! r) = 16" and "length (used_of d) \<noteq> 15"
  shows "getNextSubPodIP d s = (Done (Some r, None),
      s\<lparr>heap := (heap s)[r := (heap s ! r)[15 := heap s ! r ! 15 + of_nat (length (used_of d) + 1)]]\<rparr>)
    \<and> fst (GetGatewayAddress cns pod s) = Done (Some r)"
  using assms
  by (simp add: getNextSubPodIP_def used_of_def [symmetric] Let_def am_GetMaxIPsPerPod_def GetMaxIPsPerPod6_def
      pam_def io_simps ip_bytes_of_def ip_add_at_def GetGatewayAddress_def)

definition sample_am6 :: ipv6am where
  "sample_am6 = \<lparr>baseSubnetIP6 = ''fd53:7769:726c:1:2:3:4'', subnetReservedIPs6 = 16, subIPsPerPod6 = 16,
     maxSubnetIP6 = 65536, subnetMask6 = 112, usedPodAddresses6 = []\<rparr>"

definition sample_pod6 :: pod_devices where
  "sample_pod6 = no_pod_devices\<lparr>baseAddr := Some 0, addressesUsed := Some []\<rparr>"

definition sample_state6 :: "sim net_state" where
  "sample_state6 = (sim_state (AM6 sample_am6) None)\<lparr>heap := [replicate 15 0 @ [0x20]],
     podDevices := [(''default-a'', sample_pod6)]\<rparr>"

theorem getNextSubPodIP_ipv6_aliases_witness:
  "\<exists>t. getNextSubPodIP sample_pod6 sample_state6 = (Done (Some 0, None), t)
    \<and> ip_bytes_of (heap t) (Some 0) = replicate 15 0 @ [0x21]
    \<and> fst (GetGatewayAddress ''default'' ''a'' sample_state6) = Done (Some 0)"
  using getNextSubPodIP_ipv6_aliases [of sample_state6 sample_am6 "''default''" "''a''" sample_pod6 0]
  by (simp add: sample_state6_def sample_pod6_def sim_state_def sample_am6_def GetNetNs_def used_of_def
      no_pod_devices_def ip_bytes_of_def numeral_eq_Suc del: upt_Suc upt.simps)

section \<open>Retry loops\<close>

lemma until_ok_Done:
  assumes "until_ok m s = (Done a, t)"
  obtains u where "m u = (Done (a, None), t)"
proof -
  have run: "retry m s = Some (Done a, t)" using assms by (simp add: until_ok_def split: option.splits)
  have "\<forall>a t. p = (Done a, t) \<longrightarrow> (\<exists>u. m u = (Done (a, None), t))" if "retry m s = Some p" for p
  proof (rule retry.raw_induct [where P = "\<lambda>m s p. \<forall>a t. p = (Done a, t) \<longrightarrow> (\<exists>u. m u = (Done (a, None), t))",
        OF _ that])
    fix rec m s p
    assume "\<And>m s p. rec m s = Some p \<Longrightarrow> \<forall>a t. p = (Done a, t) \<longrightarrow> (\<exists>u. m u = (Done (a, None), t))"
      and "(case m s of (Done (a, err), t) \<Rightarrow> if err = None then Some (Done a, t) else rec m t
        | (Panic msg, t) \<Rightarrow> Some (Panic msg, t) | (Diverged, t) \<Rightarrow> Some (Diverged, t)) = Some p"
    then show "\<forall>a t. p = (Done a, t) \<longrightarrow> (\<exists>u. m u = (Done (a, None), t))"
      by (cases "m s") (auto split: outcome.splits if_splits prod.splits)
  qed
  with run that show thesis by blast
qed

lemma retry_fails:
  assumes "\<And>i. i < n \<Longrightarrow> \<exists>a e. m (f i) = (Done (a, Some e), f (Suc i))"
  shows "retry m (f 0) = retry m (f n)"
  using assms
proof (induction n)
  case (Suc n)
  obtain a e where "m (f n) = (Done (a, Some e), f (Suc n))" using Suc.prems [of n] by auto
  then have "retry m (f n) = retry m (f (Suc n))" by (subst retry.simps) simp
  with Suc show ?case by simp
qed simp

text \<open>
  Waiting for a link ends as soon as the kernel gives it: if the first n lookups fail and the
  next one succeeds, the answer is that link, without an error, in the state after it.
\<close>

theorem tryGetLink_returns:
  assumes "\<And>i. i < n \<Longrightarrow> \<exists>l e. LinkByName k name (w i) = (Done (l, Some e), w (Suc i))"
    and "LinkByName k name (w n) = (Done (l, None), w')" and "kern s = w 0"
  shows "tryGetLink k name s = (Done (l, None), s\<lparr>kern := w'\<rparr>)"
proof -
  let ?m = "kio (LinkByName k name)" and ?f = "\<lambda>i. s\<lparr>kern := w i\<rparr>"
  have "\<exists>a e. ?m (?f i) = (Done (a, Some e), ?f (Suc i))" if "i < n" for i
    using assms(1) [OF that] by (auto simp: io_simps)
  then have "retry ?m (?f 0) = retry ?m (?f n)" by (rule retry_fails)
  moreover have "?f 0 = s" using assms(3) by (cases s) simp
  moreover have "retry ?m (?f n) = Some (Done l, s\<lparr>kern := w'\<rparr>)"
    by (subst retry.simps) (simp add: io_simps assms(2))
  ultimately show ?thesis by (simp add: tryGetLink_def io_simps until_ok_def)
qed

definition slow_kernel :: "nat kernel" where
  "slow_kernel = \<lparr>
     LinkAdd = (\<lambda>_. ret None),
     LinkByName = (\<lambda>n w. if w < 2 then (Done (None, Some (Errorf ''Link not found'' [])), w + 1)
       else (Done (Some (sim_link n), None), w)),
     LinkSetUp = (\<lambda>_. ret None), LinkSetMaster = (\<lambda>_ _. ret None), LinkSetNsFd = (\<lambda>_ _. ret None),
     LinkDel = (\<lambda>_. ret None), ParseAddr = (\<lambda>_. (None, None)), AddrAdd = (\<lambda>_ _. ret None),
     ParseIPNet = (\<lambda>_. (None, None)), RouteAdd = (\<lambda>_. ret None), RouteDel = (\<lambda>_. ret None),
     NsGet = ret (0, None), NsSet = (\<lambda>_. ret None), NsNewNamed = (\<lambda>_. ret (0, None)),
     NsDeleteNamed = (\<lambda>_. ret None), LoadCollectionSpec = (\<lambda>_. ret (None, None)),
     LoadAndAssign = (\<lambda>_ _. ret (no_objects, None)), MapPut = (\<lambda>_ _ _. ret None),
     MapLookup = (\<lambda>_ _ item. ret (item, None)), ProgFD = (\<lambda>_. ret 0), AttachTCX = (\<lambda>_ _. ret (None, None)),
     AttachXDP = (\<lambda>_ _. ret (None, None)), ShellOutput = (\<lambda>_. ret ([], None)),
     InterfaceByName = (\<lambda>_. ret (None, None)), RandIntn = (\<lambda>_. ret 0), RandRead = (\<lambda>_. ret ([], None)),
     RangeOrder = (\<lambda>n. ret [0..<n])\<rparr>"

definition slow_state :: "nat net_state" where
  "slow_state = \<lparr>heap = [], PodAddressManager = None, podNamespaces = [], podDevices = [],
     dn_bridge = None, kern = 0\<rparr>"

theorem tryGetLink_returns_witness:
  "tryGetLink slow_kernel ''ethab12'' slow_state = (Done (Some (sim_link ''ethab12''), None), slow_state\<lparr>kern := 2\<rparr>)"
  using tryGetLink_returns [of 2 slow_kernel "''ethab12''" "\<lambda>i. i" "Some (sim_link ''ethab12'')" 2 slow_state]
  by (simp add: slow_kernel_def slow_state_def)

lemma ensures_pure: "(b \<Longrightarrow> ensures (\<lambda>_. True) m Q I) \<Longrightarrow> ensures (\<lambda>_. b) m Q I"
  by (auto simp: ensures_def)

section \<open>The namespace of the calling thread\<close>

lemma trySetNs_Done:
  assumes "trySetNs k h s = (Done e, t)"
  obtains w where "NsSet k h w = (Done None, kern t)"
proof -
  let ?m = "bnd (kio (NsSet k h)) (\<lambda>err. ret ((), err))"
  obtain u s' where "until_ok ?m s = (Done u, s')" "ret None s' = (Done e, t)"
    using assms unfolding trySetNs_def by (rule bnd_DoneE)
  then have "until_ok ?m s = (Done u, t)" by (simp add: ret_apply)
  then obtain x where "?m x = (Done (u, None), t)" by (rule until_ok_Done)
  then obtain err x' where x': "kio (NsSet k h) x = (Done err, x')" "ret ((), err) x' = (Done (u, None), t)"
    by (rule bnd_DoneE)
  then have "err = None" "x' = t" by (simp_all add: ret_apply)
  with x'(1) have "NsSet k h (kern x) = (Done None, kern t)"
    by (cases "NsSet k h (kern x)") (auto simp: kio_apply)
  then show thesis by (rule that)
qed

text \<open>
  C17. \<open>setupPodNetNs\<close> visits the namespace of the pod, but when it reports success the calling
  thread is back in the namespace it started from.
\<close>

theorem setupPodNetNs_returns_home:
  assumes "\<And>w. NsGet k w = (Done (cur w, None), w)"
    and "\<And>h w w'. NsSet k h w = (Done None, w') \<Longrightarrow> cur w' = h"
    and "setupPodNetNs k name gw ip bridge s = (Done (hostIf, contIf, nsid, None), t)"
  shows "cur (kern t) = cur (kern s)"
proof -
  let ?c = "cur (kern s)"
  let ?Q = "\<lambda>res t. snd (snd (snd res)) = None \<longrightarrow> cur (kern t) = ?c"
  have home: "ensures (\<lambda>_. True) (bnd (trySetNs k ?c) (\<lambda>_. ret (a, b, c, None))) ?Q (\<lambda>_. True)"
    for a b :: "link option option" and c :: "ns_handle option"
  proof (rule ensures_bnd [where R = "\<lambda>_ t. cur (kern t) = ?c"])
    show "ensures (\<lambda>_. True) (trySetNs k ?c) (\<lambda>_ t. cur (kern t) = ?c) (\<lambda>_. True)"
      by (rule ensuresI) (auto split: outcome.split elim!: trySetNs_Done dest: assms(2))
  qed (rule ensures_ret, simp)
  have err: "err \<noteq> None \<Longrightarrow> ensures (\<lambda>_. True) (ret (None, None, None, err)) ?Q (\<lambda>_. True)" for err
    by (rule ensures_ret) auto
  have "ensures (\<lambda>u. u = s) (setupPodNetNs k name gw ip bridge) ?Q (\<lambda>_. True)"
    unfolding setupPodNetNs_def
    apply (rule ensures_bnd [where R = "\<lambda>res _. fst res = ?c"])
     apply (simp add: ensures_def kio_apply assms(1))
    apply (rule ensures_pure, rule ensures_case_prod, simp only: fst_conv)
    apply (intro ensures_cases err home anyway)
         apply assumption+
    done
  from ensures_Done [OF this _ assms(3)] show ?thesis by simp
qed

theorem setupPodNetNs_returns_home_witness:
  "\<exists>t hostIf contIf nsid. setupPodNetNs sim_kernel ''default-a'' None None None (sim_state (AM4 sample_am4) None)
      = (Done (hostIf, contIf, nsid, None), t) \<and> sim_ns (kern t) = 1"
proof -
  let ?s = "sim_state (AM4 sample_am4) None"
  have run: "setupPodNetNs sim_kernel ''default-a'' None None None ?s
      = (Done (Some (Some (sim_link ''vethaaaa'')), Some (Some (sim_link ''ethaaaa'')), Some 2, None),
         ?s\<lparr>kern := (sim_world None)\<lparr>sim_next := 3\<rparr>\<rparr>)"
    by (simp add: sim_setupPodNetNs sim_state_def sim_world_def)
  have "sim_ns (kern (?s\<lparr>kern := (sim_world None)\<lparr>sim_next := 3\<rparr>\<rparr>)) = sim_ns (kern ?s)"
    by (rule setupPodNetNs_returns_home [OF _ _ run]) auto
  with run show ?thesis by (auto simp: sim_state_def sim_world_def)
qed

text \<open>
  A failing route leaves the calling thread in the namespace of the pod: \<open>setupPodNetNs\<close>
  reports the error without switching back.
\<close>

lemma setupPodNetNs_error_leaves_home:
  "setupPodNetNs sim_kernel name gw ip bridge (sim_state am (Some e))
     = (Done (None, None, None, Some e),
        (sim_state am (Some e))\<lparr>kern := (sim_world (Some e))\<lparr>sim_ns := 2, sim_next := 3\<rparr>\<rparr>)
   \<and> sim_ns (kern (sim_state am (Some e))) = 1"
  by (simp add: sim_setupPodNetNs sim_state_def sim_world_def)

section \<open>The slots of a split map\<close>

lemma for_each_scan:
  assumes "\<And>x. x \<in> set xs \<Longrightarrow> body x s = (if P x then (Done (Some (r x)), f x) else (Done None, s))"
  shows "for_each xs body s =
    (case find P xs of None \<Rightarrow> (Done None, s) | Some x \<Rightarrow> (Done (Some (r x)), f x))"
  using assms by (induction xs) (auto simp: io_simps)

lemma find_upt:
  "(find P [0..<n] = None \<and> (\<forall>j<n. \<not> P j)) \<or> (\<exists>i<n. find P [0..<n] = Some i \<and> P i \<and> (\<forall>j<i. \<not> P j))"
proof (cases "find P [0..<n]")
  case None
  then show ?thesis by (auto simp: find_None_iff)
next
  case (Some i)
  then obtain j where "j < length [0..<n]" "P ([0..<n] ! j)" "i = [0..<n] ! j" "\<forall>l<j. \<not> P ([0..<n] ! l)"
    by (auto simp: find_Some_iff)
  with Some show ?thesis by auto
qed

text \<open>
  C18. On a BPF array of eight or more slots, putting the next route writes the first slot that is
  not active, and nothing else; when the first eight are active, the map stays as it was and the
  error is returned.
\<close>

theorem putNextSplitRouteObj_first_free:
  assumes "PodAddressManager s = Some (AM4 am)"
    and "\<And>i item. i < 8 \<Longrightarrow> MapLookup k (Some m) (Key32 (of_nat i)) item (kern s) = (Done (slot i, None), kern s)"
    and "\<And>i. i < 8 \<Longrightarrow> MapPut k (Some m) (Key32 (of_nat i)) obj (kern s) = (Done None, stored i)"
  shows "(\<exists>i<8. val_active (slot i) = 0 \<and> (\<forall>j<i. val_active (slot j) \<noteq> 0)
      \<and> putNextSplitRouteObj k (Some m) obj s = (Done None, s\<lparr>kern := stored i\<rparr>))
    \<or> ((\<forall>j<8. val_active (slot j) \<noteq> 0) \<and> putNextSplitRouteObj k (Some m) obj s
        = (Done (Some (Errorf ''No more space in map to put routeobject %v'' [])), s))"
proof -
  let ?body = "\<lambda>i. bnd am_IsIPv4 (\<lambda>v4.
       bnd (kio (MapLookup k (Some m) (Key32 (of_nat i))
           (if v4 then ValSplit4 (zero_SplitRoute 0) else ValSplit6 (zero_SplitRoute (replicate 16 0)))))
         (\<lambda>(item, err).
       if err = None \<and> val_active item = 0 then
         bnd (kio (MapPut k (Some m) (Key32 (of_nat i)) obj)) (\<lambda>err. ret (Some err))
       else ret None))"
  have "?body i s = (if val_active (slot i) = 0 then (Done (Some None), s\<lparr>kern := stored i\<rparr>) else (Done None, s))"
    if "i \<in> set [0..<8]" for i
    using that assms by (simp add: am_IsIPv4_def pam_def io_simps)
  then have scan: "for_each [0..<8] ?body s = (case find (\<lambda>i. val_active (slot i) = 0) [0..<8] of
      None \<Rightarrow> (Done None, s) | Some i \<Rightarrow> (Done (Some None), s\<lparr>kern := stored i\<rparr>))"
    by (rule for_each_scan)
  have put: "putNextSplitRouteObj k (Some m) obj s = bnd (for_each [0..<8] ?body)
     (\<lambda>r. case r of Some err \<Rightarrow> ret err
       | None \<Rightarrow> ret (Some (Errorf ''No more space in map to put routeobject %v'' []))) s"
    by (simp only: putNextSplitRouteObj_def MaxIPv4IPsPerPod_def)
  from find_upt [of "\<lambda>i. val_active (slot i) = 0" 8] show ?thesis
    unfolding put bnd_apply scan by (auto simp: io_simps)
qed

definition used_slot :: bpf_val where
  "used_slot = ValSplit4 \<lparr>sr_Active = 1, sr_TargetIfIndex = 7, sr_DAddr = 0, sr_SMac = [], sr_DMac = []\<rparr>"

definition split_map :: "bpf_key \<Rightarrow> bpf_val option" where
  "split_map key = Some (if key = Key32 0 then used_slot else ValSplit4 (zero_SplitRoute 0))"

theorem putNextSplitRouteObj_first_free_witness:
  "\<exists>s t. sim_maps (kern s) 5 (Key32 0) = Some used_slot
    \<and> putNextSplitRouteObj sim_kernel (Some 5) used_slot s = (Done None, t)
    \<and> sim_maps (kern t) 5 (Key32 1) = Some used_slot"
proof -
  let ?w = "(sim_world None)\<lparr>sim_maps := (\<lambda>_. split_map)\<rparr>"
  let ?s = "(sim_state (AM4 sample_am4) None)\<lparr>kern := ?w\<rparr>"
  let ?slot = "\<lambda>i :: nat. if i = 0 then used_slot else ValSplit4 (zero_SplitRoute 0)"
  let ?stored = "\<lambda>i :: nat. ?w\<lparr>sim_maps := (sim_maps ?w)(5 := (sim_maps ?w 5)(Key32 (of_nat i) \<mapsto> used_slot))\<rparr>"
  have key0: "(of_nat i :: u32) = 0 \<longleftrightarrow> i = 0" if "i < 8" for i
    using of_nat_less8_inj [of i 0 0] that by simp
  have free: "val_active (?slot i) = 0 \<longleftrightarrow> i \<noteq> 0" for i
    by (simp add: used_slot_def zero_SplitRoute_def)
  have "(\<exists>i<8. val_active (?slot i) = 0 \<and> (\<forall>j<i. val_active (?slot j) \<noteq> 0)
      \<and> putNextSplitRouteObj sim_kernel (Some 5) used_slot ?s = (Done None, ?s\<lparr>kern := ?stored i\<rparr>))
    \<or> ((\<forall>j<8. val_active (?slot j) \<noteq> 0) \<and> putNextSplitRouteObj sim_kernel (Some 5) used_slot ?s
        = (Done (Some (Errorf ''No more space in map to put routeobject %v'' [])), ?s))"
    by (rule putNextSplitRouteObj_first_free [of ?s sample_am4])
      (simp_all add: sim_state_def split_map_def key0 sim_world_def)
  then show ?thesis
  proof (elim disjE exE conjE)
    fix i
    assume "i < 8" "val_active (?slot i) = 0" "\<forall>j<i. val_active (?slot j) \<noteq> 0"
      and put: "putNextSplitRouteObj sim_kernel (Some 5) used_slot ?s = (Done None, ?s\<lparr>kern := ?stored i\<rparr>)"
    then have "i \<noteq> 0" "\<not> 1 < i" unfolding free by auto
    then have "i = 1" by simp
    with put show ?thesis by (intro exI [of _ ?s] exI) (auto simp: split_map_def)
  next
    assume "\<forall>j<8. val_active (?slot j) \<noteq> 0"
    then have "val_active (?slot 1) \<noteq> 0" by (elim allE [of _ 1]) simp
    then show ?thesis unfolding free by simp
  qed
qed

section \<open>Announcing a pod to the others\<close>

definition announcement :: "link \<Rightarrow> link \<Rightarrow> bpf_val" where
  "announcement pb db = ValRedirect \<lparr>rr_TargetIfIndex = of_int (l_index pb), rr_SMac = take 6 (l_hwaddr db),
     rr_DMac = take 6 (l_hwaddr pb)\<rparr>"

text \<open>Every pod has a bridge with a hardware address and a map of its own.\<close>

definition routable :: "(pod_devices \<Rightarrow> link) \<Rightarrow> (pod_devices \<Rightarrow> bpf_map) \<Rightarrow> (string \<times> pod_devices) list \<Rightarrow> bool" where
  "routable br mp devs \<longleftrightarrow> distinct (map (mp \<circ> snd) devs)
     \<and> (\<forall>e \<in> set devs. podBridge (snd e) = Some (br (snd e)) \<and> 6 \<le> length (l_hwaddr (br (snd e)))
         \<and> fromSubpodBpfMap (snd e) = Some (mp (snd e)))"

abbreviation announce_body where
  "announce_body k pb podIp \<equiv> (\<lambda>(idx, dev).
       bnd (deref (podBridge dev)) (\<lambda>db. bnd (deref (Some pb)) (\<lambda>pb.
       if l_name db \<noteq> l_name pb then
         bnd (make_redirect (l_index pb) (l_hwaddr db) (l_hwaddr pb)) (\<lambda>rroute.
         bnd am_IsIPv4 (\<lambda>v4.
         bnd (route_key v4 podIp) (\<lambda>key.
         bnd (kio (MapPut k (fromSubpodBpfMap dev) key rroute)) (\<lambda>_.
         put_pod idx dev))))
       else ret ())))"

lemma announce_one:
  assumes put: "\<And>m key v w. \<exists>w'. MapPut k (Some m) key v w = (Done None, w')
      \<and> view w' = (view w)(m := (view w m)(key \<mapsto> v))"
    and am: "PodAddressManager s = Some (AM4 am)" and ip: "length (ip_bytes_of (heap s) podIp) = 4"
    and pb: "6 \<le> length (l_hwaddr pb)"
    and dev: "map_of (podDevices s) n = Some d" "podBridge d = Some db" "6 \<le> length (l_hwaddr db)"
      "fromSubpodBpfMap d = Some m"
  shows "\<exists>w. announce_body k pb podIp (n, d) s = (Done (), s\<lparr>kern := w\<rparr>)
    \<and> view w = (if l_name db = l_name pb then view (kern s)
        else (view (kern s))(m := (view (kern s) m)
          (Key32 (be_uint32 (ip_bytes_of (heap s) podIp)) \<mapsto> announcement pb db)))"
proof (cases "l_name db = l_name pb")
  case True
  then show ?thesis using dev by (intro exI [of _ "kern s"]) (simp add: io_simps)
next
  case False
  obtain w' where w': "MapPut k (Some m) (Key32 (be_uint32 (ip_bytes_of (heap s) podIp))) (announcement pb db) (kern s)
      = (Done None, w')" "view w' = (view (kern s))(m := (view (kern s) m)
          (Key32 (be_uint32 (ip_bytes_of (heap s) podIp)) \<mapsto> announcement pb db))"
    using put by blast
  moreover have "AList.update n d (podDevices s) = podDevices s" using dev(1) by (simp add: update_triv)
  ultimately show ?thesis using False dev am ip pb
    by (intro exI [of _ w'])
      (simp add: io_simps make_redirect_def to_array_def am_IsIPv4_def pam_def IsIPv4_4_def route_key_def
        ip2int_def announcement_def)
qed

lemma announce_all:
  assumes put: "\<And>m key v w. \<exists>w'. MapPut k (Some m) key v w = (Done None, w')
      \<and> view w' = (view w)(m := (view w m)(key \<mapsto> v))"
    and am: "PodAddressManager s = Some (AM4 am)" and ip: "length (ip_bytes_of (heap s) podIp) = 4"
    and pb: "6 \<le> length (l_hwaddr pb)"
    and devs: "routable br mp devs" "\<forall>e \<in> set devs. map_of (podDevices s) (fst e) = Some (snd e)"
  shows "\<exists>w. for_all devs (announce_body k pb podIp) s = (Done (), s\<lparr>kern := w\<rparr>)
    \<and> (\<forall>e \<in> set devs. l_name (br (snd e)) \<noteq> l_name pb \<longrightarrow>
        view w (mp (snd e)) (Key32 (be_uint32 (ip_bytes_of (heap s) podIp))) = Some (announcement pb (br (snd e))))
    \<and> (\<forall>m. m \<notin> (mp \<circ> snd) ` set devs \<longrightarrow> view w m = view (kern s) m)"
  using am ip devs
proof (induction devs arbitrary: s)
  case Nil
  then show ?case by (intro exI [of _ "kern s"]) (simp add: io_simps)
next
  case (Cons e devs)
  obtain n d where e: "e = (n, d)" by (cases e)
  let ?key = "Key32 (be_uint32 (ip_bytes_of (heap s) podIp))"
  obtain w1 where w1: "announce_body k pb podIp (n, d) s = (Done (), s\<lparr>kern := w1\<rparr>)"
    "view w1 = (if l_name (br d) = l_name pb then view (kern s)
        else (view (kern s))(mp d := (view (kern s) (mp d))(?key \<mapsto> announcement pb (br d))))"
    using announce_one [OF put Cons.prems(1,2) pb, of n d "br d" "mp d"] Cons.prems(3,4) e
    by (auto simp: routable_def)
  obtain w where w: "for_all devs (announce_body k pb podIp) (s\<lparr>kern := w1\<rparr>) = (Done (), s\<lparr>kern := w\<rparr>)"
    "\<forall>e \<in> set devs. l_name (br (snd e)) \<noteq> l_name pb \<longrightarrow>
        view w (mp (snd e)) ?key = Some (announcement pb (br (snd e)))"
    "\<forall>m. m \<notin> (mp \<circ> snd) ` set devs \<longrightarrow> view w m = view w1 m"
    using Cons.IH [of "s\<lparr>kern := w1\<rparr>"] Cons.prems by (auto simp: routable_def)
  have "mp d \<notin> (mp \<circ> snd) ` set devs" using Cons.prems(3) e by (auto simp: routable_def)
  with w(3) w1(2) have "l_name (br d) \<noteq> l_name pb \<longrightarrow> view w (mp d) ?key = Some (announcement pb (br d))"
    by simp
  moreover have "\<forall>m. m \<notin> (mp \<circ> snd) ` set (e # devs) \<longrightarrow> view w m = view (kern s) m"
    using w(3) w1(2) e by simp
  moreover have "for_all (e # devs) (announce_body k pb podIp) s = (Done (), s\<lparr>kern := w\<rparr>)"
    using w(1) w1(1) e by (simp add: bnd_apply)
  ultimately show ?case using w(2) e by (intro exI [of _ w]) auto
qed

text \<open>
  C14. When a pod is announced on an IPv4 node, whatever order the runtime walks the table in,
  every other pod's map gets the route to the new pod's bridge under the new pod's address, with
  the sender's own hardware address as the source; maps of no pod are untouched.
\<close>

theorem updateSubpodRouting_reaches_all:
  assumes "\<And>m key v w. \<exists>w'. MapPut k (Some m) key v w = (Done None, w')
      \<and> view w' = (view w)(m := (view w m)(key \<mapsto> v))"
    and "\<And>n w. \<exists>p w'. RangeOrder k n w = (Done p, w') \<and> view w' = view w \<and> distinct p \<and> set p = {..<n}"
    and "PodAddressManager s = Some (AM4 am)" and "length (ip_bytes_of (heap s) podIp) = 4"
    and "6 \<le> length (l_hwaddr pb)" and "routable br mp (podDevices s)" and "distinct (map fst (podDevices s))"
  shows "\<exists>w. updateSubpodRouting k (Some pb) podIp s = (Done (), s\<lparr>kern := w\<rparr>)
    \<and> (\<forall>(n, d) \<in> set (podDevices s). l_name (br d) \<noteq> l_name pb \<longrightarrow>
        view w (mp d) (Key32 (be_uint32 (ip_bytes_of (heap s) podIp))) = Some (announcement pb (br d)))
    \<and> (\<forall>m. m \<notin> (mp \<circ> snd) ` set (podDevices s) \<longrightarrow> view w m = view (kern s) m)"
proof -
  let ?al = "podDevices s"
  obtain p w0 where p: "RangeOrder k (length ?al) (kern s) = (Done p, w0)" "view w0 = view (kern s)"
    "distinct p" "set p = {..<length ?al}" using assms(2) by blast
  let ?devs = "map ((!) ?al) p" and ?s = "s\<lparr>kern := w0\<rparr>"
  have "filter (\<lambda>i. i < length ?al) p = p" using p(4) by (intro filter_True) auto
  then have range: "range_map k ?al s = (Done ?devs, ?s)" using p(1) by (simp add: range_map_def io_simps)
  have set_devs: "set ?devs = set ?al" 
    using nth_image [of "length ?al" ?al] p(4) by (simp add: lessThan_atLeast0)
  have "inj_on ((!) (map (mp \<circ> snd) ?al)) (set p)"
    using assms(6) p(4) by (intro inj_on_nth) (simp_all add: routable_def)
  then have "distinct (map ((!) (map (mp \<circ> snd) ?al)) p)" using p(3) by (simp add: distinct_map)
  moreover have "map ((!) (map (mp \<circ> snd) ?al)) p = map (mp \<circ> snd) ?devs" using p(4) by auto
  ultimately have "distinct (map (mp \<circ> snd) ?devs)" by simp
  then have rout: "routable br mp ?devs" using assms(6) set_devs by (simp add: routable_def)
  have tab: "\<forall>e \<in> set ?devs. map_of (podDevices ?s) (fst e) = Some (snd e)"
    using assms(7) unfolding set_devs by simp
  have s': "PodAddressManager ?s = Some (AM4 am)" "length (ip_bytes_of (heap ?s) podIp) = 4"
    using assms(3,4) by simp_all
  obtain w where w: "for_all ?devs (announce_body k pb podIp) ?s = (Done (), ?s\<lparr>kern := w\<rparr>)"
    "\<forall>e \<in> set ?devs. l_name (br (snd e)) \<noteq> l_name pb \<longrightarrow>
        view w (mp (snd e)) (Key32 (be_uint32 (ip_bytes_of (heap ?s) podIp))) = Some (announcement pb (br (snd e)))"
    "\<forall>m. m \<notin> (mp \<circ> snd) ` set ?devs \<longrightarrow> view w m = view (kern ?s) m"
    using announce_all [OF assms(1) s' assms(5) rout tab] by blast
  have "updateSubpodRouting k (Some pb) podIp s = (Done (), s\<lparr>kern := w\<rparr>)"
    unfolding updateSubpodRouting_def using range w(1) by (simp only: bnd_apply get_st_apply) simp
  moreover have "\<forall>e \<in> set ?al. l_name (br (snd e)) \<noteq> l_name pb \<longrightarrow>
      view w (mp (snd e)) (Key32 (be_uint32 (ip_bytes_of (heap s) podIp))) = Some (announcement pb (br (snd e)))"
    using w(2) unfolding set_devs by simp
  moreover have "\<forall>m. m \<notin> (mp \<circ> snd) ` set ?al \<longrightarrow> view w m = view (kern s) m"
    using w(3) p(2) unfolding set_devs by simp
  ultimately show ?thesis by (intro exI [of _ w]) auto
qed

definition two_pods :: "sim net_state" where
  "two_pods = (sim_state (AM4 sample_am4) None)\<lparr>heap := [be_bytes 0x0A010208, be_bytes 0x0A010210],
     podDevices := [(''default-a'', no_pod_devices\<lparr>baseAddr := Some 0, podBridge := Some (sim_link ''poda''),
         fromSubpodBpfMap := Some 4\<rparr>),
       (''default-b'', no_pod_devices\<lparr>baseAddr := Some 1, podBridge := Some (sim_link ''podb''),
         fromSubpodBpfMap := Some 5\<rparr>)]\<rparr>"

theorem updateSubpodRouting_reaches_all_witness:
  "\<exists>w. updateSubpodRouting sim_kernel (Some (sim_link ''podb'')) (Some 1) two_pods = (Done (), two_pods\<lparr>kern := w\<rparr>)
    \<and> sim_maps w 4 (Key32 (be_uint32 (be_bytes 0x0A010210))) = Some (announcement (sim_link ''podb'') (sim_link ''poda''))"
proof -
  let ?br = "\<lambda>d. the (podBridge d)" and ?mp = "\<lambda>d. the (fromSubpodBpfMap d)"
  have "\<exists>w. updateSubpodRouting sim_kernel (Some (sim_link ''podb'')) (Some 1) two_pods = (Done (), two_pods\<lparr>kern := w\<rparr>)
    \<and> (\<forall>(n, d) \<in> set (podDevices two_pods). l_name (?br d) \<noteq> l_name (sim_link ''podb'') \<longrightarrow>
        sim_maps w (?mp d) (Key32 (be_uint32 (ip_bytes_of (heap two_pods) (Some 1))))
          = Some (announcement (sim_link ''podb'') (?br d)))
    \<and> (\<forall>m. m \<notin> (?mp \<circ> snd) ` set (podDevices two_pods) \<longrightarrow> sim_maps w m = sim_maps (kern two_pods) m)"
    by (rule updateSubpodRouting_reaches_all [where am = sample_am4])
      (auto simp: two_pods_def sim_state_def routable_def sim_link_def ip_bytes_of_def ret_def fun_eq_iff)
  then show ?thesis by (auto simp: two_pods_def sim_link_def ip_bytes_of_def)
qed

end
