(* ===== verification/NetTermination.thy ===== *)
theory NetTermination
  imports SimKernel
begin

text \<open>
  The calls of the network managers return. The package has two kinds of loops with no bound in the
  code: the search for a free address, and the retries around netlink. The first ends by the invariant
  of the address managers. The second end on a \<open>live_kernel\<close>, one on which repeating the three calls that are
  repeated comes to a success where the code repeats them; a kernel whose single calls do what is documented
  of them (\<open>reliable_kernel\<close>) is one. Where one of these calls keeps failing the code waits forever. \<open>returns m\<close>: \<open>m\<close> ends from every state, with a value or a panic;
  \<open>ends P m Q\<close>: from the states in \<open>P\<close>, and with a value only in \<open>Q\<close>.
\<close>

named_theorems returns_intros

definition returns :: "('s, 'a) io \<Rightarrow> bool" where
  "returns m \<longleftrightarrow> (\<forall>s. fst (m s) \<noteq> Diverged)"

definition ends :: "('s \<Rightarrow> bool) \<Rightarrow> ('s, 'a) io \<Rightarrow> ('a \<Rightarrow> 's \<Rightarrow> bool) \<Rightarrow> bool" where
  "ends P m Q \<longleftrightarrow> (\<forall>s. P s \<longrightarrow> (case m s of (Done a, t) \<Rightarrow> Q a t | (Panic _, _) \<Rightarrow> True | (Diverged, _) \<Rightarrow> False))"

lemma ends_bnd:
  assumes "ends P m R" "\<And>a. ends (R a) (f a) Q"
  shows "ends P (bnd m f) Q"
  unfolding ends_def
proof (intro allI impI)
  fix s assume "P s"
  obtain r t where t: "m s = (r, t)" by (cases "m s")
  with assms(1) \<open>P s\<close> have "case r of Done a \<Rightarrow> R a t | Panic _ \<Rightarrow> True | Diverged \<Rightarrow> False"
    by (auto simp: ends_def split: outcome.splits)
  with t assms(2) show "case bnd m f s of (Done a, t) \<Rightarrow> Q a t | (Panic _, _) \<Rightarrow> True | (Diverged, _) \<Rightarrow> False"
    by (cases r) (simp_all add: bnd_apply ends_def)
qed

lemma ends_returns: "returns m \<Longrightarrow> ends P m (\<lambda>_ _. True)"
  by (auto simp: ends_def returns_def split: prod.split outcome.split) (metis fst_conv)

lemma returns_ends: "ends (\<lambda>_. True) m Q \<Longrightarrow> returns m"
  by (auto simp: ends_def returns_def split: prod.splits outcome.splits) (metis surj_pair fst_conv outcome.distinct)

lemma endsD: "ends P m Q \<Longrightarrow> P s \<Longrightarrow> fst (m s) \<noteq> Diverged"
  by (cases "m s") (auto simp: ends_def split: outcome.splits)

lemma ends_pre: "ends P' m Q \<Longrightarrow> (\<And>s. P s \<Longrightarrow> P' s) \<Longrightarrow> ends P m Q"
  by (auto simp: ends_def)

section \<open>Code without loops of its own\<close>

lemma returns_ret [returns_intros]: "returns (ret a)"
  by (simp add: returns_def io_simps)

lemma returns_panic [returns_intros]: "returns (panic msg)"
  by (simp add: returns_def io_simps)

lemma returns_get_st [returns_intros]: "returns get_st"
  by (simp add: returns_def io_simps)

lemma returns_modify [returns_intros]: "returns (modify f)"
  by (simp add: returns_def io_simps)

lemma returns_deref [returns_intros]: "returns (deref p)"
  by (cases p) (simp_all add: returns_def io_simps)

lemma returns_kio: "returns m \<Longrightarrow> returns (kio m)"
  by (auto simp: returns_def kio_def split: prod.split) (metis fst_conv)

lemma returns_bnd [returns_intros]: "returns m \<Longrightarrow> (\<And>a. returns (f a)) \<Longrightarrow> returns (bnd m f)"
  by (rule returns_ends [OF ends_bnd [OF ends_returns ends_returns]])

lemma returns_if [returns_intros]: "returns m \<Longrightarrow> returns m' \<Longrightarrow> returns (if b then m else m')"
  by simp

lemma returns_Let [returns_intros]: "(\<And>x. returns (f x)) \<Longrightarrow> returns (let x = a in f x)"
  by simp

lemma returns_case_option [returns_intros]:
  "returns m \<Longrightarrow> (\<And>a. returns (f a)) \<Longrightarrow> returns (case x of None \<Rightarrow> m | Some a \<Rightarrow> f a)"
  by (cases x) simp_all

lemma returns_case_prod [returns_intros]:
  "(\<And>a b. returns (f a b)) \<Longrightarrow> returns (case p of (a, b) \<Rightarrow> f a b)"
  by (cases p) simp

lemma returns_for_each [returns_intros]: "(\<And>x. returns (body x)) \<Longrightarrow> returns (for_each xs body)"
  by (induction xs) (auto intro!: returns_intros)

lemma returns_for_all [returns_intros]: "(\<And>x. returns (body x)) \<Longrightarrow> returns (for_all xs body)"
  by (induction xs) (auto intro!: returns_intros)

lemma returns_fold_each [returns_intros]: "(\<And>x b. returns (body x b)) \<Longrightarrow> returns (fold_each xs b body)"
  by (induction xs arbitrary: b) (auto intro!: returns_intros)

lemma returns_memory [returns_intros]:
  "returns (ip_new b)" "returns (ip_load r)" "returns (ip2int b)" "returns (to_array n xs)"
  "returns (map_assign key v m)" "returns (ip_add_at r i d)" "returns pam"
  by (auto simp: returns_def ip_new_def ip_load_def ip2int_def to_array_def map_assign_def ip_add_at_def pam_def
      deref_def io_simps split: option.split)

lemma returns_am [returns_intros]:
  "returns am_IsIPv4" "returns am_GetMaxIPsPerPod" "returns am_GetMask" "returns am_GetCNIIfIP" "returns am_GlobalCNINet"
  by (auto simp: am_IsIPv4_def am_GetMaxIPsPerPod_def am_GetMask_def am_GetCNIIfIP_def am_GlobalCNINet_def
      intro!: returns_intros)

lemma returns_table [returns_intros]: "returns (get_pod n)" "returns (put_pod n d)" "returns (put_ns n h)"
  by (auto simp: get_pod_def put_pod_def put_ns_def intro!: returns_intros)

lemma returns_getNextSubPodIP [returns_intros]: "returns (getNextSubPodIP d)"
  by (auto simp: getNextSubPodIP_def Let_def intro!: returns_intros)

section \<open>A calm kernel: its calls return\<close>

definition calm :: "'w kernel \<Rightarrow> bool" where
  "calm k \<longleftrightarrow> (\<forall>x. returns (LinkAdd k x)) \<and> (\<forall>x. returns (LinkByName k x)) \<and> (\<forall>x. returns (LinkSetUp k x))
     \<and> (\<forall>x y. returns (LinkSetMaster k x y)) \<and> (\<forall>x y. returns (LinkSetNsFd k x y)) \<and> (\<forall>x. returns (LinkDel k x))
     \<and> (\<forall>x y. returns (AddrAdd k x y)) \<and> (\<forall>x. returns (RouteAdd k x)) \<and> (\<forall>x. returns (RouteDel k x))
     \<and> returns (NsGet k) \<and> (\<forall>x. returns (NsSet k x)) \<and> (\<forall>x. returns (NsNewNamed k x))
     \<and> (\<forall>x. returns (NsDeleteNamed k x)) \<and> (\<forall>x. returns (LoadCollectionSpec k x))
     \<and> (\<forall>x y. returns (LoadAndAssign k x y)) \<and> (\<forall>x y z. returns (MapPut k x y z))
     \<and> (\<forall>x y z. returns (MapLookup k x y z)) \<and> (\<forall>x. returns (ProgFD k x)) \<and> (\<forall>x y. returns (AttachTCX k x y))
     \<and> (\<forall>x y. returns (AttachXDP k x y)) \<and> (\<forall>x. returns (ShellOutput k x)) \<and> (\<forall>x. returns (InterfaceByName k x))
     \<and> (\<forall>x. returns (RandIntn k x)) \<and> (\<forall>x. returns (RandRead k x)) \<and> (\<forall>x. returns (RangeOrder k x))"

lemma calm_ops [returns_intros]:
  assumes "calm k"
  shows "returns (kio (LinkAdd k a))" "returns (kio (LinkByName k n))" "returns (kio (LinkSetUp k l))"
    "returns (kio (LinkSetMaster k l l'))" "returns (kio (LinkSetNsFd k l h))" "returns (kio (LinkDel k l))"
    "returns (kio (AddrAdd k l i))" "returns (kio (RouteAdd k r))" "returns (kio (RouteDel k r))"
    "returns (kio (NsGet k))" "returns (kio (NsSet k h))" "returns (kio (NsNewNamed k n))"
    "returns (kio (NsDeleteNamed k n))" "returns (kio (LoadCollectionSpec k n))" "returns (kio (LoadAndAssign k sp obj))"
    "returns (kio (MapPut k mp key v))" "returns (kio (MapLookup k mp key v))" "returns (kio (ProgFD k p))"
    "returns (kio (AttachTCX k j p))" "returns (kio (AttachXDP k j p))" "returns (kio (ShellOutput k n))"
    "returns (kio (InterfaceByName k n))" "returns (kio (RandIntn k u))" "returns (kio (RandRead k u))"
    "returns (kio (RangeOrder k u))"
  using assms by (simp_all add: calm_def returns_kio)

lemma returns_range_map [returns_intros]: "calm k \<Longrightarrow> returns (range_map k al)"
  by (simp add: range_map_def returns_intros)

lemma returns_RandStringRunes [returns_intros]: "calm k \<Longrightarrow> returns (RandStringRunes k n)"
  by (induction n) (auto intro!: returns_intros)

lemma returns_container [returns_intros]:
  assumes "calm k"
  shows "returns (ExecShellCommand k cmd)" "returns (getPublicIface k)" "returns (generateMac k)" "returns (stopCNI0 k)"
    "returns (setupCNIDummy k ip i)" "returns (setupCNI0 k)" "returns (teardownNamespaces k nss)"
  using assms
  by (auto simp: ExecShellCommand_def GetRouteDev_def getPublicIface_def generateMac_def stopCNI0_def setupCNIDummy_def
      setupCNI0_def teardownNamespaces_def Let_def intro!: returns_intros split: prod.split)

lemma returns_load [returns_intros]:
  "calm k \<Longrightarrow> returns (load_spec k f)"
  "calm k \<Longrightarrow> returns l \<Longrightarrow> returns (load_objects k l obj)"
  by (auto simp: load_spec_def load_objects_def intro!: returns_intros)

lemma returns_setup [returns_intros]:
  assumes "calm k"
  shows "returns (loadToSubPodTC k)" "returns (loadFromSubPodTC k)"
    "returns (setupSubpodTC k l r p q)" "returns (setupFromLhTC k l r)"
  using assms by (auto simp: loadToSubPodTC_def loadFromSubPodTC_def setupSubpodTC_def setupFromLhTC_def
      load_defs Let_def intro!: returns_intros)

lemma returns_route_values [returns_intros]:
  "returns (makeSplitLhRouteMapObject l m src dest)" "returns (makeSplitRouteMapObjectMac l m r)"
  "returns (makeSplitRouteMapObject l l' r)" "returns (route_key b r)" "returns (make_redirect i a c)"
  by (auto simp: makeSplitLhRouteMapObject_def makeSplitRouteMapObjectMac_def makeSplitRouteMapObject_def
      route_key_def make_redirect_def intro!: returns_intros)

lemma returns_put_route [returns_intros]:
  "calm k \<Longrightarrow> returns (putNextLhSplitRouteObj k mp v)" "calm k \<Longrightarrow> returns (putNextSplitRouteObj k mp v)"
  by (auto simp: putNextLhSplitRouteObj_def putNextSplitRouteObj_def intro!: returns_intros)

lemma returns_routing [returns_intros]:
  assumes "calm k"
  shows "returns (initFromSubpodRouting k br n)" "returns (updateSubpodRouting k br r)"
    "returns (updateLocalhostBpfMaps k n r' mac mp)" "returns (attachLocalhostBpfPrograms k n r r' i)"
  using assms
  by (auto simp: initFromSubpodRouting_def updateSubpodRouting_def updateLocalhostBpfMaps_def
      attachLocalhostBpfPrograms_def Let_def intro!: returns_intros)

lemma returns_start_redirects [returns_intros]:
  "calm k \<Longrightarrow> returns (start_redirects k n podIp netNsIp podLink contIf nsid)"
  by (auto simp: start_redirects_def intro!: returns_intros)

section \<open>A live kernel: retrying ends\<close>

text \<open>Repeating \<open>m\<close> from \<open>w\<close> comes to a success or a panic.\<close>

inductive settles :: "('s, 'a \<times> goerr) io \<Rightarrow> 's \<Rightarrow> bool" for m where
  settles_ok: "m w = (Done (a, None), w') \<Longrightarrow> settles m w"
| settles_panic: "m w = (Panic msg, w') \<Longrightarrow> settles m w"
| settles_again: "m w = (Done (a, Some e), w') \<Longrightarrow> settles m w' \<Longrightarrow> settles m w"

lemma retry_settles:
  assumes "settles m (kern s)" and "\<And>w. J w \<Longrightarrow> J (snd (m w))" and "J (kern s)"
  shows "case until_ok (kio m) s of
      (Done a, t) \<Rightarrow> J (kern t) \<and> (\<exists>w. m w = (Done (a, None), kern t)) | (Panic _, _) \<Rightarrow> True | (Diverged, _) \<Rightarrow> False"
  using assms(1,3)
proof (induction "kern s" arbitrary: s rule: settles.induct)
  case (settles_ok a w')
  then have "J w'" using assms(2) by (metis snd_conv)
  with settles_ok show ?case by (auto simp: until_ok_def retry.simps [of _ s] io_simps)
next
  case (settles_panic msg w')
  then show ?case by (simp add: until_ok_def retry.simps [of _ s] io_simps)
next
  case (settles_again a e w')
  then have "J w'" using assms(2) by (metis snd_conv)
  with settles_again.hyps(3) [of "s\<lparr>kern := w'\<rparr>"]
  have "case until_ok (kio m) (s\<lparr>kern := w'\<rparr>) of
      (Done a, t) \<Rightarrow> J (kern t) \<and> (\<exists>w. m w = (Done (a, None), kern t)) | (Panic _, _) \<Rightarrow> True | (Diverged, _) \<Rightarrow> False"
    by simp
  moreover have "retry (kio m) s = retry (kio m) (s\<lparr>kern := w'\<rparr>)"
    using settles_again.hyps(1) by (subst retry.simps) (simp add: io_simps)
  moreover have "retry (kio m) (s\<lparr>kern := w'\<rparr>) \<noteq> None"
  proof
    assume "retry (kio m) (s\<lparr>kern := w'\<rparr>) = None"
    with calculation(1) show False by (simp add: until_ok_def)
  qed
  ultimately show ?case by (auto simp: until_ok_def)
qed

definition attempt :: "('w, goerr) io \<Rightarrow> ('w, unit \<times> goerr) io" where
  "attempt m = bnd m (\<lambda>err. ret ((), err))"

lemma kio_attempt: "bnd (kio m) (\<lambda>err. ret ((), err)) = kio (attempt m)"
  by (rule HOL.ext) (simp add: attempt_def io_simps split: prod.split outcome.split)

lemma snd_attempt: "snd (attempt m w) = snd (m w)"
  by (simp add: attempt_def io_simps split: prod.split outcome.split)

fun link_names :: "new_link \<Rightarrow> string set" where
  "link_names (NewBridge n) = {n}"
| "link_names (NewTuntap n) = {n}"
| "link_names (NewVeth n n') = {n, n'}"

text \<open>
  \<open>handles\<close>: the namespaces a thread may enter; \<open>found n w\<close>: in \<open>w\<close> a link \<open>n\<close> is there or on its way;
  \<open>usable l w\<close>: \<open>l\<close> can be set up. Deleting links, and moving them away, is not restricted.
\<close>

definition live_kernel :: "'w kernel \<Rightarrow> ns_handle set \<Rightarrow> (string \<Rightarrow> 'w \<Rightarrow> bool) \<Rightarrow> (link option \<Rightarrow> 'w \<Rightarrow> bool) \<Rightarrow> bool" where
  "live_kernel k handles found usable \<longleftrightarrow> calm k
     \<and> (\<forall>w h err w'. NsGet k w = (Done (h, err), w') \<longrightarrow> h \<in> handles)
     \<and> (\<forall>n w h w'. NsNewNamed k n w = (Done (h, None), w') \<longrightarrow> h \<in> handles)
     \<and> (\<forall>h \<in> handles. \<forall>w. settles (attempt (NsSet k h)) w)
     \<and> (\<forall>x w w'. LinkAdd k x w = (Done None, w') \<longrightarrow> (\<forall>n \<in> link_names x. found n w'))
     \<and> (\<forall>n w. found n w \<longrightarrow> settles (LinkByName k n) w)
     \<and> (\<forall>n w l w'. LinkByName k n w = (Done (l, None), w') \<longrightarrow> usable l w')
     \<and> (\<forall>l w. usable l w \<longrightarrow> settles (attempt (LinkSetUp k l)) w)
     \<and> (\<forall>l a w. usable l w \<longrightarrow> usable l (snd (AddrAdd k l a w)))
     \<and> (\<forall>n w. found n w \<longrightarrow> (\<forall>x. found n (snd (LinkByName k x w))) \<and> (\<forall>x. found n (snd (LinkSetUp k x w)))
          \<and> (\<forall>x y. found n (snd (LinkSetMaster k x y w))))"

lemma live_calm: "live_kernel k H fd us \<Longrightarrow> calm k"
  by (simp add: live_kernel_def)

text \<open>
  \<open>reliable_kernel\<close>: what the documentation of netlink and of network namespaces says of one call each. Every
  single call returns; a thread gets the handle of its namespace, and a handle that was got, or that came with
  a new namespace, can be entered; a link that was added is there, under its name and the name of its peer,
  until it is deleted or moved away; a link that is there is found under its name, and a link that was found
  can be set up, also after it got an address. Nothing is said of the loops.
\<close>

definition reliable_kernel :: "'w kernel \<Rightarrow> ns_handle set \<Rightarrow> (string \<Rightarrow> 'w \<Rightarrow> bool) \<Rightarrow> (link option \<Rightarrow> 'w \<Rightarrow> bool) \<Rightarrow> bool" where
  "reliable_kernel k handles there usable \<longleftrightarrow> calm k
     \<and> (\<forall>w h err w'. NsGet k w = (Done (h, err), w') \<longrightarrow> err = None \<and> h \<in> handles)
     \<and> (\<forall>n w h w'. NsNewNamed k n w = (Done (h, None), w') \<longrightarrow> h \<in> handles)
     \<and> (\<forall>h \<in> handles. \<forall>w err w'. NsSet k h w = (Done err, w') \<longrightarrow> err = None)
     \<and> (\<forall>x w w'. LinkAdd k x w = (Done None, w') \<longrightarrow> (\<forall>n \<in> link_names x. there n w'))
     \<and> (\<forall>n w l err w'. there n w \<and> LinkByName k n w = (Done (l, err), w') \<longrightarrow> err = None)
     \<and> (\<forall>n w l w'. LinkByName k n w = (Done (l, None), w') \<longrightarrow> usable l w')
     \<and> (\<forall>l w err w'. usable l w \<and> LinkSetUp k l w = (Done err, w') \<longrightarrow> err = None)
     \<and> (\<forall>l a w. usable l w \<longrightarrow> usable l (snd (AddrAdd k l a w)))
     \<and> (\<forall>n w. there n w \<longrightarrow> (\<forall>x. there n (snd (LinkByName k x w))) \<and> (\<forall>x. there n (snd (LinkSetUp k x w)))
          \<and> (\<forall>x y. there n (snd (LinkSetMaster k x y w))))"

lemma settles_once:
  assumes "returns m" and "\<And>a err w'. m w = (Done (a, err), w') \<Longrightarrow> err = None"
  shows "settles m w"
proof (cases "m w")
  case (Pair r w')
  with assms show ?thesis
    by (cases r) (auto simp: returns_def intro: settles_ok settles_panic dest: spec [of _ w])
qed

lemma settles_attempt:
  assumes "returns m" and "\<And>err w'. m w = (Done err, w') \<Longrightarrow> err = None"
  shows "settles (attempt m) w"
proof (rule settles_once)
  show "returns (attempt m)" unfolding attempt_def by (intro returns_bnd returns_ret assms(1))
  show "err = None" if "attempt m w = (Done (a, err), w')" for a err w'
    using that assms(2) by (auto simp: attempt_def io_simps split: prod.splits outcome.splits)
qed

lemma reliable_live:
  assumes "reliable_kernel k H th us"
  shows "live_kernel k H th us"
proof -
  have calm: "returns (NsSet k h)" "returns (LinkByName k n)" "returns (LinkSetUp k l)" for h n l
    using assms by (simp_all add: reliable_kernel_def calm_def)
  have laws: "h \<in> H \<Longrightarrow> NsSet k h w = (Done err, w') \<Longrightarrow> err = None"
    "th n w \<Longrightarrow> LinkByName k n w = (Done (lk, err), w') \<Longrightarrow> err = None"
    "us l w \<Longrightarrow> LinkSetUp k l w = (Done err, w') \<Longrightarrow> err = None" for h n l lk err w w'
    using assms unfolding reliable_kernel_def by meson+
  have "settles (attempt (NsSet k h)) w" if "h \<in> H" for h w
    by (rule settles_attempt [OF calm(1)]) (rule laws(1) [OF that])
  moreover have "settles (LinkByName k n) w" if "th n w" for n w
    by (rule settles_once [OF calm(2)]) (rule laws(2) [OF that])
  moreover have "settles (attempt (LinkSetUp k l)) w" if "us l w" for l w
    by (rule settles_attempt [OF calm(3)]) (rule laws(3) [OF that])
  ultimately show ?thesis
    using assms unfolding live_kernel_def reliable_kernel_def by meson
qed

text \<open>The retry loops, one call each, with the names that must stay found.\<close>

lemma ends_trySetNs:
  assumes "live_kernel k H fd us" "h \<in> H"
  shows "returns (trySetNs k h)"
proof -
  have "ends (\<lambda>_. True) (until_ok (kio (attempt (NsSet k h)))) (\<lambda>_ _. True)"
    unfolding ends_def
  proof (intro allI impI)
    fix s :: "'a net_state"
    have "settles (attempt (NsSet k h)) (kern s)" using assms by (simp add: live_kernel_def)
    from retry_settles [OF this, of "\<lambda>_. True"]
    show "case until_ok (kio (attempt (NsSet k h))) s of (Done a, t) \<Rightarrow> True | (Panic _, _) \<Rightarrow> True | (Diverged, _) \<Rightarrow> False"
      by (auto split: prod.splits outcome.splits)
  qed
  then show ?thesis
    unfolding trySetNs_def kio_attempt by (intro returns_bnd returns_ret) (rule returns_ends)
qed

lemma ends_tryGetLink:
  assumes "live_kernel k H fd us" "n \<in> N"
    and "\<And>l. ends (\<lambda>s. (\<forall>n \<in> N. fd n (kern s)) \<and> us l (kern s)) (f (l, None)) Q"
  shows "ends (\<lambda>s. \<forall>n \<in> N. fd n (kern s)) (bnd (tryGetLink k n) f) Q"
proof -
  have "ends (\<lambda>s. \<forall>n \<in> N. fd n (kern s)) (until_ok (kio (LinkByName k n)))
      (\<lambda>l s. (\<forall>n \<in> N. fd n (kern s)) \<and> us l (kern s))"
    unfolding ends_def
  proof (intro allI impI)
    fix s :: "'a net_state"
    assume s: "\<forall>n \<in> N. fd n (kern s)"
    with assms have "settles (LinkByName k n) (kern s)" by (simp add: live_kernel_def)
    from retry_settles [OF this, of "\<lambda>w. \<forall>n \<in> N. fd n w"] s
    show "case until_ok (kio (LinkByName k n)) s of
        (Done l, t) \<Rightarrow> (\<forall>n \<in> N. fd n (kern t)) \<and> us l (kern t) | (Panic _, _) \<Rightarrow> True | (Diverged, _) \<Rightarrow> False"
      using assms(1) by (auto simp: live_kernel_def split: prod.splits outcome.splits)
  qed
  from ends_bnd [OF this assms(3)] show ?thesis by (simp add: tryGetLink_def bnd_assoc)
qed

lemma ends_trySetLinkUp:
  assumes "live_kernel k H fd us" "ends (\<lambda>s. \<forall>n \<in> N. fd n (kern s)) (f None) Q"
  shows "ends (\<lambda>s. (\<forall>n \<in> N. fd n (kern s)) \<and> us l (kern s)) (bnd (trySetLinkUp k l) f) Q"
proof -
  have "ends (\<lambda>s. (\<forall>n \<in> N. fd n (kern s)) \<and> us l (kern s)) (until_ok (kio (attempt (LinkSetUp k l))))
      (\<lambda>_ s. \<forall>n \<in> N. fd n (kern s))"
    unfolding ends_def
  proof (intro allI impI)
    fix s :: "'a net_state"
    assume s: "(\<forall>n \<in> N. fd n (kern s)) \<and> us l (kern s)"
    with assms(1) have "settles (attempt (LinkSetUp k l)) (kern s)" by (simp add: live_kernel_def)
    from retry_settles [OF this, of "\<lambda>w. \<forall>n \<in> N. fd n w"] s
    show "case until_ok (kio (attempt (LinkSetUp k l))) s of
        (Done a, t) \<Rightarrow> \<forall>n \<in> N. fd n (kern t) | (Panic _, _) \<Rightarrow> True | (Diverged, _) \<Rightarrow> False"
      using assms(1) by (auto simp: live_kernel_def snd_attempt split: prod.splits outcome.splits)
  qed
  from ends_bnd [OF this assms(2)] show ?thesis by (simp add: trySetLinkUp_def kio_attempt bnd_assoc)
qed

lemma ends_kio:
  fixes m :: "('w, 'a) io"
  assumes "returns m" and "\<And>w a w'. P w \<Longrightarrow> m w = (Done a, w') \<Longrightarrow> R a w'"
  shows "ends (\<lambda>s. P (kern s)) (kio m) (\<lambda>a s. R a (kern s))"
  unfolding ends_def
proof (intro allI impI)
  fix s :: "'w net_state"
  assume s: "P (kern s)"
  obtain r w' where r: "m (kern s) = (r, w')" by (cases "m (kern s)")
  have "r \<noteq> Diverged" using assms(1) r by (metis returns_def fst_conv)
  with assms(2) [OF s] r
  show "case kio m s of (Done a, t) \<Rightarrow> R a (kern t) | (Panic _, _) \<Rightarrow> True | (Diverged, _) \<Rightarrow> False"
    by (cases r) (simp_all add: io_simps)
qed

lemma ends_kio_keep:
  fixes m :: "('w, 'a) io"
  assumes "returns m" and "\<And>w. J w \<Longrightarrow> J (snd (m w))" and "\<And>a. ends (\<lambda>s. J (kern s)) (f a) Q"
  shows "ends (\<lambda>s. J (kern s)) (bnd (kio m) f) Q"
  by (rule ends_bnd [OF ends_kio [where R = "\<lambda>_. J"] assms(3)]) (use assms(1,2) in \<open>metis snd_conv\<close>)+

lemma live_returns:
  assumes "live_kernel k H fd us"
  shows "returns (LinkAdd k x)" "returns (LinkSetMaster k l l')" "returns (AddrAdd k l a)" "returns (NsGet k)"
    "returns (NsNewNamed k n)" "returns (LinkByName k n)"
  using live_calm [OF assms] by (simp_all add: calm_def)

lemma ends_answer:
  "returns m \<Longrightarrow> (\<And>w a w'. m w = (Done a, w') \<Longrightarrow> R a w') \<Longrightarrow> ends (\<lambda>_. True) (kio m) (\<lambda>a s. R a (kern s))"
  using ends_kio [where P = "\<lambda>_. True"] by blast

lemma live_answers:
  assumes "live_kernel k H fd us"
  shows "NsGet k w = (Done a, w') \<Longrightarrow> fst a \<in> H"
    "NsNewNamed k n w = (Done a, w') \<Longrightarrow> snd a = None \<longrightarrow> fst a \<in> H"
    "LinkByName k n w = (Done b, w') \<Longrightarrow> snd b = None \<longrightarrow> us (fst b) w'"
  using assms unfolding live_kernel_def by (metis prod.collapse)+

lemma ends_LinkAdd:
  assumes "live_kernel k H fd us" and "\<And>err. err \<noteq> None \<Longrightarrow> returns (f err)"
    and "ends (\<lambda>s. \<forall>n \<in> link_names x. fd n (kern s)) (f None) (\<lambda>_ _. True)"
  shows "returns (bnd (kio (LinkAdd k x)) f)"
proof -
  have "ends (\<lambda>s. True) (kio (LinkAdd k x)) (\<lambda>err s. err = None \<longrightarrow> (\<forall>n \<in> link_names x. fd n (kern s)))"
    using assms(1) live_returns [OF assms(1)] by (intro ends_kio [where P = "\<lambda>_. True"]) (auto simp: live_kernel_def)
  moreover have "ends (\<lambda>s. err = None \<longrightarrow> (\<forall>n \<in> link_names x. fd n (kern s))) (f err) (\<lambda>_ _. True)" for err
    using assms(2) [of err] assms(3) by (cases err) (auto intro: ends_returns)
  ultimately show ?thesis by (blast intro: returns_ends ends_bnd)
qed

lemma ends_LinkSetMaster:
  assumes "live_kernel k H fd us" and "\<And>err. ends (\<lambda>s. \<forall>n \<in> N. fd n (kern s)) (f err) Q"
  shows "ends (\<lambda>s. \<forall>n \<in> N. fd n (kern s)) (bnd (kio (LinkSetMaster k l l')) f) Q"
  by (rule ends_kio_keep [where J = "\<lambda>w. \<forall>n \<in> N. fd n w", OF live_returns(2) [OF assms(1)] _ assms(2)])
    (use assms(1) in \<open>simp add: live_kernel_def\<close>)

lemma ends_AddrAdd:
  assumes "live_kernel k H fd us" and "\<And>err. ends (\<lambda>s. us l (kern s)) (f err) Q"
  shows "ends (\<lambda>s. us l (kern s)) (bnd (kio (AddrAdd k l a)) f) Q"
  by (rule ends_kio_keep [where J = "us l", OF live_returns(3) [OF assms(1)] _ assms(2)])
    (use assms(1) in \<open>simp add: live_kernel_def\<close>)

lemma ends_if: "(b \<Longrightarrow> ends P m Q) \<Longrightarrow> (\<not> b \<Longrightarrow> ends P m' Q) \<Longrightarrow> ends P (if b then m else m') Q"
  by simp

lemma ends_when: "(b \<Longrightarrow> ends (\<lambda>_. True) m Q) \<Longrightarrow> ends (\<lambda>_. b) m Q"
  by (auto simp: ends_def)

lemma returns_NsGet:
  assumes "live_kernel k H fd us" and "\<And>h err. h \<in> H \<Longrightarrow> returns (f (h, err))"
  shows "returns (bnd (kio (NsGet k)) f)"
proof -
  have "ends (\<lambda>_. True) (kio (NsGet k)) (\<lambda>a _. fst a \<in> H)"
    by (rule ends_answer [OF live_returns(4) [OF assms(1)] live_answers(1) [OF assms(1)]])
  moreover have "ends (\<lambda>_. fst a \<in> H) (f a) (\<lambda>_ _. True)" for a
    by (rule ends_when, rule ends_returns) (use assms(2) [of "fst a" "snd a"] in simp)
  ultimately show ?thesis by (blast intro: returns_ends ends_bnd)
qed

lemma returns_NsNewNamed:
  assumes "live_kernel k H fd us" and "\<And>h err. (err = None \<Longrightarrow> h \<in> H) \<Longrightarrow> returns (f (h, err))"
  shows "returns (bnd (kio (NsNewNamed k n)) f)"
proof -
  have "ends (\<lambda>_. True) (kio (NsNewNamed k n)) (\<lambda>a _. snd a = None \<longrightarrow> fst a \<in> H)"
    by (rule ends_answer [OF live_returns(5) [OF assms(1)] live_answers(2) [OF assms(1)]])
  moreover have "ends (\<lambda>_. snd a = None \<longrightarrow> fst a \<in> H) (f a) (\<lambda>_ _. True)" for a
    by (rule ends_when, rule ends_returns) (use assms(2) [of "snd a" "fst a"] in simp)
  ultimately show ?thesis by (blast intro: returns_ends ends_bnd)
qed

lemma ends_ip_load: "(\<And>b. ends P (f b) Q) \<Longrightarrow> ends P (bnd (ip_load r) f) Q"
  by (simp add: ends_def io_simps ip_load_apply)

lemma ends_case_prod: "(\<And>a b. ends P (f a b) Q) \<Longrightarrow> ends P (case p of (a, b) \<Rightarrow> f a b) Q"
  by (cases p) simp

text \<open>A link that was just found is set up, and then only code that returns follows.\<close>

lemma ends_bring_up:
  assumes "live_kernel k H fd us" "\<And>err. returns (f err)"
  shows "ends (\<lambda>s. us l (kern s)) (bnd (trySetLinkUp k l) f) (\<lambda>_ _. True)"
  using ends_trySetLinkUp [OF assms(1) ends_returns [OF assms(2)], of "{}"] by simp

lemma returns_setupPodBridge:
  assumes live: "live_kernel k H fd us"
  shows "returns (setupPodBridge k ident ip)"
  unfolding setupPodBridge_def Let_def
  apply (rule ends_LinkAdd [OF live])
   apply (simp add: returns_intros)
  apply (rule ends_if, simp)
  apply (rule ends_tryGetLink [OF live, of "''pod'' @ ident"], simp)
  apply (unfold prod.case, rule ends_ip_load, rule ends_case_prod, rule ends_if)
   apply (rule ends_returns, rule returns_ret)
  apply (rule ends_pre [OF ends_AddrAdd [OF live ends_bring_up [OF live]]])
   apply (auto intro!: returns_intros)
  done

lemma returns_configure_pod_side:
  assumes live: "live_kernel k H fd us"
  shows "returns (configure_pod_side k gw ip contIf netSize)"
proof -
  note calm = live_calm [OF live]
  have lo: "returns (bnd (kio (LinkByName k ''lo'')) (\<lambda>(nsLoopback, err).
         if err \<noteq> None then ret err else bnd (trySetLinkUp k nsLoopback) (\<lambda>_. ret None)))"
  proof (rule returns_ends [OF ends_bnd])
    show "ends (\<lambda>_. True) (kio (LinkByName k ''lo'')) (\<lambda>a s. snd a = None \<longrightarrow> us (fst a) (kern s))"
      by (rule ends_answer [OF live_returns(6) [OF live] live_answers(3) [OF live]])
    fix a :: "link option \<times> goerr"
    show "ends (\<lambda>s. snd a = None \<longrightarrow> us (fst a) (kern s)) (case a of (nsLoopback, err) \<Rightarrow>
         if err \<noteq> None then ret err else bnd (trySetLinkUp k nsLoopback) (\<lambda>_. ret None)) (\<lambda>_ _. True)"
      using ends_bring_up [OF live, of "\<lambda>_. ret None" "fst a"]
      by (cases a) (auto simp: returns_intros intro: ends_returns)
  qed
  show ?thesis
    unfolding configure_pod_side_def Let_def by (auto intro!: returns_intros calm lo)
qed

lemma returns_setupPodNetNs:
  assumes live: "live_kernel k H fd us"
  shows "returns (setupPodNetNs k n gw ip br)"
  unfolding setupPodNetNs_def Let_def
  apply (rule returns_NsGet [OF live], unfold prod.case)
  apply (rule returns_NsNewNamed [OF live], unfold prod.case)
  apply (rule returns_bnd, rule ends_trySetNs [OF live], assumption)
  apply (split if_split, intro conjI impI, rule returns_ret)
  apply (rule returns_bnd, rule returns_RandStringRunes [OF live_calm [OF live]])
  apply (rule ends_LinkAdd [OF live], simp add: returns_intros)
  apply (rule ends_if, simp)
  apply (rule ends_tryGetLink [OF live], simp, unfold prod.case)
  apply (rule ends_if, simp)
  apply (rule ends_trySetLinkUp [OF live])
  apply (rule ends_if, simp)
  apply (rule ends_LinkSetMaster [OF live])
  apply (rule ends_if, rule ends_returns, rule returns_ret)
  apply (rule ends_tryGetLink [OF live], simp, unfold prod.case)
  apply (rule ends_returns)
  apply (auto intro!: returns_intros live_calm [OF live] ends_trySetNs [OF live] returns_configure_pod_side [OF live])
  done

section \<open>The address managers\<close>

text \<open>Whichever address manager the node has, it is well-formed; the zero value has none.\<close>

definition am_ok :: "'w net_state \<Rightarrow> bool" where
  "am_ok s \<longleftrightarrow> (case PodAddressManager s of None \<Rightarrow> True | Some (AM4 a) \<Rightarrow> am_inv4 a | Some (AM6 a) \<Rightarrow> am_inv6 a)"

lemma RequestPodIP_ok:
  assumes "am_inv4 a"
  obtains x a' where "RequestPodIP ns pod a = (Done x, a')" "am_inv4 a'"
  using am_inv4_RequestPodIP [OF assms, of ns pod]
  by (cases rule: RequestPodIP_cases [OF assms, where ns = ns and pod = pod]) (auto intro: that)

lemma RequestPodIP6_ok:
  assumes "am_inv6 a"
  obtains x a' where "RequestPodIP6 ns pod a = (Done x, a')" "am_inv6 a'"
  using am_inv6_RequestPodIP6 [OF assms, of ns pod]
  by (cases rule: RequestPodIP6_cases [OF assms, where ns = ns and pod = pod]) (auto intro: that)

lemma am_RequestPodIP_ok:
  assumes "am_ok s"
  shows "am_ok (snd (am_RequestPodIP ns pod s)) \<and> fst (am_RequestPodIP ns pod s) \<noteq> Diverged"
proof (cases "PodAddressManager s")
  case None
  with assms show ?thesis by (simp add: am_RequestPodIP_def pam_def io_simps)
next
  case (Some a)
  show ?thesis
  proof (cases a)
    case (AM4 a4)
    with assms Some have "am_inv4 a4" by (simp add: am_ok_def)
    then obtain x a' where x: "RequestPodIP ns pod a4 = (Done x, a')" "am_inv4 a'" by (rule RequestPodIP_ok)
    then show ?thesis
      by (cases x) (simp add: am_RequestPodIP_def pam_def Some AM4 io_simps am4_io_def ip_new_def am_ok_def)
  next
    case (AM6 a6)
    with assms Some have "am_inv6 a6" by (simp add: am_ok_def)
    then obtain x a' where x: "RequestPodIP6 ns pod a6 = (Done x, a')" "am_inv6 a'" by (rule RequestPodIP6_ok)
    then show ?thesis
      by (cases x) (simp add: am_RequestPodIP_def pam_def Some AM6 io_simps am6_io_def ip_new_def am_ok_def)
  qed
qed

lemma stable_am_ok: "stable am_ok"
  by (simp add: stable_def ext_def am_ok_def)

lemma ends_am_RequestPodIP: "ends am_ok (am_RequestPodIP ns pod) (\<lambda>_ _. True)"
  unfolding ends_def
proof (intro allI impI)
  fix s :: "'a net_state"
  assume "am_ok s"
  with am_RequestPodIP_ok [of s ns pod]
  show "case am_RequestPodIP ns pod s of (Done a, t) \<Rightarrow> True | (Panic _, _) \<Rightarrow> True | (Diverged, _) \<Rightarrow> False"
    by (auto split: prod.splits outcome.splits)
qed

text \<open>A call that first asks for an address and then only runs code that returns.\<close>

lemma ends_request: "(\<And>a. returns (f a)) \<Longrightarrow> ends am_ok (bnd (am_RequestPodIP ns pod) f) (\<lambda>_ _. True)"
  by (rule ends_bnd [OF ends_am_RequestPodIP ends_returns])

text \<open>A new link that is waited for.\<close>

lemma returns_new_link:
  assumes "live_kernel k H fd us" "\<And>err. returns (m err)" "\<And>a. returns (f a)"
  shows "returns (bnd (kio (LinkAdd k (NewTuntap n))) (\<lambda>err. if err \<noteq> None then m err else bnd (tryGetLink k n) f))"
  apply (rule ends_LinkAdd [OF assms(1)])
   apply (simp add: assms(2))
  apply (rule ends_if, simp)
  apply (rule ends_tryGetLink [OF assms(1)], simp)
  apply (rule ends_returns, rule assms(3))
  done

section \<open>The calls of the managers\<close>

lemma ends_InitPodNetwork:
  assumes "live_kernel k H fd us"
  shows "ends am_ok (InitPodNetwork k cns pod) (\<lambda>_ _. True)"
  unfolding InitPodNetwork_def Let_def
  by (rule ends_request) (auto intro!: returns_intros live_calm [OF assms] returns_setupPodBridge [OF assms]
    returns_setupPodNetNs [OF assms])

lemma ends_InitPodNetworkPL:
  assumes "live_kernel k H fd us"
  shows "ends am_ok (InitPodNetworkPL k cns pod) (\<lambda>_ _. True)"
  unfolding InitPodNetworkPL_def Let_def
  by (rule ends_request) (auto intro!: returns_intros live_calm [OF assms] returns_setupPodBridge [OF assms]
    returns_setupPodNetNs [OF assms])

lemma ends_InitPodNetworkD:
  assumes "live_kernel k H fd us"
  shows "ends am_ok (InitPodNetworkD k cns pod) (\<lambda>_ _. True)"
  unfolding InitPodNetworkD_def Let_def
  by (rule ends_request) (auto intro!: returns_intros returns_setupPodNetNs [OF assms])

lemma returns_CreateVMTun:
  "calm k \<Longrightarrow> returns (CreateVMTun k cns pod c)"
  by (auto simp: CreateVMTun_def Let_def intro!: returns_intros)

lemma returns_CreateVMTunPL:
  assumes live: "live_kernel k H fd us"
  shows "returns (CreateVMTunPL k cns pod c)"
  unfolding CreateVMTunPL_def Let_def
  apply (rule returns_bnd [OF returns_table(1)], rule returns_bnd [OF returns_getNextSubPodIP])
  apply (rule returns_case_prod, rule returns_if, simp add: returns_intros)
  apply (rule returns_bnd [OF returns_RandStringRunes [OF live_calm [OF live]]])
  apply (rule returns_new_link [OF live])
   apply (auto intro!: returns_intros live_calm [OF live])
  done

lemma ends_CreateVMTunD:
  "calm k \<Longrightarrow> ends am_ok (CreateVMTunD k cns pod c) (\<lambda>_ _. True)"
  unfolding CreateVMTunD_def Let_def by (rule ends_request) (auto intro!: returns_intros)

lemma returns_others:
  assumes "calm k"
  shows "returns (StopPodNetwork k cns pod)" "returns (StopPodNetworkD k cns pod)"
    "returns (TeardownContainerNetworking k)" "returns (TeardownContainerNetworkingD k)"
    "returns (InitContainerNetworkingPL k)" "returns (InitContainerNetworkingD k)"
  using assms
  by (auto simp: StopPodNetwork_def StopPodNetworkD_def TeardownContainerNetworking_def TeardownContainerNetworkingD_def
      InitContainerNetworkingPL_def InitContainerNetworkingD_def Let_def intro!: returns_intros split: prod.split)

lemma returns_reads:
  "returns (GetNetNsHandle cns pod)" "returns (GetNetNsPath cns pod)" "returns (GetGatewayAddress cns pod)"
  "returns (GetGatewayAddressD cns pod)" "returns InitContainerNetworking"
  by (auto simp: GetNetNsHandle_def GetNetNsPath_def GetGatewayAddress_def GetGatewayAddressD_def
      InitContainerNetworking_def Let_def intro!: returns_intros)

text \<open>Every call keeps the address manager well-formed, whichever version it is.\<close>

lemma keeps_am_ok_neutral: "neutral m \<Longrightarrow> keeps am_ok m"
  by (rule keeps_neutral [OF _ stable_am_ok])

lemma keeps_am_ok_request: "keeps am_ok (am_RequestPodIP ns pod)"
  by (rule keepsI) (simp add: am_RequestPodIP_ok)

lemma keeps_am_ok_add_at: "keeps am_ok (ip_add_at r i x)"
  by (auto simp: ip_add_at_def am_ok_def intro!: keeps_intros keeps_modify)

lemma keeps_am_ok_table: "keeps am_ok (put_pod n d)" "keeps am_ok (put_ns n h)" "keeps am_ok (get_pod n)"
  by (auto simp: put_pod_def put_ns_def get_pod_def am_ok_def intro!: keeps_intros keeps_modify)

lemmas ok_leaves = keeps_am_ok_request keeps_am_ok_table keeps_am_ok_add_at
  neutral_kio [THEN keeps_am_ok_neutral] neutral_ip_load [THEN keeps_am_ok_neutral]
  neutral_ip_new [THEN keeps_am_ok_neutral] neutral_ip2int [THEN keeps_am_ok_neutral]
  neutral_map_assign [THEN keeps_am_ok_neutral] neutral_range_map [THEN keeps_am_ok_neutral]
  neutral_am [THEN keeps_am_ok_neutral] neutral_try [THEN keeps_am_ok_neutral]
  neutral_RandStringRunes [THEN keeps_am_ok_neutral] neutral_container [THEN keeps_am_ok_neutral]
  neutral_setupPodNetNs [THEN keeps_am_ok_neutral] neutral_links [THEN keeps_am_ok_neutral]
  neutral_setup [THEN keeps_am_ok_neutral] neutral_route_values [THEN keeps_am_ok_neutral]
  neutral_updateLocalhostBpfMaps [THEN keeps_am_ok_neutral]

lemma keeps_am_ok_parts:
  "keeps am_ok (getNextSubPodIP d)" "keeps am_ok (initFromSubpodRouting k br n)"
  "keeps am_ok (updateSubpodRouting k br r)" "keeps am_ok (attachLocalhostBpfPrograms k n r r' i)"
  by (auto simp: getNextSubPodIP_def initFromSubpodRouting_def updateSubpodRouting_def attachLocalhostBpfPrograms_def
      Let_def intro!: keeps_intros ok_leaves)

lemma keeps_am_ok_start_redirects: "keeps am_ok (start_redirects k n a b c d h)"
  by (auto simp: start_redirects_def intro!: keeps_intros ok_leaves keeps_am_ok_parts)

lemmas ok_parts = keeps_intros ok_leaves keeps_am_ok_parts keeps_am_ok_start_redirects

lemma keeps_am_ok_calls:
  "keeps am_ok (InitPodNetwork k cns pod)" "keeps am_ok (InitPodNetworkPL k cns pod)"
  "keeps am_ok (InitPodNetworkD k cns pod)" "keeps am_ok (CreateVMTun k cns pod c)"
  "keeps am_ok (CreateVMTunPL k cns pod c)" "keeps am_ok (CreateVMTunD k cns pod c)"
  by (auto simp: InitPodNetwork_def InitPodNetworkPL_def InitPodNetworkD_def CreateVMTun_def CreateVMTunPL_def
      CreateVMTunD_def Let_def intro!: ok_parts)

lemma keeps_am_ok_others:
  "keeps am_ok (StopPodNetwork k cns pod)" "keeps am_ok (StopPodNetworkD k cns pod)"
  "keeps am_ok (GetGatewayAddress cns pod)" "keeps am_ok (GetGatewayAddressD cns pod)"
  by (intro keeps_am_ok_neutral neutral_stop)+

section \<open>Every call returns\<close>

text \<open>A second contract of the managers, with the invariant of either address manager.\<close>

interpretation mr_ok: cni_contract "multi_runtime_manager k" am_ok for k
  by unfold_locales
    (auto simp: manager_defs keeps_am_ok_calls keeps_am_ok_others fst_GetNetNsPath snd_GetNetNsPath init_paths
      dest: stop_keeps_tables)

interpretation pl_ok: cni_contract "pod_local_manager k" am_ok for k
  by unfold_locales
    (auto simp: manager_defs keeps_am_ok_calls keeps_am_ok_others fst_GetNetNsPath snd_GetNetNsPath init_paths
      dest: stop_keeps_tables)

interpretation dm_ok: cni_contract "default_manager k" am_ok for k
  by unfold_locales
    (auto simp: manager_defs keeps_am_ok_calls keeps_am_ok_others fst_GetNetNsPath snd_GetNetNsPath init_paths
      dest: stop_keeps_tables)

definition call_returns :: "'w CNIManager \<Rightarrow> 'w net_state \<Rightarrow> bool" where
  "call_returns mgr s \<longleftrightarrow> (\<forall>cns pod c.
     fst (cni_InitContainerNetworking mgr s) \<noteq> Diverged \<and> fst (cni_TeardownContainerNetworking mgr s) \<noteq> Diverged
     \<and> fst (cni_InitPodNetwork mgr cns pod s) \<noteq> Diverged \<and> fst (cni_StopPodNetwork mgr cns pod s) \<noteq> Diverged
     \<and> fst (cni_GetNetNsHandle mgr cns pod s) \<noteq> Diverged \<and> fst (cni_GetNetNsPath mgr cns pod s) \<noteq> Diverged
     \<and> fst (cni_CreateVMTun mgr cns pod c s) \<noteq> Diverged \<and> fst (cni_GetGatewayAddress mgr cns pod s) \<noteq> Diverged)"

lemma call_returns_live:
  assumes "live_kernel k H fd us" "am_ok s"
    and "mgr = multi_runtime_manager k \<or> mgr = pod_local_manager k \<or> mgr = default_manager k"
  shows "call_returns mgr s"
  using assms(3) returns_others [OF live_calm [OF assms(1)]]
    endsD [OF ends_InitPodNetwork [OF assms(1)] assms(2)] endsD [OF ends_InitPodNetworkPL [OF assms(1)] assms(2)]
    endsD [OF ends_InitPodNetworkD [OF assms(1)] assms(2)] returns_CreateVMTun [OF live_calm [OF assms(1)]]
    returns_CreateVMTunPL [OF assms(1)] endsD [OF ends_CreateVMTunD [OF live_calm [OF assms(1)]] assms(2)]
  by (auto simp: call_returns_def manager_defs returns_def returns_reads [unfolded returns_def, rule_format])


lemma calm_sim: "calm sim_kernel"
  by (auto simp: calm_def returns_def io_simps split: option.split)

lemma reliable_sim: "reliable_kernel sim_kernel UNIV (\<lambda>_ _. True) (\<lambda>_ _. True)"
  by (auto simp: reliable_kernel_def calm_sim io_simps split: option.splits)


section \<open>A loop that does not end\<close>

lemma retry_never:
  assumes "\<And>s. \<exists>a e t. m s = (Done (a, Some e), t)"
  shows "retry m s = None"
proof (rule ccontr)
  assume "retry m s \<noteq> None"
  then obtain y where y: "retry m s = Some y" by blast
  have "\<not> (\<forall>s. \<exists>a e t. m s = (Done (a, Some e), t))"
  proof (rule retry.raw_induct [where P = "\<lambda>m _ _. \<not> (\<forall>s. \<exists>a e t. m s = (Done (a, Some e), t))", OF _ y])
    fix again and m :: "'a \<Rightarrow> ('b \<times> goerr) outcome \<times> 'a" and s y
    assume more: "\<And>m' t u. again m' t = Some u \<Longrightarrow> \<not> (\<forall>s. \<exists>a e t. m' s = (Done (a, Some e), t))"
      and step: "(case m s of (Done (a, err), t) \<Rightarrow> if err = None then Some (Done a, t) else again m t
        | (Panic msg, t) \<Rightarrow> Some (Panic msg, t) | (Diverged, t) \<Rightarrow> Some (Diverged, t)) = Some y"
    show "\<not> (\<forall>s. \<exists>a e t. m s = (Done (a, Some e), t))"
    proof
      assume all: "\<forall>s. \<exists>a e t. m s = (Done (a, Some e), t)"
      then obtain a e t where "m s = (Done (a, Some e), t)" by blast
      with step have "again m t = Some y" by simp
      from more [OF this] all show False by blast
    qed
  qed
  with assms show False by blast
qed

lemma bnd_kio_Done: "m (kern s) = (Done a, w) \<Longrightarrow> bnd (kio m) f s = f a (s\<lparr>kern := w\<rparr>)"
  by (simp add: io_simps)

text \<open>
  C16. The wait for the namespace has no way out. \<open>setupPodNetNs\<close> drops the error of \<open>netns.Get\<close> and asks to go
  back to the handle that came with it until that works. When the thread cannot enter that handle, as after
  a failed \<open>netns.Get\<close>, the call never returns, whether the namespace of the pod could be made or not.
\<close>

theorem setupPodNetNs_waits_forever:
  assumes "NsGet k (kern s) = (Done (h, err), w)" and "NsNewNamed k name w = (Done r, w')"
    and "\<And>v. \<exists>e v'. NsSet k h v = (Done (Some e), v')"
  shows "fst (setupPodNetNs k name gw ip bridge s) = Diverged"
proof -
  have "retry (kio (attempt (NsSet k h))) t = None" for t :: "'a net_state"
  proof (rule retry_never)
    show "\<exists>a e u. kio (attempt (NsSet k h)) t = (Done (a, Some e), u)" for t :: "'a net_state"
      using assms(3) [of "kern t"] by (auto simp: attempt_def io_simps)
  qed
  then have "fst (bnd (trySetNs k h) f t) = Diverged" for t and f :: "goerr \<Rightarrow> ('a, pod_netns) nio"
    by (simp add: trySetNs_def kio_attempt until_ok_def io_simps)
  with assms(1,2) show ?thesis
    by (cases r) (simp add: setupPodNetNs_def bnd_kio_Done)
qed

definition sealed_kernel :: "sim kernel" where
  "sealed_kernel = sim_kernel\<lparr>NsGet := (\<lambda>w. (Done (-1, Some (Errorf ''too many open files'' [])), w)),
     NsSet := (\<lambda>h w. if h < 0 then (Done (Some (Errorf ''bad file descriptor'' [])), w) else (Done None, w\<lparr>sim_ns := h\<rparr>))\<rparr>"

theorem setupPodNetNs_waits_forever_witness:
  "fst (setupPodNetNs sealed_kernel ''default-a'' None None None (sim_state (AM4 sample_am4) None)) = Diverged"
  by (rule setupPodNetNs_waits_forever [where h = "-1"]) (simp_all add: sealed_kernel_def)

end
