(* ===== verification/NetFrozen.thy ===== *)
theory NetFrozen
  imports NetManagers
begin

text \<open>
  What the steps of the managers leave alone. \<open>frozen v A V h\<close>: the address manager is \<open>A\<close>, the pod of
  each namespace looks like \<open>V\<close> says through the view \<open>v\<close>, and the slices of \<open>h\<close> are untouched. A view
  reads the base address and the addresses in use (the locale \<open>pod_view\<close>); all else the managers do
  to a pod, its maps, programs and links, freezes it.
\<close>

definition view_of :: "(pod_devices \<Rightarrow> 'x) \<Rightarrow> 'w net_state \<Rightarrow> string \<Rightarrow> 'x" where
  "view_of v s n = v (case map_of (podDevices s) n of None \<Rightarrow> no_pod_devices | Some d \<Rightarrow> d)"

definition frozen :: "(pod_devices \<Rightarrow> 'x) \<Rightarrow> addr_manager \<Rightarrow> (string \<Rightarrow> 'x) \<Rightarrow> ip_bytes list \<Rightarrow> 'w net_state \<Rightarrow> bool" where
  "frozen v A V h s \<longleftrightarrow> PodAddressManager s = Some A \<and> view_of v s = V
     \<and> distinct (map fst (podDevices s)) \<and> (\<exists>x. heap s = h @ x)"

lemma view_of_ext: "ext s t \<Longrightarrow> view_of v t = view_of v s"
  by (simp add: view_of_def ext_def fun_eq_iff)

lemma stable_frozen: "stable (frozen v A V h :: 'w net_state \<Rightarrow> bool)"
  unfolding stable_def
proof (intro allI impI)
  fix s t :: "'w net_state"
  assume s: "frozen v A V h s" and e: "ext s t"
  then obtain x y where "heap s = h @ x" "heap t = heap s @ y" by (auto simp: frozen_def ext_def)
  with s e view_of_ext [OF e, of v] show "frozen v A V h t" by (simp add: frozen_def ext_def)
qed

lemma frozen_neutral: "neutral m \<Longrightarrow> keeps (frozen v A V h) m"
  by (rule keeps_neutral [OF _ stable_frozen])

lemma view_of_put: "view_of v (s\<lparr>podDevices := AList.update n d (podDevices s)\<rparr>) = (view_of v s)(n := v d)"
  by (auto simp: view_of_def update_conv' fun_eq_iff)

lemma view_of_fields [simp]:
  "view_of v (s\<lparr>podNamespaces := x\<rparr>) = view_of v s" "view_of v (s\<lparr>heap := y\<rparr>) = view_of v s"
  "view_of v (s\<lparr>PodAddressManager := a\<rparr>) = view_of v s" "view_of v (s\<lparr>dn_bridge := b\<rparr>) = view_of v s"
  "view_of v (s\<lparr>kern := w\<rparr>) = view_of v s"
  by (simp_all add: view_of_def fun_eq_iff)

lemma view_of_mem:
  "distinct (map fst (podDevices s)) \<Longrightarrow> (n, d) \<in> set (podDevices s) \<Longrightarrow> view_of v s n = v d"
  by (simp add: view_of_def map_of_is_SomeI)

section \<open>Single steps\<close>

lemma frozen_put: "v d = V n \<Longrightarrow> keeps (frozen v A V h) (put_pod n d)"
  by (auto intro!: keepsI simp: io_simps frozen_def view_of_put distinct_update fun_eq_iff)

lemma frozen_put_ns: "keeps (frozen v A V h) (put_ns n x)"
  by (auto intro!: keepsI simp: io_simps frozen_def)

lemma frozen_get:
  assumes "\<And>d. v d = V n \<Longrightarrow> keeps (frozen v A V h) (f d)"
  shows "keeps (frozen v A V h) (bnd (get_pod n) f)"
proof (rule keepsI)
  fix s :: "'b net_state"
  let ?d = "case map_of (podDevices s) n of None \<Rightarrow> no_pod_devices | Some d \<Rightarrow> d"
  assume s: "frozen v A V h s"
  then have "v ?d = V n" by (auto simp: frozen_def view_of_def)
  then have "frozen v A V h (snd (f ?d s))" using assms s by (simp add: keeps_def)
  then show "frozen v A V h (snd (bnd (get_pod n) f s))" by (simp add: io_simps)
qed

lemma frozen_range:
  assumes "\<And>devs. (\<And>n d. (n, d) \<in> set devs \<Longrightarrow> v d = V n) \<Longrightarrow> keeps (frozen v A V h) (f devs)"
  shows "keeps (frozen v A V h) (bnd get_st (\<lambda>s. bnd (range_map k (podDevices s)) f))"
proof (rule keepsI)
  fix s :: "'b net_state"
  assume s: "frozen v A V h s"
  have table: "v d = V n" if "(n, d) \<in> set (podDevices s)" for n d
    using s that view_of_mem [of s n d v] by (simp add: frozen_def)
  have "keeps (frozen v A V h) (f (map (\<lambda>i. podDevices s ! i) (filter (\<lambda>i. i < length (podDevices s)) p)))" for p
    by (intro assms table) auto
  then have "keeps (frozen v A V h) (bnd (range_map k (podDevices s)) f)"
    unfolding range_map_def bnd_assoc bnd_ret by (rule keeps_bnd [OF frozen_neutral [OF neutral_kio]])
  then show "frozen v A V h (snd (bnd get_st (\<lambda>s. bnd (range_map k (podDevices s)) f) s))"
    using s by (simp add: io_simps keeps_def)
qed

lemma frozen_then: "neutral m \<Longrightarrow> (\<And>a. keeps (frozen v A V h) (f a)) \<Longrightarrow> keeps (frozen v A V h) (bnd m f)"
  by (rule keeps_bnd [OF frozen_neutral])

lemma frozen_put_then:
  "v d = V n \<Longrightarrow> keeps (frozen v A V h) m \<Longrightarrow> keeps (frozen v A V h) (bnd (put_pod n d) (\<lambda>_. m))"
  by (rule keeps_bnd [OF frozen_put])

section \<open>Views\<close>

locale pod_view =
  fixes v :: "pod_devices \<Rightarrow> 'x"
  assumes view_cong: "baseAddr d = baseAddr e \<Longrightarrow> addressesUsed d = addressesUsed e \<Longrightarrow> v d = v e"
begin

lemma view_fields [simp]:
  "v (d\<lparr>toSubpodBpfMap := a\<rparr>) = v d" "v (d\<lparr>fromSubpodBpfMap := a\<rparr>) = v d"
  "v (d\<lparr>fromLocalhostBpfMaps := b\<rparr>) = v d" "v (d\<lparr>internalDevices := c\<rparr>) = v d"
  "v (d\<lparr>mapsToKeep := e\<rparr>) = v d" "v (d\<lparr>linksToKeep := g\<rparr>) = v d" "v (d\<lparr>bpfProgLink := l\<rparr>) = v d"
  "v (d\<lparr>bpfToProg := p\<rparr>) = v d" "v (d\<lparr>bpfFromProg := p\<rparr>) = v d"
  by (rule view_cong; simp)+

lemma frozen_updateSubpodRouting: "keeps (frozen v A V h) (updateSubpodRouting k br r)"
  unfolding updateSubpodRouting_def
proof (rule frozen_range, rule keeps_for_all_mem)
  fix devs :: "(string \<times> pod_devices) list" and x
  assume "\<And>n d. (n, d) \<in> set devs \<Longrightarrow> v d = V n" "x \<in> set devs"
  moreover obtain idx dev where "x = (idx, dev)" by (cases x)
  ultimately have "keeps (frozen v A V h) (put_pod idx dev)" by (intro frozen_put) simp
  with \<open>x = _\<close> show "keeps (frozen v A V h) (case x of (idx, dev) \<Rightarrow>
      bnd (deref (podBridge dev)) (\<lambda>db. bnd (deref br) (\<lambda>pb.
       if l_name db \<noteq> l_name pb then
         bnd (make_redirect (l_index pb) (l_hwaddr db) (l_hwaddr pb)) (\<lambda>rroute.
         bnd am_IsIPv4 (\<lambda>v4.
         bnd (route_key v4 r) (\<lambda>key.
         bnd (kio (MapPut k (fromSubpodBpfMap dev) key rroute)) (\<lambda>_.
         put_pod idx dev))))
       else ret ())))"
    by (auto intro!: frozen_then neutral_intros keeps_ret)
qed

lemma frozen_initFromSubpodRouting: "keeps (frozen v A V h) (initFromSubpodRouting k br n)"
  unfolding initFromSubpodRouting_def
  apply (rule frozen_then, rule neutral_intros, rule keeps_case_prod)
  apply (rule frozen_range)
  apply (rule frozen_then, (fastforce intro!: neutral_intros)[1])
  apply (rule frozen_then, rule neutral_intros, rule keeps_case_prod)
  apply (rule frozen_then, rule neutral_intros)+
  apply (rule frozen_get)
  apply (rule frozen_put_then, simp, rule keeps_ret)
  done

lemma frozen_start_redirects: "keeps (frozen v A V h) (start_redirects k n podIp netNsIp podLink contIf nsid)"
  unfolding start_redirects_def
  apply (rule frozen_then, rule neutral_intros, rule keeps_case_prod)
  apply (rule frozen_then, rule neutral_intros)+
  apply (rule frozen_get)
  apply (rule frozen_put_then, simp)
  apply (rule keeps_bnd, rule frozen_initFromSubpodRouting)
  apply (rule keeps_bnd, rule frozen_updateSubpodRouting)
  apply (rule frozen_then, rule neutral_intros, rule keeps_case_prod)
  apply (rule frozen_get)
  apply (rule frozen_put_then, simp)
  apply (rule keeps_bnd, rule frozen_put_ns)
  apply (rule keeps_ret)
  done

lemma frozen_attachLocalhostBpfPrograms:
  "keeps (frozen v A V h) (attachLocalhostBpfPrograms k n lhIp ip i)"
  unfolding attachLocalhostBpfPrograms_def
  apply (rule frozen_then, rule neutral_intros, rule keeps_case_prod)
  apply (rule keeps_if, rule keeps_ret)
  apply (rule frozen_then, rule neutral_intros, (rule keeps_case_prod)+)
  apply (rule keeps_if, rule keeps_ret)
  apply (rule frozen_get)
  apply (rule frozen_then, rule neutral_intros)+
  apply (rule frozen_put_then, simp, rule keeps_ret)
  done

end

end
