(* ===== verification/NetBlocks.thy ===== *)
theory NetBlocks
  imports NetFrozen
begin

text \<open>
  Addresses of different pods. Through the view of their base addresses every step of the managers
  but one freezes the pods. The exception is the start of a pod, which moves from the bases \<open>B\<close> to
  \<open>B\<close> with the fresh block. \<open>own4 am0\<close> is the invariant that follows: the base addresses are
  blocks the address manager has granted, no two pods have the same one, and nothing granted
  in \<open>am0\<close> is ever given back. It is a second instance of the contract of the managers.
\<close>

section \<open>The base addresses\<close>

abbreviation fixed :: "ipv4am \<Rightarrow> (string \<Rightarrow> ip_ref) \<Rightarrow> ip_bytes list \<Rightarrow> 'w net_state \<Rightarrow> bool" where
  "fixed am \<equiv> frozen baseAddr (AM4 am)"

interpretation base: pod_view baseAddr
  by unfold_locales

definition owned :: "ipv4am \<Rightarrow> (string \<Rightarrow> ip_ref) \<Rightarrow> ip_bytes list \<Rightarrow> bool" where
  "owned am B h \<longleftrightarrow> am_inv4 am
     \<and> (\<forall>n. (case B n of None \<Rightarrow> True | Some r \<Rightarrow> r < length h)
         \<and> (ip_bytes_of h (B n) = [] \<or> (\<exists>a. ip_bytes_of h (B n) = be_bytes a \<and> taken4 am a)))
     \<and> (\<forall>n m. n \<noteq> m \<longrightarrow> ip_bytes_of h (B n) \<noteq> [] \<longrightarrow> ip_bytes_of h (B n) \<noteq> ip_bytes_of h (B m))"

definition grown :: "ipv4am \<Rightarrow> ipv4am \<Rightarrow> bool" where
  "grown am am' \<longleftrightarrow> baseSubnetIP am' = baseSubnetIP am \<and> maxSubnetIP am' = maxSubnetIP am
     \<and> (\<forall>a. taken4 am a \<longrightarrow> taken4 am' a)"

definition own4 :: "ipv4am \<Rightarrow> 'w net_state \<Rightarrow> bool" where
  "own4 am0 s \<longleftrightarrow> (\<exists>am B h. owned am B h \<and> grown am0 am \<and> fixed am B h s)"

lemma own4I: "owned am B h \<Longrightarrow> grown am0 am \<Longrightarrow> fixed am B h s \<Longrightarrow> own4 am0 s"
  unfolding own4_def by blast

lemma grown_refl: "grown am am"
  by (simp add: grown_def)

lemma grown_trans: "grown a b \<Longrightarrow> grown b c \<Longrightarrow> grown a c"
  by (simp add: grown_def)

section \<open>Steps that freeze\<close>

lemma frozen_next:
  assumes "owned am B h" "baseAddr d = B n"
  shows "keeps (fixed am B h) (getNextSubPodIP d)"
proof (rule keepsI)
  fix s :: "'a net_state"
  assume s: "fixed am B h s"
  obtain x where x: "heap s = h @ x" using s by (auto simp: frozen_def)
  have am: "PodAddressManager s = Some (AM4 am)" using s by (simp add: frozen_def)
  have "ip_bytes_of (heap s) (baseAddr d) = ip_bytes_of h (B n)"
    unfolding x assms(2) by (rule ip_bytes_of_append) (use assms(1) in \<open>simp add: owned_def\<close>)
  then consider "ip_bytes_of (heap s) (baseAddr d) = []" | a where "ip_bytes_of (heap s) (baseAddr d) = be_bytes a"
    using assms(1) unfolding owned_def by metis
  moreover have app: "fixed am B h (s\<lparr>heap := h @ y\<rparr>)" for y
    using s by (simp add: frozen_def view_of_def fun_eq_iff)
  ultimately show "fixed am B h (snd (getNextSubPodIP d s))"
  proof cases
    case 1
    then show ?thesis using s am x app
      by (auto simp: getNextSubPodIP_def Let_def am_GetMaxIPsPerPod_def pam_def io_simps ip_add_at_panics)
  next
    case 2
    then show ?thesis using s am x app
      by (auto simp: getNextSubPodIP_def Let_def am_GetMaxIPsPerPod_def pam_def io_simps ip2int_def)
  qed
qed

lemma frozen_next_then:
  assumes "owned am B h" "baseAddr d = B n" "\<And>ip err. keeps (fixed am B h) (f ip err)"
  shows "keeps (fixed am B h) (bnd (getNextSubPodIP d) (\<lambda>(ip, err). f ip err))"
  by (rule keeps_bnd [OF frozen_next [OF assms(1,2)]]) (simp add: assms(3) split: prod.split)

lemmas frozen_run = frozen_put_then keeps_bnd [OF base.frozen_attachLocalhostBpfPrograms]
  keeps_bnd [OF frozen_put_ns] frozen_then keeps_if keeps_case_prod keeps_ret neutral_intros

lemma frozen_CreateVMTun: "owned am B h \<Longrightarrow> keeps (fixed am B h) (CreateVMTun k cns pod c)"
  unfolding CreateVMTun_def Let_def
  apply (rule frozen_get, rule frozen_next_then, assumption, assumption)
  apply (rule frozen_run | simp)+
  done

lemma frozen_CreateVMTunPL: "owned am B h \<Longrightarrow> keeps (fixed am B h) (CreateVMTunPL k cns pod c)"
  unfolding CreateVMTunPL_def Let_def
  apply (rule frozen_get, rule frozen_next_then, assumption, assumption)
  apply (rule frozen_run | simp)+
  done

section \<open>Starting a pod\<close>

text \<open>
  What a request gives: a block that nobody has, for a pod of any name, or no address. Until the
  pod is in the table the bases are the old ones, from then on the new ones.
\<close>

definition starting :: "ipv4am \<Rightarrow> string \<Rightarrow> ip_ref \<Rightarrow> 'w net_state \<Rightarrow> bool" where
  "starting am0 n ip s \<longleftrightarrow> (\<exists>am B h. owned am B h \<and> owned am (B(n := ip)) h \<and> grown am0 am \<and> fixed am B h s)"

lemma stable_starting: "stable (starting am0 n ip)"
  using stable_frozen unfolding stable_def starting_def by blast

lemma starting_own4: "starting am0 n ip s \<Longrightarrow> own4 am0 s"
  unfolding starting_def own4_def by blast

lemma starting_step:
  "neutral m \<Longrightarrow> (\<And>a. ensures (starting am0 n ip) (f a) (\<lambda>_. own4 am0) (own4 am0)) \<Longrightarrow>
    ensures (starting am0 n ip) (bnd m f) (\<lambda>_. own4 am0) (own4 am0)"
  using step_neutral [of m "starting am0 n ip" "own4 am0"] stable_starting starting_own4 by blast

lemma starting_put:
  assumes "baseAddr d = ip" "\<And>am B h. owned am B h \<Longrightarrow> B n = ip \<Longrightarrow> keeps (fixed am B h) m"
  shows "ensures (starting am0 n ip) (bnd (put_pod n d) (\<lambda>_. m)) (\<lambda>_. own4 am0) (own4 am0)"
proof (rule ensuresI)
  fix s :: "'a net_state" and r t
  assume s: "starting am0 n ip s" "bnd (put_pod n d) (\<lambda>_. m) s = (r, t)"
  obtain am B h where am: "owned am (B(n := ip)) h" "grown am0 am" "fixed am B h s"
    using s(1) by (auto simp: starting_def)
  let ?s = "s\<lparr>podDevices := AList.update n d (podDevices s)\<rparr>"
  have "fixed am (B(n := ip)) h ?s"
    using am(3) assms(1) by (simp add: frozen_def view_of_put distinct_update)
  moreover have "keeps (fixed am (B(n := ip)) h) m" by (rule assms(2) [OF am(1)]) simp
  moreover have "m ?s = (r, t)" using s(2) by (simp add: io_simps)
  ultimately have "fixed am (B(n := ip)) h t" by (metis keepsD)
  with own4I [OF am(1,2)] show "case r of Done a \<Rightarrow> own4 am0 t | _ \<Rightarrow> own4 am0 t" by (cases r) simp_all
qed

lemma taken4_update: "taken4 (am\<lparr>usedPodAddresses := AList.update a x (usedPodAddresses am)\<rparr>) b \<longleftrightarrow> b = a \<or> taken4 am b"
  by (auto simp: taken4_def update_conv')

lemma request_grown:
  assumes "am_inv4 am" "RequestPodIP ns pod am = (Done (ip, err), am')"
  shows "am_inv4 am' \<and> grown am am' \<and> (ip = [] \<or> (\<exists>a. ip = be_bytes a \<and> \<not> taken4 am a \<and> taken4 am' a))"
  using assms(2) am_inv4_RequestPodIP [OF assms(1), of ns pod]
  by (cases rule: RequestPodIP_cases [OF assms(1), where ns = ns and pod = pod])
    (auto simp: grown_def taken4_update int2ip_def)

text \<open>A table keeps its owners when the manager grows, and a pod may take what was granted last.\<close>

lemma owned_grown:
  assumes "owned am B h" "am_inv4 am'" "grown am am'"
  shows "owned am' B (h @ x)"
proof -
  have "ip_bytes_of (h @ x) (B n) = ip_bytes_of h (B n)" for n
    by (rule ip_bytes_of_append) (use assms(1) in \<open>simp add: owned_def\<close>)
  moreover have "case B n of None \<Rightarrow> True | Some r \<Rightarrow> r < length (h @ x)" for n
  proof -
    have "case B n of None \<Rightarrow> True | Some r \<Rightarrow> r < length h" using assms(1) by (simp add: owned_def)
    then show ?thesis by (auto split: option.splits)
  qed
  ultimately show ?thesis using assms unfolding owned_def grown_def by metis
qed

lemma owned_new:
  assumes "owned am B h" "am_inv4 am'" "grown am am'"
    and "ip = [] \<or> (\<exists>a. ip = be_bytes a \<and> \<not> taken4 am a \<and> taken4 am' a)"
  shows "owned am' (B(n := Some (length h))) (h @ [ip])"
proof -
  have old: "owned am' B (h @ [ip])" by (rule owned_grown [OF assms(1-3)])
  have bytes: "ip_bytes_of (h @ [ip]) (B m) = ip_bytes_of h (B m)" for m
    by (rule ip_bytes_of_append) (use assms(1) in \<open>simp add: owned_def\<close>)
  have new: "ip \<noteq> ip_bytes_of h (B m)" if "ip \<noteq> []" for m
    using assms(1,4) that unfolding owned_def by (metis be_bytes_inj)
  show ?thesis
    using old assms(2,4) new new [symmetric] by (auto simp: owned_def bytes ip_bytes_of_new)
qed

lemma ensures_snd: "ensures P m (\<lambda>_. I) I \<Longrightarrow> P s \<Longrightarrow> I (snd (m s))"
  by (cases "m s", frule (2) ensuresD) (auto split: outcome.splits)

lemma own4_request:
  assumes "\<And>ip err. ensures (starting am0 n ip) (f ip err) (\<lambda>_. own4 am0) (own4 am0)"
  shows "keeps (own4 am0) (bnd (am_RequestPodIP cns pod) (\<lambda>(ip, err). f ip err))"
proof (rule keepsI)
  fix s :: "'a net_state"
  assume "own4 am0 s"
  then obtain am B h where am: "owned am B h" "grown am0 am" "fixed am B h s" by (auto simp: own4_def)
  have inv: "am_inv4 am" using am(1) by (simp add: owned_def)
  obtain ip err am' where ip: "RequestPodIP cns pod am = (Done (ip, err), am')"
    using am4.request_contract [OF inv, of cns pod] by blast
  note grown = request_grown [OF inv ip]
  obtain x where x: "heap s = h @ x" using am(3) by (auto simp: frozen_def)
  let ?s = "s\<lparr>PodAddressManager := Some (AM4 am'), heap := heap s @ [ip]\<rparr>"
  have own: "owned am B (heap s)" unfolding x by (rule owned_grown [OF am(1) inv grown_refl])
  have "starting am0 n (Some (length (heap s))) ?s"
    unfolding starting_def
  proof (intro exI conjI)
    show "owned am' B (heap s @ [ip])" using own grown by (intro owned_grown) auto
    show "owned am' (B(n := Some (length (heap s)))) (heap s @ [ip])" using own grown by (intro owned_new) auto
    show "grown am0 am'" using am(2) grown grown_trans by blast
    show "fixed am' B (heap s @ [ip]) ?s" using am(3) by (simp add: frozen_def view_of_def fun_eq_iff)
  qed
  moreover have "bnd (am_RequestPodIP cns pod) (\<lambda>(ip, err). f ip err) s = f (Some (length (heap s))) err ?s"
    using ip am(3) by (simp add: am_RequestPodIP_def pam_def io_simps am4_io_def frozen_def)
  ultimately show "own4 am0 (snd (bnd (am_RequestPodIP cns pod) (\<lambda>(ip, err). f ip err) s))"
    using ensures_snd [OF assms [of "Some (length (heap s))" err]] by simp
qed

lemma own4_frozen:
  assumes "\<And>am B h. owned am B h \<Longrightarrow> keeps (fixed am B h) m"
  shows "keeps (own4 am0) m"
  using assms by (fastforce simp: keeps_def own4_def)

lemma starting_return: "ensures (starting am0 n ip) (ret a) (\<lambda>_. own4 am0) (own4 am0)"
  by (rule ensures_ret) (rule starting_own4)

lemma starting_frozen:
  assumes "\<And>am B h. owned am B h \<Longrightarrow> keeps (fixed am B h) m"
  shows "ensures (starting am0 n ip) m (\<lambda>_. own4 am0) (own4 am0)"
proof (rule ensures_pre)
  show "ensures (own4 am0) m (\<lambda>_. own4 am0) (own4 am0)"
    unfolding ensures_keeps by (rule own4_frozen [OF assms])
qed (rule starting_own4)

lemma frozen_first:
  assumes "owned am B h" "\<And>ip err. keeps (fixed am B h) (f ip err)"
  shows "keeps (fixed am B h) (bnd (bnd (get_pod n) getNextSubPodIP) (\<lambda>(ip, err). f ip err))"
  unfolding bnd_assoc by (rule frozen_get, rule frozen_next_then [OF assms(1)], assumption, rule assms(2))

lemma own4_InitPodNetwork: "keeps (own4 am0) (InitPodNetwork k cns pod)"
  unfolding InitPodNetwork_def Let_def
  apply (rule own4_request [where n = "GetNetNs cns pod"])
  apply (rule starting_step, rule neutral_intros)+
  apply (rule ensures_case_prod, rule starting_step, rule neutral_intros)
  apply (rule starting_put, simp)
  apply (rule frozen_first, assumption)
  apply (rule base.frozen_start_redirects frozen_get frozen_run | simp)+
  done

lemma own4_InitPodNetworkPL: "keeps (own4 am0) (InitPodNetworkPL k cns pod)"
  unfolding InitPodNetworkPL_def Let_def
  apply (rule own4_request [where n = "GetNetNs cns pod"])
  apply (rule starting_step, rule neutral_intros)+
  apply (rule ensures_case_prod, rule starting_step, rule neutral_intros)
  apply (rule starting_put, simp)
  apply (rule frozen_first, assumption)
  apply (rule base.frozen_start_redirects frozen_get frozen_run | simp)+
  done

lemma own4_InitPodNetworkD: "keeps (own4 am0) (InitPodNetworkD k cns pod)"
  unfolding InitPodNetworkD_def Let_def
  apply (rule own4_request [where n = "[]"])
  apply (rule starting_frozen)
  apply (rule frozen_run | simp)+
  done

lemma own4_CreateVMTunD: "keeps (own4 am0) (CreateVMTunD k cns pod c)"
  unfolding CreateVMTunD_def Let_def
  by (rule own4_request [where n = "[]"], rule starting_frozen, rule frozen_neutral) (auto intro!: neutral_intros)

section \<open>The managers\<close>

lemma stable_own4: "stable (own4 am0)"
  using stable_frozen unfolding stable_def own4_def by blast

lemmas own4_neutral = keeps_neutral [OF _ stable_own4]

lemmas own4_facts = own4_InitPodNetwork own4_InitPodNetworkPL own4_InitPodNetworkD
  own4_frozen [OF frozen_CreateVMTun] own4_frozen [OF frozen_CreateVMTunPL] own4_CreateVMTunD
  own4_neutral [OF neutral_stop(1)] own4_neutral [OF neutral_stop(2)]
  own4_neutral [OF neutral_stop(3)] own4_neutral [OF neutral_stop(4)] fst_GetNetNsPath snd_GetNetNsPath

interpretation mr_own: cni_contract "multi_runtime_manager k" "own4 am0" for k am0
  by unfold_locales (auto simp: manager_defs own4_facts init_paths dest: stop_keeps_tables)

interpretation pl_own: cni_contract "pod_local_manager k" "own4 am0" for k am0
  by unfold_locales (auto simp: manager_defs own4_facts init_paths dest: stop_keeps_tables)

interpretation dm_own: cni_contract "default_manager k" "own4 am0" for k am0
  by unfold_locales (auto simp: manager_defs own4_facts init_paths dest: stop_keeps_tables)

text \<open>Both invariants together are one contract again.\<close>

lemma cni_contract_both:
  assumes "cni_contract mgr I" "\<And>a. cni_contract mgr (J a)"
  shows "cni_contract mgr (\<lambda>s. I s \<and> (\<exists>a. J a s))"
proof -
  have both: "keeps (\<lambda>s. I s \<and> (\<exists>a. J a s)) m" if "keeps I m" "\<And>a. keeps (J a) m" for m :: "('a, 'd) nio"
    using that unfolding keeps_def by blast
  show ?thesis
    using assms(1) assms(2)
    by (auto simp: cni_contract_def intro!: both)
qed

definition net_safe :: "'w net_state \<Rightarrow> bool" where
  "net_safe s \<longleftrightarrow> net_inv4 s \<and> (\<exists>am. own4 am s)"

lemma net_safe_contracts:
  "cni_contract (multi_runtime_manager k) net_safe" "cni_contract (pod_local_manager k) net_safe"
  "cni_contract (default_manager k) net_safe"
  unfolding net_safe_def [abs_def]
  by (rule cni_contract_both, rule mr.cni_contract_axioms pl.cni_contract_axioms dm.cni_contract_axioms,
      rule mr_own.cni_contract_axioms pl_own.cni_contract_axioms dm_own.cni_contract_axioms)+

section \<open>What the invariant says of two pods\<close>

text \<open>The addresses of a pod: its own, if it has one, and those of its workloads.\<close>

definition addresses :: "ip_bytes list \<Rightarrow> pod_devices \<Rightarrow> string set" where
  "addresses h d = (let b = ip_bytes_of h (baseAddr d) in
     if b = [] then {} else insert (ip_string b) (fst ` set (used_of d)))"

lemma pod_addresses:
  assumes "pod_ok4 h d" "x \<in> addresses h d"
  shows "\<exists>i < 8. x = ip_string (be_bytes (be_uint32 (ip_bytes_of h (baseAddr d)) + of_nat i))"
proof -
  let ?b = "ip_bytes_of h (baseAddr d)"
  have len: "length ?b = 4" using assms by (auto simp: pod_ok4_def addresses_def Let_def split: if_splits)
  consider "x = ip_string ?b" | "x \<in> fst ` set (used_of d)"
    using assms(2) by (auto simp: addresses_def Let_def split: if_splits)
  then show ?thesis
  proof cases
    case 1
    obtain p q r t where "?b = [p, q, r, t]" using len by (auto simp: numeral_eq_Suc length_Suc_conv)
    with 1 show ?thesis by (intro exI [of _ 0]) (simp add: be_bytes_uint32)
  next
    case 2
    then obtain al where al: "addressesUsed d = Some al" "x \<in> set (map fst al)"
      by (cases "addressesUsed d") (auto simp: used_of_def)
    then have keys: "map fst al = map (\<lambda>i. ip_string (be_bytes (be_uint32 ?b + of_nat i))) [1..<Suc (length al)]"
      and short: "length al < 8"
      using assms(1) by (simp_all add: pod_ok4_def)
    have "x \<in> (\<lambda>i. ip_string (be_bytes (be_uint32 ?b + of_nat i))) ` {1..<Suc (length al)}"
      using al(2) unfolding keys by (metis set_map set_upt)
    then obtain i where "x = ip_string (be_bytes (be_uint32 ?b + of_nat i))" "i < Suc (length al)" by auto
    with short show ?thesis by (intro exI [of _ i]) simp
  qed
qed

lemma blocks_apart:
  assumes "am_inv4 am" "taken4 am a" "taken4 am b" "i < 8" "j < 8" "a + of_nat i = b + of_nat j"
  shows "a = b"
proof -
  have block: "\<exists>k. unat x = unat (baseSubnetIP am) + 8 + 8 * k \<and> unat x + 8 < 2 ^ 32" if "taken4 am x" for x
    using assms(1) that unfolding am_inv4_def taken4_iff by (meson add_less_mono1 order_less_trans)
  obtain k l where k: "unat a = unat (baseSubnetIP am) + 8 + 8 * k" "unat b = unat (baseSubnetIP am) + 8 + 8 * l"
    and less: "unat a + 8 < 2 ^ 32" "unat b + 8 < 2 ^ 32"
    using block [OF assms(2)] block [OF assms(3)] by blast
  have "unat (x + of_nat n) = unat x + n" if "unat x + 8 < 2 ^ 32" "n < 8" for x :: u32 and n
    using that by (simp add: unat_word_ariths unat_of_nat)
  with less assms(4-6) have "unat a + i = unat b + j" by metis
  with k assms(4,5) have "unat a = unat b" by presburger
  then show ?thesis by (rule word_unat_eq_iff [THEN iffD2])
qed

lemma addresses_disjoint:
  assumes "net_safe s" "(n, d) \<in> set (podDevices s)" "(m, e) \<in> set (podDevices s)" "n \<noteq> m"
  shows "addresses (heap s) d \<inter> addresses (heap s) e = {}"
proof (rule ccontr)
  assume "\<not> ?thesis"
  then obtain x where x: "x \<in> addresses (heap s) d" "x \<in> addresses (heap s) e" by blast
  have ok: "pod_ok4 (heap s) d" "pod_ok4 (heap s) e"
    using assms(1-3) by (force simp: net_safe_def net_inv4_def)+
  obtain am B h where am: "owned am B h" "fixed am B h s" using assms(1) by (auto simp: net_safe_def own4_def)
  then obtain y where y: "heap s = h @ y" by (auto simp: frozen_def)
  have base: "baseAddr d = B n" "baseAddr e = B m"
    using am(2) assms(2,3) by (auto simp: frozen_def dest: view_of_mem [of _ _ _ baseAddr])
  have bytes: "ip_bytes_of (heap s) (B p) = ip_bytes_of h (B p)" for p
    unfolding y by (rule ip_bytes_of_append) (use am(1) in \<open>simp add: owned_def\<close>)
  have "ip_bytes_of h (B n) \<noteq> []" "ip_bytes_of h (B m) \<noteq> []"
    using x by (auto simp: addresses_def base bytes Let_def)
  then obtain a b where ab: "ip_bytes_of h (B n) = be_bytes a" "taken4 am a" "ip_bytes_of h (B m) = be_bytes b" "taken4 am b"
    using am(1) unfolding owned_def by metis
  obtain i j where "i < 8" "j < 8" "x = ip_string (be_bytes (a + of_nat i))" "x = ip_string (be_bytes (b + of_nat j))"
    using pod_addresses [OF ok(1) x(1)] pod_addresses [OF ok(2) x(2)] by (auto simp: base bytes ab)
  then have "a = b" using am(1) ab blocks_apart [of am a b i j] by (auto simp: owned_def ip_string_inj4)
  with ab assms(4) am(1) \<open>ip_bytes_of h (B n) \<noteq> []\<close> show False unfolding owned_def by metis
qed

lemma net_safe_start:
  assumes "PodAddressManager s = Some (AM4 am)" "am_inv4 am" "podDevices s = []"
  shows "net_safe s"
proof -
  have "owned am (\<lambda>_. None) (heap s)" "fixed am (\<lambda>_. None) (heap s) s"
    using assms by (simp_all add: owned_def frozen_def view_of_def no_pod_devices_def ip_bytes_of_def fun_eq_iff)
  then show ?thesis using assms grown_refl own4I by (fastforce simp: net_safe_def net_inv4_def)
qed

lemma stable_net_safe: "stable net_safe"
  using stable_net_inv4 stable_own4 unfolding net_safe_def stable_def by blast

lemmas keeps_neutral_safe = keeps_neutral [OF _ stable_net_safe]

text \<open>Changes of the other fields, and an emptied table of pods.\<close>

lemma own4_fields [simp]:
  "own4 am (s\<lparr>podNamespaces := x\<rparr>) = own4 am s" "own4 am (s\<lparr>dn_bridge := b\<rparr>) = own4 am s"
  "own4 am (s\<lparr>kern := w\<rparr>) = own4 am s"
  by (simp_all add: own4_def frozen_def view_of_def [abs_def])

lemma net_safe_fields [simp]:
  "net_safe (s\<lparr>podNamespaces := x\<rparr>) = net_safe s" "net_safe (s\<lparr>dn_bridge := b\<rparr>) = net_safe s"
  "net_safe (s\<lparr>kern := w\<rparr>) = net_safe s"
  by (simp_all add: net_safe_def net_inv4_def)

lemma net_safe_clear: "net_safe s \<Longrightarrow> net_safe (s\<lparr>podNamespaces := x, podDevices := []\<rparr>)"
  using net_safe_start [of "s\<lparr>podNamespaces := x, podDevices := []\<rparr>"]
  by (auto simp: net_safe_def net_inv4_def)

end
