(* ===== verification/BlockProps.thy ===== *)
theory BlockProps
  imports NetBlocks SimKernel AddressProps
begin

text \<open>
  Properties of the blocks of pods: pods on a node never share an address, and a subnet that has
  once run full stays full, whatever pods are stopped.
\<close>

section \<open>Two pods on the concrete kernel\<close>

lemma sim_second_grant:
  assumes "one_pod sample_am4 d s"
  shows "am_RequestPodIP ''default'' ''b'' s = (Done (Some 2, None),
    s\<lparr>heap := [be_bytes 0x0A010208, be_bytes 0x0A010209, be_bytes 0x0A010210],
      PodAddressManager := Some (AM4 (sample_am4\<lparr>usedPodAddresses := [(0x0A010208, ''default_a''), (0x0A010210, ''default_b'')]\<rparr>))\<rparr>)"
  using assms by (simp add: one_pod_def sample_am4_def am_RequestPodIP_def RequestPodIP_def io_simps probe_hit probe_miss
      MaxIPv4IPsPerPod_def int2ip_def pod_name_def am4_io_def pam_def)

lemma sim_second_pod:
  assumes "one_pod sample_am4 d s"
  shows "\<exists>t e. InitPodNetwork sim_kernel ''default'' ''b'' s = (Done None, t)
    \<and> podDevices t = [(''default-a'', d), (''default-b'', e)]
    \<and> addressesUsed e = Some [(ip_string (be_bytes 0x0A010211), Some (sim_link ''vethaaaa''))]"
  apply (unfold InitPodNetwork_def Let_def, subst bnd_apply, simp add: sim_second_grant [OF assms])
  apply (insert assms)
  apply (simp add: one_pod_def Let_def sample_am4_def sim_simps ip_bytes_of_def getNextSubPodIP_def GetMaxIPsPerPod_def ip2int_def
   sim_setupPodNetNs ip_string_4 map_assign_def GetNetNs_def no_pod_devices_def ip_new_def)
  apply (simp add: start_redirects_def io_simps sim_load_tc makeSplitRouteMapObject_def sim_simps sim_link_def to_array_def ip2int_def
    ip_bytes_of_def int2ip_def)
  apply (simp add: initFromSubpodRouting_def io_simps sim_load_tc range_map_def sim_getPublicIface make_redirect_def
    to_array_def sim_simps)
  apply (simp add: updateSubpodRouting_def io_simps range_map_def setupSubpodTC_def load_defs load_objects_def load_spec_def sim_simps
    o_map_def BpfObjectsTailCallIpv4TC_def Let_def ip2int_def ip_bytes_of_def)
  apply (simp add: ip_string_4)
  done

lemma reach_init: "InitPodNetwork k cns pod t = (r, u) \<Longrightarrow> cni_reach (multi_runtime_manager k) s t \<Longrightarrow>
    cni_reach (multi_runtime_manager k) s u"
  using cni_step.init_pod [of "multi_runtime_manager k" t cns pod] cni_reach.reach_step
  by (fastforce simp: multi_runtime_manager_def)

section \<open>No shared addresses\<close>

text \<open>
  C3. Pods of an IPv4 node never share an address: from a manager in order and an empty table of
  pods, through any starts and stops of pods and any VMs, whatever the kernel answers and however
  the calls end, the addresses of two different pods - their own and those of their workloads -
  are all different.
\<close>

theorem multi_runtime_pods_disjoint:
  assumes "PodAddressManager s = Some (AM4 am)" and "am_inv4 am" and "podDevices s = []"
    and "cni_reach (multi_runtime_manager k) s t"
    and "(n, d) \<in> set (podDevices t)" and "(m, e) \<in> set (podDevices t)" and "n \<noteq> m"
  shows "addresses (heap t) d \<inter> addresses (heap t) e = {}"
  using cni_contract.reach_keeps [OF net_safe_contracts(1) assms(4) net_safe_start [OF assms(1-3)]]
  by (rule addresses_disjoint) (fact assms(5-7))+

theorem multi_runtime_pods_disjoint_witness:
  "\<exists>t d e. cni_reach (multi_runtime_manager sim_kernel) (sim_state (AM4 sample_am4) None) t
    \<and> podDevices t = [(''default-a'', d), (''default-b'', e)]
    \<and> used_of d \<noteq> [] \<and> used_of e \<noteq> [] \<and> addresses (heap t) d \<inter> addresses (heap t) e = {}"
proof -
  obtain s d where s: "InitPodNetwork sim_kernel ''default'' ''a'' (sim_state (AM4 sample_am4) None) = (Done None, s)"
    "one_pod sample_am4 d s"
    using sim_first_pod [OF sample_am4_free(1-3)] by blast
  obtain t e where t: "InitPodNetwork sim_kernel ''default'' ''b'' s = (Done None, t)"
    "podDevices t = [(''default-a'', d), (''default-b'', e)]"
    "addressesUsed e = Some [(ip_string (be_bytes 0x0A010211), Some (sim_link ''vethaaaa''))]"
    using sim_second_pod [OF s(2)] by blast
  have reach: "cni_reach (multi_runtime_manager sim_kernel) (sim_state (AM4 sample_am4) None) t"
    by (rule reach_init [OF t(1) reach_init [OF s(1) cni_reach.reach_refl]])
  have "used_of d \<noteq> []" "used_of e \<noteq> []" using s(2) t(3) by (simp_all add: one_pod_def used_of_def)
  with multi_runtime_pods_disjoint [OF _ am_inv4_sample _ reach, of "''default-a''" d "''default-b''" e] reach t(2)
  show ?thesis by (simp add: sim_state_def) blast
qed

section \<open>A full subnet\<close>

text \<open>Without an address a pod cannot start: it asks for the byte of a nil address.\<close>

definition no_address :: "ip_ref \<Rightarrow> 'w net_state \<Rightarrow> bool" where
  "no_address ip s \<longleftrightarrow> (\<exists>am. PodAddressManager s = Some (AM4 am) \<and> subIPsPerPod am = 8)
     \<and> (case ip of None \<Rightarrow> True | Some r \<Rightarrow> r < length (heap s)) \<and> ip_bytes_of (heap s) ip = []"

lemma stable_no_address: "stable (no_address ip)"
  unfolding no_address_def stable_def ext_def
  by (auto simp: ip_bytes_of_append split: option.splits)

lemma no_address_step:
  "neutral m \<Longrightarrow> (\<And>a. ensures (no_address ip) (f a) (\<lambda>_ _. False) (\<lambda>_. True)) \<Longrightarrow>
    ensures (no_address ip) (bnd m f) (\<lambda>_ _. False) (\<lambda>_. True)"
  using step_neutral [of m "no_address ip" "\<lambda>_. True"] stable_no_address by blast

lemma no_address_panics:
  assumes "baseAddr d = ip" "addressesUsed d = Some []"
  shows "ensures (no_address ip) (bnd (put_pod n d) (\<lambda>_. bnd (bnd (get_pod n) getNextSubPodIP) f))
    (\<lambda>_ _. False) (\<lambda>_. True)"
  using assms
  by (auto simp: ensures_def no_address_def io_simps update_conv' getNextSubPodIP_def Let_def am_GetMaxIPsPerPod_def
      GetMaxIPsPerPod_def pam_def ip_add_at_panics)

lemma no_address_start:
  assumes "PodAddressManager s = Some (AM4 am)" "am_inv4 am" "\<And>k. k < capacity4 am \<Longrightarrow> taken4 am (block4 am k)"
  shows "\<forall>x. fst (InitPodNetwork k cns pod s) \<noteq> Done x"
proof -
  have full: "RequestPodIP cns pod am = (Done ([], Some (Errorf ''Out of IP addresses'' [])), am)"
    using assms(3) less_capacity4 [OF assms(2)]
    by (cases rule: RequestPodIP_cases [OF assms(2), where ns = cns and pod = pod]) auto
  have "ensures (\<lambda>t. t = s) (InitPodNetwork k cns pod) (\<lambda>_ _. False) (\<lambda>_. True)"
    unfolding InitPodNetwork_def Let_def
    apply (rule ensures_bnd [where R = "\<lambda>(ip, _). no_address ip"])
    subgoal using assms(1,2) full by (auto simp: ensures_def am_RequestPodIP_def pam_def io_simps am4_io_def no_address_def
        ip_bytes_of_new am_inv4_def)
    subgoal for a
      apply (cases a, simp)
      apply (rule no_address_step, rule neutral_intros)+
      apply (rule ensures_case_prod, rule no_address_step, rule neutral_intros)
      apply (rule no_address_panics; simp)
      done
    done
  then show ?thesis by (cases "InitPodNetwork k cns pod s") (auto simp: ensures_def split: outcome.splits)
qed

lemma own4_at:
  assumes "own4 am0 s" "PodAddressManager s = Some (AM4 am)"
  shows "own4 am s \<and> am_inv4 am \<and> grown am0 am"
proof -
  obtain am' B h where own: "owned am' B h" "grown am0 am'" "fixed am' B h s" using assms(1) by (auto simp: own4_def)
  then have "am' = am" using assms(2) by (simp add: frozen_def)
  with own own4I [OF own(1) grown_refl own(3)] show ?thesis by (simp add: owned_def)
qed

text \<open>
  C19. No manager operation gives an address back. Once all blocks of the subnet have been granted,
  no pod can be started any more, on this kernel or any other and whatever pods have been stopped
  since: the call never returns, with an error or without; it dereferences a nil link or reads a
  byte of a nil address.
\<close>

theorem full_subnet_stays_full:
  assumes "PodAddressManager s = Some (AM4 am)" and "am_inv4 am" and "podDevices s = []"
    and "cni_reach (multi_runtime_manager k) s t" and "PodAddressManager t = Some (AM4 full)"
    and "block4 full ` {..<capacity4 full} \<subseteq> dom (map_of (usedPodAddresses full))"
    and "cni_reach (multi_runtime_manager k) t u"
  shows "fst (InitPodNetwork k cns pod u) \<noteq> Done x"
proof -
  obtain a where "own4 a s" using net_safe_start [OF assms(1-3)] by (auto simp: net_safe_def)
  then have "own4 full t" using own4_at [OF _ assms(5)] mr_own.reach_keeps [OF assms(4)] by blast
  then have "own4 full u" by (rule mr_own.reach_keeps [OF assms(7)])
  then obtain now where now: "PodAddressManager u = Some (AM4 now)" by (auto simp: own4_def frozen_def)
  then have "am_inv4 now" "grown full now" using own4_at [OF \<open>own4 full u\<close>] by simp_all
  moreover have "taken4 full (block4 full j)" if "j < capacity4 full" for j
    using assms(6) that by (force simp: taken4_def)
  ultimately have "taken4 now (block4 now j)" if "j < capacity4 now" for j
    using that by (simp add: grown_def capacity4_def block4_def)
  then show ?thesis using no_address_start [OF now \<open>am_inv4 now\<close>] by blast
qed

text \<open>A subnet of one block: after the only pod was stopped, no other can start.\<close>

definition tiny_am4 :: ipv4am where
  "tiny_am4 = sample_am4\<lparr>maxSubnetIP := 0x0A010210\<rparr>"

lemma tiny_simps [simp]:
  "usedPodAddresses tiny_am4 = []" "baseSubnetIP tiny_am4 = 0x0A010200" "maxSubnetIP tiny_am4 = 0x0A010210"
  "subIPsPerPod tiny_am4 = 8"
  by (simp_all add: tiny_am4_def sample_am4_def)

theorem full_subnet_stays_full_witness:
  "\<exists>t u. InitPodNetwork sim_kernel ''default'' ''a'' (sim_state (AM4 tiny_am4) None) = (Done None, t)
    \<and> StopPodNetwork sim_kernel ''default'' ''a'' t = (Done None, u)
    \<and> fst (InitPodNetwork sim_kernel ''default'' ''b'' u) \<noteq> Done None"
proof -
  obtain t d where t: "InitPodNetwork sim_kernel ''default'' ''a'' (sim_state (AM4 tiny_am4) None) = (Done None, t)"
    "one_pod tiny_am4 d t"
    using sim_first_pod [of tiny_am4] by auto
  have stop: "StopPodNetwork sim_kernel ''default'' ''a'' t = (Done None, t)"
    by (simp add: StopPodNetwork_def Let_def io_simps)
  then have "cni_step (multi_runtime_manager sim_kernel) t t"
    using cni_step.stop_pod [of "multi_runtime_manager sim_kernel" t "''default''" "''a''"]
    by (simp add: multi_runtime_manager_def)
  then have stopped: "cni_reach (multi_runtime_manager sim_kernel) t t"
    by (rule cni_reach.reach_step [OF cni_reach.reach_refl])
  have reach: "cni_reach (multi_runtime_manager sim_kernel) (sim_state (AM4 tiny_am4) None) t"
    by (rule reach_init [OF t(1) cni_reach.reach_refl])
  have "am_inv4 tiny_am4" by (simp add: am_inv4_def)
  then have "fst (InitPodNetwork sim_kernel ''default'' ''b'' t) \<noteq> Done None"
    using full_subnet_stays_full [OF _ _ _ reach _ _ stopped, of tiny_am4 _ "''default''" "''b''" None] t(2)
    by (simp add: one_pod_def sim_state_def capacity4_def block4_def MaxIPv4IPsPerPod_def lessThan_Suc)
  with t(1) stop show ?thesis by blast
qed

end
