(* ===== verification/NetBlocks6.thy ===== *)
theory NetBlocks6
  imports NetFrozen AddressProps
begin

text \<open>
  The addresses of IPv6 pods. A request for the next address overwrites the base address of the pod, so
  the offsets add up: the i-th workload is i(i+1)/2 after the pod's first address and soon outside its
  block of sixteen. As long as no start of a pod and no VM fails, that does no harm: the first
  sixteen triangular numbers are all different modulo sixteen, so that addresses of different blocks
  never meet either. \<open>inv6\<close> is the invariant of the tables that says so; a failed creation breaks it.
\<close>

section \<open>Triangular offsets\<close>

definition tri :: "nat \<Rightarrow> nat" where
  "tri n = n * (n + 1) div 2"

lemma tri_Suc: "tri (Suc n) = tri n + Suc n"
proof -
  have "Suc n * (Suc n + 1) = n * (n + 1) + 2 * Suc n" by simp
  then show ?thesis by (simp only: tri_def div_mult_self2)
qed

lemma tri_mod16: "\<forall>i \<in> set [0..<16]. \<forall>j \<in> set [0..<16]. tri i mod 16 = tri j mod 16 \<longrightarrow> i = j"
  by code_simp

lemma tri_inj16: "i < 16 \<Longrightarrow> j < 16 \<Longrightarrow> tri i mod 16 = tri j mod 16 \<Longrightarrow> i = j"
  using tri_mod16 by (metis atLeastLessThan_iff set_upt le0)

definition shift :: "ip_bytes \<Rightarrow> nat \<Rightarrow> ip_bytes" where
  "shift o6 k = o6[15 := o6 ! 15 + of_nat k]"

lemma length_shift [simp]: "length (shift o6 k) = length o6"
  by (simp add: shift_def)

lemma shift_0 [simp]: "shift o6 0 = o6"
  by (simp add: shift_def)

lemma shift_shift: "length o6 = 16 \<Longrightarrow> (shift o6 j)[15 := shift o6 j ! 15 + of_nat k] = shift o6 (j + k)"
  by (simp add: shift_def add.assoc)

text \<open>The first address of the \<open>j\<close>-th block of a subnet with the prefix \<open>b\<close>.\<close>

definition first6 :: "byte list \<Rightarrow> nat \<Rightarrow> ip_bytes" where
  "first6 b j = b @ group_bytes (32 + 16 * j)"

lemma base_prefix6_length: "base_prefix6 base = Some b \<Longrightarrow> length b = 14"
proof -
  assume "base_prefix6 base = Some b"
  then obtain gs where gs: "parse_all parse_hextet (split_on CHR '':'' base) = Some gs" "b = concat gs"
    "length (split_on CHR '':'' base) = 7"
    by (auto simp: base_prefix6_def parse_groups_def split: if_splits)
  have "length (concat gs) = 2 * length ps" if "parse_all parse_hextet ps = Some gs" for ps gs
    using that by (induction ps arbitrary: gs) (auto simp: parse_hextet_def split: option.splits if_splits)
  from this [OF gs(1)] gs(2,3) show ?thesis by simp
qed

lemma first6_length: "length b = 14 \<Longrightarrow> length (first6 b j) = 16"
  by (simp add: first6_def group_bytes_def)

lemma byte_of_nat: "(of_nat x :: byte) = of_nat y \<longleftrightarrow> x mod 256 = y mod 256"
  by (simp add: word_of_nat_eq_iff take_bit_eq_mod)

lemma shift_first6_inj:
  assumes "length b = 14" "shift (first6 b j) (tri i) = shift (first6 b l) (tri m)" "i < 16" "m < 16"
    "32 + 16 * j < 65536" "32 + 16 * l < 65536"
  shows "i = m \<and> j = l"
proof -
  let ?g = "\<lambda>j. (32 + 16 * j) div 256" and ?r = "\<lambda>j. (32 + 16 * j) mod 256"
  have nth: "first6 b j ! 15 = of_nat (?r j)" "first6 b j ! 14 = of_nat (?g j)" for j
    using assms(1) by (simp_all add: first6_def group_bytes_def nth_append)
  have last: "(of_nat (?r j + tri i) :: byte) = of_nat (?r l + tri m)"
    using arg_cong [OF assms(2), of "\<lambda>x. x ! 15"] assms(1) by (simp add: shift_def first6_length nth)
  then have low: "(?r j + tri i) mod 256 = (?r l + tri m) mod 256" by (simp only: byte_of_nat)
  have "(of_nat (?g j) :: byte) = of_nat (?g l)"
    using arg_cong [OF assms(2), of "\<lambda>x. x ! 14"] assms(1) by (simp add: shift_def nth)
  then have "?g j mod 256 = ?g l mod 256" by (simp only: byte_of_nat)
  moreover have "?g j < 256" "?g l < 256" using assms(5,6) by linarith+
  ultimately have high: "?g j = ?g l" by (simp only: mod_less)
  have "(?r j + tri i) mod 16 = (?r l + tri m) mod 16"
    using low mod_mod_cancel [of 16 256 "?r j + tri i"] mod_mod_cancel [of 16 256 "?r l + tri m"] by simp
  moreover have "((32 + 16 * j) mod 256 + n) mod 16 = n mod 16" for j n :: nat
  proof -
    have "(32 + 16 * j) mod 256 mod 16 = (16 * (2 + j)) mod (16 :: nat)"
      by (subst mod_mod_cancel) simp_all
    then show ?thesis by (subst mod_add_left_eq [symmetric]) simp
  qed
  ultimately have "tri i mod 16 = tri m mod 16" by metis
  then have im: "i = m" using tri_inj16 assms(3,4) by blast
  then have "(of_nat (?r j) :: byte) = of_nat (?r l)" using last by (simp only: of_nat_add add_right_cancel)
  then have "?r j = ?r l" by (simp only: byte_of_nat mod_mod_trivial)
  then have "32 + 16 * j = 32 + 16 * l" using high by (metis div_mult_mod_eq)
  with im show ?thesis by simp
qed

section \<open>The invariant\<close>

text \<open>
  What a pod looks like: the slice of its base address and the texts of its workloads' addresses. A pod
  holds block \<open>j\<close>, or none when the last block gave it a nil address.
\<close>

definition look6 :: "pod_devices \<Rightarrow> ip_ref \<times> string list" where
  "look6 d = (baseAddr d, map fst (used_of d))"

interpretation look6: pod_view look6
  by unfold_locales (simp add: look6_def used_of_def)

abbreviation fixed6 :: "ipv6am \<Rightarrow> (string \<Rightarrow> ip_ref \<times> string list) \<Rightarrow> ip_bytes list \<Rightarrow> 'w net_state \<Rightarrow> bool" where
  "fixed6 am \<equiv> frozen look6 (AM6 am)"

definition texts6 :: "ip_bytes \<Rightarrow> nat \<Rightarrow> string list" where
  "texts6 o6 k = map (\<lambda>i. ip_string (shift o6 (tri i))) [1..<Suc k]"

lemma texts6_Suc: "texts6 o6 (Suc k) = texts6 o6 k @ [ip_string (shift o6 (tri (Suc k)))]"
  by (simp add: texts6_def)

lemma length_texts6 [simp]: "length (texts6 o6 k) = k"
  by (simp add: texts6_def)

fun pod6 :: "byte list \<Rightarrow> ip_ref \<times> string list \<Rightarrow> ip_bytes list \<Rightarrow> nat option \<Rightarrow> bool" where
  "pod6 b (None, keys) h f \<longleftrightarrow> f = None \<and> keys = []"
| "pod6 b (Some r, keys) h None \<longleftrightarrow> r < length h \<and> h ! r = [] \<and> keys = []"
| "pod6 b (Some r, keys) h (Some j) \<longleftrightarrow> r < length h \<and> length keys \<le> 15
     \<and> keys = texts6 (first6 b j) (length keys) \<and> h ! r = shift (first6 b j) (tri (length keys))"

definition owned6 :: "byte list \<Rightarrow> ipv6am \<Rightarrow> (string \<Rightarrow> ip_ref \<times> string list) \<Rightarrow> ip_bytes list \<Rightarrow> (string \<Rightarrow> nat option) \<Rightarrow> bool" where
  "owned6 b am V h F \<longleftrightarrow> am_inv6 am \<and> base_prefix6 (baseSubnetIP6 am) = Some b
     \<and> (\<forall>n j. F n = Some j \<longrightarrow> 32 + 16 * j < 65536 \<and> taken6 am (16 + 16 * j))
     \<and> (\<forall>n m j. F n = Some j \<longrightarrow> F m = Some j \<longrightarrow> n = m)
     \<and> (\<forall>n m r. fst (V n) = Some r \<longrightarrow> fst (V m) = Some r \<longrightarrow> n = m)
     \<and> (\<forall>n. pod6 b (V n) h (F n))"

definition inv6 :: "byte list \<Rightarrow> 'w net_state \<Rightarrow> bool" where
  "inv6 b s \<longleftrightarrow> (\<exists>am V h F. owned6 b am V h F \<and> fixed6 am V h s)"

lemma owned6_pod: "owned6 b am V h F \<Longrightarrow> V n = p \<Longrightarrow> F n = f \<Longrightarrow> pod6 b p h f"
  by (auto simp: owned6_def)

lemma inv6I: "owned6 b am V h F \<Longrightarrow> fixed6 am V h s \<Longrightarrow> inv6 b s"
  unfolding inv6_def by blast

lemma pod6_heap:
  assumes "pod6 b p h f" "length h \<le> length h'" "\<And>r. fst p = Some r \<Longrightarrow> r < length h \<Longrightarrow> h' ! r = h ! r"
  shows "pod6 b p h' f"
  using assms by (cases "(b, p, h, f)" rule: pod6.cases) auto

lemma pod6_append: "pod6 b p h f \<Longrightarrow> pod6 b p (h @ x) f"
  by (erule pod6_heap) (simp_all add: nth_append)

lemma pod6_holds:
  assumes "pod6 b p h f" "fst p = Some r" "h ! r \<noteq> []"
  obtains j where "f = Some j" "p = (Some r, snd p)" "r < length h" "length (snd p) \<le> 15"
    "snd p = texts6 (first6 b j) (length (snd p))" "h ! r = shift (first6 b j) (tri (length (snd p)))"
  using assms by (cases "(b, p, h, f)" rule: pod6.cases) auto

section \<open>The next address\<close>

lemma next6:
  assumes own: "owned6 b am V h F" and d: "look6 d = V n"
    and err: "\<And>ip e. ensures (fixed6 am V h) (f ip (Some e)) Q (\<lambda>_. True)"
    and new: "\<And>r j keys. V n = (Some r, keys) \<Longrightarrow> F n = Some j \<Longrightarrow> length keys < 15 \<Longrightarrow>
      ensures (fixed6 am V (h[r := shift (first6 b j) (tri (Suc (length keys)))])) (f (Some r) None) Q (\<lambda>_. True)"
  shows "ensures (fixed6 am V h) (bnd (getNextSubPodIP d) (\<lambda>(ip, err). f ip err)) Q (\<lambda>_. True)"
proof (rule ensuresI)
  fix s :: "'a net_state" and r t
  assume s: "fixed6 am V h s" and run: "bnd (getNextSubPodIP d) (\<lambda>(ip, err). f ip err) s = (r, t)"
  have mx: "am_GetMaxIPsPerPod s = (Done 16, s)"
    using s own by (auto simp: frozen_def owned6_def am_inv6_def am_GetMaxIPsPerPod_def GetMaxIPsPerPod6_def pam_def io_simps)
  obtain x where x: "heap s = h @ x" using s by (auto simp: frozen_def)
  obtain keys where V: "V n = (baseAddr d, keys)" "keys = map fst (used_of d)" using d by (auto simp: look6_def)
  note pod = owned6_pod [OF own V(1) refl]
  have len: "length (used_of d) = length keys" by (simp add: V(2))
  show "case r of Done a \<Rightarrow> Q a t | _ \<Rightarrow> True"
  proof (cases "length keys = 15")
    case True
    have same: "fixed6 am V h (s\<lparr>heap := heap s @ [[]]\<rparr>)" using s by (auto simp: frozen_def)
    have "f (Some (length (heap s))) (Some (Errorf ''No IP addresses left for pod starting with %s''
        [ip_string (ip_bytes_of (heap s) (baseAddr d))])) (s\<lparr>heap := heap s @ [[]]\<rparr>) = (r, t)"
      using run mx True len by (simp add: getNextSubPodIP_def used_of_def [symmetric] Let_def io_simps)
    then show ?thesis using ensuresD [OF err same] by blast
  next
    case short: False
    show ?thesis
    proof (cases "ip_bytes_of (heap s) (baseAddr d) = []")
      case True
      then have "r = Panic ''index out of range''"
        using run mx short len by (simp add: getNextSubPodIP_def used_of_def [symmetric] Let_def io_simps ip_add_at_panics)
      then show ?thesis by simp
    next
      case False
      then obtain p where p: "baseAddr d = Some p" "h ! p \<noteq> []" "p < length h"
        using pod x by (cases "baseAddr d"; cases "F n") (auto simp: ip_bytes_of_def nth_append split: if_splits)
      from pod6_holds [OF pod, of p] p obtain j where
        j: "F n = Some j" "length keys \<le> 15" "h ! p = shift (first6 b j) (tri (length keys))" by auto
      have "length (first6 b j) = 16" using own base_prefix6_length by (intro first6_length) (auto simp: owned6_def)
      then have bytes: "length (h ! p) = 16"
        and next_addr: "(h ! p)[15 := h ! p ! 15 + of_nat (Suc (length keys))] = shift (first6 b j) (tri (Suc (length keys)))"
        using shift_shift [of "first6 b j" "tri (length keys)" "Suc (length keys)"] by (simp_all add: j(3) tri_Suc)
      let ?s = "s\<lparr>heap := (h[p := shift (first6 b j) (tri (Suc (length keys)))]) @ x\<rparr>"
      have "f (Some p) None ?s = (r, t)"
        using run mx short len p bytes next_addr x
        by (simp add: getNextSubPodIP_def used_of_def [symmetric] Let_def io_simps ip_bytes_of_def nth_append ip_add_at_def
            list_update_append)
      moreover have "fixed6 am V (h[p := shift (first6 b j) (tri (Suc (length keys)))]) ?s" using s by (simp add: frozen_def)
      ultimately show ?thesis using ensuresD [OF new] V(1) p(1) j short by force
    qed
  qed
qed

section \<open>Recording it\<close>

lemma owned6_claimed:
  assumes own: "owned6 b am V h F" and V: "V n = (Some r, keys)" "F n = Some j" "length keys < 15"
  shows "owned6 b am (V(n := (Some r, keys @ [ip_string (shift (first6 b j) (tri (Suc (length keys))))])))
    (h[r := shift (first6 b j) (tri (Suc (length keys)))]) F"
proof -
  let ?x = "shift (first6 b j) (tri (Suc (length keys)))"
  note pods = owned6_pod [OF own refl refl]
  have n: "pod6 b (Some r, keys) h (Some j)" using owned6_pod [OF own V(1,2)] .
  have other: "pod6 b (V m) (h[r := ?x]) (F m)" if "m \<noteq> n" for m
  proof (rule pod6_heap [OF pods])
    fix q assume "fst (V m) = Some q"
    moreover have "fst (V n) = Some r" using V(1) by simp
    ultimately have "q \<noteq> r" using own that unfolding owned6_def by metis
    then show "h[r := ?x] ! q = h ! q" by simp
  qed simp
  obtain k where k: "keys = texts6 (first6 b j) k" "length keys = k" "r < length h" using n by auto
  then have "keys @ [ip_string ?x] = texts6 (first6 b j) (Suc k)" by (simp add: texts6_Suc)
  then have "pod6 b (Some r, keys @ [ip_string ?x]) (h[r := ?x]) (Some j)" using k V(3) by simp
  with other own V show ?thesis by (auto simp: owned6_def)
qed

text \<open>The new text is not in use.\<close>

lemma new_text6:
  assumes own: "owned6 b am V h F" and V: "V n = (Some r, keys)" "F n = Some j" "length keys < 15"
  shows "ip_string (shift (first6 b j) (tri (Suc (length keys)))) \<notin> set keys"
proof
  obtain k where k: "keys = texts6 (first6 b j) k" "length keys = k" using owned6_pod [OF own V(1,2)] by auto
  assume "ip_string (shift (first6 b j) (tri (Suc (length keys)))) \<in> set keys"
  then have "ip_string (shift (first6 b j) (tri (Suc k))) \<in> set (texts6 (first6 b j) k)"
    unfolding k(2) unfolding k(1) .
  then obtain i where i: "ip_string (shift (first6 b j) (tri (Suc k))) = ip_string (shift (first6 b j) (tri i))"
    "i \<in> set [1..<Suc k]"
    unfolding texts6_def set_map by (rule imageE)
  have b: "length b = 14" "32 + 16 * j < 65536" using own V(2) base_prefix6_length by (auto simp: owned6_def)
  then have "shift (first6 b j) (tri (Suc k)) = shift (first6 b j) (tri i)"
    using i(1) by (intro ip_string_16_inj) (simp_all add: first6_length)
  from shift_first6_inj [OF b(1) this _ _ b(2) b(2)] i(2) V(3) k(2) show False by auto
qed

lemma claim6:
  assumes own: "owned6 b am V h F" and V: "V n = (Some r, keys)" "F n = Some j" "length keys < 15" "look6 d = V n"
    and cont: "\<And>V h ipb used. owned6 b am V h F \<Longrightarrow> V n = look6 (d\<lparr>addressesUsed := used\<rparr>) \<Longrightarrow>
      keeps (fixed6 am V h) (m ipb used)"
  shows "ensures (fixed6 am V (h[r := shift (first6 b j) (tri (Suc (length keys)))]))
    (bnd (ip_load (Some r)) (\<lambda>ipb. bnd (map_assign (ip_string ipb) l (addressesUsed d)) (\<lambda>used.
      bnd (put_pod n (d\<lparr>addressesUsed := used\<rparr>)) (\<lambda>_. m ipb used)))) (\<lambda>_. inv6 b) (\<lambda>_. True)"
proof (rule ensuresI)
  fix s :: "'a net_state" and res t
  let ?x = "shift (first6 b j) (tri (Suc (length keys)))"
  let ?h = "h[r := ?x]" and ?V = "V(n := (Some r, keys @ [ip_string ?x]))"
  assume s: "fixed6 am V ?h s" and run: "bnd (ip_load (Some r)) (\<lambda>ipb. bnd (map_assign (ip_string ipb) l (addressesUsed d)) (\<lambda>used.
      bnd (put_pod n (d\<lparr>addressesUsed := used\<rparr>)) (\<lambda>_. m ipb used))) s = (res, t)"
  have "r < length h" using owned6_pod [OF own V(1,2)] by simp
  then have load: "ip_bytes_of (heap s) (Some r) = ?x" using s by (auto simp: frozen_def ip_bytes_of_def nth_append)
  show "case res of Done a \<Rightarrow> inv6 b t | _ \<Rightarrow> True"
  proof (cases "addressesUsed d")
    case None
    then have "\<exists>msg. res = Panic msg" using run load by (auto simp: io_simps map_assign_def)
    then show ?thesis by auto
  next
    case (Some al)
    let ?used = "Some (AList.update (ip_string ?x) l al)"
    have keys: "keys = map fst al" using V(1,4) Some by (simp add: look6_def used_of_def)
    have "ip_string ?x \<notin> fst ` set al" using new_text6 [OF own V(1-3)] keys by simp
    then have "AList.update (ip_string ?x) l al = al @ [(ip_string ?x, l)]" by (rule update_alist_new)
    then have look: "look6 (d\<lparr>addressesUsed := ?used\<rparr>) = ?V n"
      using V(1,4) keys by (simp add: look6_def used_of_def)
    have own': "owned6 b am ?V ?h F" by (rule owned6_claimed [OF own V(1-3)])
    let ?s = "s\<lparr>podDevices := AList.update n (d\<lparr>addressesUsed := ?used\<rparr>) (podDevices s)\<rparr>"
    have "fixed6 am ?V ?h ?s" using s look by (simp add: frozen_def view_of_put distinct_update)
    moreover have "m ?x ?used ?s = (res, t)" using run load Some by (simp add: io_simps map_assign_def)
    ultimately have "fixed6 am ?V ?h t" using keepsD [OF cont [OF own' look [symmetric]]] by blast
    then show ?thesis using inv6I [OF own'] by (cases res) simp_all
  qed
qed

section \<open>Machines\<close>

lemma step6: "neutral m \<Longrightarrow> (\<And>a. ensures (frozen v A V h) (f a) Q (\<lambda>_. True)) \<Longrightarrow>
    ensures (frozen v A V h) (bnd m f) Q (\<lambda>_. True)"
  by (rule step_neutral [OF _ stable_frozen]) auto

lemma failing6: "neutral m \<Longrightarrow> (\<And>a. \<not> ok (g a)) \<Longrightarrow>
    ensures P (bnd m (\<lambda>a. ret (g a))) (\<lambda>r s. ok r \<longrightarrow> I s) (\<lambda>_. True)"
  by (rule ensures_bnd [OF ensures_True]) (auto intro: ensures_ret)

lemma ensures_get6:
  assumes "\<And>d. v d = V n \<Longrightarrow> ensures (frozen v A V h) (f d) Q (\<lambda>_. True)"
  shows "ensures (frozen v A V h) (bnd (get_pod n) f) Q (\<lambda>_. True)"
proof (rule ensuresI)
  fix s :: "'b net_state" and r t
  let ?d = "case map_of (podDevices s) n of None \<Rightarrow> no_pod_devices | Some d \<Rightarrow> d"
  assume s: "frozen v A V h s" "bnd (get_pod n) f s = (r, t)"
  then have "v ?d = V n" by (auto simp: frozen_def view_of_def)
  from ensuresD [OF assms [OF this] s(1)] s(2) show "case r of Done a \<Rightarrow> Q a t | _ \<Rightarrow> True" by (simp add: io_simps)
qed

lemma if6: "(b \<Longrightarrow> ensures P m Q I) \<Longrightarrow> (\<not> b \<Longrightarrow> ensures P m' Q I) \<Longrightarrow> ensures P (if b then m else m') Q I"
  by simp

lemmas frozen6_run = frozen_put_then keeps_bnd [OF look6.frozen_attachLocalhostBpfPrograms]
  keeps_bnd [OF frozen_put_ns] frozen_then keeps_if keeps_case_prod keeps_ret neutral_intros

abbreviation vm_ok :: "vm_tun \<Rightarrow> bool" where
  "vm_ok r \<equiv> snd (snd (snd r)) = None"

lemma inv6_CreateVMTun:
  assumes "inv6 b s" "CreateVMTun k cns pod c s = (Done r, t)" "vm_ok r"
  shows "inv6 b t"
proof -
  obtain am V h F where own: "owned6 b am V h F" and s: "fixed6 am V h s" using assms(1) by (auto simp: inv6_def)
  have "ensures (fixed6 am V h) (CreateVMTun k cns pod c) (\<lambda>r t. vm_ok r \<longrightarrow> inv6 b t) (\<lambda>_. True)"
    unfolding CreateVMTun_def Let_def
    apply (rule ensures_get6, rule next6 [OF own], assumption)
     apply (simp add: failing6 neutral_ip_new)
    apply (simp only: if_False simp_thms option.simps)
    apply (rule step6, rule neutral_intros)+
    apply (rule if6, rule failing6, rule neutral_intros, simp)
    apply (rule step6, rule neutral_intros, rule ensures_case_prod)
    apply (rule step6, rule neutral_intros)
    apply (rule if6, rule failing6, rule neutral_intros, simp)
    apply (rule step6, rule neutral_intros)
    apply (rule if6, rule failing6, rule neutral_intros, simp)
    apply (rule ensures_post [OF claim6 [OF own]], assumption+)
     apply (rule frozen6_run | simp)+
    done
  from ensures_Done [OF this s assms(2)] assms(3) show ?thesis by blast
qed

section \<open>Pods\<close>

lemma request6:
  assumes "am_inv6 am" "base_prefix6 (baseSubnetIP6 am) = Some b" "RequestPodIP6 cns pod am = (Done (ip, err), am')"
  shows "am_inv6 am' \<and> base_prefix6 (baseSubnetIP6 am') = Some b \<and> (\<forall>k. taken6 am k \<longrightarrow> taken6 am' k)
    \<and> (ip = [] \<or> (\<exists>j. ip = first6 b j \<and> 32 + 16 * j < 65536 \<and> \<not> taken6 am (16 + 16 * j) \<and> taken6 am' (16 + 16 * j)))"
  using assms(1)
proof (cases rule: RequestPodIP6_cases [where ns = cns and pod = pod])
  case (granted j)
  let ?a = "getContainerIPv6 (baseSubnetIP6 am) (16 + 16 * j)"
  have ip: "ip = (if 32 + 16 * j < 65536 then first6 b j else [])"
    using granted(1) assms(3) parse_container6 [OF assms(2), of "16 + 16 * j"] by (simp add: first6_def add.commute)
  have am': "am' = am\<lparr>usedPodAddresses6 := AList.update ?a (pod_name cns pod) (usedPodAddresses6 am)\<rparr>"
    using granted(1) assms(3) by simp
  have "am_inv6 am'" using am_inv6_RequestPodIP6 [OF assms(1), of cns pod] assms(3) by simp
  moreover have "taken6 am' (16 + 16 * j)" "taken6 am k \<Longrightarrow> taken6 am' k" for k
    by (auto simp: am' taken6_def update_conv')
  moreover have "base_prefix6 (baseSubnetIP6 am') = Some b" using assms(2) by (simp add: am')
  ultimately show ?thesis using ip granted(3) by (cases "32 + 16 * j < 65536") auto
next
  case (full j)
  then have "ip = []" "am' = am" using assms(3) by simp_all
  with assms(1,2) show ?thesis by simp
qed

lemma owned6_new:
  assumes own: "owned6 b am V h F" and req: "RequestPodIP6 cns pod am = (Done (ip, err), am')"
  shows "\<exists>F'. owned6 b am' (V(n := (Some (length h), []))) (h @ [ip]) F'"
proof -
  have "am_inv6 am" "base_prefix6 (baseSubnetIP6 am) = Some b" using own by (simp_all add: owned6_def)
  note new = request6 [OF this req]
  have old: "pod6 b (V m) (h @ [ip]) (F m)" for m by (rule pod6_append [OF owned6_pod [OF own refl refl]])
  have fresh: "fst (V m) \<noteq> Some (length h)" for m
    using owned6_pod [OF own, of m "V m" "F m"] by (cases "(b, V m, h, F m)" rule: pod6.cases) auto
  show ?thesis
  proof (cases "ip = []")
    case True
    have "owned6 b am' (V(n := (Some (length h), []))) (h @ [ip]) (F(n := None))"
      using own new old fresh True unfolding owned6_def by auto
    then show ?thesis by blast
  next
    case False
    then obtain j where j: "ip = first6 b j" "32 + 16 * j < 65536" "\<not> taken6 am (16 + 16 * j)" "taken6 am' (16 + 16 * j)"
      using new by blast
    have "F m \<noteq> Some j" for m using own j(3) by (auto simp: owned6_def)
    moreover have "pod6 b (Some (length h), []) (h @ [ip]) (Some j)" using j(1) by (simp add: texts6_def tri_def)
    ultimately have "owned6 b am' (V(n := (Some (length h), []))) (h @ [ip]) (F(n := Some j))"
      using own new old fresh j unfolding owned6_def by auto
    then show ?thesis by blast
  qed
qed

definition starting6 :: "byte list \<Rightarrow> string \<Rightarrow> ip_ref \<Rightarrow> 'w net_state \<Rightarrow> bool" where
  "starting6 b n ip s \<longleftrightarrow> (\<exists>am V h F. owned6 b am (V(n := (ip, []))) h F \<and> fixed6 am V h s)"

lemma stable_starting6: "stable (starting6 b n ip)"
  using stable_frozen unfolding stable_def starting6_def by blast

lemma starting6_step: "neutral m \<Longrightarrow> (\<And>a. ensures (starting6 b n ip) (f a) Q (\<lambda>_. True)) \<Longrightarrow>
    ensures (starting6 b n ip) (bnd m f) Q (\<lambda>_. True)"
  by (rule step_neutral [OF _ stable_starting6]) auto

lemma request_starting6:
  assumes "\<And>ip err. ensures (starting6 b n ip) (f ip err) Q (\<lambda>_. True)"
  shows "ensures (inv6 b) (bnd (am_RequestPodIP cns pod) (\<lambda>(ip, err). f ip err)) Q (\<lambda>_. True)"
proof (rule ensuresI)
  fix s :: "'a net_state" and r t
  assume "inv6 b s" and run: "bnd (am_RequestPodIP cns pod) (\<lambda>(ip, err). f ip err) s = (r, t)"
  then obtain am V h F where own: "owned6 b am V h F" and s: "fixed6 am V h s" by (auto simp: inv6_def)
  have inv: "am_inv6 am" using own by (simp add: owned6_def)
  obtain ip err am' where ip: "RequestPodIP6 cns pod am = (Done (ip, err), am')"
    using am6.request_contract [OF inv, of cns pod] by blast
  obtain x where x: "heap s = h @ x" using s by (auto simp: frozen_def)
  have "owned6 b am V (heap s) F"
    using own pod6_append unfolding owned6_def x by blast
  from owned6_new [OF this ip, of n] obtain F' where
    own': "owned6 b am' (V(n := (Some (length (heap s)), []))) (heap s @ [ip]) F'" ..
  let ?s = "s\<lparr>PodAddressManager := Some (AM6 am'), heap := heap s @ [ip]\<rparr>"
  have "fixed6 am' V (heap s @ [ip]) ?s" using s by (simp add: frozen_def)
  with own' have "starting6 b n (Some (length (heap s))) ?s" unfolding starting6_def by blast
  moreover have "f (Some (length (heap s))) err ?s = (r, t)"
    using run ip s by (simp add: am_RequestPodIP_def pam_def io_simps am6_io_def frozen_def)
  ultimately show "case r of Done a \<Rightarrow> Q a t | _ \<Rightarrow> True" using ensuresD [OF assms] by blast
qed

lemma starting6_put:
  assumes "baseAddr d = ip" "addressesUsed d = Some []"
    and "\<And>am V h F. owned6 b am V h F \<Longrightarrow> ensures (fixed6 am V h) m Q (\<lambda>_. True)"
  shows "ensures (starting6 b n ip) (bnd (put_pod n d) (\<lambda>_. m)) Q (\<lambda>_. True)"
proof (rule ensuresI)
  fix s :: "'a net_state" and r t
  assume s: "starting6 b n ip s" "bnd (put_pod n d) (\<lambda>_. m) s = (r, t)"
  obtain am V h F where am: "owned6 b am (V(n := (ip, []))) h F" "fixed6 am V h s"
    using s(1) by (auto simp: starting6_def)
  let ?s = "s\<lparr>podDevices := AList.update n d (podDevices s)\<rparr>"
  have "look6 d = (ip, [])" using assms(1,2) by (simp add: look6_def used_of_def)
  then have "fixed6 am (V(n := (ip, []))) h ?s"
    using am(2) by (simp add: frozen_def view_of_put distinct_update)
  moreover have "m ?s = (r, t)" using s(2) by (simp add: io_simps)
  ultimately show "case r of Done a \<Rightarrow> Q a t | _ \<Rightarrow> True" using ensuresD [OF assms(3) [OF am(1)]] by blast
qed

lemma first_address6:
  assumes own: "owned6 b am V h F"
    and err: "\<And>ip e. ensures (fixed6 am V h) (f ip (Some e)) Q (\<lambda>_. True)"
    and new: "\<And>r j keys. V n = (Some r, keys) \<Longrightarrow> F n = Some j \<Longrightarrow> length keys < 15 \<Longrightarrow>
      ensures (fixed6 am V (h[r := shift (first6 b j) (tri (Suc (length keys)))])) (f (Some r) None) Q (\<lambda>_. True)"
  shows "ensures (fixed6 am V h) (bnd (bnd (get_pod n) getNextSubPodIP) (\<lambda>(ip, err). f ip err)) Q (\<lambda>_. True)"
  unfolding bnd_assoc by (rule ensures_get6, rule next6 [OF own _ err new])

lemma inv6_InitPodNetwork:
  assumes "inv6 b s" "InitPodNetwork k cns pod s = (Done None, t)"
  shows "inv6 b t"
proof -
  have "ensures (inv6 b) (InitPodNetwork k cns pod) (\<lambda>r t. r = None \<longrightarrow> inv6 b t) (\<lambda>_. True)"
    unfolding InitPodNetwork_def Let_def
    apply (rule request_starting6 [where n = "GetNetNs cns pod"])
    apply (rule starting6_step, rule neutral_intros)+
    apply (rule ensures_case_prod, rule starting6_step, rule neutral_intros)
    apply (rule starting6_put, simp, simp)
    apply (rule first_address6, assumption)
     apply (simp add: ensures_ret)
    apply (simp only: if_False simp_thms option.simps)
    apply (rule step6, rule neutral_intros, (rule ensures_case_prod)+)
    apply (rule if6, rule ensures_ret, force)
    apply (rule ensures_get6)
    apply (rule step6, rule neutral_intros)
    apply (rule ensures_post [OF claim6], assumption+)
     apply (rule look6.frozen_start_redirects frozen6_run | simp)+
    done
  from ensures_Done [OF this assms] show ?thesis by blast
qed

lemma inv6_CreateVMTunPL:
  assumes "inv6 b s" "CreateVMTunPL k cns pod c s = (Done r, t)" "vm_ok r"
  shows "inv6 b t"
proof -
  obtain am V h F where own: "owned6 b am V h F" and s: "fixed6 am V h s" using assms(1) by (auto simp: inv6_def)
  have "ensures (fixed6 am V h) (CreateVMTunPL k cns pod c) (\<lambda>r t. vm_ok r \<longrightarrow> inv6 b t) (\<lambda>_. True)"
    unfolding CreateVMTunPL_def Let_def
    apply (rule ensures_get6, rule next6 [OF own], assumption)
     apply (simp add: failing6 neutral_ip_new)
    apply (simp only: if_False simp_thms option.simps)
    apply (rule step6, rule neutral_intros)+
    apply (rule if6, rule failing6, rule neutral_intros, simp)
    apply (rule step6, rule neutral_intros, rule ensures_case_prod)
    apply (rule step6, rule neutral_intros)
    apply (rule if6, rule failing6, rule neutral_intros, simp)
    apply (rule step6, rule neutral_intros)
    apply (rule if6, rule failing6, rule neutral_intros, simp)
    apply (rule ensures_post [OF claim6 [OF own]], assumption+)
     apply (rule frozen6_run | simp)+
    done
  from ensures_Done [OF this s assms(2)] assms(3) show ?thesis by blast
qed

lemma inv6_InitPodNetworkPL:
  assumes "inv6 b s" "InitPodNetworkPL k cns pod s = (Done None, t)"
  shows "inv6 b t"
proof -
  have "ensures (inv6 b) (InitPodNetworkPL k cns pod) (\<lambda>r t. r = None \<longrightarrow> inv6 b t) (\<lambda>_. True)"
    unfolding InitPodNetworkPL_def Let_def
    apply (rule request_starting6 [where n = "GetNetNs cns pod"])
    apply (rule starting6_step, rule neutral_intros)+
    apply (rule ensures_case_prod, rule starting6_step, rule neutral_intros)
    apply (rule starting6_put, simp, simp)
    apply (rule first_address6, assumption)
     apply (simp add: ensures_ret)
    apply (simp only: if_False simp_thms option.simps)
    apply (rule step6, rule neutral_intros, (rule ensures_case_prod)+)
    apply (rule if6, rule ensures_ret, force)
    apply (rule ensures_get6)
    apply (rule step6, rule neutral_intros)
    apply (rule ensures_post [OF claim6], assumption+)
     apply (rule look6.frozen_start_redirects frozen6_run | simp)+
    done
  from ensures_Done [OF this assms] show ?thesis by blast
qed

section \<open>Calls that succeed\<close>

text \<open>What a node does with its manager as long as no start of a pod and no creation of a VM fails.\<close>

inductive clean_step :: "'w CNIManager \<Rightarrow> 'w net_state \<Rightarrow> 'w net_state \<Rightarrow> bool" for mgr where
  clean_init: "cni_InitPodNetwork mgr cns pod s = (Done None, t) \<Longrightarrow> clean_step mgr s t"
| clean_vm: "cni_CreateVMTun mgr cns pod c s = (Done (dev, ip, mac, None), t) \<Longrightarrow> clean_step mgr s t"
| clean_stop: "clean_step mgr s (snd (cni_StopPodNetwork mgr cns pod s))"
| clean_gateway: "clean_step mgr s (snd (cni_GetGatewayAddress mgr cns pod s))"

inductive clean_reach :: "'w CNIManager \<Rightarrow> 'w net_state \<Rightarrow> 'w net_state \<Rightarrow> bool" for mgr s where
  clean_refl: "clean_reach mgr s s"
| clean_next: "clean_reach mgr s t \<Longrightarrow> clean_step mgr t u \<Longrightarrow> clean_reach mgr s u"

inductive_cases clean_stepE: "clean_step mgr s t"

text \<open>The contract of a manager for calls that succeed.\<close>

locale clean_contract =
  fixes mgr :: "'w CNIManager" and inv :: "'w net_state \<Rightarrow> bool"
  assumes init_ok: "inv s \<Longrightarrow> cni_InitPodNetwork mgr cns pod s = (Done None, t) \<Longrightarrow> inv t"
    and vm_ok: "inv s \<Longrightarrow> cni_CreateVMTun mgr cns pod c s = (Done (dev, ip, mac, None), t) \<Longrightarrow> inv t"
    and others: "keeps inv (cni_StopPodNetwork mgr cns pod)" "keeps inv (cni_GetGatewayAddress mgr cns pod)"
begin

lemma clean_step_keeps: "clean_step mgr s t \<Longrightarrow> inv s \<Longrightarrow> inv t"
  using others by (elim clean_stepE) (auto intro: init_ok vm_ok simp: keeps_def)

lemma clean_reach_keeps: "clean_reach mgr s t \<Longrightarrow> inv s \<Longrightarrow> inv t"
  by (induction rule: clean_reach.induct) (auto intro: clean_step_keeps)

end

lemma stable_inv6: "stable (inv6 b)"
  using stable_frozen unfolding stable_def inv6_def by blast

interpretation mr6: clean_contract "multi_runtime_manager k" "inv6 b" for k b
  by unfold_locales
    (auto simp: manager_defs intro: inv6_InitPodNetwork inv6_CreateVMTun keeps_neutral [OF neutral_stop(1) stable_inv6]
      keeps_neutral [OF neutral_stop(3) stable_inv6])

interpretation pl6: clean_contract "pod_local_manager k" "inv6 b" for k b
  by unfold_locales
    (auto simp: manager_defs intro: inv6_InitPodNetworkPL inv6_CreateVMTunPL keeps_neutral [OF neutral_stop(1) stable_inv6]
      keeps_neutral [OF neutral_stop(3) stable_inv6])

section \<open>What the invariant says\<close>

lemma inv6_start:
  assumes "PodAddressManager s = Some (AM6 am)" "am_inv6 am" "base_prefix6 (baseSubnetIP6 am) = Some b" "podDevices s = []"
  shows "inv6 b s"
proof (rule inv6I)
  show "owned6 b am (\<lambda>_. (None, [])) (heap s) (\<lambda>_. None)" using assms by (simp add: owned6_def)
  show "fixed6 am (\<lambda>_. (None, [])) (heap s) s"
    using assms by (simp add: frozen_def view_of_def look6_def used_of_def no_pod_devices_def fun_eq_iff)
qed

lemma inv6_workloads:
  assumes "inv6 b s" "(n, d) \<in> set (podDevices s)"
  shows "\<exists>j. 32 + 16 * j < 65536 \<and> length (used_of d) \<le> 15
    \<and> map fst (used_of d) = texts6 (first6 b j) (length (used_of d)) \<and> distinct (map fst (used_of d))"
proof -
  obtain am V h F where own: "owned6 b am V h F" and s: "fixed6 am V h s" using assms(1) by (auto simp: inv6_def)
  have look: "V n = (baseAddr d, map fst (used_of d))"
    using s assms(2) view_of_mem [of s n d look6] by (auto simp: frozen_def look6_def)
  note pod = owned6_pod [OF own look refl]
  have b: "length b = 14" using own base_prefix6_length by (auto simp: owned6_def)
  show ?thesis
  proof (cases "F n")
    case None
    with pod have "used_of d = []" by (cases "baseAddr d") auto
    then show ?thesis by (intro exI [of _ 0]) (simp add: texts6_def)
  next
    case (Some j)
    then obtain r where r: "baseAddr d = Some r" using pod by (cases "baseAddr d") auto
    have j: "32 + 16 * j < 65536" using own Some by (simp add: owned6_def)
    have texts: "map fst (used_of d) = texts6 (first6 b j) (length (used_of d))" "length (used_of d) \<le> 15"
      using pod Some r by simp_all
    have "inj_on (\<lambda>i. ip_string (shift (first6 b j) (tri i))) (set [1..<Suc (length (used_of d))])"
      using texts(2) shift_first6_inj [OF b _ _ _ j j] first6_length [OF b]
      by (auto intro!: inj_onI dest!: ip_string_16_inj [rotated 2])
    then have "distinct (map fst (used_of d))" unfolding texts(1) by (simp add: texts6_def distinct_map del: upt.simps)
    with j texts show ?thesis by blast
  qed
qed

lemma inv6_disjoint:
  assumes "inv6 b s" "(n, d) \<in> set (podDevices s)" "(m, e) \<in> set (podDevices s)" "n \<noteq> m"
  shows "fst ` set (used_of d) \<inter> fst ` set (used_of e) = {}"
proof (rule ccontr)
  assume "\<not> ?thesis"
  then obtain x where x: "x \<in> set (map fst (used_of d))" "x \<in> set (map fst (used_of e))" by auto
  obtain am V h F where own: "owned6 b am V h F" and s: "fixed6 am V h s" using assms(1) by (auto simp: inv6_def)
  have b: "length b = 14" using own base_prefix6_length by (auto simp: owned6_def)
  have block: "\<exists>j i. F p = Some j \<and> 32 + 16 * j < 65536 \<and> i < 16 \<and> x = ip_string (shift (first6 b j) (tri i))"
    if "(p, q) \<in> set (podDevices s)" "x \<in> set (map fst (used_of q))" for p q
  proof -
    have look: "V p = (baseAddr q, map fst (used_of q))"
      using s that(1) view_of_mem [of s p q look6] by (auto simp: frozen_def look6_def)
    note pod = owned6_pod [OF own look refl]
    have "used_of q \<noteq> []" using that(2) by auto
    then obtain r j where r: "baseAddr q = Some r" "F p = Some j" using pod by (cases "baseAddr q"; cases "F p") auto
    then have texts: "map fst (used_of q) = texts6 (first6 b j) (length (used_of q))" "length (used_of q) \<le> 15"
      using pod by simp_all
    have "x \<in> (\<lambda>i. ip_string (shift (first6 b j) (tri i))) ` set [1..<Suc (length (used_of q))]"
      using that(2) unfolding texts(1) texts6_def set_map .
    then obtain i where "x = ip_string (shift (first6 b j) (tri i))" "i \<in> set [1..<Suc (length (used_of q))]" by (rule imageE)
    moreover have "32 + 16 * j < 65536" using own r(2) by (simp add: owned6_def)
    ultimately show ?thesis using r(2) texts(2) by (intro exI [of _ j] exI [of _ i]) auto
  qed
  obtain j i where j: "F n = Some j" "32 + 16 * j < 65536" "i < 16" "x = ip_string (shift (first6 b j) (tri i))"
    using block [OF assms(2) x(1)] by blast
  obtain l k where l: "F m = Some l" "32 + 16 * l < 65536" "k < 16" "x = ip_string (shift (first6 b l) (tri k))"
    using block [OF assms(3) x(2)] by blast
  have "shift (first6 b j) (tri i) = shift (first6 b l) (tri k)"
    using j(4) l(4) by (intro ip_string_16_inj) (simp_all add: first6_length [OF b])
  from shift_first6_inj [OF b this j(3) l(3) j(2) l(2)] have "F m = F n" using j(1) l(1) by simp
  with own j(1) assms(4) show False by (auto simp: owned6_def)
qed

end
