(* ===== verification/NetProps6.thy ===== *)
theory NetProps6
  imports NetBlocks6 NetProps
begin

text \<open>
  Properties of IPv6 nodes: the addresses of workloads while nothing fails, and what a failed creation of
  a VM does to the addresses that follow.
\<close>

section \<open>A pod and a VM on the concrete kernel\<close>

definition prefix_am6 :: "byte list" where
  "prefix_am6 = [0xfd, 0x53, 0x77, 0x69, 0x72, 0x6c, 0, 1, 0, 2, 0, 3, 0, 4]"

lemma sample_am6_prefix: "base_prefix6 (baseSubnetIP6 sample_am6) = Some prefix_am6"
  by (simp add: sample_am6_def prefix_am6_def base_prefix6_def parse_groups_def parse_hextet_def digit_val_def Let_def)

lemma sample_am6_inv: "am_inv6 sample_am6"
  by (simp add: sample_am6_def am_inv6_def)

lemma sim_grant6:
  "am_RequestPodIP ''default'' ''a'' (sim_state (AM6 sample_am6) None) = (Done (Some 0, None),
    (sim_state (AM6 (sample_am6\<lparr>usedPodAddresses6 := [(getContainerIPv6 (baseSubnetIP6 sample_am6) 16, ''default_a'')]\<rparr>)) None)
      \<lparr>heap := [prefix_am6 @ [0, 32]]\<rparr>)"
  using parse_container6 [OF sample_am6_prefix, of 16]
  by (simp add: am_RequestPodIP_def sim_state_def RequestPodIP6_def io_simps probe_hit sample_am6_def group_bytes_def
      pod_name_def am6_io_def pam_def)

lemma sim_load_tc6:
  assumes "PodAddressManager s = Some (AM6 a)"
  shows "loadToSubPodTC sim_kernel s = (Done (Some (sim_next (kern s)), Some (sim_next (kern s))),
      s\<lparr>kern := (kern s)\<lparr>sim_next := Suc (sim_next (kern s))\<rparr>\<rparr>)"
    and "loadFromSubPodTC sim_kernel s = (Done (Some (sim_next (kern s)), Some (sim_next (kern s))),
      s\<lparr>kern := (kern s)\<lparr>sim_next := Suc (sim_next (kern s))\<rparr>\<rparr>)"
  using assms
  by (simp_all add: loadToSubPodTC_def loadFromSubPodTC_def load_defs load_objects_def load_spec_def sim_simps IsIPv4_6_def
    o_map_def BpfObjectsSplitGenericRedirectIPv6TC_def BpfObjectsTranslateRedirectSubpodIpv6TC_def)

definition pod_state6 :: "pod_devices \<Rightarrow> sim net_state \<Rightarrow> bool" where
  "pod_state6 d s \<longleftrightarrow> podDevices s = [(''default-a'', d)] \<and> heap s = [prefix_am6 @ [0, 33]] \<and> baseAddr d = Some 0
     \<and> podBridge d = Some (sim_link ''podaaaa'') \<and> toSubpodBpfMap d \<noteq> None
     \<and> addressesUsed d = Some [(ip_string (prefix_am6 @ [0, 33]), Some (sim_link ''vethaaaa''))]
     \<and> (\<exists>am. PodAddressManager s = Some (AM6 am) \<and> subIPsPerPod6 am = 16)"

lemma sim_pod6:
  "\<exists>t d. InitPodNetwork sim_kernel ''default'' ''a'' (sim_state (AM6 sample_am6) None) = (Done None, t) \<and> pod_state6 d t"
  apply (unfold InitPodNetwork_def Let_def, subst bnd_apply, simp add: sim_grant6)
  apply (simp add: Let_def sim_simps ip_bytes_of_def getNextSubPodIP_def GetMaxIPsPerPod6_def ip2int_def IsIPv4_6_def
   sim_setupPodNetNs sim_world_def map_assign_def GetNetNs_def sim_state_def no_pod_devices_def ip_new_def sample_am6_def
   prefix_am6_def ip_add_at_def)
  apply (simp add: start_redirects_def io_simps sim_load_tc6 makeSplitRouteMapObject_def sim_simps sim_link_def to_array_def IsIPv4_6_def
    ip_bytes_of_def to16_def)
  apply (simp add: initFromSubpodRouting_def io_simps sim_load_tc6 range_map_def make_redirect_def IsIPv4_6_def
    to_array_def sim_simps Let_def)
  apply (simp add: updateSubpodRouting_def io_simps range_map_def setupSubpodTC_def load_defs load_objects_def load_spec_def sim_simps
    o_map_def BpfObjectsTailCallIpv6TC_def Let_def IsIPv4_6_def ip_bytes_of_def to16_def to_array_def)
  apply (simp add: pod_state6_def prefix_am6_def sim_link_def)
  done

lemma texts_differ: "ip_string (prefix_am6 @ [0, 33]) \<noteq> ip_string (prefix_am6 @ [0, 35])"
  using ip_string_16_inj [of "prefix_am6 @ [0, 33]" "prefix_am6 @ [0, 35]"] by (auto simp: prefix_am6_def)

lemma sim_vm6:
  assumes "pod_state6 d s"
  shows "\<exists>dev ip mac t e. CreateVMTun sim_kernel ''default'' ''a'' ''c'' s = (Done (dev, ip, mac, None), t)
    \<and> podDevices t = [(''default-a'', e)]
    \<and> map fst (used_of e) = [ip_string (prefix_am6 @ [0, 33]), ip_string (prefix_am6 @ [0, 35])]"
  using assms texts_differ
  apply (simp add: CreateVMTun_def Let_def pod_state6_def)
  apply (elim conjE exE)
  apply (simp add: Let_def sim_simps ip_bytes_of_def getNextSubPodIP_def GetMaxIPsPerPod6_def GetNetNs_def map_assign_def
   prefix_am6_def ip_add_at_def generateMac_def makeSplitRouteMapObjectMac_def putNextSplitRouteObj_def
   to_array_def to16_def IsIPv4_6_def used_of_def MaxIPv4IPsPerPod_def upt_conv_Cons sim_link_def)
  done

section \<open>While nothing fails\<close>

text \<open>
  C20. The addresses of an IPv6 node, as long as no start of a pod and no creation of a VM fails, on any
  kernel and with any stops between: a pod has at most fifteen workloads, and the i-th has the
  address i(i+1)/2 after the first of the pod's block, modulo 256 in the last byte, because every
  request moves the base of the pod; although they leave the block, all addresses of workloads
  are different, in the pod and between pods.
\<close>

theorem ipv6_workloads:
  assumes "PodAddressManager s = Some (AM6 am)" and "am_inv6 am"
    and "base_prefix6 (baseSubnetIP6 am) = Some b" and "podDevices s = []"
    and "clean_reach (multi_runtime_manager k) s t"
    and "(n, d) \<in> set (podDevices t)"
  shows "(\<exists>j. 32 + 16 * j < 65536 \<and> length (used_of d) \<le> 15
      \<and> map fst (used_of d) = map (\<lambda>i. ip_string (shift (first6 b j) (i * (i + 1) div 2))) [1..<Suc (length (used_of d))])
    \<and> distinct (map fst (used_of d))
    \<and> (\<forall>(m, e) \<in> set (podDevices t). m = n \<or> fst ` set (used_of d) \<inter> fst ` set (used_of e) = {})"
proof -
  have inv: "inv6 b t" by (rule mr6.clean_reach_keeps [OF assms(5) inv6_start [OF assms(1-4)]])
  have "m = n \<or> fst ` set (used_of d) \<inter> fst ` set (used_of e) = {}" if "(m, e) \<in> set (podDevices t)" for m e
    using inv6_disjoint [OF inv assms(6) that] by auto
  with inv6_workloads [OF inv assms(6)] show ?thesis by (auto simp: texts6_def tri_def)
qed

theorem ipv6_workloads_witness:
  "\<exists>t e. clean_reach (multi_runtime_manager sim_kernel) (sim_state (AM6 sample_am6) None) t
    \<and> podDevices t = [(''default-a'', e)]
    \<and> map fst (used_of e) = [ip_string (prefix_am6 @ [0, 33]), ip_string (prefix_am6 @ [0, 35])]
    \<and> distinct (map fst (used_of e))"
proof -
  obtain s d where s: "InitPodNetwork sim_kernel ''default'' ''a'' (sim_state (AM6 sample_am6) None) = (Done None, s)"
    "pod_state6 d s"
    using sim_pod6 by blast
  obtain dev ip mac t e where t: "CreateVMTun sim_kernel ''default'' ''a'' ''c'' s = (Done (dev, ip, mac, None), t)"
    "podDevices t = [(''default-a'', e)]"
    "map fst (used_of e) = [ip_string (prefix_am6 @ [0, 33]), ip_string (prefix_am6 @ [0, 35])]"
    using sim_vm6 [OF s(2)] by (elim exE conjE) (rule that)
  have "clean_step (multi_runtime_manager sim_kernel) (sim_state (AM6 sample_am6) None) s"
    by (rule clean_init) (use s(1) in \<open>simp add: multi_runtime_manager_def\<close>)
  moreover have "clean_step (multi_runtime_manager sim_kernel) s t"
    by (rule clean_vm) (use t(1) in \<open>simp add: multi_runtime_manager_def\<close>)
  ultimately have reach: "clean_reach (multi_runtime_manager sim_kernel) (sim_state (AM6 sample_am6) None) t"
    using clean_reach.intros by metis
  from ipv6_workloads [OF _ sample_am6_inv sample_am6_prefix _ reach, of "''default-a''" e] t reach
  show ?thesis by (auto simp: sim_state_def)
qed

section \<open>After a failure\<close>

text \<open>
  A VM whose device cannot be made: the call gives the error and records nothing, but the base of the
  pod has moved, by one more than the number of its workloads. Eight such steps of two lead from
  the first workload of a block to the first workload of the next block.
\<close>

lemma failed_vm_moves_base:
  assumes "PodAddressManager s = Some (AM6 am)" "subIPsPerPod6 am = 16"
    and "map_of (podDevices s) (GetNetNs cns pod) = Some d" "baseAddr d = Some r" "r < length (heap s)"
    and "length (heap s ! r) = 16" "length (used_of d) \<noteq> 15"
    and "LinkAdd k = (\<lambda>_. ret (Some e))" "RandIntn k = (\<lambda>_. ret 0)"
  shows "CreateVMTun k cns pod c s = (Done ([], Some (length (heap s)), [], Some e),
    s\<lparr>heap := (heap s)[r := shift (heap s ! r) (length (used_of d) + 1)] @ [[]]\<rparr>)"
  using assms
  by (simp add: CreateVMTun_def Let_def io_simps getNextSubPodIP_def used_of_def [symmetric] am_GetMaxIPsPerPod_def
      GetMaxIPsPerPod6_def pam_def ip_bytes_of_def ip_add_at_def shift_def numeral_eq_Suc letterRunes_def)

lemma eight_failures_collide:
  assumes "length b = 14"
  shows "shift (first6 b 0) (tri 1 + 8 * 2) = shift (first6 b 1) (tri 1)"
proof -
  have "b @ [0, 32] \<noteq> []" "length (b @ [0]) = 15" using assms by simp_all
  then show ?thesis using assms by (simp add: shift_def first6_def group_bytes_def tri_def list_update_append nth_append)
qed

end
