(* ===== verification/Kube.thy ===== *)
theory Kube
  imports GoStrings
begin

text \<open>
  What the provider sees of Kubernetes: the fields of the API objects (\<open>k8s.io/api/core/v1\<close>)
  that the code reads, pointers of the API as options, and the resource manager of
  \<open>pkg/manager/resource.go\<close>, which passes every question on to the listers of
  \<open>k8s.io/client-go\<close>. The listers are not part of the repository: they are operations of the
  record \<open>listers\<close> on a world \<open>'w\<close>.
\<close>

section \<open>API objects\<close>

text \<open>An object behind a pointer that the code compares with nil but does not look into.\<close>

datatype api_object = ApiObject string

record object_meta =
  om_Namespace :: string
  om_Name :: string
  om_Labels :: "(string \<times> string) list"

record volume_mount =
  vm_Name :: string
  vm_MountPath :: string
  vm_ReadOnly :: bool

record env_var =
  ev_Name :: string
  ev_Value :: string
  ev_ValueFrom :: "api_object option"

record container_port =
  po_HostPort :: int
  po_ContainerPort :: int
  po_Protocol :: string
  po_HostIP :: string

text \<open>
  Resource limits, as the methods of the quantities read them: whole CPUs (rounded up), milli-CPUs
  and bytes, each 0 when no limit is set.
\<close>

record limits =
  lim_CpuValue :: int
  lim_CpuMilli :: int
  lim_Memory :: int

datatype pull_policy = PullAlways | PullNever | PullIfNotPresent | PullOther string

record container =
  c_Name :: string
  c_Image :: string
  c_Command :: "string list"
  c_Args :: "string list"
  c_WorkingDir :: string
  c_Ports :: "container_port list"
  c_Env :: "env_var list"
  c_Limits :: limits
  c_VolumeMounts :: "volume_mount list"
  c_ImagePullPolicy :: pull_policy
  c_TTY :: bool

record host_path = hp_Path :: string  hp_Type :: "string option"
record secret_source = ss_SecretName :: string  ss_Optional :: "bool option"
record config_map_source = cs_Name :: string  cs_Optional :: "bool option"
record secret_projection = sp_Name :: string  sp_Optional :: "bool option"
record config_map_projection = cp_Name :: string  cp_Optional :: "bool option"

text \<open>A union of the API: at most one pointer should be set, but nothing enforces it.\<close>

record projection =
  pr_Secret :: "secret_projection option"
  pr_DownwardAPI :: "api_object option"
  pr_ConfigMap :: "config_map_projection option"
  pr_ServiceAccountToken :: "string option"

record volume =
  v_Name :: string
  v_HostPath :: "host_path option"
  v_EmptyDir :: "api_object option"
  v_Secret :: "secret_source option"
  v_NFS :: "api_object option"
  v_ConfigMap :: "config_map_source option"
  v_Projected :: "projection list option"

record pod_spec =
  ps_Volumes :: "volume list"
  ps_InitContainers :: "container list"
  ps_Containers :: "container list"
  ps_HostNetwork :: bool
  ps_ServiceAccountName :: string

record pod =
  p_Meta :: object_meta
  p_Spec :: pod_spec

abbreviation p_Namespace :: "pod \<Rightarrow> string" where "p_Namespace pd \<equiv> om_Namespace (p_Meta pd)"
abbreviation p_Name :: "pod \<Rightarrow> string" where "p_Name pd \<equiv> om_Name (p_Meta pd)"

record secret =
  s_Kind :: string
  s_Namespace :: string
  s_Name :: string
  s_Data :: "(string \<times> string) list"
  s_StringData :: "(string \<times> string) list"
  s_Type :: string

record config_map =
  cm_Name :: string
  cm_Data :: "(string \<times> string) list"

record service_account = sa_Name :: string

datatype pod_phase = PodPending | PodRunning | PodSucceeded | PodFailed | PodUnknown

text \<open>Times are opaque texts; the zero time is the empty one.\<close>

record terminated =
  t_ExitCode :: int
  t_Message :: string
  t_StartedAt :: string
  t_FinishedAt :: string
  t_ContainerID :: string

text \<open>
  \<open>ContainerState\<close>: three pointers; all nil reads as waiting. Of a waiting state the message is
  kept, of a running one the time it was started.
\<close>

record container_state =
  st_Waiting :: "api_object option"
  st_Running :: "api_object option"
  st_Terminated :: "terminated option"

definition no_state :: container_state where
  "no_state = \<lparr>st_Waiting = None, st_Running = None, st_Terminated = None\<rparr>"

record container_status =
  cst_Name :: string
  cst_State :: container_state
  cst_LastTerminationState :: container_state
  cst_Image :: string
  cst_ContainerID :: string
  cst_Started :: "bool option"

record pod_status =
  pst_Phase :: pod_phase
  pst_InitContainerStatuses :: "container_status list"
  pst_ContainerStatuses :: "container_status list"

section \<open>The resource manager (\<open>resource.go\<close>)\<close>

text \<open>
  A lister gives the object or nil, and an error; \<open>IsNotFound\<close> is the classification
  \<open>apierrors.IsNotFound\<close> of a non-nil error (of a nil error it is false).
\<close>

record 'w listers =
  PodGet :: "string \<Rightarrow> string \<Rightarrow> ('w, pod option \<times> goerr) io"
  PodList :: "('w, pod list \<times> goerr) io"
  SecretGet :: "string \<Rightarrow> string \<Rightarrow> ('w, secret option \<times> goerr) io"
  SecretList :: "string \<Rightarrow> ('w, secret list \<times> goerr) io"
  ConfigMapGet :: "string \<Rightarrow> string \<Rightarrow> ('w, config_map option \<times> goerr) io"
  ServiceAccountGet :: "string \<Rightarrow> string \<Rightarrow> ('w, service_account option \<times> goerr) io"
  ServiceAccountList :: "string \<Rightarrow> ('w, service_account list \<times> goerr) io"
  ServiceList :: "('w, string list \<times> goerr) io"
  IsNotFound :: "go_error \<Rightarrow> bool"

definition rm_GetPod :: "'w listers \<Rightarrow> string \<Rightarrow> string \<Rightarrow> ('w, pod option \<times> goerr) io" where
  "rm_GetPod rm name namespace = PodGet rm namespace name"

definition rm_GetPods :: "'w listers \<Rightarrow> ('w, pod list) io" where
  "rm_GetPods rm = bnd (PodList rm) (\<lambda>(l, err). case err of None \<Rightarrow> ret l | Some _ \<Rightarrow> ret [])"

definition rm_GetConfigMap :: "'w listers \<Rightarrow> string \<Rightarrow> string \<Rightarrow> ('w, config_map option \<times> goerr) io" where
  "rm_GetConfigMap rm name namespace = ConfigMapGet rm namespace name"

definition rm_GetSecret :: "'w listers \<Rightarrow> string \<Rightarrow> string \<Rightarrow> ('w, secret option \<times> goerr) io" where
  "rm_GetSecret rm name namespace = SecretGet rm namespace name"

definition rm_GetSecrets :: "'w listers \<Rightarrow> string \<Rightarrow> ('w, secret list \<times> goerr) io" where
  "rm_GetSecrets rm namespace = SecretList rm namespace"

definition rm_GetServiceAccount :: "'w listers \<Rightarrow> string \<Rightarrow> string \<Rightarrow> ('w, service_account option \<times> goerr) io" where
  "rm_GetServiceAccount rm name namespace = ServiceAccountGet rm namespace name"

definition rm_GetServiceAccounts :: "'w listers \<Rightarrow> string \<Rightarrow> ('w, service_account list \<times> goerr) io" where
  "rm_GetServiceAccounts rm namespace = ServiceAccountList rm namespace"

definition rm_ListServices :: "'w listers \<Rightarrow> ('w, string list \<times> goerr) io" where
  "rm_ListServices rm = ServiceList rm"

definition is_not_found :: "'w listers \<Rightarrow> goerr \<Rightarrow> bool" where
  "is_not_found rm err = (case err of None \<Rightarrow> False | Some e \<Rightarrow> IsNotFound rm e)"

lemma is_not_found_simps [simp]:
  "is_not_found rm None = False" "is_not_found rm (Some e) = IsNotFound rm e"
  by (simp_all add: is_not_found_def)

end
