(* ===== verification/Identifiers.thy ===== *)
theory Identifiers
  imports Kube
begin

text \<open>
  \<open>pkg/provider/identifier.go\<close>: the identifiers under which the provider keeps pods, instances and
  volumes, and when they are unambiguous. Names are \<open>plain\<close> when the separator does not occur in
  them; Kubernetes names are DNS labels, which never hold an underscore.
\<close>

definition identifierSeparator :: char where
  "identifierSeparator = CHR ''_''"

definition joinIdentifierFromParts :: "string list \<Rightarrow> string" where
  "joinIdentifierFromParts parts = join_with [identifierSeparator] parts"

definition splitIdentifierIntoParts :: "string \<Rightarrow> string list" where
  "splitIdentifierIntoParts ident = split_on identifierSeparator ident"

definition podToIdentifier :: "pod \<Rightarrow> string" where
  "podToIdentifier pd = (if p_Namespace pd = [] then p_Name pd
     else joinIdentifierFromParts [p_Namespace pd, p_Name pd])"

definition podAndContainerToIdentifier :: "pod \<Rightarrow> container \<Rightarrow> string" where
  "podAndContainerToIdentifier pd c = joinIdentifierFromParts [podToIdentifier pd, c_Name c]"

definition podAndVolumeToIdentifier :: "pod \<Rightarrow> volume \<Rightarrow> string" where
  "podAndVolumeToIdentifier pd v = joinIdentifierFromParts [podToIdentifier pd, v_Name v]"

definition has_prefix :: "string \<Rightarrow> string \<Rightarrow> bool" where
  "has_prefix s p = (take (length p) s = p)"

definition filterIdentifiersByPrefix :: "string list \<Rightarrow> string \<Rightarrow> string list" where
  "filterIdentifiersByPrefix ids prefix =
     filter (\<lambda>i. has_prefix i (joinIdentifierFromParts [prefix, []])) ids"

definition plain :: "string \<Rightarrow> bool" where
  "plain s \<longleftrightarrow> identifierSeparator \<notin> set s"

section \<open>Unambiguous identifiers\<close>

lemma split_join_parts: "ps \<noteq> [] \<Longrightarrow> \<forall>p \<in> set ps. plain p \<Longrightarrow> splitIdentifierIntoParts (joinIdentifierFromParts ps) = ps"
  by (simp add: splitIdentifierIntoParts_def joinIdentifierFromParts_def plain_def split_join)

lemma join_split_id: "joinIdentifierFromParts (splitIdentifierIntoParts s) = s"
  by (simp add: splitIdentifierIntoParts_def joinIdentifierFromParts_def join_split)

lemma join_two: "joinIdentifierFromParts [a, b] = a @ identifierSeparator # b"
  by (simp add: joinIdentifierFromParts_def)

lemma join_three: "joinIdentifierFromParts [a, b, c] = joinIdentifierFromParts [joinIdentifierFromParts [a, b], c]"
  by (simp add: joinIdentifierFromParts_def)

text \<open>The last part of an identifier is determined whatever the first one holds.\<close>

lemma join_last_inj:
  assumes "plain b" "plain d" "joinIdentifierFromParts [a, b] = joinIdentifierFromParts [c, d]"
  shows "a = c \<and> b = d"
proof -
  have "rev b @ identifierSeparator # rev a = rev d @ identifierSeparator # rev c"
    using arg_cong [OF assms(3), of rev] by (simp add: join_two)
  with assms(1,2) show ?thesis
    using append_sep_inj [of identifierSeparator "rev b" "rev d" "rev a" "rev c"] by (simp add: plain_def)
qed

lemma not_plain_join [simp]: "\<not> plain (joinIdentifierFromParts [a, b])"
  by (simp add: plain_def join_two)

lemma podToIdentifier_ns: "p_Namespace pd \<noteq> [] \<Longrightarrow> podToIdentifier pd = joinIdentifierFromParts [p_Namespace pd, p_Name pd]"
  by (simp add: podToIdentifier_def)

lemma container_id_ns:
  "p_Namespace pd \<noteq> [] \<Longrightarrow>
    podAndContainerToIdentifier pd c = joinIdentifierFromParts [p_Namespace pd, p_Name pd, c_Name c]"
  by (simp add: podAndContainerToIdentifier_def podToIdentifier_ns join_three)

lemma has_prefix_append [simp]: "has_prefix (p @ s) p"
  by (simp add: has_prefix_def)

lemma has_prefix_iff: "has_prefix s p \<longleftrightarrow> (\<exists>t. s = p @ t)"
  by (metis append_take_drop_id has_prefix_append has_prefix_def)

end
