(* ===== verification/Storage.thy ===== *)
theory Storage
  imports GoStrings
begin

text \<open>
  \<open>pkg/storage\<close>: the directories the node keeps its images, instances and volumes in, the
  cleaning of image names (every match of \<open>:[0-9]{1,5}\<close> is cut out), and reading an image's
  configuration and layers from a registry. The registry client is not part of the repository:
  its operations are the record \<open>registry\<close>.
\<close>

section \<open>Names and paths\<close>

definition is_digit :: "char \<Rightarrow> bool" where
  "is_digit c = (48 \<le> (of_char c :: nat) \<and> (of_char c :: nat) \<le> 57)"

text \<open>What is left after the longest run of at most \<open>n\<close> digits.\<close>

fun drop_digits :: "nat \<Rightarrow> string \<Rightarrow> string" where
  "drop_digits 0 s = s"
| "drop_digits n [] = []"
| "drop_digits (Suc n) (c # s) = (if is_digit c then drop_digits n s else c # s)"

lemma length_drop_digits: "length (drop_digits n s) \<le> length s"
  by (induction n s rule: drop_digits.induct) auto

text \<open>\<open>regexp.MustCompile(":[0-9]{1,5}").ReplaceAllString(name, "")\<close>: leftmost, greedy.\<close>

function CleanName :: "string \<Rightarrow> string" where
  "CleanName [] = []"
| "CleanName (c # s) = (case s of
     d # s' \<Rightarrow> if c = CHR '':'' \<and> is_digit d then CleanName (drop_digits 4 s') else c # CleanName s
   | [] \<Rightarrow> [c])"
  by pat_completeness auto
termination
  by (relation "measure length") (auto intro: le_imp_less_Suc le_SucI length_drop_digits)

text \<open>
  The state of the package is the variable \<open>rootPath\<close>; \<open>os.UserHomeDir\<close> is read from the
  environment, and \<open>path.Join\<close>, which also cleans the path, is the standard library's. Both are
  parameters.
\<close>

record paths =
  UserHomeDir :: string
  PathJoin :: "string list \<Rightarrow> string"

definition DefaultPath :: "paths \<Rightarrow> string" where
  "DefaultPath e = (if UserHomeDir e \<noteq> [] then PathJoin e [UserHomeDir e, ''.fledge''] else ''/var/lib/fledge'')"

definition SetRootPath :: "string \<Rightarrow> (string, unit) io" where
  "SetRootPath path = modify (\<lambda>_. path)"

definition RootPath :: "paths \<Rightarrow> (string, string) io" where
  "RootPath e = bnd get_st (\<lambda>rootPath. ret (if rootPath = [] then DefaultPath e else rootPath))"

definition ImagesPath :: "paths \<Rightarrow> (string, string) io" where
  "ImagesPath e = bnd (RootPath e) (\<lambda>r. ret (PathJoin e [r, ''images'']))"

definition InstancesPath :: "paths \<Rightarrow> (string, string) io" where
  "InstancesPath e = bnd (RootPath e) (\<lambda>r. ret (PathJoin e [r, ''instances'']))"

definition VolumesPath :: "paths \<Rightarrow> (string, string) io" where
  "VolumesPath e = bnd (RootPath e) (\<lambda>r. ret (PathJoin e [r, ''volumes'']))"

definition ImagePath :: "paths \<Rightarrow> string \<Rightarrow> (string, string) io" where
  "ImagePath e name = bnd (ImagesPath e) (\<lambda>p. ret (PathJoin e [p, CleanName name]))"

definition InstancePath :: "paths \<Rightarrow> string \<Rightarrow> (string, string) io" where
  "InstancePath e name = bnd (InstancesPath e) (\<lambda>p. ret (PathJoin e [p, CleanName name]))"

definition VolumePath :: "paths \<Rightarrow> string \<Rightarrow> (string, string) io" where
  "VolumePath e name = bnd (VolumesPath e) (\<lambda>p. ret (PathJoin e [p, CleanName name]))"

section \<open>Images\<close>

record image_ref =
  ref_Scheme :: string
  ref_Registry :: string
  ref_Tag :: string
  ref_Digest :: string

text \<open>\<open>ociv1ext.Image\<close>: the two fields the code adds; the rest of the configuration is opaque.\<close>

record image =
  Backend :: string
  Hypervisor :: string

definition no_image :: image where
  "no_image = \<lparr>Backend = [], Hypervisor = []\<rparr>"

datatype layer_media = OCI1Layer | OCI1LayerGzip | OtherLayer string

record image_desc =
  d_Digest :: string
  d_MediaType :: layer_media

text \<open>The media types \<open>types.MediaType...\<close> the code names, and any other one.\<close>

datatype media_type = Docker1Manifest | Docker1ManifestSigned | Docker2Manifest | Docker2ManifestList
  | Docker2ImageConfig | OCI1Manifest | OCI1ManifestList | OtherMedia string

text \<open>A manifest: what the methods of the interface value answer; \<open>None\<close> for the configuration
  and the layers of one that is not a \<open>manifest.Imager\<close>.\<close>

record manifest =
  mf_MediaType :: media_type
  mf_IsList :: bool
  mf_GetConfig :: "(image_desc \<times> goerr) option"
  mf_GetLayers :: "(image_desc list \<times> goerr) option"

record 'w registry =
  CommonName :: "image_ref \<Rightarrow> string"
  MediaName :: "media_type \<Rightarrow> string"
  RefNew :: "string \<Rightarrow> image_ref \<times> goerr"
  ManifestGet :: "image_ref \<Rightarrow> ('w, manifest \<times> goerr) io"
  GetPlatformDesc :: "manifest \<Rightarrow> image_desc \<times> goerr"
  BlobGet :: "image_ref \<Rightarrow> image_desc \<Rightarrow> ('w, string \<times> goerr) io"
  DecodeImage :: "string \<Rightarrow> image \<times> goerr"

definition config_media_types :: "media_type list" where
  "config_media_types = [Docker1Manifest, Docker1ManifestSigned, Docker2Manifest, OCI1Manifest]"

definition layers_media_types :: "media_type list" where
  "layers_media_types = [Docker1Manifest, Docker1ManifestSigned, Docker2ImageConfig, OCI1Manifest]"

definition list_media_types :: "media_type list" where
  "list_media_types = [Docker2ManifestList, OCI1ManifestList]"

text \<open>
  The head that \<open>ImageGetConfigWithClient\<close> and \<open>ImageGetLayersWithClient\<close> share word for word:
  fetch the manifest, refuse unknown media types, and follow an index to the manifest of this
  platform (whose own media type is not looked at again).
\<close>

definition get_manifest :: "'w registry \<Rightarrow> media_type list \<Rightarrow> image_ref \<Rightarrow> ('w, manifest option \<times> goerr) io" where
  "get_manifest rc media r = bnd (ManifestGet rc r) (\<lambda>(m, err).
     if err \<noteq> None then ret (None, err)
     else if mf_MediaType m \<notin> set media \<union> set list_media_types then
       ret (None, Some (Errorf ''image %s has an unsupported media type %s'' [CommonName rc r, MediaName rc (mf_MediaType m)]))
     else if mf_IsList m then (case GetPlatformDesc rc m of (d, err) \<Rightarrow>
       if err \<noteq> None then ret (None, err)
       else bnd (ManifestGet rc (r\<lparr>ref_Digest := d_Digest d\<rparr>)) (\<lambda>(m', err).
         if err \<noteq> None then ret (None, err) else ret (Some m', None)))
     else ret (Some m, None))"

definition ImageGetConfigWithClient :: "'w registry \<Rightarrow> image_ref \<Rightarrow> ('w, image \<times> goerr) io" where
  "ImageGetConfigWithClient rc r = bnd (get_manifest rc config_media_types r) (\<lambda>(m, err). case m of
     None \<Rightarrow> ret (no_image, err)
   | Some m \<Rightarrow> (case mf_GetConfig m of
       None \<Rightarrow> ret (no_image, Some (Errorf ''reference %s does not represent a valid image'' [CommonName rc r]))
     | Some (d, err) \<Rightarrow>
         if err \<noteq> None then ret (no_image, None)
         else bnd (BlobGet rc r d) (\<lambda>(blob, err).
           if err \<noteq> None then ret (no_image, err)
           else (case DecodeImage rc blob of (conf, err) \<Rightarrow>
             if err \<noteq> None then ret (no_image, err) else ret (conf, None)))))"

definition ImageGetLayersWithClient :: "'w registry \<Rightarrow> image_ref \<Rightarrow> ('w, image_desc list \<times> goerr) io" where
  "ImageGetLayersWithClient rc r = bnd (get_manifest rc layers_media_types r) (\<lambda>(m, err). case m of
     None \<Rightarrow> ret ([], err)
   | Some m \<Rightarrow> (case mf_GetLayers m of
       None \<Rightarrow> ret ([], Some (Errorf ''reference %s does not represent a valid image'' [CommonName rc r]))
     | Some (layers, err) \<Rightarrow> ret (layers, err)))"

definition ImageGetConfig :: "'w registry \<Rightarrow> string \<Rightarrow> ('w, image \<times> goerr) io" where
  "ImageGetConfig rc name = (case RefNew rc name of (src, err) \<Rightarrow>
     if err \<noteq> None then ret (no_image, err)
     else if ref_Registry src = [] then
       ret (no_image, Some (Errorf ''reference %s does not contain a valid registry'' [CommonName rc src]))
     else ImageGetConfigWithClient rc src)"

definition ImageGetLayers :: "'w registry \<Rightarrow> string \<Rightarrow> ('w, image_desc list \<times> goerr) io" where
  "ImageGetLayers rc name = (case RefNew rc name of (src, err) \<Rightarrow>
     if err \<noteq> None then ret ([], err)
     else if ref_Registry src = [] then
       ret ([], Some (Errorf ''reference %s does not contain a valid registry'' [CommonName rc src]))
     else ImageGetLayersWithClient rc src)"

text \<open>\<open>util.go\<close>: where an image is kept locally, and whether it has to be fetched.\<close>

definition ensureDirRef :: "'w registry \<Rightarrow> paths \<Rightarrow> image_ref \<Rightarrow> (string, image_ref \<times> goerr) io" where
  "ensureDirRef rc e r = (if ref_Scheme r = ''ocidir'' then ret (r, None)
     else bnd (ImagePath e (CommonName rc r)) (\<lambda>p. ret (RefNew rc (''ocidir://'' @ p))))"

definition shouldPullImage :: "'w registry \<Rightarrow> image_ref \<Rightarrow> ('w, bool) io" where
  "shouldPullImage rc r = (if ref_Tag r = [] \<or> ref_Tag r = ''latest'' then ret True
     else bnd (ManifestGet rc r) (\<lambda>(_, err). ret (err \<noteq> None)))"

section \<open>Extracting archives\<close>

text \<open>
  \<open>extractTarToDir\<close>, which nothing calls. \<open>headers\<close> are the headers \<open>Next\<close> answers before the error
  that ends the loop: the end of the archive or any other, which is not told apart from it. The
  files of the standard library stand behind \<open>tar_files\<close>; a file is a handle.
\<close>

datatype tar_type = TypeDir | TypeReg | TypeOther char

record tar_header =
  th_Name :: string
  th_Typeflag :: tar_type
  th_Mode :: "64 word"

record 'w tar_files =
  tf_MkdirAll :: "string \<Rightarrow> 32 word \<Rightarrow> ('w, goerr) io"
  tf_Mkdir :: "string \<Rightarrow> 32 word \<Rightarrow> ('w, goerr) io"
  tf_IsExist :: "go_error \<Rightarrow> bool"
  tf_OpenFile :: "string \<Rightarrow> 32 word \<Rightarrow> ('w, nat \<times> goerr) io"
  tf_CopyEntry :: "nat \<Rightarrow> ('w, goerr) io"
  tf_Close :: "nat \<Rightarrow> ('w, goerr) io"

definition extract_entry :: "paths \<Rightarrow> 'w tar_files \<Rightarrow> string \<Rightarrow> tar_header \<Rightarrow> ('w, goerr option) io" where
  "extract_entry e fs root header = (let name = PathJoin e [root, th_Name header]; mode = ucast (th_Mode header) in
     case th_Typeflag header of
       TypeDir \<Rightarrow> bnd (tf_Mkdir fs name mode) (\<lambda>err. case err of
           Some er \<Rightarrow> if tf_IsExist fs er then ret None else ret (Some err)
         | None \<Rightarrow> ret None)
     | TypeReg \<Rightarrow> bnd (tf_OpenFile fs name mode) (\<lambda>(file, err).
         if err \<noteq> None then ret (Some err)
         else bnd (tf_CopyEntry fs file) (\<lambda>err.
           if err \<noteq> None then bnd (tf_Close fs file) (\<lambda>_. ret (Some err))
           else bnd (tf_Close fs file) (\<lambda>err. if err \<noteq> None then ret (Some err) else ret None)))
     | TypeOther t \<Rightarrow> ret (Some (Some (Errorf ''unknown type: %b in %s'' [[t], th_Name header]))))"

definition extractTarToDir :: "paths \<Rightarrow> 'w tar_files \<Rightarrow> tar_header list \<Rightarrow> string \<Rightarrow> ('w, goerr) io" where
  "extractTarToDir e fs headers root = bnd (tf_MkdirAll fs root 0x1ED) (\<lambda>err.
     if err \<noteq> None then ret err
     else bnd (for_each headers (extract_entry e fs root)) (\<lambda>r. case r of
       Some err \<Rightarrow> ret err | None \<Rightarrow> ret None))"

end
