(* ===== verification/Instances.thy ===== *)
theory Instances
  imports Identifiers Storage NetManagers
begin

text \<open>
  Instances of containers (\<open>instance.go\<close>, \<open>instance_volume.go\<close>, \<open>instance_volume_mount.go\<close>), the
  interface \<open>Backend\<close> (\<open>backend.go\<close>) as a record of operations, the dummy backend
  (\<open>backend_dummy.go\<close>), and the provider's configuration and constructor (\<open>config.go\<close>,
  \<open>provider.go\<close>).

  A backend may call the network manager, so its operations work on the state of
  \<open>pkg/network\<close>; the provider adds its two maps. The field \<open>Backend\<close> of an instance is
  represented by its key in the provider's map of backends, which is never written once the
  provider is made.
\<close>

section \<open>Volumes\<close>

record instance_projection =
  ivp_Source :: projection
  ivp_Secret :: "(secret_projection \<times> secret) option"
  ivp_ConfigMap :: "(config_map_projection \<times> config_map) option"
  ivp_ServiceAccountToken :: "(string \<times> secret) option"

record instance_volume =
  iv_ID :: string
  iv_Volume :: volume
  iv_Secret :: "(secret_source \<times> secret) option"
  iv_ConfigMap :: "(config_map_source \<times> config_map) option"
  iv_Projected :: "instance_projection list option"

text \<open>\<open>x.Optional != nil && !*x.Optional && apierrors.IsNotFound(err)\<close>\<close>

definition required_missing :: "'w listers \<Rightarrow> bool option \<Rightarrow> goerr \<Rightarrow> bool" where
  "required_missing rm opt err \<longleftrightarrow> opt = Some False \<and> is_not_found rm err"

text \<open>The body of the loop over the sources of a projected volume (\<open>instance_volume.go:112-163\<close>).\<close>

definition newInstanceProjection ::
  "'w listers \<Rightarrow> pod \<Rightarrow> volume \<Rightarrow> projection \<Rightarrow> ('w, go_error + instance_projection) io" where
  "newInstanceProjection rm pd v src =
     (let is0 = \<lparr>ivp_Source = src, ivp_Secret = None, ivp_ConfigMap = None, ivp_ServiceAccountToken = None\<rparr> in
      case pr_Secret src of
        Some sp \<Rightarrow> bnd (rm_GetSecret rm (sp_Name sp) (p_Namespace pd)) (\<lambda>(obj, err).
          if required_missing rm (sp_Optional sp) err then
            ret (Inl (Errorf ''secret %s is required by volume %s and does not exist'' [sp_Name sp, v_Name v]))
          else ret (Inr (case obj of None \<Rightarrow> is0 | Some ob \<Rightarrow> is0\<lparr>ivp_Secret := Some (sp, ob)\<rparr>)))
      | None \<Rightarrow>
      if pr_DownwardAPI src \<noteq> None then ret (Inr is0)
      else case pr_ConfigMap src of
        Some cp \<Rightarrow> bnd (rm_GetConfigMap rm (cp_Name cp) (p_Namespace pd)) (\<lambda>(obj, err).
          if required_missing rm (cp_Optional cp) err then
            ret (Inl (Errorf ''secret %s is required by volume %s and does not exist'' [cp_Name cp, v_Name v]))
          else ret (Inr (case obj of None \<Rightarrow> is0 | Some ob \<Rightarrow> is0\<lparr>ivp_ConfigMap := Some (cp, ob)\<rparr>)))
      | None \<Rightarrow> (case pr_ServiceAccountToken src of
        Some tok \<Rightarrow> bnd (rm_GetServiceAccount rm (ps_ServiceAccountName (p_Spec pd)) (p_Namespace pd)) (\<lambda>(sa, err).
          if err \<noteq> None then ret (Inl (Errorf ''unable to find serviceAccountToken for volume %s'' [v_Name v]))
          else bnd (deref sa) (\<lambda>sa.
            ret (Inr (is0\<lparr>ivp_ServiceAccountToken := Some (tok,
              \<lparr>s_Kind = ''ServiceAccountToken'', s_Namespace = p_Namespace pd, s_Name = sa_Name sa,
               s_Data = [], s_StringData = [(''token'', ''{}'')], s_Type = ''kubernetes.io/service-account-token''\<rparr>)\<rparr>))))
      | None \<Rightarrow> ret (Inr is0)))"

primrec newInstanceProjections ::
  "'w listers \<Rightarrow> pod \<Rightarrow> volume \<Rightarrow> projection list \<Rightarrow> ('w, go_error + instance_projection list) io" where
  "newInstanceProjections rm pd v [] = ret (Inr [])"
| "newInstanceProjections rm pd v (src # srcs) = bnd (newInstanceProjection rm pd v src) (\<lambda>r. case r of
     Inl e \<Rightarrow> ret (Inl e)
   | Inr p \<Rightarrow> bnd (newInstanceProjections rm pd v srcs) (\<lambda>r. case r of
       Inl e \<Rightarrow> ret (Inl e) | Inr ps \<Rightarrow> ret (Inr (p # ps))))"

definition newInstanceVolume :: "'w listers \<Rightarrow> pod \<Rightarrow> volume \<Rightarrow> ('w, go_error + instance_volume) io" where
  "newInstanceVolume rm pd v =
     (let iv = \<lparr>iv_ID = joinIdentifierFromParts [p_Namespace pd, p_Name pd, v_Name v], iv_Volume = v,
                iv_Secret = None, iv_ConfigMap = None, iv_Projected = None\<rparr> in
      if v_HostPath v \<noteq> None then ret (Inr iv)
      else if v_EmptyDir v \<noteq> None then ret (Inr iv)
      else case v_Secret v of
        Some ss \<Rightarrow> bnd (rm_GetSecret rm (ss_SecretName ss) (p_Namespace pd)) (\<lambda>(obj, err).
          if required_missing rm (ss_Optional ss) err then
            ret (Inl (Errorf ''secret %s is required by volume %s and does not exist'' [ss_SecretName ss, v_Name v]))
          else ret (Inr (case obj of None \<Rightarrow> iv | Some ob \<Rightarrow> iv\<lparr>iv_Secret := Some (ss, ob)\<rparr>)))
      | None \<Rightarrow>
      if v_NFS v \<noteq> None then ret (Inr iv)
      else case v_ConfigMap v of
        Some cs \<Rightarrow> bnd (rm_GetConfigMap rm (cs_Name cs) (p_Namespace pd)) (\<lambda>(obj, err).
          if required_missing rm (cs_Optional cs) err then
            ret (Inl (Errorf ''configMap %s is required by volume %s and does not exist'' [cs_Name cs, v_Name v]))
          else ret (Inr (case obj of None \<Rightarrow> iv | Some ob \<Rightarrow> iv\<lparr>iv_ConfigMap := Some (cs, ob)\<rparr>)))
      | None \<Rightarrow> (case v_Projected v of
        Some srcs \<Rightarrow> bnd (newInstanceProjections rm pd v srcs) (\<lambda>r. case r of
          Inl e \<Rightarrow> ret (Inl e) | Inr ps \<Rightarrow> ret (Inr (iv\<lparr>iv_Projected := Some ps\<rparr>)))
      | None \<Rightarrow> ret (Inl (Errorf ''volume %q has an unsupported type'' [v_Name v]))))"

section \<open>Instances and backends\<close>

record inst =
  ID :: string
  i_Backend :: string
  i_Container :: container
  i_VolumeMounts :: "(volume_mount \<times> instance_volume) list"
  i_HostNetwork :: bool
  i_Metadata :: object_meta

text \<open>The logs of an instance are the text the reader gives; attached streams are left out.\<close>

record 'w backend =
  GetInstanceStatus :: "inst \<Rightarrow> ('w, container_status \<times> goerr) nio"
  CreateInstance :: "inst \<Rightarrow> ('w, goerr) nio"
  StartInstance :: "inst \<Rightarrow> ('w, goerr) nio"
  UpdateInstance :: "inst \<Rightarrow> ('w, goerr) nio"
  KillInstance :: "inst \<Rightarrow> int \<Rightarrow> ('w, goerr) nio"
  DeleteInstance :: "inst \<Rightarrow> ('w, goerr) nio"
  GetInstanceLogs :: "inst \<Rightarrow> ('w, string option \<times> goerr) nio"
  RunInInstance :: "inst \<Rightarrow> string list \<Rightarrow> ('w, goerr) nio"

definition DummyStatus :: "inst \<Rightarrow> container_status" where
  "DummyStatus i = \<lparr>cst_Name = ''dummy'', cst_State = \<lparr>st_Waiting = None, st_Running = None, st_Terminated = Some
     \<lparr>t_ExitCode = 0, t_Message = ''This container is run by a dummy backend which does absolutely nothing.'',
      t_StartedAt = [], t_FinishedAt = [], t_ContainerID = ID i\<rparr>\<rparr>,
     cst_LastTerminationState = no_state, cst_Image = [], cst_ContainerID = [], cst_Started = None\<rparr>"

definition DummyBackend :: "'w backend" where
  "DummyBackend = \<lparr>
     GetInstanceStatus = (\<lambda>i. ret (DummyStatus i, None)),
     CreateInstance = (\<lambda>_. ret None),
     StartInstance = (\<lambda>_. ret None),
     UpdateInstance = (\<lambda>_. ret None),
     KillInstance = (\<lambda>_ _. ret None),
     DeleteInstance = (\<lambda>_. ret None),
     GetInstanceLogs = (\<lambda>_. ret (Some [], None)),
     RunInInstance = (\<lambda>_ _. ret None)\<rparr>"

section \<open>The provider\<close>

definition BackendContainerd :: string where "BackendContainerd = ''containerd''"
definition BackendOsv :: string where "BackendOsv = ''osv''"

record provider_config =
  Default :: string
  Enabled :: "string list"

definition defaultConfig :: provider_config where
  "defaultConfig = \<lparr>Default = BackendContainerd, Enabled = [BackendContainerd]\<rparr>"

text \<open>
  The fields of \<open>Provider\<close> that are not written after \<open>NewProviderConfig\<close>, with what its methods
  reach through globals: the network manager (\<open>network.PodNetworkManager\<close>, a pointer), the
  registry client, the parser of image names, and the order the runtime ranges over maps in.
\<close>

record 'w provider =
  nodeName :: string
  internalIP :: string
  pconfig :: provider_config
  backends :: "(string \<times> 'w backend) list"
  resourceManager :: "'w listers"
  images :: "'w registry"
  ParseDockerRef :: "string \<Rightarrow> string \<times> goerr"
  PodNetworkManager_ptr :: "'w CNIManager option"
  runtime_kernel :: "'w kernel"

record 'w provider_state =
  pods :: "(string \<times> pod) list"
  instances :: "(string \<times> inst) list"
  net :: "'w net_state"

type_synonym ('w, 'a) pio = "('w provider_state, 'a) io"

definition on_net :: "('w, 'a) nio \<Rightarrow> ('w, 'a) pio" where
  "on_net m = (\<lambda>s. case m (net s) of (r, n) \<Rightarrow> (r, s\<lparr>net := n\<rparr>))"

lemma on_net_apply [io_simps]: "on_net m s = (case m (net s) of (r, n) \<Rightarrow> (r, s\<lparr>net := n\<rparr>))"
  by (simp add: on_net_def)

definition default_config :: "provider_config \<Rightarrow> provider_config" where
  "default_config cfg = (let cfg = (if Default cfg = [] then cfg\<lparr>Default := Default defaultConfig\<rparr> else cfg)
     in if Enabled cfg = [] then cfg\<lparr>Enabled := Enabled defaultConfig\<rparr> else cfg)"

text \<open>\<open>loadConfig\<close>: reading and parsing the file are the system's.\<close>

definition loadConfig :: "('w, string \<times> goerr) io \<Rightarrow> (string \<Rightarrow> provider_config \<times> goerr) \<Rightarrow>
    ('w, go_error + provider_config) io" where
  "loadConfig read unmarshal = bnd read (\<lambda>(data, err). case err of Some e \<Rightarrow> ret (Inl e)
     | None \<Rightarrow> (case unmarshal data of (cfg, err) \<Rightarrow> case err of Some e \<Rightarrow> ret (Inl e)
       | None \<Rightarrow> ret (Inr (default_config cfg))))"

text \<open>The loop of \<open>NewProviderConfig\<close> over the enabled backends; their constructors are arguments.\<close>

primrec setup_backends ::
  "('w, 'w backend \<times> goerr) nio \<Rightarrow> ('w, 'w backend \<times> goerr) nio \<Rightarrow> string list \<Rightarrow>
   (string \<times> 'w backend) list \<Rightarrow> ('w, go_error + (string \<times> 'w backend) list) nio" where
  "setup_backends newContainerd newOsv [] bs = ret (Inr bs)"
| "setup_backends newContainerd newOsv (e # es) bs =
     (if e = BackendContainerd then bnd newContainerd (\<lambda>(b, err). case err of
        Some er \<Rightarrow> ret (Inl er) | None \<Rightarrow> setup_backends newContainerd newOsv es (AList.update e b bs))
      else if e = BackendOsv then bnd newOsv (\<lambda>(b, err). case err of
        Some er \<Rightarrow> ret (Inl er) | None \<Rightarrow> setup_backends newContainerd newOsv es (AList.update e b bs))
      else ret (Inl (Errorf (''backend '%s' is not supported'' @ [CHR 0x0A]) [e])))"

text \<open>What \<open>NewProviderConfig\<close> fills in: the configuration and the backends; the maps start empty.\<close>

definition NewProviderConfig ::
  "('w, 'w backend \<times> goerr) nio \<Rightarrow> ('w, 'w backend \<times> goerr) nio \<Rightarrow> 'w provider \<Rightarrow> provider_config \<Rightarrow>
   ('w, go_error + 'w provider) nio" where
  "NewProviderConfig newContainerd newOsv p cfg =
     (let cfg = default_config cfg in
      bnd (setup_backends newContainerd newOsv (Enabled cfg) []) (\<lambda>r. case r of
        Inl e \<Rightarrow> ret (Inl e)
      | Inr bs \<Rightarrow> ret (Inr (p\<lparr>pconfig := cfg, backends := bs\<rparr>))))"

definition no_pods :: "'w net_state \<Rightarrow> 'w provider_state" where
  "no_pods n = \<lparr>pods = [], instances = [], net = n\<rparr>"

text \<open>\<open>NewProvider\<close>\<close>

definition NewProvider ::
  "('w, string \<times> goerr) io \<Rightarrow> (string \<Rightarrow> provider_config \<times> goerr) \<Rightarrow>
   ('w, 'w backend \<times> goerr) nio \<Rightarrow> ('w, 'w backend \<times> goerr) nio \<Rightarrow> 'w provider \<Rightarrow>
   ('w, go_error + 'w provider) nio" where
  "NewProvider read unmarshal newContainerd newOsv p = bnd (kio (loadConfig read unmarshal)) (\<lambda>r. case r of
     Inl e \<Rightarrow> ret (Inl e)
   | Inr cfg \<Rightarrow> NewProviderConfig newContainerd newOsv p cfg)"

section \<open>Making and using instances\<close>

text \<open>\<open>volumesByName\<close>: the last volume of a name wins.\<close>

definition volumesByName :: "pod \<Rightarrow> string \<Rightarrow> volume option" where
  "volumesByName pd n = map_of (rev (map (\<lambda>v. (v_Name v, v)) (ps_Volumes (p_Spec pd)))) n"

primrec newInstanceMounts ::
  "'w listers \<Rightarrow> pod \<Rightarrow> volume_mount list \<Rightarrow> ('w, go_error + (volume_mount \<times> instance_volume) list) io" where
  "newInstanceMounts rm pd [] = ret (Inr [])"
| "newInstanceMounts rm pd (vm # vms) = (case volumesByName pd (vm_Name vm) of
     None \<Rightarrow> ret (Inl (Errorf ''failed to find volume %q in spec of pod %q'' [vm_Name vm, p_Name pd]))
   | Some v \<Rightarrow> bnd (newInstanceVolume rm pd v) (\<lambda>r. case r of
       Inl e \<Rightarrow> ret (Inl e)
     | Inr iv \<Rightarrow> bnd (newInstanceMounts rm pd vms) (\<lambda>r. case r of
         Inl e \<Rightarrow> ret (Inl e) | Inr ms \<Rightarrow> ret (Inr ((vm, iv) # ms)))))"

text \<open>
  The container is the loop variable of \<open>CreatePod\<close>, a copy: the image written back to it is seen
  in the instance and not in the pod. When the backend is not enabled the code wraps the \<open>err\<close>
  of the last call, which is nil, so it answers a nil instance with a nil error.
\<close>

definition newInstance :: "'w provider \<Rightarrow> pod \<Rightarrow> container \<Rightarrow> ('w, inst option \<times> goerr) pio" where
  "newInstance p pd c = bnd get_st (\<lambda>s.
     let instanceID = podAndContainerToIdentifier pd c in
     if map_of (instances s) instanceID \<noteq> None then
       ret (None, Some (Errorf ''name collision for instance %q'' [instanceID]))
     else (case ParseDockerRef p (c_Image c) of (imageRef, err) \<Rightarrow>
     if err \<noteq> None then ret (None, Some (Errorf ''failed parsing reference %q'' [c_Image c]))
     else let c = c\<lparr>c_Image := imageRef\<rparr> in
     bnd (on_net (kio (ImageGetConfig (images p) (c_Image c)))) (\<lambda>(im, err).
     if err \<noteq> None then ret (None, wrap err ''unable to get image config of %q'' [c_Image c])
     else let im = (if Backend im = [] then im\<lparr>Backend := BackendContainerd\<rparr> else im) in
     case map_of (backends p) (Backend im) of
       None \<Rightarrow> ret (None, wrap err ''failed to find enabled backend %q'' [Backend im])
     | Some _ \<Rightarrow> bnd (on_net (kio (newInstanceMounts (resourceManager p) pd (c_VolumeMounts c)))) (\<lambda>r. case r of
         Inl e \<Rightarrow> ret (None, Some e)
       | Inr ms \<Rightarrow> ret (Some \<lparr>ID = instanceID, i_Backend = Backend im, i_Container = c, i_VolumeMounts = ms,
                     i_HostNetwork = ps_HostNetwork (p_Spec pd), i_Metadata = p_Meta pd\<rparr>, None)))))"

definition backend_of :: "'w provider \<Rightarrow> inst \<Rightarrow> ('w, 'w backend) pio" where
  "backend_of p i = deref (map_of (backends p) (i_Backend i))"

definition i_Status :: "'w provider \<Rightarrow> inst \<Rightarrow> ('w, container_status \<times> goerr) pio" where
  "i_Status p i = bnd (backend_of p i) (\<lambda>b. on_net (GetInstanceStatus b i))"
definition i_Create :: "'w provider \<Rightarrow> inst \<Rightarrow> ('w, goerr) pio" where
  "i_Create p i = bnd (backend_of p i) (\<lambda>b. on_net (CreateInstance b i))"
definition i_Start :: "'w provider \<Rightarrow> inst \<Rightarrow> ('w, goerr) pio" where
  "i_Start p i = bnd (backend_of p i) (\<lambda>b. on_net (StartInstance b i))"
definition i_Kill :: "'w provider \<Rightarrow> inst \<Rightarrow> int \<Rightarrow> ('w, goerr) pio" where
  "i_Kill p i sig = bnd (backend_of p i) (\<lambda>b. on_net (KillInstance b i sig))"
definition i_Update :: "'w provider \<Rightarrow> inst \<Rightarrow> ('w, goerr) pio" where
  "i_Update p i = bnd (backend_of p i) (\<lambda>b. on_net (UpdateInstance b i))"
definition i_Delete :: "'w provider \<Rightarrow> inst \<Rightarrow> ('w, goerr) pio" where
  "i_Delete p i = bnd (backend_of p i) (\<lambda>b. on_net (DeleteInstance b i))"
definition i_Logs :: "'w provider \<Rightarrow> inst \<Rightarrow> ('w, string option \<times> goerr) pio" where
  "i_Logs p i = bnd (backend_of p i) (\<lambda>b. on_net (GetInstanceLogs b i))"
definition i_Run :: "'w provider \<Rightarrow> inst \<Rightarrow> string list \<Rightarrow> ('w, goerr) pio" where
  "i_Run p i cmd = bnd (backend_of p i) (\<lambda>b. on_net (RunInInstance b i cmd))"

lemmas instance_ops = i_Status_def i_Create_def i_Start_def i_Kill_def i_Update_def i_Delete_def
  i_Logs_def i_Run_def

end
