(* ===== verification/Pods.thy ===== *)
theory Pods
  imports Instances
begin

text \<open>
  The operations of the provider on pods (\<open>pod.go\<close>) and containers (\<open>container.go\<close>), its metrics
  (\<open>metrics.go\<close>) and statistics (\<open>stats.go\<close>). Tracing, logging and the commented-out systemd code
  have no effect on its state and are left out, as is \<open>volumesToCreate\<close>, which is never read.
\<close>

section \<open>Pods\<close>

definition GetPod :: "string \<Rightarrow> string \<Rightarrow> ('w, pod option \<times> goerr) pio" where
  "GetPod namespace name = bnd get_st (\<lambda>s.
     case map_of (pods s) (joinIdentifierFromParts [namespace, name]) of
       None \<Rightarrow> ret (None, Some (Errorf ''Pod %s/%s not found'' [namespace, name]))
     | Some pd \<Rightarrow> ret (Some pd, None))"

definition GetPods :: "'w provider \<Rightarrow> ('w, pod list \<times> goerr) pio" where
  "GetPods p = bnd get_st (\<lambda>s. bnd (on_net (range_map (runtime_kernel p) (pods s))) (\<lambda>l. ret (map snd l, None)))"

definition getInstance :: "string \<Rightarrow> string \<Rightarrow> string \<Rightarrow> ('w, inst option) pio" where
  "getInstance namespace podName containerName = bnd get_st (\<lambda>s.
     ret (map_of (instances s) (joinIdentifierFromParts [namespace, podName, containerName])))"

text \<open>Pods that Kubernetes puts on every node are recorded but not run.\<close>

definition is_k8s_app :: "pod \<Rightarrow> bool" where
  "is_k8s_app pd = (case map_of (om_Labels (p_Meta pd)) ''k8s-app'' of
     None \<Rightarrow> False | Some app \<Rightarrow> app = ''calico-node'' \<or> app = ''kube-proxy'')"

definition all_containers :: "pod \<Rightarrow> container list" where
  "all_containers pd = ps_InitContainers (p_Spec pd) @ ps_Containers (p_Spec pd)"

definition network_manager :: "'w provider \<Rightarrow> ('w, 'w CNIManager) pio" where
  "network_manager p = deref (PodNetworkManager_ptr p)"

text \<open>
  The two loops of \<open>CreatePod\<close>: making the instances stops at the first error, starting them
  does not, and only the second one records them.
\<close>

primrec create_instances ::
  "'w provider \<Rightarrow> pod \<Rightarrow> container list \<Rightarrow> ('w, go_error + inst list) pio" where
  "create_instances p pd [] = ret (Inr [])"
| "create_instances p pd (c # cs) = bnd (newInstance p pd c) (\<lambda>(i, err). case err of
     Some e \<Rightarrow> ret (Inl (Wrapf e ''failed to create instance %q for pod %q'' [c_Name c, podToIdentifier pd]))
   | None \<Rightarrow> bnd (deref i) (\<lambda>i. bnd (i_Create p i) (\<lambda>err. case err of
       Some e \<Rightarrow> ret (Inl (Wrapf e ''failed to create instance %q'' [ID i]))
     | None \<Rightarrow> bnd (create_instances p pd cs) (\<lambda>r. case r of
         Inl e \<Rightarrow> ret (Inl e) | Inr is \<Rightarrow> ret (Inr (i # is))))))"

primrec start_instances :: "'w provider \<Rightarrow> inst list \<Rightarrow> ('w, unit) pio" where
  "start_instances p [] = ret ()"
| "start_instances p (i # is) = bnd (i_Start p i) (\<lambda>_.
     bnd (modify (\<lambda>s. s\<lparr>instances := AList.update (ID i) i (instances s)\<rparr>)) (\<lambda>_. start_instances p is))"

definition CreatePod :: "'w provider \<Rightarrow> pod \<Rightarrow> ('w, goerr) pio" where
  "CreatePod p pd = bnd (modify (\<lambda>s. s\<lparr>pods := AList.update (podToIdentifier pd) pd (pods s)\<rparr>)) (\<lambda>_.
     if is_k8s_app pd then ret None
     else bnd (network_manager p) (\<lambda>nm.
       bnd (on_net (cni_InitPodNetwork nm (p_Namespace pd) (p_Name pd))) (\<lambda>_.
       bnd (create_instances p pd (all_containers pd)) (\<lambda>r. case r of
         Inl e \<Rightarrow> ret (Some e)
       | Inr is \<Rightarrow> bnd (start_instances p is) (\<lambda>_. ret None)))))"

definition DeletePod :: "'w provider \<Rightarrow> pod \<Rightarrow> ('w, goerr) pio" where
  "DeletePod p pd = bnd (for_all (all_containers pd) (\<lambda>c. bnd get_st (\<lambda>s.
       case map_of (instances s) (podAndContainerToIdentifier pd c) of
         None \<Rightarrow> ret ()
       | Some i \<Rightarrow> bnd (i_Delete p i) (\<lambda>_. ret ()))))
     (\<lambda>_. bnd (network_manager p) (\<lambda>nm.
       bnd (on_net (cni_StopPodNetwork nm (p_Namespace pd) (p_Name pd))) (\<lambda>_. ret None)))"

definition UpdatePod :: "'w provider \<Rightarrow> pod \<Rightarrow> ('w, goerr) pio" where
  "UpdatePod p pd = bnd (DeletePod p pd) (\<lambda>err. if err \<noteq> None then ret err else CreatePod p pd)"

text \<open>
  The statuses of a list of containers: \<open>Inl\<close> when a container has no instance (the pod is
  pending) or its backend fails.
\<close>

datatype status_stop = NotYet | Failed go_error

primrec instance_statuses ::
  "'w provider \<Rightarrow> pod \<Rightarrow> container list \<Rightarrow> ('w, status_stop + container_status list) pio" where
  "instance_statuses p pd [] = ret (Inr [])"
| "instance_statuses p pd (c # cs) = bnd (getInstance (p_Namespace pd) (p_Name pd) (c_Name c)) (\<lambda>i. case i of
     None \<Rightarrow> ret (Inl NotYet)
   | Some i \<Rightarrow> bnd (i_Status p i) (\<lambda>(st, err). case err of
       Some e \<Rightarrow> ret (Inl (Failed (Wrapf e ''osv'' [])))
     | None \<Rightarrow> bnd (instance_statuses p pd cs) (\<lambda>r. case r of
         Inl e \<Rightarrow> ret (Inl e) | Inr sts \<Rightarrow> ret (Inr (st # sts)))))"

text \<open>The variables \<open>started\<close> and \<open>running\<close> of the loop over the containers.\<close>

fun phase_vars :: "container_status list \<Rightarrow> bool \<times> bool \<Rightarrow> bool \<times> bool" where
  "phase_vars [] v = v"
| "phase_vars (st # sts) (started, running) = phase_vars sts
     (if st_Running (cst_State st) = None
      then if st_Terminated (cst_State st) = None then (False, running) else (started, False)
      else (started, running))"

definition pod_phase_of :: "container_status list \<Rightarrow> pod_phase" where
  "pod_phase_of sts = (case phase_vars sts (True, True) of (started, running) \<Rightarrow>
     if running then PodRunning else if started then PodFailed else PodPending)"

definition pending_status :: pod_status where
  "pending_status = \<lparr>pst_Phase = PodPending, pst_InitContainerStatuses = [], pst_ContainerStatuses = []\<rparr>"

definition GetPodStatus :: "'w provider \<Rightarrow> string \<Rightarrow> string \<Rightarrow> ('w, pod_status option \<times> goerr) pio" where
  "GetPodStatus p namespace name = bnd (GetPod namespace name) (\<lambda>(pd, err).
     if err \<noteq> None then ret (None, err)
     else bnd (deref pd) (\<lambda>pd.
       bnd (instance_statuses p pd (ps_InitContainers (p_Spec pd))) (\<lambda>r. case r of
         Inl NotYet \<Rightarrow> ret (Some pending_status, None)
       | Inl (Failed e) \<Rightarrow> ret (None, Some e)
       | Inr initSts \<Rightarrow> bnd (instance_statuses p pd (ps_Containers (p_Spec pd))) (\<lambda>r. case r of
           Inl NotYet \<Rightarrow> ret (Some pending_status, None)
         | Inl (Failed e) \<Rightarrow> ret (None, Some e)
         | Inr sts \<Rightarrow> ret (Some \<lparr>pst_Phase = pod_phase_of sts, pst_InitContainerStatuses = initSts,
                              pst_ContainerStatuses = sts\<rparr>, None)))))"

section \<open>Containers (\<open>container.go\<close>)\<close>

definition no_instance_err :: "string \<Rightarrow> string \<Rightarrow> string \<Rightarrow> goerr" where
  "no_instance_err namespace podName containerName = Some (Errorf
     ''failed to find instance (namespace=%s, podName=%s, containerName=%s)'' [namespace, podName, containerName])"

definition GetContainerLogs :: "'w provider \<Rightarrow> string \<Rightarrow> string \<Rightarrow> string \<Rightarrow> ('w, string option \<times> goerr) pio" where
  "GetContainerLogs p namespace podName containerName =
     bnd (getInstance namespace podName containerName) (\<lambda>i. case i of
       None \<Rightarrow> ret (None, no_instance_err namespace podName containerName)
     | Some i \<Rightarrow> i_Logs p i)"

definition RunInContainer :: "'w provider \<Rightarrow> string \<Rightarrow> string \<Rightarrow> string \<Rightarrow> string list \<Rightarrow> ('w, goerr) pio" where
  "RunInContainer p namespace podName containerName cmd =
     bnd (getInstance namespace podName containerName) (\<lambda>i. case i of
       None \<Rightarrow> ret (no_instance_err namespace podName containerName)
     | Some i \<Rightarrow> i_Run p i cmd)"

definition AttachToContainer :: "string \<Rightarrow> string \<Rightarrow> string \<Rightarrow> ('w, goerr) pio" where
  "AttachToContainer namespace name cname = ret None"

definition PortForward :: "string \<Rightarrow> string \<Rightarrow> 32 word \<Rightarrow> ('w, goerr) pio" where
  "PortForward namespace pname port = ret None"

definition GetStatsSummary :: "('w, unit option \<times> goerr) pio" where
  "GetStatsSummary = ret (None, Some (Errorf ''GetStatsSummary not implemented'' []))"

section \<open>Metrics (\<open>metrics.go\<close>)\<close>

datatype metric_type = COUNTER | GAUGE

record metric =
  m_Label :: "(string \<times> string) list"
  m_Counter :: "int option"
  m_Gauge :: "int option"

record metric_family =
  mf_Name :: string
  mf_Type :: "metric_type option"
  mf_Metric :: "metric list"

definition cpuMetricSuffix :: string where "cpuMetricSuffix = ''_cpu_usage_seconds_total''"
definition memoryMetricSuffix :: string where "memoryMetricSuffix = ''_memory_working_set_bytes''"

definition append_metric :: "string \<Rightarrow> metric \<Rightarrow> (string \<times> metric list) list \<Rightarrow> (string \<times> metric list) list" where
  "append_metric n m mm = (case map_of mm n of
     Some ms \<Rightarrow> AList.update n (ms @ [m]) mm | None \<Rightarrow> AList.update n [m] mm)"

definition generateMockMetrics ::
  "(string \<times> metric list) list option \<Rightarrow> string \<Rightarrow> (string \<times> string) list \<Rightarrow> (string \<times> metric list) list" where
  "generateMockMetrics metricsMap resourceType label =
     (let mm = (case metricsMap of None \<Rightarrow> [] | Some mm \<Rightarrow> mm);
          mm = append_metric (resourceType @ cpuMetricSuffix) \<lparr>m_Label = label, m_Counter = Some 100, m_Gauge = None\<rparr> mm
      in append_metric (resourceType @ memoryMetricSuffix) \<lparr>m_Label = label, m_Counter = None, m_Gauge = Some 100\<rparr> mm)"

definition has_suffix :: "string \<Rightarrow> string \<Rightarrow> bool" where
  "has_suffix s t = has_prefix (rev s) (rev t)"

definition getMetricType :: "string \<Rightarrow> metric_type option" where
  "getMetricType n = (if has_suffix n cpuMetricSuffix then Some COUNTER
     else if has_suffix n memoryMetricSuffix then Some GAUGE else None)"

definition pod_metrics :: "string \<Rightarrow> pod \<Rightarrow> (string \<times> metric list) list \<Rightarrow> (string \<times> metric list) list" where
  "pod_metrics node pd mm = fold (\<lambda>c mm. generateMockMetrics (Some mm) ''container''
       [(''NodeName'', node), (''PodName'', p_Name pd), (''containerName'', c_Name c)])
     (ps_Containers (p_Spec pd))
     (generateMockMetrics (Some mm) ''pod'' [(''NodeName'', node), (''PodName'', p_Name pd)])"

definition GetMetricsResource :: "'w provider \<Rightarrow> ('w, metric_family list \<times> goerr) pio" where
  "GetMetricsResource p = bnd get_st (\<lambda>s.
     bnd (on_net (range_map (runtime_kernel p) (pods s))) (\<lambda>l.
     let mm = fold (\<lambda>(k, pd) mm. pod_metrics (nodeName p) pd mm) l
                (generateMockMetrics None ''node'' [(''NodeName'', nodeName p)]) in
     bnd (on_net (range_map (runtime_kernel p) mm)) (\<lambda>fs.
       ret (map (\<lambda>(n, ms). \<lparr>mf_Name = n, mf_Type = getMetricType n, mf_Metric = ms\<rparr>) fs, None))))"

end
