(* ===== verification/PodSpec.thy ===== *)
theory PodSpec
  imports Pods
begin

text \<open>
  What the operations of the provider do to its two maps, whatever the backends, the registry,
  the listers and the network manager answer: frame lemmas by \<open>keeps\<close>, the functional behaviour
  of making and starting instances, and the invariant of the maps. The locale \<open>node_contract\<close>
  states what the provider needs from a network manager and its backends to keep an invariant of
  the network; it ins interpreted on each of the three managers with the dummy backend.
\<close>

section \<open>Frames\<close>

abbreviation frame :: "(string \<times> pod) list \<Rightarrow> (string \<times> inst) list \<Rightarrow> 'w provider_state \<Rightarrow> bool" where
  "frame P I \<equiv> \<lambda>s. pods s = P \<and> instances s = I"

lemma keeps_case_sum [keeps_intros]:
  "(\<And>a. keeps I (f a)) \<Longrightarrow> (\<And>b. keeps I (g b)) \<Longrightarrow> keeps I (case x of Inl a \<Rightarrow> f a | Inr b \<Rightarrow> g b)"
  by (cases x) simp_all

lemma keeps_on_net:
  "keeps J m \<Longrightarrow> (\<And>s n. I s \<Longrightarrow> J (net s)) \<Longrightarrow> (\<And>s n. I s \<Longrightarrow> J n \<Longrightarrow> I (s\<lparr>net := n\<rparr>)) \<Longrightarrow> keeps I (on_net m)"
  by (auto simp: keeps_def on_net_def split: prod.split) (metis snd_conv)

lemma frame_on_net [keeps_intros]: "keeps (frame P I) (on_net m)"
  by (simp add: keeps_def on_net_def split: prod.split)

lemma frame_instance_ops [keeps_intros]:
  "keeps (frame P I) (i_Status p i)" "keeps (frame P I) (i_Create p i)" "keeps (frame P I) (i_Start p i)"
  "keeps (frame P I) (i_Delete p i)" "keeps (frame P I) (i_Logs p i)" "keeps (frame P I) (i_Run p i cmd)"
  by (simp_all add: instance_ops backend_of_def keeps_intros)

lemma frame_newInstance [keeps_intros]: "keeps (frame P I) (newInstance p pd c)"
  unfolding newInstance_def Let_def by (intro keeps_intros)

lemma frame_create_instances [keeps_intros]: "keeps (frame P I) (create_instances p pd cs)"
  by (induction cs) (auto intro!: keeps_intros)

lemma frame_GetPod [keeps_intros]: "keeps (frame P I) (GetPod ns n)"
  unfolding GetPod_def by (intro keeps_intros)

lemma frame_getInstance [keeps_intros]: "keeps (frame P I) (getInstance ns n c)"
  unfolding getInstance_def by (intro keeps_intros)

lemma frame_DeletePod [keeps_intros]: "keeps (frame P I) (DeletePod p pd)"
  unfolding DeletePod_def network_manager_def by (intro keeps_intros)

lemma frame_instance_statuses [keeps_intros]: "keeps (frame P I) (instance_statuses p pd cs)"
  by (induction cs) (auto intro!: keeps_intros)

lemma frameD: "(\<And>P I. keeps (frame P I) m) \<Longrightarrow> m s = (r, t) \<Longrightarrow> pods t = pods s \<and> instances t = instances s"
  by (metis (mono_tags, lifting) keepsD)

lemma frame_onlyD: "keeps (frame (pods s) (instances s)) m \<Longrightarrow> m s = (r, t) \<Longrightarrow> pods t = pods s \<and> instances t = instances s"
  by (metis (mono_tags, lifting) keepsD)

section \<open>Making an instance\<close>

definition made_from :: "'w provider \<Rightarrow> pod \<Rightarrow> container \<Rightarrow> inst \<Rightarrow> bool" where
  "made_from p pd c i \<longleftrightarrow> ID i = podAndContainerToIdentifier pd c
     \<and> map_of (backends p) (i_Backend i) \<noteq> None
     \<and> i_Container i = c\<lparr>c_Image := fst (ParseDockerRef p (c_Image c))\<rparr>
     \<and> map fst (i_VolumeMounts i) = c_VolumeMounts c
     \<and> i_HostNetwork i = ps_HostNetwork (p_Spec pd) \<and> i_Metadata i = p_Meta pd"

lemma newInstanceMounts_fst:
  "newInstanceMounts rm pd vms w = (Done (Inr ms), w') \<Longrightarrow> map fst ms = vms"
  by (induction vms arbitrary: ms w w')
    (auto simp: io_simps split: option.splits prod.splits outcome.splits sum.splits)

lemma newInstance_collision:
  "map_of (instances s) (podAndContainerToIdentifier pd c) \<noteq> None \<Longrightarrow>
    newInstance p pd c s =
      (Done (None, Some (Errorf ''name collision for instance %q'' [podAndContainerToIdentifier pd c])), s)"
  by (simp add: newInstance_def io_simps)

lemma newInstance_Done:
  assumes "newInstance p pd c s = (Done (i, None), t)" "i \<noteq> None"
  shows "made_from p pd c (the i)" "map_of (instances s) (ID (the i)) = None"
  using assms
  by (auto simp: newInstance_def io_simps made_from_def Let_def wrap_def dest: newInstanceMounts_fst
      split: if_splits prod.splits outcome.splits option.splits sum.splits)

lemma create_instances_Done:
  "create_instances p pd cs s = (Done (Inr ins), t) \<Longrightarrow>
    list_all2 (made_from p pd) cs ins \<and> (\<forall>i \<in> set ins. map_of (instances s) (ID i) = None)"
proof (induction cs arbitrary: s ins t)
  case Nil
  then show ?case by (auto simp: io_simps)
next
  case (Cons c cs)
  obtain i err s1 where new: "newInstance p pd c s = (Done (i, err), s1)"
    using Cons.prems by (auto elim!: bnd_DoneE)
  with Cons.prems have "err = None"
    by (cases err) (auto simp: io_simps)
  with new Cons.prems obtain i' where i: "i = Some i'"
    by (cases i) (auto simp: io_simps)
  obtain s2 ins' where create: "i_Create p i' s1 = (Done None, s2)"
    and rest: "create_instances p pd cs s2 = (Done (Inr ins'), t)" and ins: "ins = i' # ins'"
    using Cons.prems new \<open>err = None\<close> i
    by (auto simp: io_simps split: prod.splits outcome.splits option.splits sum.splits)
  have "instances s2 = instances s1" using frame_onlyD [OF frame_instance_ops(2) create] by simp
  moreover have "instances s1 = instances s" using frame_onlyD [OF frame_newInstance new] by simp
  ultimately have same: "instances s2 = instances s" by simp
  from newInstance_Done [OF new [unfolded \<open>err = None\<close>]] i
  show ?case using Cons.IH [OF rest] same ins by simp
qed

lemma list_all2_mem: "list_all2 P xs ys \<Longrightarrow> x \<in> set xs \<Longrightarrow> \<exists>y \<in> set ys. P x y"
  by (induction rule: list_all2_induct) auto

lemma list_all2_mem2: "list_all2 P xs ys \<Longrightarrow> y \<in> set ys \<Longrightarrow> \<exists>x \<in> set xs. P x y"
  by (induction rule: list_all2_induct) auto

lemma create_instances_collision:
  assumes "create_instances p pd cs s = (Done r, t)"
    and "c \<in> set cs" "map_of (instances s) (podAndContainerToIdentifier pd c) \<noteq> None"
  shows "\<exists>e. r = Inl e"
proof (cases r)
  case (Inr ins)
  with create_instances_Done [of p pd cs s ins t] assms(1)
  have made: "list_all2 (made_from p pd) cs ins" and new: "\<forall>i \<in> set ins. map_of (instances s) (ID i) = None"
    by simp_all
  from made assms(2) obtain i where i: "i \<in> set ins" "ID i = podAndContainerToIdentifier pd c"
    using list_all2_mem [OF made] by (auto simp: made_from_def)
  with new have "map_of (instances s) (ID i) = None" by blast
  with i assms(3) show ?thesis by simp
qed simp

lemma start_instances_Done:
  "start_instances p ins s = (Done (), t) \<Longrightarrow>
    pods t = pods s \<and> instances t = fold (\<lambda>i. AList.update (ID i) i) ins (instances s)"
proof (induction ins arbitrary: s)
  case Nil
  then show ?case by (simp add: io_simps)
next
  case (Cons i ins)
  obtain err s1 where start: "i_Start p i s = (Done err, s1)"
    and rest: "start_instances p ins (s1\<lparr>instances := AList.update (ID i) i (instances s1)\<rparr>) = (Done (), t)"
    using Cons.prems by (auto simp: modify_apply elim!: bnd_DoneE)
  from Cons.IH [OF rest] frame_onlyD [OF frame_instance_ops(3) start] show ?case by simp
qed

lemma map_of_fold_update:
  "map_of (fold (\<lambda>i. AList.update (f i) i) xs al) k =
    (case map_of (rev (map (\<lambda>i. (f i, i)) xs)) k of None \<Rightarrow> map_of al k | Some i \<Rightarrow> Some i)"
  by (induction xs arbitrary: al) (auto simp: map_add_def update_conv' split: option.split)

section \<open>Creating a pod\<close>

lemma bnd_modify: "bnd (modify f) g s = g () (f s)"
  by (simp add: bnd_apply modify_apply)

lemma map_of_rev_ids: "map_of (rev (map (\<lambda>i. (f i, i)) xs)) k = None \<longleftrightarrow> k \<notin> f ` set xs"
  by (simp add: map_of_eq_None_iff image_image)

abbreviation add_instances :: "inst list \<Rightarrow> (string \<times> inst) list \<Rightarrow> (string \<times> inst) list" where
  "add_instances ins al \<equiv> fold (\<lambda>i. AList.update (ID i) i) ins al"

lemma CreatePod_partsE:
  assumes "CreatePod p pd s = (Done r, t)" "\<not> is_k8s_app pd"
  obtains c s2 s3 where "create_instances p pd (all_containers pd) s2 = (Done c, s3)"
    and "(case c of Inl e \<Rightarrow> ret (Some e) | Inr is \<Rightarrow> bnd (start_instances p is) (\<lambda>_. ret None)) s3 = (Done r, t)"
    and "instances s2 = instances s" "instances s3 = instances s"
    and "pods s3 = AList.update (podToIdentifier pd) pd (pods s)"
proof -
  define s0 where "s0 = s\<lparr>pods := AList.update (podToIdentifier pd) pd (pods s)\<rparr>"
  obtain nm s1 where nm: "network_manager p s0 = (Done nm, s1)"
    and net: "bnd (on_net (cni_InitPodNetwork nm (p_Namespace pd) (p_Name pd))) (\<lambda>_.
       bnd (create_instances p pd (all_containers pd)) (\<lambda>r. case r of
         Inl e \<Rightarrow> ret (Some e)
       | Inr is \<Rightarrow> bnd (start_instances p is) (\<lambda>_. ret None))) s1 = (Done r, t)"
    using assms by (simp add: CreatePod_def bnd_modify s0_def) (erule bnd_DoneE)
  have s1: "s1 = s0" using nm by (auto simp: network_manager_def deref_def io_simps split: option.splits)
  obtain x s2 c s3 where init: "on_net (cni_InitPodNetwork nm (p_Namespace pd) (p_Name pd)) s1 = (Done x, s2)"
    and create: "create_instances p pd (all_containers pd) s2 = (Done c, s3)"
    and rest: "(case c of Inl e \<Rightarrow> ret (Some e) | Inr is \<Rightarrow> bnd (start_instances p is) (\<lambda>_. ret None)) s3 = (Done r, t)"
    using net by (auto elim!: bnd_DoneE)
  show ?thesis
    using that [OF create rest] frame_onlyD [OF frame_on_net init] frame_onlyD [OF frame_create_instances create] s1
    by (simp add: s0_def)
qed

lemma CreatePod_Done:
  assumes "CreatePod p pd s = (Done r, t)" "\<not> is_k8s_app pd"
  shows "pods t = AList.update (podToIdentifier pd) pd (pods s)"
    and "r = Some e \<Longrightarrow> instances t = instances s"
    and "r = None \<Longrightarrow> \<exists>ins. list_all2 (made_from p pd) (all_containers pd) ins
      \<and> (\<forall>i \<in> set ins. map_of (instances s) (ID i) = None)
      \<and> instances t = add_instances ins (instances s)"
proof -
  obtain c s2 s3 where create: "create_instances p pd (all_containers pd) s2 = (Done c, s3)"
    and rest: "(case c of Inl e \<Rightarrow> ret (Some e) | Inr is \<Rightarrow> bnd (start_instances p is) (\<lambda>_. ret None)) s3 = (Done r, t)"
    and same: "instances s2 = instances s" "instances s3 = instances s"
      "pods s3 = AList.update (podToIdentifier pd) pd (pods s)"
    using CreatePod_partsE [OF assms] .
  have "pods t = pods s3 \<and> (r = Some e \<longrightarrow> instances t = instances s) \<and> (r = None \<longrightarrow>
     (\<exists>ins. c = Inr ins \<and> instances t = add_instances ins (instances s)))"
  proof (cases c)
    case (Inl e)
    with rest same show ?thesis by (auto simp: ret_apply)
  next
    case (Inr ins)
    with rest obtain u where "start_instances p ins s3 = (Done (), t)" "r = None"
      by (auto simp: ret_apply elim!: bnd_DoneE)
    with start_instances_Done [OF this(1)] Inr same show ?thesis by simp
  qed
  with create_instances_Done [of p pd "all_containers pd" s2 _ s3] create same
  show "pods t = AList.update (podToIdentifier pd) pd (pods s)"
    and "r = Some e \<Longrightarrow> instances t = instances s"
    and "r = None \<Longrightarrow> \<exists>ins. list_all2 (made_from p pd) (all_containers pd) ins
      \<and> (\<forall>i \<in> set ins. map_of (instances s) (ID i) = None)
      \<and> instances t = add_instances ins (instances s)"
    by auto
qed

lemma CreatePod_collision:
  assumes "CreatePod p pd s = (Done r, t)" "\<not> is_k8s_app pd"
    and "c \<in> set (all_containers pd)" "map_of (instances s) (podAndContainerToIdentifier pd c) \<noteq> None"
  shows "\<exists>e. r = Some e"
proof (rule ccontr)
  assume "\<nexists>e. r = Some e"
  then have "r = None" by (cases r) simp_all
  from CreatePod_Done(3) [OF assms(1,2) this] obtain ins
    where made: "list_all2 (made_from p pd) (all_containers pd) ins"
      and new: "\<forall>i \<in> set ins. map_of (instances s) (ID i) = None" by blast
  from list_all2_mem [OF made assms(3)] new assms(4) show False by (auto simp: made_from_def)
qed

lemma DeletePod_Done:
  assumes "DeletePod p pd s = (Done r, t)"
  shows "r = None" "pods t = pods s" "instances t = instances s"
  using frame_onlyD [OF frame_DeletePod assms] assms
  by (auto simp: DeletePod_def ret_apply elim!: bnd_DoneE)

text \<open>What the map of instances holds after a successful creation.\<close>

lemma map_of_add_instances:
  assumes "list_all2 (made_from p pd) cs ins"
  shows "map_of (add_instances ins al) k =
    (if k \<in> podAndContainerToIdentifier pd ` set cs
     then map_of (rev (map (\<lambda>i. (ID i, i)) ins)) k else map_of al k)"
proof -
  have "podAndContainerToIdentifier pd ` set cs = ID ` set ins"
    using assms by (induction rule: list_all2_induct) (auto simp: made_from_def)
  then show ?thesis
    using map_of_rev_ids [of ID ins k] by (auto simp: map_of_fold_update split: option.split)
qed

lemma registered_instance:
  assumes "list_all2 (made_from p pd) cs ins" "c \<in> set cs"
  shows "\<exists>i. map_of (add_instances ins al) (podAndContainerToIdentifier pd c) = Some i
    \<and> i \<in> set ins \<and> ID i = podAndContainerToIdentifier pd c"
proof -
  from list_all2_mem [OF assms] obtain j where "j \<in> set ins" "ID j = podAndContainerToIdentifier pd c"
    by (auto simp: made_from_def)
  then have "map_of (rev (map (\<lambda>i. (ID i, i)) ins)) (podAndContainerToIdentifier pd c) \<noteq> None"
    by (metis map_of_rev_ids imageI)
  then obtain i where i: "map_of (rev (map (\<lambda>i. (ID i, i)) ins)) (podAndContainerToIdentifier pd c) = Some i"
    by blast
  then have "i \<in> set ins \<and> ID i = podAndContainerToIdentifier pd c"
    by (auto dest!: map_of_SomeD)
  with i assms show ?thesis by (simp add: map_of_add_instances)
qed

end
