(* ===== verification/NodeSpec.thy ===== *)
theory NodeSpec
  imports PodSpec
begin

text \<open>
  The node as a state machine: the calls Kubernetes makes on the provider as a step relation, the
  invariant of its two maps, and the interface between the provider, its backends and its network
  manager as locales. \<open>backend_contract\<close> is what a backend must keep, \<open>node_contract\<close> what a
  provider with such backends and such a manager keeps in every reachable state.
\<close>

section \<open>The invariant of the maps\<close>

definition keyed :: "'w provider \<Rightarrow> 'w provider_state \<Rightarrow> bool" where
  "keyed p s \<longleftrightarrow> distinct (map fst (pods s)) \<and> (\<forall>(k, pd) \<in> set (pods s). k = podToIdentifier pd)
     \<and> distinct (map fst (instances s))
     \<and> (\<forall>(k, i) \<in> set (instances s). ID i = k \<and> map_of (backends p) (i_Backend i) \<noteq> None)"

lemma keyed_net [simp]: "keyed p (s\<lparr>net := n\<rparr>) = keyed p s"
  by (simp add: keyed_def)

lemma keyed_frame: "keyed p s \<Longrightarrow> pods t = pods s \<Longrightarrow> instances t = instances s \<Longrightarrow> keyed p t"
  by (simp add: keyed_def)

lemma update_mem: "x \<in> set (AList.update k v al) \<Longrightarrow> x = (k, v) \<or> x \<in> set al"
  by (induction al) (auto split: if_splits)

lemma keyed_add_pod:
  "keyed p s \<Longrightarrow> keyed p (s\<lparr>pods := AList.update (podToIdentifier pd) pd (pods s)\<rparr>)"
  by (auto simp: keyed_def distinct_update dest!: update_mem)

lemma keyed_add_instance:
  "keyed p s \<Longrightarrow> map_of (backends p) (i_Backend i) \<noteq> None \<Longrightarrow>
    keyed p (s\<lparr>instances := AList.update (ID i) i (instances s)\<rparr>)"
  unfolding keyed_def by (auto simp: distinct_update dest!: update_mem)

text \<open>\<open>pods\<close> only grows: no operation deletes from it.\<close>

definition knows :: "string set \<Rightarrow> 'w provider_state \<Rightarrow> bool" where
  "knows K s \<longleftrightarrow> K \<subseteq> dom (map_of (pods s))"

lemma knows_add: "knows K s \<Longrightarrow> knows K (s\<lparr>pods := AList.update k v (pods s)\<rparr>)"
  by (auto simp: knows_def update_conv')

text \<open>So does \<open>instances\<close>.\<close>

definition registered :: "string set \<Rightarrow> 'w provider_state \<Rightarrow> bool" where
  "registered K s \<longleftrightarrow> K \<subseteq> dom (map_of (instances s))"

section \<open>Keeping invariants of the node\<close>

lemma keeps_bnd_Done:
  assumes "keeps I m" "\<And>a s t. I s \<Longrightarrow> m s = (Done a, t) \<Longrightarrow> I t \<Longrightarrow> I (snd (f a t))"
  shows "keeps I (bnd m f)"
proof (rule keepsI)
  fix s
  assume s: "I s"
  obtain r t where m: "m s = (r, t)" by fastforce
  with keepsD [OF assms(1) s] have "I t" by blast
  with assms(2) [OF s] m show "I (snd (bnd m f s))" by (auto simp: bnd_apply split: outcome.split)
qed

text \<open>
  A predicate that depends on the maps only through \<open>J\<close>, and on the network only through \<open>inv\<close>:
  what every operation needs of it. The operations of instances and the network are covered by
  \<open>op\<close>, reading registry and listers by \<open>world\<close>.
\<close>

locale node_invariant =
  fixes p :: "'w provider" and I :: "'w provider_state \<Rightarrow> bool"
  assumes world: "I s \<Longrightarrow> I (s\<lparr>net := (net s)\<lparr>kern := w\<rparr>\<rparr>)"
    and ops: "b \<in> snd ` set (backends p) \<Longrightarrow> keeps I (on_net (CreateInstance b i))
      \<and> keeps I (on_net (StartInstance b i)) \<and> keeps I (on_net (DeleteInstance b i))
      \<and> keeps I (on_net (GetInstanceStatus b i)) \<and> keeps I (on_net (GetInstanceLogs b i))
      \<and> keeps I (on_net (RunInInstance b i cmd))"
    and manager: "PodNetworkManager_ptr p = Some nm \<Longrightarrow>
      keeps I (on_net (cni_InitPodNetwork nm cns n)) \<and> keeps I (on_net (cni_StopPodNetwork nm cns n))"
    and add_pod: "I s \<Longrightarrow> I (s\<lparr>pods := AList.update (podToIdentifier pd) pd (pods s)\<rparr>)"
    and add_instance: "I s \<Longrightarrow> map_of (backends p) (i_Backend i) \<noteq> None \<Longrightarrow>
      I (s\<lparr>instances := AList.update (ID i) i (instances s)\<rparr>)"
begin

lemma keeps_world: "keeps I (on_net (kio m))"
  using world by (auto simp: keeps_def on_net_def kio_def split: prod.split)

lemma keeps_backend_of:
  assumes "\<And>b. b \<in> snd ` set (backends p) \<Longrightarrow> keeps I (f b)"
  shows "keeps I (bnd (backend_of p i) f)"
  using assms [OF image_eqI, OF _ map_of_SomeD]
  by (cases "map_of (backends p) (i_Backend i)") (auto simp: backend_of_def deref_def keeps_def io_simps)

lemma keeps_instance_ops:
  "keeps I (i_Create p i)" "keeps I (i_Start p i)" "keeps I (i_Delete p i)" "keeps I (i_Status p i)"
  "keeps I (i_Logs p i)" "keeps I (i_Run p i cmd)"
  unfolding instance_ops by (rule keeps_backend_of, use ops in blast)+

lemma keeps_manager:
  assumes "\<And>nm. PodNetworkManager_ptr p = Some nm \<Longrightarrow> keeps I (f nm)"
  shows "keeps I (bnd (network_manager p) f)"
  using assms by (cases "PodNetworkManager_ptr p") (simp_all add: network_manager_def deref_def keeps_def io_simps)

lemma keeps_newInstance: "keeps I (newInstance p pd c)"
  unfolding newInstance_def Let_def by (intro keeps_intros keeps_world)

lemma keeps_create_instances: "keeps I (create_instances p pd cs)"
  by (induction cs) (auto intro!: keeps_intros keeps_newInstance keeps_instance_ops)

lemma keeps_start_instances:
  "\<forall>i \<in> set ins. map_of (backends p) (i_Backend i) \<noteq> None \<Longrightarrow> keeps I (start_instances p ins)"
  by (induction ins) (auto intro!: keeps_intros keeps_instance_ops keeps_modify add_instance)

lemma keeps_CreatePod: "keeps I (CreatePod p pd)"
proof -
  have "I (snd ((case r of Inl e \<Rightarrow> ret (Some e) | Inr is \<Rightarrow> bnd (start_instances p is) (\<lambda>_. ret None)) t))"
    if "I t" "create_instances p pd (all_containers pd) s = (Done r, t)" for r s t
  proof (cases r)
    case (Inr ins)
    with create_instances_Done that(2) have "list_all2 (made_from p pd) (all_containers pd) ins" by blast
    then have "\<forall>i \<in> set ins. map_of (backends p) (i_Backend i) \<noteq> None"
      by (auto dest!: list_all2_mem2 simp: made_from_def)
    then have "keeps I (bnd (start_instances p ins) (\<lambda>_. ret (None :: goerr)))"
      by (intro keeps_intros keeps_start_instances)
    with Inr that(1) show ?thesis by (simp add: keeps_def)
  qed (use that in \<open>simp add: ret_apply\<close>)
  then have body: "keeps I (bnd (create_instances p pd (all_containers pd))
      (\<lambda>r. case r of Inl e \<Rightarrow> ret (Some e) | Inr is \<Rightarrow> bnd (start_instances p is) (\<lambda>_. ret None)))"
    by (intro keeps_bnd_Done keeps_create_instances) blast
  show ?thesis
    unfolding CreatePod_def
    by (rule keeps_bnd, rule keeps_modify, erule add_pod, rule keeps_if, rule keeps_ret,
        rule keeps_manager, rule keeps_bnd, rule conjunct1 [OF manager], assumption, rule body)
qed

lemma keeps_DeletePod: "keeps I (DeletePod p pd)"
  unfolding DeletePod_def
  by (intro keeps_intros keeps_manager keeps_instance_ops) (use manager in blast)

lemma keeps_UpdatePod: "keeps I (UpdatePod p pd)"
  unfolding UpdatePod_def by (intro keeps_intros keeps_CreatePod keeps_DeletePod)

lemma keeps_instance_statuses: "keeps I (instance_statuses p pd cs)"
  unfolding getInstance_def
  by (induction cs) (auto simp: getInstance_def intro!: keeps_intros keeps_instance_ops)

lemma keeps_stop: "(\<And>e. keeps I (f e)) \<Longrightarrow> keeps I g \<Longrightarrow> keeps I (case x of NotYet \<Rightarrow> g | Failed e \<Rightarrow> f e)"
  by (cases x) simp_all

lemma keeps_GetPodStatus: "keeps I (GetPodStatus p ns n)"
  unfolding GetPodStatus_def GetPod_def
  by (intro keeps_intros keeps_instance_statuses keeps_stop)

lemma keeps_GetContainerLogs: "keeps I (GetContainerLogs p ns n c)"
  unfolding GetContainerLogs_def getInstance_def by (intro keeps_intros keeps_instance_ops)

lemma keeps_RunInContainer: "keeps I (RunInContainer p ns n c cmd)"
  unfolding RunInContainer_def getInstance_def by (intro keeps_intros keeps_instance_ops)

lemmas keeps_calls = keeps_CreatePod keeps_DeletePod keeps_UpdatePod keeps_GetPodStatus
  keeps_GetContainerLogs keeps_RunInContainer

end

section \<open>The node as a state machine\<close>

inductive node_step :: "'w provider \<Rightarrow> 'w provider_state \<Rightarrow> 'w provider_state \<Rightarrow> bool" for p where
  create: "node_step p s (snd (CreatePod p pd s))"
| delete: "node_step p s (snd (DeletePod p pd s))"
| update: "node_step p s (snd (UpdatePod p pd s))"
| status: "node_step p s (snd (GetPodStatus p ns n s))"
| logs: "node_step p s (snd (GetContainerLogs p ns n c s))"
| run: "node_step p s (snd (RunInContainer p ns n c cmd s))"

inductive node_reach :: "'w provider \<Rightarrow> 'w provider_state \<Rightarrow> 'w provider_state \<Rightarrow> bool" for p s where
  node_refl: "node_reach p s s"
| node_next: "node_reach p s t \<Longrightarrow> node_step p t u \<Longrightarrow> node_reach p s u"

inductive_cases node_stepE: "node_step p s t"

context node_invariant
begin

lemma node_step_keeps: "node_step p s t \<Longrightarrow> I s \<Longrightarrow> I t"
  by (erule node_stepE) (use keeps_calls in \<open>auto simp: keeps_def\<close>)

lemma node_reach_keeps: "node_reach p s t \<Longrightarrow> I s \<Longrightarrow> I t"
  by (induction rule: node_reach.induct) (auto intro: node_step_keeps)

end

lemma keeps_on_net_simple: "(\<And>s n. I s \<Longrightarrow> I (s\<lparr>net := n\<rparr>)) \<Longrightarrow> keeps I (on_net m)"
  by (auto simp: keeps_def on_net_def split: prod.split)

interpretation keyed: node_invariant p "keyed p" for p
  by unfold_locales (auto intro!: keeps_on_net_simple keyed_add_pod keyed_add_instance)

interpretation knows: node_invariant p "knows K" for p K
  by unfold_locales (auto intro!: keeps_on_net_simple knows_add simp: knows_def update_conv')

interpretation registered: node_invariant p "registered K" for p K
  by unfold_locales (auto intro!: keeps_on_net_simple simp: registered_def update_conv')

section \<open>Backends and the network\<close>

locale backend_contract =
  fixes b :: "'w backend" and inv :: "'w net_state \<Rightarrow> bool"
  assumes keeps_create: "keeps inv (CreateInstance b i)"
    and keeps_start: "keeps inv (StartInstance b i)"
    and keeps_delete: "keeps inv (DeleteInstance b i)"
    and keeps_status: "keeps inv (GetInstanceStatus b i)"
    and keeps_logs: "keeps inv (GetInstanceLogs b i)"
    and keeps_run: "keeps inv (RunInInstance b i cmd)"

interpretation dummy: backend_contract DummyBackend inv for inv
  by unfold_locales (simp_all add: DummyBackend_def keeps_ret)

text \<open>A node whose manager and backends keep an invariant of the network keeps it too.\<close>

locale node_contract =
  fixes p :: "'w provider" and inv :: "'w net_state \<Rightarrow> bool"
  assumes all_backends: "b \<in> snd ` set (backends p) \<Longrightarrow> backend_contract b inv"
    and the_manager: "PodNetworkManager_ptr p = Some nm \<Longrightarrow> cni_contract nm inv"
    and any_world: "inv n \<Longrightarrow> inv (n\<lparr>kern := w\<rparr>)"
begin

lemma keeps_inv: "keeps inv m \<Longrightarrow> keeps (\<lambda>s. inv (net s)) (on_net m)"
  by (auto simp: keeps_def on_net_def split: prod.split)

lemmas backend_facts = backend_contract.keeps_create backend_contract.keeps_start
  backend_contract.keeps_delete backend_contract.keeps_status backend_contract.keeps_logs
  backend_contract.keeps_run

end

sublocale node_contract \<subseteq> node_invariant p "\<lambda>s. inv (net s)"
  by unfold_locales
    (auto intro!: keeps_inv backend_facts [OF all_backends] any_world
      cni_contract.keeps_init [OF the_manager] cni_contract.keeps_stop [OF the_manager])

context node_contract
begin

lemma as_invariant: "node_invariant p (\<lambda>s. inv (net s))"
  by (rule node_invariant_axioms)

end

lemma net_inv4_kern: "net_inv4 n \<Longrightarrow> net_inv4 (n\<lparr>kern := w\<rparr>)"
  by (simp add: net_inv4_def)

text \<open>The configurations the repository offers, with the dummy backend: one per network manager.\<close>

definition with_dummy :: "'w CNIManager \<Rightarrow> 'w provider \<Rightarrow> 'w provider" where
  "with_dummy nm p = p\<lparr>backends := [(BackendContainerd, DummyBackend)], PodNetworkManager_ptr := Some nm\<rparr>"

interpretation node_mr: node_contract "with_dummy (multi_runtime_manager k) p" net_inv4 for k p
  by (rule node_contract.intro)
    (auto simp: with_dummy_def net_inv4_kern mr.cni_contract_axioms dummy.backend_contract_axioms)

interpretation node_pl: node_contract "with_dummy (pod_local_manager k) p" net_inv4 for k p
  by (rule node_contract.intro)
    (auto simp: with_dummy_def net_inv4_kern pl.cni_contract_axioms dummy.backend_contract_axioms)

interpretation node_dm: node_contract "with_dummy (default_manager k) p" net_inv4 for k p
  by (rule node_contract.intro)
    (auto simp: with_dummy_def net_inv4_kern dm.cni_contract_axioms dummy.backend_contract_axioms)

end
