(* ===== verification/SimNode.thy ===== *)
theory SimNode
  imports NodeSpec SimKernel
begin

text \<open>
  A small concrete node for the witnesses: the kernel of SimKernel, a network manager that always
  succeeds, a registry whose only image for the OSv backend is \<open>osv-image\<close>, listers that know one
  service account and answer \<open>NotFound\<close> to everything else, and the dummy backend under the name
  of containerd.
\<close>

definition quiet_manager :: "'w CNIManager" where
  "quiet_manager = \<lparr>cni_InitContainerNetworking = ret None, cni_TeardownContainerNetworking = ret None,
     cni_InitPodNetwork = (\<lambda>_ _. ret None), cni_StopPodNetwork = (\<lambda>_ _. ret None),
     cni_GetNetNsHandle = (\<lambda>_ _. ret (None, None)), cni_GetNetNsPath = (\<lambda>_ _. ret ([], None)),
     cni_CreateVMTun = (\<lambda>_ _ _. ret ([], None, [], None)), cni_GetGatewayAddress = (\<lambda>_ _. ret None)\<rparr>"

definition not_found :: go_error where "not_found = Errorf ''not found'' []"

definition sim_listers :: "'w listers" where
  "sim_listers = \<lparr>PodGet = (\<lambda>_ _. ret (None, Some not_found)), PodList = ret ([], None),
     SecretGet = (\<lambda>_ _. ret (None, Some not_found)), SecretList = (\<lambda>_. ret ([], None)),
     ConfigMapGet = (\<lambda>_ _. ret (None, Some not_found)),
     ServiceAccountGet = (\<lambda>_ n. ret (Some \<lparr>sa_Name = n\<rparr>, None)),
     ServiceAccountList = (\<lambda>_. ret ([], None)), ServiceList = ret ([], None),
     IsNotFound = (\<lambda>e. e = not_found)\<rparr>"

definition sim_registry :: "'w registry" where
  "sim_registry = \<lparr>CommonName = ref_Tag, MediaName = (\<lambda>_. ''media''),
     RefNew = (\<lambda>n. (\<lparr>ref_Scheme = ''reg'', ref_Registry = ''docker.io'', ref_Tag = n, ref_Digest = []\<rparr>, None)),
     ManifestGet = (\<lambda>_. ret (\<lparr>mf_MediaType = Docker2Manifest, mf_IsList = False,
       mf_GetConfig = Some (\<lparr>d_Digest = [], d_MediaType = OCI1Layer\<rparr>, None), mf_GetLayers = Some ([\<lparr>d_Digest = [], d_MediaType = OCI1Layer\<rparr>], None)\<rparr>, None)),
     GetPlatformDesc = (\<lambda>_. (\<lparr>d_Digest = [], d_MediaType = OCI1Layer\<rparr>, None)),
     BlobGet = (\<lambda>r _. ret (ref_Tag r, None)),
     DecodeImage = (\<lambda>b. (\<lparr>Backend = (if b = ''osv-image'' then ''osv'' else []), Hypervisor = []\<rparr>, None))\<rparr>"

definition sim_provider :: "sim provider" where
  "sim_provider = \<lparr>nodeName = ''node'', internalIP = ''10.0.0.1'', pconfig = defaultConfig,
     backends = [(''containerd'', DummyBackend)], resourceManager = sim_listers, images = sim_registry,
     ParseDockerRef = (\<lambda>s. (s, None)), PodNetworkManager_ptr = Some quiet_manager, runtime_kernel = sim_kernel\<rparr>"

definition sim_node :: "sim provider_state" where
  "sim_node = no_pods (sim_state (AM4 sample_am4) None)"

definition sim_container :: "string \<Rightarrow> string \<Rightarrow> container" where
  "sim_container n img = \<lparr>c_Name = n, c_Image = img, c_Command = [], c_Args = [], c_WorkingDir = [],
     c_Ports = [], c_Env = [], c_Limits = \<lparr>lim_CpuValue = 0, lim_CpuMilli = 0, lim_Memory = 0\<rparr>,
     c_VolumeMounts = [], c_ImagePullPolicy = PullIfNotPresent, c_TTY = False\<rparr>"

definition sim_pod :: "string \<Rightarrow> string \<Rightarrow> container list \<Rightarrow> pod" where
  "sim_pod ns n cs = \<lparr>p_Meta = \<lparr>om_Namespace = ns, om_Name = n, om_Labels = []\<rparr>,
     p_Spec = \<lparr>ps_Volumes = [], ps_InitContainers = [], ps_Containers = cs, ps_HostNetwork = False,
       ps_ServiceAccountName = []\<rparr>\<rparr>"

lemma sim_provider_simps [simp]:
  "nodeName sim_provider = ''node''"
  "backends sim_provider = [(''containerd'', DummyBackend)]"
  "resourceManager sim_provider = sim_listers"
  "images sim_provider = sim_registry"
  "ParseDockerRef sim_provider = (\<lambda>s. (s, None))"
  "PodNetworkManager_ptr sim_provider = Some quiet_manager"
  "runtime_kernel sim_provider = sim_kernel"
  by (simp_all add: sim_provider_def)

lemma sim_node_simps [simp]:
  "pods sim_node = []" "instances sim_node = []" "net sim_node = sim_state (AM4 sample_am4) None"
  by (simp_all add: sim_node_def no_pods_def)

lemma sim_pod_simps [simp]:
  "p_Namespace (sim_pod ns n cs) = ns" "p_Name (sim_pod ns n cs) = n"
  "om_Labels (p_Meta (sim_pod ns n cs)) = []"
  "all_containers (sim_pod ns n cs) = cs" "ps_Containers (p_Spec (sim_pod ns n cs)) = cs"
  "ps_InitContainers (p_Spec (sim_pod ns n cs)) = []" "\<not> is_k8s_app (sim_pod ns n cs)"
  "c_Name (sim_container c img) = c" "c_Image (sim_container c img) = img"
  "c_VolumeMounts (sim_container c img) = []"
  by (simp_all add: sim_pod_def sim_container_def all_containers_def is_k8s_app_def)

lemma quiet_manager_simps [simp]:
  "cni_InitPodNetwork quiet_manager = (\<lambda>_ _. ret None)"
  "cni_StopPodNetwork quiet_manager = (\<lambda>_ _. ret None)"
  by (simp_all add: quiet_manager_def)

lemma dummy_simps [simp]:
  "CreateInstance DummyBackend i = ret None" "StartInstance DummyBackend i = ret None"
  "DeleteInstance DummyBackend i = ret None" "GetInstanceStatus DummyBackend i = ret (DummyStatus i, None)"
  by (simp_all add: DummyBackend_def)

lemma sim_ImageGetConfig [simp]:
  "ImageGetConfig sim_registry n w =
    (Done (\<lparr>Backend = (if n = ''osv-image'' then ''osv'' else []), Hypervisor = []\<rparr>, None), w)"
  by (simp add: ImageGetConfig_def ImageGetConfigWithClient_def get_manifest_def sim_registry_def
      config_media_types_def list_media_types_def io_simps)

lemma kio_id [simp]: "(s :: 'w provider_state)\<lparr>net := net s\<rparr> = s" "(n :: 'w net_state)\<lparr>kern := kern n\<rparr> = n"
  by simp_all

definition sim_instance :: "pod \<Rightarrow> container \<Rightarrow> inst" where
  "sim_instance pd c = \<lparr>ID = podAndContainerToIdentifier pd c, i_Backend = ''containerd'',
     i_Container = c, i_VolumeMounts = [], i_HostNetwork = ps_HostNetwork (p_Spec pd), i_Metadata = p_Meta pd\<rparr>"

lemma sim_newInstance:
  assumes "map_of (instances s) (podAndContainerToIdentifier pd c) = None"
    and "c_Image c \<noteq> ''osv-image''" "c_VolumeMounts c = []"
  shows "newInstance sim_provider pd c s = (Done (Some (sim_instance pd c), None), s)"
  using assms
  by (simp add: newInstance_def io_simps Let_def BackendContainerd_def sim_instance_def)

lemma sim_CreatePod:
  assumes "map_of (instances s) (podAndContainerToIdentifier pd c) = None"
    and "c_Image c \<noteq> ''osv-image''" "c_VolumeMounts c = []"
    and "all_containers pd = [c]" "\<not> is_k8s_app pd"
  shows "CreatePod sim_provider pd s = (Done None,
     s\<lparr>pods := AList.update (podToIdentifier pd) pd (pods s),
       instances := AList.update (podAndContainerToIdentifier pd c) (sim_instance pd c) (instances s)\<rparr>)"
  using assms
  by (simp add: CreatePod_def io_simps network_manager_def sim_newInstance instance_ops backend_of_def
      sim_instance_def [of pd c])

lemma sim_DeletePod:
  assumes "\<And>c. c \<in> set (all_containers pd) \<Longrightarrow>
    map_of (instances s) (podAndContainerToIdentifier pd c) \<in> {None, Some (sim_instance pd c)}"
  shows "DeletePod sim_provider pd s = (Done None, s)"
proof -
  have "for_all cs (\<lambda>c. bnd get_st (\<lambda>s. case map_of (instances s) (podAndContainerToIdentifier pd c) of
         None \<Rightarrow> ret () | Some i \<Rightarrow> bnd (i_Delete sim_provider i) (\<lambda>_. ret ()))) s = (Done (), s)"
    if "set cs \<subseteq> set (all_containers pd)" for cs
    using that
  proof (induction cs)
    case (Cons c cs)
    with assms [of c] show ?case
      by (auto simp: io_simps i_Delete_def backend_of_def sim_instance_def)
  qed (simp add: io_simps)
  then show ?thesis by (simp add: DeletePod_def io_simps network_manager_def)
qed

end
