(* ===== verification/PodProps.thy ===== *)
theory PodProps
  imports SimNode
begin

text \<open>
  The properties of the provider (\<open>pkg/provider\<close>): what a created pod looks like to the other
  calls, what a failed creation leaves behind, why a pod cannot be updated, the phase that is
  reported, and the identifiers the maps are keyed by.
\<close>

section \<open>Identifiers\<close>

text \<open>
  C21. Two containers of any two pods get the same instance ID only if namespace, pod name and
  container name agree, provided no name holds the separator (Kubernetes names never do). This
  holds for the empty namespace too.
\<close>

theorem container_identifiers_unambiguous:
  assumes "plain (p_Namespace pd)" "plain (p_Name pd)" "plain (c_Name c)"
    and "plain (p_Namespace pd')" "plain (p_Name pd')" "plain (c_Name c')"
    and "podAndContainerToIdentifier pd c = podAndContainerToIdentifier pd' c'"
  shows "p_Namespace pd = p_Namespace pd' \<and> p_Name pd = p_Name pd' \<and> c_Name c = c_Name c'"
proof -
  have "podToIdentifier pd = podToIdentifier pd'" and names: "c_Name c = c_Name c'"
    using join_last_inj [OF assms(3,6)] assms(7) unfolding podAndContainerToIdentifier_def by blast+
  with assms(2,5) have "p_Namespace pd = p_Namespace pd' \<and> p_Name pd = p_Name pd'"
    by (metis join_last_inj not_plain_join podToIdentifier_def)
  with names show ?thesis by simp
qed

theorem container_identifiers_unambiguous_witness:
  "podAndContainerToIdentifier (sim_pod ''a'' ''b'' []) (sim_container ''c'' [])
     \<noteq> podAndContainerToIdentifier (sim_pod [] ''b'' []) (sim_container ''c'' [])"
  using container_identifiers_unambiguous [of "sim_pod ''a'' ''b'' []" "sim_container ''c'' []"
      "sim_pod [] ''b'' []" "sim_container ''c'' []"]
  by (auto simp: plain_def identifierSeparator_def)

text \<open>
  C22. When no name holds the separator, splitting the ID of an instance gives back what it was made of:
  namespace, pod and container, and for a pod without a namespace, pod and container only. In both cases
  the last part, which the OSv backend reports as the name of the container, is the container's.
\<close>

theorem split_container_identifier:
  assumes "plain (p_Namespace pd)" "plain (p_Name pd)" "plain (c_Name c)"
  shows "splitIdentifierIntoParts (podAndContainerToIdentifier pd c)
      = (if p_Namespace pd = [] then [p_Name pd, c_Name c] else [p_Namespace pd, p_Name pd, c_Name c])
    \<and> last (splitIdentifierIntoParts (podAndContainerToIdentifier pd c)) = c_Name c"
proof (cases "p_Namespace pd = []")
  case True
  then have "podAndContainerToIdentifier pd c = joinIdentifierFromParts [p_Name pd, c_Name c]"
    by (simp add: podAndContainerToIdentifier_def podToIdentifier_def)
  with assms True show ?thesis using split_join_parts [of "[p_Name pd, c_Name c]"] by simp
next
  case False
  with assms show ?thesis
    using split_join_parts [of "[p_Namespace pd, p_Name pd, c_Name c]"] by (simp add: container_id_ns)
qed

theorem split_container_identifier_witness:
  "splitIdentifierIntoParts (podAndContainerToIdentifier (sim_pod ''a'' ''b'' []) (sim_container ''c'' []))
     = [''a'', ''b'', ''c'']
   \<and> splitIdentifierIntoParts (podAndContainerToIdentifier (sim_pod [] ''b'' []) (sim_container ''c'' []))
     = [''b'', ''c'']"
  using split_container_identifier [of "sim_pod ''a'' ''b'' []" "sim_container ''c'' []"]
    split_container_identifier [of "sim_pod [] ''b'' []" "sim_container ''c'' []"]
  by (simp add: plain_def identifierSeparator_def)

section \<open>Creating and updating\<close>

text \<open>
  C23. A pod (not a system pod, in a named namespace) whose creation succeeded is found by
  \<open>GetPod\<close>, every one of its containers has an instance of its own ID, made from one of its
  containers, whose backend is enabled, and the map of pods and the map of instances are the same as before
  for every other key. This holds whatever the backends, the registry and the network answer.
\<close>

theorem CreatePod_registers:
  assumes "CreatePod p pd s = (Done None, t)" and "\<not> is_k8s_app pd" "p_Namespace pd \<noteq> []"
  shows "GetPod (p_Namespace pd) (p_Name pd) t = (Done (Some pd, None), t)
    \<and> (\<forall>c \<in> set (all_containers pd). \<exists>i.
        getInstance (p_Namespace pd) (p_Name pd) (c_Name c) t = (Done (Some i), t)
        \<and> ID i = podAndContainerToIdentifier pd c \<and> map_of (backends p) (i_Backend i) \<noteq> None
        \<and> (\<exists>c' \<in> set (all_containers pd). made_from p pd c' i))
    \<and> (\<forall>k. k \<noteq> podToIdentifier pd \<longrightarrow> map_of (pods t) k = map_of (pods s) k)
    \<and> (\<forall>k. k \<notin> podAndContainerToIdentifier pd ` set (all_containers pd) \<longrightarrow>
        map_of (instances t) k = map_of (instances s) k)"
proof -
  from CreatePod_Done(1,3) [OF assms(1,2)] obtain ins
    where made: "list_all2 (made_from p pd) (all_containers pd) ins"
      and t: "instances t = add_instances ins (instances s)"
        "pods t = AList.update (podToIdentifier pd) pd (pods s)" by blast
  have "\<exists>i. getInstance (p_Namespace pd) (p_Name pd) (c_Name c) t = (Done (Some i), t)
        \<and> ID i = podAndContainerToIdentifier pd c \<and> map_of (backends p) (i_Backend i) \<noteq> None
        \<and> (\<exists>c' \<in> set (all_containers pd). made_from p pd c' i)"
    if c: "c \<in> set (all_containers pd)" for c
  proof -
    from registered_instance [OF made c, of "instances s"] t(1) obtain i where i: "i \<in> set ins"
      "map_of (instances t) (podAndContainerToIdentifier pd c) = Some i" "ID i = podAndContainerToIdentifier pd c"
      by auto
    from list_all2_mem2 [OF made i(1)] obtain c' where "c' \<in> set (all_containers pd)" "made_from p pd c' i" by blast
    with i assms(3) show ?thesis by (auto simp: getInstance_def io_simps container_id_ns made_from_def)
  qed
  moreover have "GetPod (p_Namespace pd) (p_Name pd) t = (Done (Some pd, None), t)"
    using t(2) assms(3) by (simp add: GetPod_def io_simps update_conv' podToIdentifier_ns)
  ultimately show ?thesis using t map_of_add_instances [OF made] by (simp add: update_conv')
qed

abbreviation one_pod :: pod where "one_pod \<equiv> sim_pod ''ns'' ''a'' [sim_container ''c'' ''img'']"

lemma create_one_pod:
  "CreatePod sim_provider one_pod sim_node = (Done None, sim_node\<lparr>pods := [(''ns_a'', one_pod)],
     instances := [(''ns_a_c'', sim_instance one_pod (sim_container ''c'' ''img''))]\<rparr>)"
  by (subst sim_CreatePod [where c = "sim_container ''c'' ''img''"])
    (simp_all add: podToIdentifier_def podAndContainerToIdentifier_def joinIdentifierFromParts_def identifierSeparator_def)

theorem CreatePod_registers_witness:
  "\<exists>t i. CreatePod sim_provider one_pod sim_node = (Done None, t)
    \<and> GetPod ''ns'' ''a'' t = (Done (Some one_pod, None), t)
    \<and> getInstance ''ns'' ''a'' ''c'' t = (Done (Some i), t) \<and> i_Backend i = ''containerd''"
  using CreatePod_registers [OF create_one_pod]
  by (auto simp: create_one_pod split: if_splits)

text \<open>
  C24. A creation that stops with an error records the pod all the same (\<open>GetPod\<close> finds it) but
  records no instance: the instances its backends have already made for earlier containers are
  unknown to the provider from then on, so deleting the pod does not reach them.
\<close>

theorem CreatePod_error_forgets_instances:
  assumes "CreatePod p pd s = (Done (Some e), t)" and "p_Namespace pd \<noteq> []"
  shows "instances t = instances s
    \<and> GetPod (p_Namespace pd) (p_Name pd) t = (Done (Some pd, None), t)"
proof -
  have app: "\<not> is_k8s_app pd"
    using assms(1) by (auto simp: CreatePod_def bnd_modify ret_apply)
  from CreatePod_Done(1,2) [OF assms(1) app] assms(2) show ?thesis
    by (simp add: GetPod_def io_simps update_conv' podToIdentifier_ns)
qed

text \<open>
  The second container's name is already taken, so the first one's instance is made, and lost.
\<close>

lemma create_half_pod:
  assumes "map_of (instances s) ''ns_a_c'' = None" "map_of (instances s) ''ns_a_d'' \<noteq> None"
  shows "\<exists>e. CreatePod sim_provider (sim_pod ''ns'' ''a'' [sim_container ''c'' ''img'', sim_container ''d'' ''img'']) s
    = (Done (Some e), s\<lparr>pods := AList.update ''ns_a'' (sim_pod ''ns'' ''a'' [sim_container ''c'' ''img'', sim_container ''d'' ''img'']) (pods s)\<rparr>)"
  using assms
  by (simp add: CreatePod_def io_simps network_manager_def sim_newInstance newInstance_collision instance_ops
      backend_of_def podToIdentifier_def podAndContainerToIdentifier_def joinIdentifierFromParts_def
      identifierSeparator_def sim_instance_def)

theorem CreatePod_error_forgets_instances_witness:
  "\<exists>e s t. CreatePod sim_provider (sim_pod ''ns'' ''a'' [sim_container ''c'' ''img'', sim_container ''d'' ''img'']) s = (Done (Some e), t)
    \<and> map_of (instances t) ''ns_a_c'' = None"
proof -
  define s where "s = sim_node\<lparr>instances := [(''ns_a_d'', sim_instance one_pod (sim_container ''d'' []))]\<rparr>"
  have "map_of (instances s) ''ns_a_c'' = None" "map_of (instances s) ''ns_a_d'' \<noteq> None"
    by (simp_all add: s_def)
  from create_half_pod [OF this] obtain e t where
    "CreatePod sim_provider (sim_pod ''ns'' ''a'' [sim_container ''c'' ''img'', sim_container ''d'' ''img'']) s = (Done (Some e), t)"
    by blast
  with CreatePod_error_forgets_instances [OF this] show ?thesis by (fastforce simp: s_def)
qed

text \<open>
  C25. A container that was created can never be updated: once the creation of a pod has succeeded, in every
  later state of the node an update whose specification has a container of the same namespace, pod and name
  fails, with the name collision when that container comes first. The instances are deleted from their
  backends by then, but stay in the map, which the update leaves as it was; the new specification is
  recorded. An update that gives every container a new name can succeed.
\<close>

theorem UpdatePod_of_created_pod_fails:
  assumes "CreatePod p pd s = (Done None, t)" and "\<not> is_k8s_app pd" and "node_reach p t t'"
    and "UpdatePod p pd' t' = (Done r, u)" and "\<not> is_k8s_app pd'"
    and "c \<in> set (all_containers pd)" "c' \<in> set (all_containers pd')"
    and "podAndContainerToIdentifier pd' c' = podAndContainerToIdentifier pd c"
  shows "r \<noteq> None \<and> instances u = instances t' \<and> map_of (pods u) (podToIdentifier pd') = Some pd'
    \<and> (c' = hd (all_containers pd') \<longrightarrow>
        r = Some (Wrapf (Errorf ''name collision for instance %q'' [podAndContainerToIdentifier pd' c'])
           ''failed to create instance %q for pod %q'' [c_Name c', podToIdentifier pd']))"
proof -
  let ?id = "podAndContainerToIdentifier pd' c'"
  from CreatePod_Done(3) [OF assms(1,2)] obtain ins where
    "list_all2 (made_from p pd) (all_containers pd) ins" "instances t = add_instances ins (instances s)" by blast
  with registered_instance [of p pd _ ins c] assms(6,8) have "registered {?id} t" by (fastforce simp: registered_def)
  with registered.node_reach_keeps [OF assms(3)] have later: "map_of (instances t') ?id \<noteq> None"
    by (auto simp: registered_def)
  obtain t1 where del: "DeletePod p pd' t' = (Done None, t1)" and create: "CreatePod p pd' t1 = (Done r, u)"
    using assms(4) DeletePod_Done(1) by (fastforce simp: UpdatePod_def elim!: bnd_DoneE)
  note same = DeletePod_Done(2,3) [OF del]
  have "r \<noteq> None"
  proof
    assume "r = None"
    then obtain ins' where "list_all2 (made_from p pd') (all_containers pd') ins'"
      "\<forall>i \<in> set ins'. map_of (instances t1) (ID i) = None"
      using CreatePod_Done(3) [OF create assms(5)] by blast
    with registered_instance [of p pd' _ ins' c' "[]"] assms(7) later same(2) show False by fastforce
  qed
  moreover from this have "instances u = instances t'"
    using CreatePod_Done(2) [OF create assms(5)] same(2) by fastforce
  moreover have "map_of (pods u) (podToIdentifier pd') = Some pd'"
    using CreatePod_Done(1) [OF create assms(5)] by (simp add: update_conv')
  moreover have "r = Some (Wrapf (Errorf ''name collision for instance %q'' [?id])
      ''failed to create instance %q for pod %q'' [c_Name c', podToIdentifier pd'])" if "c' = hd (all_containers pd')"
  proof -
    from that assms(7) obtain cs where cs: "all_containers pd' = c' # cs" by (cases "all_containers pd'") auto
    obtain x s2 s3 where made: "create_instances p pd' (all_containers pd') s2 = (Done x, s3)"
      and rest: "(case x of Inl e \<Rightarrow> ret (Some e) | Inr is \<Rightarrow> bnd (start_instances p is) (\<lambda>_. ret None)) s3 = (Done r, u)"
      and "instances s2 = instances t1"
      using CreatePod_partsE [OF create assms(5)] by metis
    with later same(2) newInstance_collision [of s2 pd' c' p]
    have "newInstance p pd' c' s2 = (Done (None, Some (Errorf ''name collision for instance %q'' [?id])), s2)" by simp
    with made rest show ?thesis by (auto simp: cs io_simps)
  qed
  ultimately show ?thesis by blast
qed

lemma one_pod_ids:
  "podToIdentifier one_pod = ''ns_a''"
  "podAndContainerToIdentifier one_pod (sim_container ''c'' ''img'') = ''ns_a_c''"
  by (simp_all add: podToIdentifier_def podAndContainerToIdentifier_def joinIdentifierFromParts_def identifierSeparator_def)

lemma create_one_pod_again:
  "map_of (instances s) ''ns_a_c'' \<noteq> None \<Longrightarrow> \<exists>r u. CreatePod sim_provider one_pod s = (Done r, u)"
  by (simp add: CreatePod_def io_simps network_manager_def newInstance_collision one_pod_ids)

text \<open>The pod is created, and an update adds a second container.\<close>

abbreviation two_containers :: pod where
  "two_containers \<equiv> sim_pod ''ns'' ''a'' [sim_container ''c'' ''img'', sim_container ''d'' ''img'']"

theorem UpdatePod_of_created_pod_fails_witness:
  "\<exists>t t' r u. CreatePod sim_provider one_pod sim_node = (Done None, t) \<and> node_reach sim_provider t t'
    \<and> UpdatePod sim_provider two_containers t' = (Done (Some r), u)"
proof -
  obtain t where t: "CreatePod sim_provider one_pod sim_node = (Done None, t)"
    "instances t = [(''ns_a_c'', sim_instance one_pod (sim_container ''c'' ''img''))]"
    by (simp add: create_one_pod)
  have reach: "node_reach sim_provider t t" by (rule node_refl)
  have ids: "podToIdentifier two_containers = ''ns_a''" "podAndContainerToIdentifier two_containers (sim_container ''c'' ''img'') = ''ns_a_c''"
    "podAndContainerToIdentifier two_containers (sim_container ''d'' ''img'') = ''ns_a_d''"
    by (simp_all add: podToIdentifier_def podAndContainerToIdentifier_def joinIdentifierFromParts_def identifierSeparator_def)
  have conts: "set (all_containers two_containers) = {sim_container ''c'' ''img'', sim_container ''d'' ''img''}"
    by (simp add: all_containers_def sim_pod_def)
  have same: "sim_instance two_containers (sim_container ''c'' ''img'') = sim_instance one_pod (sim_container ''c'' ''img'')"
    unfolding sim_instance_def one_pod_ids ids by (simp add: sim_pod_def)
  have "DeletePod sim_provider two_containers t = (Done None, t)"
    by (rule sim_DeletePod) (auto simp: t(2) ids same conts)
  then obtain r u where u: "UpdatePod sim_provider two_containers t = (Done r, u)"
    using t(2) by (simp add: UpdatePod_def bnd_apply CreatePod_def io_simps network_manager_def newInstance_collision ids)
  from UpdatePod_of_created_pod_fails [OF t(1) _ reach u, of "sim_container ''c'' ''img''" "sim_container ''c'' ''img''"]
  have "r \<noteq> None" by (simp add: ids one_pod_ids)
  with t(1) reach u show ?thesis by blast
qed

end
