(* ===== verification/NodeProps.thy ===== *)
theory NodeProps
  imports SimNode
begin

text \<open>
  Further properties of the provider: the phase that is reported, the invariant of its maps in
  every reachable state, what a disabled backend and the empty namespace do, how volumes, metrics
  and the enabled backends are computed.
\<close>

section \<open>The phase of a pod\<close>

definition is_running :: "container_status \<Rightarrow> bool" where
  "is_running st \<longleftrightarrow> st_Running (cst_State st) \<noteq> None"

definition is_terminated :: "container_status \<Rightarrow> bool" where
  "is_terminated st \<longleftrightarrow> st_Terminated (cst_State st) \<noteq> None"

lemma phase_vars_Cons:
  "phase_vars (st # sts) (a, b) =
    phase_vars sts (a \<and> (is_running st \<or> is_terminated st), b \<and> (is_running st \<or> \<not> is_terminated st))"
  by (cases a; cases b) (auto simp: is_running_def is_terminated_def)

lemma phase_vars_eq:
  "phase_vars sts (a, b) =
    (a \<and> (\<forall>st \<in> set sts. is_running st \<or> is_terminated st),
     b \<and> (\<forall>st \<in> set sts. is_running st \<or> \<not> is_terminated st))"
  by (induction sts arbitrary: a b) (auto simp: phase_vars_Cons simp del: phase_vars.simps(2))

lemma pod_phase_of_eq:
  "pod_phase_of sts = (if \<forall>st \<in> set sts. is_running st \<or> \<not> is_terminated st then PodRunning
     else if \<forall>st \<in> set sts. is_running st \<or> is_terminated st then PodFailed else PodPending)"
  by (simp add: pod_phase_of_def phase_vars_eq)

lemma instance_statuses_Done:
  "instance_statuses p pd cs s = (Done r, t) \<Longrightarrow>
    case r of Inl NotYet \<Rightarrow> \<exists>c \<in> set cs. map_of (instances s) (joinIdentifierFromParts [p_Namespace pd, p_Name pd, c_Name c]) = None
    | Inl (Failed e) \<Rightarrow> cs \<noteq> []
    | Inr sts \<Rightarrow> length sts = length cs
        \<and> (\<forall>c \<in> set cs. map_of (instances s) (joinIdentifierFromParts [p_Namespace pd, p_Name pd, c_Name c]) \<noteq> None)"
proof (induction cs arbitrary: s r)
  case Nil
  then show ?case by (auto simp: io_simps)
next
  case (Cons c cs)
  let ?id = "joinIdentifierFromParts [p_Namespace pd, p_Name pd, c_Name c]"
  show ?case
  proof (cases "map_of (instances s) ?id")
    case None
    with Cons.prems show ?thesis by (auto simp: io_simps getInstance_def)
  next
    case (Some i)
    with Cons.prems obtain st err s1 where status: "i_Status p i s = (Done (st, err), s1)"
      by (auto simp: getInstance_def io_simps split: prod.splits outcome.splits)
    have same: "instances s1 = instances s" using frame_onlyD [OF frame_instance_ops(1) status] by simp
    show ?thesis
    proof (cases err)
      case (Some e)
      with Cons.prems \<open>map_of (instances s) ?id = Some i\<close> status show ?thesis
        by (auto simp: getInstance_def io_simps)
    next
      case None
      with Cons.prems Some status obtain r' where rest: "instance_statuses p pd cs s1 = (Done r', t)"
        and r: "r = (case r' of Inl e \<Rightarrow> Inl e | Inr sts \<Rightarrow> Inr (st # sts))"
        by (auto simp: getInstance_def io_simps split: prod.splits outcome.splits sum.splits)
      from Cons.IH [OF rest] Some r same show ?thesis
        by (auto split: sum.splits status_stop.splits)
    qed
  qed
qed

text \<open>
  C26. The status that \<open>GetPodStatus\<close> answers, in full: the pod is pending when one of its
  containers has no instance, else it is running as long as no container has stopped (a container
  that is still waiting counts as running), failed when every container is running or has stopped
  and at least one has stopped, and pending when one has stopped and another still waits. A pod is
  never reported as succeeded, whatever the exit codes.
\<close>

theorem GetPodStatus_phase:
  assumes "GetPodStatus p ns n s = (Done (Some st, None), t)"
  shows "\<exists>pd. map_of (pods s) (joinIdentifierFromParts [ns, n]) = Some pd
    \<and> pst_Phase st = (if \<exists>c \<in> set (all_containers pd).
           map_of (instances s) (joinIdentifierFromParts [p_Namespace pd, p_Name pd, c_Name c]) = None
         then PodPending
         else if \<forall>cs \<in> set (pst_ContainerStatuses st). is_running cs \<or> \<not> is_terminated cs then PodRunning
         else if \<forall>cs \<in> set (pst_ContainerStatuses st). is_running cs \<or> is_terminated cs then PodFailed
         else PodPending)"
proof (cases "map_of (pods s) (joinIdentifierFromParts [ns, n])")
  case None
  with assms show ?thesis by (simp add: GetPodStatus_def GetPod_def io_simps)
next
  case (Some pd)
  obtain r s1 where init: "instance_statuses p pd (ps_InitContainers (p_Spec pd)) s = (Done r, s1)"
    using assms Some by (auto simp: GetPodStatus_def GetPod_def io_simps split: prod.splits outcome.splits)
  have same: "instances s1 = instances s"
    using frame_onlyD [OF frame_instance_statuses init] by simp
  note init_facts = instance_statuses_Done [OF init]
  show ?thesis
  proof (cases r)
    case (Inl e)
    with assms Some init init_facts show ?thesis
      by (cases e)
        (auto simp: GetPodStatus_def GetPod_def io_simps pending_status_def all_containers_def ball_Un)
  next
    case (Inr initSts)
    with assms Some init obtain r' where
      rest: "instance_statuses p pd (ps_Containers (p_Spec pd)) s1 = (Done r', t)"
      and st: "case r' of Inl NotYet \<Rightarrow> st = pending_status | Inl (Failed e) \<Rightarrow> False
        | Inr sts \<Rightarrow> pst_Phase st = pod_phase_of sts \<and> pst_ContainerStatuses st = sts"
      by (auto simp: GetPodStatus_def GetPod_def io_simps split: prod.splits outcome.splits sum.splits status_stop.splits)
    from instance_statuses_Done [OF rest] init_facts Inr st same Some show ?thesis
      by (auto simp: pod_phase_of_eq pending_status_def all_containers_def ball_Un
        split: sum.splits status_stop.splits)
  qed
qed

theorem GetPodStatus_phase_witness:
  "\<exists>st t. GetPodStatus sim_provider ''ns'' ''a''
      (sim_node\<lparr>pods := [(''ns_a'', sim_pod ''ns'' ''a'' [sim_container ''c'' []])],
        instances := [(''ns_a_c'', sim_instance (sim_pod ''ns'' ''a'' []) (sim_container ''c'' []))]\<rparr>)
    = (Done (Some st, None), t) \<and> pst_Phase st = PodFailed"
proof -
  let ?s = "sim_node\<lparr>pods := [(''ns_a'', sim_pod ''ns'' ''a'' [sim_container ''c'' []])],
        instances := [(''ns_a_c'', sim_instance (sim_pod ''ns'' ''a'' []) (sim_container ''c'' []))]\<rparr>"
  let ?i = "sim_instance (sim_pod ''ns'' ''a'' []) (sim_container ''c'' [])"
  obtain st t where st: "GetPodStatus sim_provider ''ns'' ''a'' ?s = (Done (Some st, None), t)"
    "pst_ContainerStatuses st = [DummyStatus ?i]"
    by (simp add: GetPodStatus_def GetPod_def getInstance_def io_simps joinIdentifierFromParts_def
        identifierSeparator_def i_Status_def backend_of_def sim_instance_def)
  have "is_terminated (DummyStatus ?i)" "\<not> is_running (DummyStatus ?i)"
    by (simp_all add: DummyStatus_def is_running_def is_terminated_def)
  with GetPodStatus_phase [OF st(1)] st show ?thesis
    by (auto simp: joinIdentifierFromParts_def identifierSeparator_def)
qed

section \<open>Backends and namespaces\<close>

text \<open>
  When the image of the first container asks for a backend that is not enabled, \<open>newInstance\<close>
  answers neither an instance nor an error (it wraps the nil error of the previous call), and
  \<open>CreatePod\<close> panics on the nil instance. The pod stays recorded.
\<close>

theorem CreatePod_disabled_backend_panics:
  assumes "\<not> is_k8s_app pd" and "all_containers pd = c # cs"
    and "PodNetworkManager_ptr p = Some nm"
    and "cni_InitPodNetwork nm (p_Namespace pd) (p_Name pd) (net s) = (Done e, n)"
    and "map_of (instances s) (podAndContainerToIdentifier pd c) = None"
    and "ParseDockerRef p (c_Image c) = (img, None)"
    and "ImageGetConfig (images p) img (kern n) = (Done (im, None), w)"
    and "map_of (backends p) (if Backend im = [] then BackendContainerd else Backend im) = None"
  shows "CreatePod p pd s = (Panic ''nil pointer dereference'',
    s\<lparr>pods := AList.update (podToIdentifier pd) pd (pods s), net := n\<lparr>kern := w\<rparr>\<rparr>)"
  using assms
  by (cases "Backend im = []")
    (simp_all add: CreatePod_def io_simps network_manager_def newInstance_def Let_def wrap_def)

theorem CreatePod_disabled_backend_panics_witness:
  "fst (CreatePod sim_provider (sim_pod ''ns'' ''a'' [sim_container ''c'' ''osv-image'']) sim_node)
    = Panic ''nil pointer dereference''"
  by (subst CreatePod_disabled_backend_panics [where p = sim_provider and nm = quiet_manager and e = None
        and c = "sim_container ''c'' ''osv-image''" and cs = "[]" and img = "''osv-image''"
        and im = "\<lparr>Backend = ''osv'', Hypervisor = []\<rparr>" and n = "net sim_node" and w = "kern (net sim_node)"])
    (simp_all add: io_simps)

text \<open>
  A pod without a namespace is recorded under its bare name, but \<open>GetPod\<close> and \<open>getInstance\<close>
  join the empty namespace and look for \<open>_name\<close>: on a node that only got this pod, neither the pod
  nor any of its containers is ever found.
\<close>

theorem empty_namespace_not_found:
  assumes "CreatePod p pd (no_pods n) = (Done r, t)"
    and "p_Namespace pd = []" "plain (p_Name pd)" "p_Name pd \<noteq> []"
  shows "GetPod [] (p_Name pd) t = (Done (None, Some (Errorf ''Pod %s/%s not found'' [[], p_Name pd])), t)
    \<and> getInstance [] (p_Name pd) cname t = (Done None, t)"
proof -
  have key: "podToIdentifier pd \<noteq> joinIdentifierFromParts [[], p_Name pd]"
    using assms(2,3) not_plain_join by (metis podToIdentifier_def)
  have pods: "pods t = [(podToIdentifier pd, pd)]"
    using assms(1) CreatePod_Done(1) [OF assms(1)]
    by (cases "is_k8s_app pd") (auto simp: no_pods_def CreatePod_def bnd_modify ret_apply)
  have ids: "podAndContainerToIdentifier pd c \<noteq> joinIdentifierFromParts [[], p_Name pd, cname]" for c
  proof -
    have "hd (podAndContainerToIdentifier pd c) \<noteq> identifierSeparator"
      using assms(2-4) by (cases "p_Name pd")
        (auto simp: podAndContainerToIdentifier_def podToIdentifier_def join_two plain_def)
    then show ?thesis by (auto simp: join_three [of "[]"] join_two)
  qed
  have "map_of (instances t) (joinIdentifierFromParts [[], p_Name pd, cname]) = None"
  proof (cases "is_k8s_app pd")
    case True
    with assms(1) show ?thesis by (auto simp: no_pods_def CreatePod_def bnd_modify ret_apply)
  next
    case False
    show ?thesis
    proof (cases r)
      case None
      from CreatePod_Done(3) [OF assms(1) False None] obtain ins where
        "list_all2 (made_from p pd) (all_containers pd) ins" "instances t = add_instances ins []"
        by (auto simp: no_pods_def)
      moreover have "joinIdentifierFromParts [[], p_Name pd, cname]
          \<notin> podAndContainerToIdentifier pd ` set (all_containers pd)" using ids by (metis imageE)
      ultimately show ?thesis by (simp add: map_of_add_instances)
    qed (use CreatePod_Done(2) [OF assms(1) False] in \<open>simp add: no_pods_def\<close>)
  qed
  with pods key show ?thesis by (simp add: GetPod_def getInstance_def io_simps)
qed

theorem empty_namespace_not_found_witness:
  "\<exists>t. CreatePod sim_provider (sim_pod [] ''a'' [sim_container ''c'' []]) (no_pods (sim_state (AM4 sample_am4) None)) = (Done None, t)
    \<and> getInstance [] ''a'' ''c'' t = (Done None, t) \<and> instances t \<noteq> []"
proof -
  let ?pd = "sim_pod [] ''a'' [sim_container ''c'' []]" and ?n = "sim_state (AM4 sample_am4) None"
  obtain t where t: "CreatePod sim_provider ?pd (no_pods ?n) = (Done None, t)" "instances t \<noteq> []"
    using sim_CreatePod [of "no_pods ?n" ?pd "sim_container ''c'' []"] by (simp add: no_pods_def)
  with empty_namespace_not_found [OF t(1), of "''c''"] show ?thesis
    by (auto simp: plain_def identifierSeparator_def)
qed

section \<open>Reachable states\<close>

text \<open>
  C27. In every state a node reaches from a fresh start, whatever its backends, registry, listers and
  network manager answer, and whether or not calls panicked: pods are kept under their own
  identifier and instances under their own ID, no key is there twice, and the backend of every
  registered instance is enabled, so calling it never dereferences nil.
\<close>

theorem node_maps_keyed:
  assumes "node_reach p (no_pods n) t"
  shows "distinct (map fst (pods t)) \<and> (\<forall>(k, pd) \<in> set (pods t). k = podToIdentifier pd)
    \<and> distinct (map fst (instances t))
    \<and> (\<forall>(k, i) \<in> set (instances t). ID i = k \<and> (\<exists>b. fst (backend_of p i t) = Done b))"
proof -
  have "keyed p (no_pods n)" by (simp add: keyed_def no_pods_def)
  with keyed.node_reach_keeps [OF assms] show ?thesis
    by (fastforce simp: keyed_def backend_of_def deref_def io_simps split: option.split)
qed

theorem node_maps_keyed_witness:
  "\<exists>t. node_reach sim_provider (no_pods (sim_state (AM4 sample_am4) None)) t \<and> length (pods t) = 1
    \<and> (\<forall>(k, i) \<in> set (instances t). ID i = k)"
proof -
  let ?pd = "sim_pod ''ns'' ''a'' [sim_container ''c'' []]" and ?n = "sim_state (AM4 sample_am4) None"
  obtain t where t: "CreatePod sim_provider ?pd (no_pods ?n) = (Done None, t)" "length (pods t) = 1"
    using sim_CreatePod [of "no_pods ?n" ?pd "sim_container ''c'' []"] by (simp add: no_pods_def)
  have "node_reach sim_provider (no_pods ?n) t"
    using node_next [OF node_refl node_step.create [of sim_provider "no_pods ?n" ?pd]] t(1) by simp
  with node_maps_keyed [OF this] t(2) show ?thesis by fastforce
qed

text \<open>
  C28. Nothing is ever taken out of the map of pods: a pod that \<open>GetPod\<close> found once is found in every
  later state, also after it was deleted.
\<close>

theorem node_never_forgets_a_pod:
  assumes "node_reach p s t" and "fst (GetPod ns n s) = Done (Some pd, None)"
  shows "\<exists>pd'. fst (GetPod ns n t) = Done (Some pd', None)"
proof -
  let ?k = "joinIdentifierFromParts [ns, n]"
  have "knows {?k} s" using assms(2) by (auto simp: GetPod_def io_simps knows_def split: option.splits)
  with knows.node_reach_keeps [OF assms(1)] have "knows {?k} t" .
  then show ?thesis by (auto simp: GetPod_def io_simps knows_def)
qed

theorem node_never_forgets_a_pod_witness:
  "\<exists>s pd'. fst (GetPod ''ns'' ''a'' (snd (DeletePod sim_provider (sim_pod ''ns'' ''a'' []) s))) = Done (Some pd', None)"
proof -
  let ?pd = "sim_pod ''ns'' ''a'' []"
  define s where "s = sim_node\<lparr>pods := [(''ns_a'', ?pd)]\<rparr>"
  have "fst (GetPod ''ns'' ''a'' s) = Done (Some ?pd, None)"
    by (simp add: GetPod_def io_simps s_def joinIdentifierFromParts_def identifierSeparator_def)
  from node_never_forgets_a_pod [OF node_next [OF node_refl node_step.delete] this, of sim_provider ?pd]
  show ?thesis by blast
qed

section \<open>Volumes\<close>

lemma newInstanceProjection_source:
  "newInstanceProjection rm pd v src w = (Done (Inr ip), w') \<Longrightarrow> ivp_Source ip = src"
  by (auto simp: newInstanceProjection_def io_simps Let_def
      split: option.splits prod.splits outcome.splits if_splits)

lemma newInstanceProjections_sources:
  "newInstanceProjections rm pd v srcs w = (Done (Inr ips), w') \<Longrightarrow> map ivp_Source ips = srcs"
  by (induction srcs arbitrary: ips w w')
    (auto simp: io_simps dest: newInstanceProjection_source split: prod.splits outcome.splits sum.splits)

text \<open>
  What \<open>newInstanceVolume\<close> makes of a volume: it has an ID of namespace, pod and volume name and
  the volume itself; a Secret or ConfigMap object is attached only for a volume of that kind, and
  then with its own source; a projected volume keeps all its sources in order. A volume of none of
  the six known kinds is refused.
\<close>

theorem newInstanceVolume_result:
  assumes "newInstanceVolume rm pd v w = (Done r, w')"
  shows "case r of
      Inr iv \<Rightarrow> iv_ID iv = joinIdentifierFromParts [p_Namespace pd, p_Name pd, v_Name v] \<and> iv_Volume iv = v
        \<and> (\<forall>ss ob. iv_Secret iv = Some (ss, ob) \<longrightarrow> v_Secret v = Some ss)
        \<and> (\<forall>cs ob. iv_ConfigMap iv = Some (cs, ob) \<longrightarrow> v_ConfigMap v = Some cs)
        \<and> (\<forall>ips. iv_Projected iv = Some ips \<longrightarrow> v_Projected v = Some (map ivp_Source ips))
        \<and> (v_HostPath v \<noteq> None \<or> v_EmptyDir v \<noteq> None \<or> v_Secret v \<noteq> None \<or> v_NFS v \<noteq> None
             \<or> v_ConfigMap v \<noteq> None \<or> v_Projected v \<noteq> None)
    | Inl e \<Rightarrow> v_HostPath v = None \<and> v_EmptyDir v = None"
  using assms
  by (auto simp: newInstanceVolume_def io_simps Let_def dest: newInstanceProjections_sources
      split: option.splits prod.splits outcome.splits if_splits sum.splits)

abbreviation no_volume :: "string \<Rightarrow> volume" where
  "no_volume n \<equiv> \<lparr>v_Name = n, v_HostPath = None, v_EmptyDir = None, v_Secret = None, v_NFS = None,
     v_ConfigMap = None, v_Projected = None\<rparr>"

theorem newInstanceVolume_result_witness:
  "\<exists>e. newInstanceVolume sim_listers (sim_pod ''ns'' ''a'' []) (no_volume ''v'') () = (Done (Inl e), ())
    \<and> v_HostPath (no_volume ''v'') = None"
proof -
  obtain e where e: "newInstanceVolume sim_listers (sim_pod ''ns'' ''a'' []) (no_volume ''v'') () = (Done (Inl e), ())"
    by (simp add: newInstanceVolume_def io_simps)
  from newInstanceVolume_result [OF this] e show ?thesis by simp
qed

text \<open>
  A Secret volume whose secret does not exist is an error only when the specification says
  \<open>optional: false\<close> in so many words; when it says nothing (which Kubernetes reads as required) the
  instance gets the volume without the secret and no error.
\<close>

lemma missing_secret_is_an_error_only_if_explicit:
  assumes "v_HostPath v = None" "v_EmptyDir v = None" "v_Secret v = Some ss"
    and "SecretGet rm (p_Namespace pd) (ss_SecretName ss) w = (Done (None, Some e), w')" and "IsNotFound rm e"
  shows "newInstanceVolume rm pd v w = (Done (if ss_Optional ss = Some False
      then Inl (Errorf ''secret %s is required by volume %s and does not exist'' [ss_SecretName ss, v_Name v])
      else Inr \<lparr>iv_ID = joinIdentifierFromParts [p_Namespace pd, p_Name pd, v_Name v], iv_Volume = v,
                iv_Secret = None, iv_ConfigMap = None, iv_Projected = None\<rparr>), w')"
  using assms by (simp add: newInstanceVolume_def io_simps rm_GetSecret_def required_missing_def Let_def)

lemma missing_secret_example:
  "\<exists>iv. newInstanceVolume sim_listers (sim_pod ''ns'' ''a'' [])
      ((no_volume ''v'')\<lparr>v_Secret := Some \<lparr>ss_SecretName = ''x'', ss_Optional = None\<rparr>\<rparr>) ()
    = (Done (Inr iv), ()) \<and> iv_Secret iv = None"
  by (subst missing_secret_is_an_error_only_if_explicit [where ss = "\<lparr>ss_SecretName = ''x'', ss_Optional = None\<rparr>"
        and e = not_found and w' = "()"]) (simp_all add: sim_listers_def ret_apply)

section \<open>Metrics\<close>

definition metric_count :: "string \<Rightarrow> (string \<times> metric list) list \<Rightarrow> nat" where
  "metric_count n mm = (case map_of mm n of None \<Rightarrow> 0 | Some ms \<Rightarrow> length ms)"

lemma metric_count_append: "metric_count n (append_metric n' m mm) = metric_count n mm + (if n = n' then 1 else 0)"
  by (auto simp: metric_count_def append_metric_def update_conv' split: option.split)

lemma distinct_append_metric: "distinct (map fst mm) \<Longrightarrow> distinct (map fst (append_metric n m mm))"
  by (auto simp: append_metric_def distinct_update split: option.split)

definition resource_count :: "string \<Rightarrow> string \<Rightarrow> nat" where
  "resource_count ty n = (if n = ty @ cpuMetricSuffix then 1 else 0) + (if n = ty @ memoryMetricSuffix then 1 else 0)"

lemma metric_count_generate:
  "metric_count n (generateMockMetrics (Some mm) ty l) = metric_count n mm + resource_count ty n"
  "metric_count n (generateMockMetrics None ty l) = resource_count ty n"
  by (simp_all add: generateMockMetrics_def metric_count_append resource_count_def, simp add: metric_count_def)

lemma distinct_generate:
  "distinct (map fst mm) \<Longrightarrow> distinct (map fst (generateMockMetrics (Some mm) ty l))"
  "distinct (map fst (generateMockMetrics None ty l))"
  by (simp_all add: generateMockMetrics_def distinct_append_metric)

lemma pod_metrics_facts:
  "metric_count n (pod_metrics node pd mm)
    = metric_count n mm + resource_count ''pod'' n + length (ps_Containers (p_Spec pd)) * resource_count ''container'' n"
  "distinct (map fst mm) \<Longrightarrow> distinct (map fst (pod_metrics node pd mm))"
proof -
  have "metric_count n (fold (\<lambda>c mm. generateMockMetrics (Some mm) ''container'' (l c)) cs m)
      = metric_count n m + length cs * resource_count ''container'' n" for l m and cs :: "container list"
    by (induction cs arbitrary: m) (simp_all add: metric_count_generate)
  then show "metric_count n (pod_metrics node pd mm)
    = metric_count n mm + resource_count ''pod'' n + length (ps_Containers (p_Spec pd)) * resource_count ''container'' n"
    by (simp add: pod_metrics_def metric_count_generate)
  have "distinct (map fst m) \<Longrightarrow> distinct (map fst (fold (\<lambda>c mm. generateMockMetrics (Some mm) ''container'' (l c)) cs m))"
    for l m and cs :: "container list"
    by (induction cs arbitrary: m) (simp_all add: distinct_generate)
  then show "distinct (map fst mm) \<Longrightarrow> distinct (map fst (pod_metrics node pd mm))"
    by (simp add: pod_metrics_def distinct_generate)
qed

definition container_count :: "pod list \<Rightarrow> nat" where
  "container_count ps = sum_list (map (\<lambda>pd. length (ps_Containers (p_Spec pd))) ps)"

lemma all_pod_metrics:
  "metric_count n (fold (\<lambda>(k, pd) mm. pod_metrics node pd mm) l mm)
    = metric_count n mm + length l * resource_count ''pod'' n + container_count (map snd l) * resource_count ''container'' n"
  "distinct (map fst mm) \<Longrightarrow> distinct (map fst (fold (\<lambda>(k, pd) mm. pod_metrics node pd mm) l mm))"
  by (induction l arbitrary: mm) (auto simp: pod_metrics_facts container_count_def algebra_simps)

definition typed_names :: "(string \<times> metric list) list \<Rightarrow> bool" where
  "typed_names mm \<longleftrightarrow> (\<forall>n \<in> fst ` set mm. getMetricType n \<noteq> None)"

lemma typed_append: "typed_names mm \<Longrightarrow> getMetricType n \<noteq> None \<Longrightarrow> typed_names (append_metric n m mm)"
  by (auto simp: typed_names_def append_metric_def split: option.split dest!: update_mem)

lemma getMetricType_names [simp]:
  "getMetricType (ty @ cpuMetricSuffix) = Some COUNTER"
  "getMetricType (ty @ memoryMetricSuffix) = Some GAUGE"
  by (simp_all add: getMetricType_def has_suffix_def)
    (simp add: has_prefix_def cpuMetricSuffix_def memoryMetricSuffix_def)

lemma typed_generate:
  "typed_names mm \<Longrightarrow> typed_names (generateMockMetrics (Some mm) ty l)"
  "typed_names (generateMockMetrics None ty l)"
  by (auto simp: generateMockMetrics_def intro!: typed_append) (simp add: typed_names_def)

lemma typed_pod_metrics: "typed_names mm \<Longrightarrow> typed_names (pod_metrics node pd mm)"
proof -
  have "typed_names m \<Longrightarrow> typed_names (fold (\<lambda>c mm. generateMockMetrics (Some mm) ''container'' (l c)) cs m)"
    for l m and cs :: "container list"
    by (induction cs arbitrary: m) (simp_all add: typed_generate)
  then show "typed_names mm \<Longrightarrow> typed_names (pod_metrics node pd mm)"
    by (simp add: pod_metrics_def typed_generate)
qed

lemma typed_all_pods: "typed_names mm \<Longrightarrow> typed_names (fold (\<lambda>(k, pd) mm. pod_metrics node pd mm) l mm)"
  by (induction l arbitrary: mm) (auto simp: typed_pod_metrics)

text \<open>Ranging over a map visits every entry once.\<close>

definition fair_order :: "'w kernel \<Rightarrow> bool" where
  "fair_order k \<longleftrightarrow> (\<forall>n w. \<exists>q w'. RangeOrder k n w = (Done q, w') \<and> distinct q \<and> set q = {..<n})"

lemma mset_nth_order:
  assumes "distinct q" "set q = {..<length al}"
  shows "mset (map ((!) al) q) = mset al"
proof -
  have "mset q = mset [0..<length al]"
    using set_eq_iff_mset_eq_distinct [of q "[0..<length al]"] assms by (simp add: lessThan_atLeast0)
  then have "mset (map ((!) al) q) = mset (map ((!) al) [0..<length al])" by (simp only: mset_map)
  then show ?thesis by (simp only: map_nth)
qed

lemma range_map_fair:
  assumes "fair_order k"
  shows "\<exists>l n'. range_map k al n = (Done l, n') \<and> mset l = mset al"
proof -
  obtain q w' where q: "RangeOrder k (length al) (kern n) = (Done q, w')" "distinct q" "set q = {..<length al}"
    using assms unfolding fair_order_def by blast
  moreover have "filter (\<lambda>i. i < length al) q = q" using q(3) by (intro filter_True) auto
  ultimately show ?thesis using mset_nth_order [OF q(2,3)] by (simp add: range_map_def io_simps)
qed

lemma sum_list_map_mset: "mset xs = mset ys \<Longrightarrow> sum_list (map f xs) = (sum_list (map f ys) :: nat)"
  by (simp only: mset_map flip: sum_mset_sum_list)

lemma metric_count_mset:
  assumes "mset fs = mset mm" "distinct (map fst mm)"
  shows "sum_list (map (\<lambda>f. if fst f = n then length (snd f) else 0) fs) = metric_count n mm"
proof -
  have "sum_list (map (\<lambda>f. if fst f = n then length (snd f) else 0) fs)
      = sum_list (map (\<lambda>f. if fst f = n then length (snd f) else 0) mm)"
    by (rule sum_list_map_mset [OF assms(1)])
  also have "\<dots> = metric_count n mm"
    using assms(2) by (induction mm) (force simp: metric_count_def map_of_eq_None_iff split: option.split)+
  finally show ?thesis .
qed

text \<open>
  In whatever order the runtime walks the maps, the resource metrics are families with distinct
  names and a type each, and they count one CPU and one memory metric for the node, one of each for
  every recorded pod (also deleted ones) and one of each for every container that is not an init
  container, and nothing else.
\<close>

theorem GetMetricsResource_counts:
  assumes "fair_order (runtime_kernel p)"
  shows "\<exists>fs t. GetMetricsResource p s = (Done (fs, None), t) \<and> distinct (map mf_Name fs)
    \<and> (\<forall>f \<in> set fs. mf_Type f \<noteq> None)
    \<and> (\<forall>n. sum_list (map (\<lambda>f. if mf_Name f = n then length (mf_Metric f) else 0) fs)
         = resource_count ''node'' n + length (pods s) * resource_count ''pod'' n
           + container_count (map snd (pods s)) * resource_count ''container'' n)"
proof -
  obtain l n1 where l: "range_map (runtime_kernel p) (pods s) (net s) = (Done l, n1)" "mset l = mset (pods s)"
    using range_map_fair [OF assms] by blast
  define mm where "mm = fold (\<lambda>(k, pd) mm. pod_metrics (nodeName p) pd mm) l
      (generateMockMetrics None ''node'' [(''NodeName'', nodeName p)])"
  obtain fs n2 where fs: "range_map (runtime_kernel p) mm n1 = (Done fs, n2)" "mset fs = mset mm"
    using range_map_fair [OF assms] by blast
  let ?fam = "\<lambda>(n, ms). \<lparr>mf_Name = n, mf_Type = getMetricType n, mf_Metric = ms\<rparr>"
  have run: "GetMetricsResource p s = (Done (map ?fam fs, None), s\<lparr>net := n2\<rparr>)"
    using l fs by (simp add: GetMetricsResource_def io_simps Let_def flip: mm_def)
  have dist: "distinct (map fst mm)" by (simp add: mm_def all_pod_metrics distinct_generate)
  have "mset (map fst fs) = mset (map fst mm)" using fs(2) by simp
  with dist have "distinct (map fst fs)" by (metis mset_eq_imp_distinct_iff)
  moreover have "mf_Name \<circ> ?fam = fst" by (simp add: split_def fun_eq_iff)
  then have "map mf_Name (map ?fam fs) = map fst fs" by (simp only: map_map)
  ultimately have names: "distinct (map mf_Name (map ?fam fs))" by (simp only:)
  have "set fs = set mm" using fs(2) by (metis set_mset_mset)
  then have types: "\<forall>f \<in> set (map ?fam fs). mf_Type f \<noteq> None"
    using typed_all_pods [OF typed_generate(2)] by (fastforce simp: mm_def typed_names_def)
  have "length l = length (pods s)" "container_count (map snd l) = container_count (map snd (pods s))"
    using mset_eq_length [OF l(2)] sum_list_map_mset [OF l(2)] by (simp_all add: container_count_def)
  then have "metric_count n mm = resource_count ''node'' n + length (pods s) * resource_count ''pod'' n
           + container_count (map snd (pods s)) * resource_count ''container'' n" for n
    by (simp add: mm_def all_pod_metrics metric_count_generate)
  moreover have "(\<lambda>f. if mf_Name f = n then length (mf_Metric f) else 0) \<circ> ?fam
      = (\<lambda>f. if fst f = n then length (snd f) else 0)" for n by (simp add: split_def fun_eq_iff)
  ultimately have "sum_list (map (\<lambda>f. if mf_Name f = n then length (mf_Metric f) else 0) (map ?fam fs))
      = resource_count ''node'' n + length (pods s) * resource_count ''pod'' n
           + container_count (map snd (pods s)) * resource_count ''container'' n" for n
    by (simp only: map_map metric_count_mset [OF fs(2) dist])
  with run names types show ?thesis by blast
qed

lemma sim_fair: "fair_order sim_kernel"
  by (auto simp: fair_order_def ret_apply)

theorem GetMetricsResource_counts_witness:
  "\<exists>fs t. GetMetricsResource sim_provider (sim_node\<lparr>pods := [(''ns_a'', sim_pod ''ns'' ''a'' [])]\<rparr>) = (Done (fs, None), t)
    \<and> sum_list (map (\<lambda>f. if mf_Name f = ''pod_cpu_usage_seconds_total'' then length (mf_Metric f) else 0) fs) = 1"
proof -
  have "fair_order (runtime_kernel sim_provider)" by (simp add: sim_fair)
  from GetMetricsResource_counts [OF this, of "sim_node\<lparr>pods := [(''ns_a'', sim_pod ''ns'' ''a'' [])]\<rparr>"]
  show ?thesis
    by (auto simp: resource_count_def cpuMetricSuffix_def memoryMetricSuffix_def container_count_def)
qed

section \<open>Starting a provider\<close>

lemma setup_backends_keys:
  "setup_backends nc no es bs n = (Done (Inr bs'), n') \<Longrightarrow>
    fst ` set bs' = fst ` set bs \<union> set es \<and> set es \<subseteq> {BackendContainerd, BackendOsv}"
proof (induction es arbitrary: bs n)
  case Nil
  then show ?case by (simp add: ret_apply)
next
  case (Cons e es)
  let ?new = "if e = BackendContainerd then nc else no"
  from Cons.prems obtain b n1 where e: "e \<in> {BackendContainerd, BackendOsv}"
    and rest: "setup_backends nc no es (AList.update e b bs) n1 = (Done (Inr bs'), n')"
    by (auto simp: ret_apply elim!: bnd_DoneE split: if_splits option.splits)
  from Cons.IH [OF rest] e show ?case by (simp add: dom_update insert_commute)
qed

text \<open>
  A provider that was made has exactly the backends its configuration enables (containerd when
  it enables none), all of them among the two that exist; its default is containerd unless set.
\<close>

theorem NewProviderConfig_backends:
  assumes "NewProviderConfig newContainerd newOsv p cfg n = (Done (Inr p'), n')"
  shows "fst ` set (backends p') = (if Enabled cfg = [] then {BackendContainerd} else set (Enabled cfg))
    \<and> fst ` set (backends p') \<subseteq> {BackendContainerd, BackendOsv}
    \<and> Default (pconfig p') = (if Default cfg = [] then BackendContainerd else Default cfg)"
proof -
  obtain bs where bs: "setup_backends newContainerd newOsv (Enabled (default_config cfg)) [] n = (Done (Inr bs), n')"
    and p': "p' = p\<lparr>pconfig := default_config cfg, backends := bs\<rparr>"
    using assms by (auto simp: NewProviderConfig_def Let_def ret_apply elim!: bnd_DoneE split: sum.splits)
  from setup_backends_keys [OF bs] p' show ?thesis
    by (auto simp: default_config_def defaultConfig_def Let_def)
qed

theorem NewProviderConfig_backends_witness:
  "\<exists>p' n'. NewProviderConfig (ret (DummyBackend, None)) (ret (DummyBackend, None)) sim_provider
      \<lparr>Default = [], Enabled = []\<rparr> (sim_state (AM4 sample_am4) None) = (Done (Inr p'), n')
    \<and> fst ` set (backends p') = {''containerd''}"
proof -
  obtain p' n' where "NewProviderConfig (ret (DummyBackend, None)) (ret (DummyBackend, None)) sim_provider
      \<lparr>Default = [], Enabled = []\<rparr> (sim_state (AM4 sample_am4) None) = (Done (Inr p'), n')"
    by (simp add: NewProviderConfig_def default_config_def defaultConfig_def io_simps)
  with NewProviderConfig_backends [OF this] show ?thesis by (auto simp: BackendContainerd_def)
qed

end
