(* ===== verification/Sys.thy ===== *)
theory Sys
  imports GoStrings
begin

text \<open>
  \<open>pkg/util\<close> and the log reader of \<open>pkg/provider/logging.go\<close>: small functions on the outcome of
  processes and files.
\<close>

section \<open>Exit codes (\<open>exec.go\<close>)\<close>

datatype exec_error = ExitError int | OtherError string

definition itoa_int :: "int \<Rightarrow> string" where
  "itoa_int i = (if i < 0 then CHR ''-'' # itoa (nat (- i)) else itoa (nat i))"

text \<open>
  The verb \<open>%q\<close>: quotes, backslashes and the control characters are escaped as \<open>strconv.Quote\<close> does it. A
  string is the list of its bytes; those beyond ASCII are taken to be UTF-8 text that is printable, and stay.
\<close>

definition quote_char :: "char \<Rightarrow> string" where
  "quote_char c = (let n = of_char c :: nat; esc = (\<lambda>x. [CHR 0x5C, x]) in
     if n = 0x22 \<or> n = 0x5C then esc c
     else if n = 7 then esc CHR ''a'' else if n = 8 then esc CHR ''b'' else if n = 12 then esc CHR ''f''
     else if n = 10 then esc CHR ''n'' else if n = 13 then esc CHR ''r'' else if n = 9 then esc CHR ''t''
     else if n = 11 then esc CHR ''v''
     else if n < 0x20 \<or> n = 0x7F then esc CHR ''x'' @ [digit (n div 16), digit (n mod 16)]
     else [c])"

definition go_quote :: "string \<Rightarrow> string" where
  "go_quote s = CHR 0x22 # concat (map quote_char s) @ [CHR 0x22]"

text \<open>
  The tuple assignment evaluates its right-hand side first, so the message is made from the old
  \<open>exitCode\<close>, which is 0.
\<close>

definition ExecParseError :: "exec_error option \<Rightarrow> int \<times> string" where
  "ExecParseError err = (let exitCode = 0; exitMsg = ''gracefully'';
     (exitCode, exitMsg) = (case err of
        None \<Rightarrow> (exitCode, exitMsg)
      | Some (ExitError code) \<Rightarrow> (code, ''with code '' @ itoa_int exitCode)
      | Some (OtherError msg) \<Rightarrow> (- 1, ''with error '' @ go_quote msg))
     in (exitCode, ''exited '' @ exitMsg))"

section \<open>White space (\<open>string.go\<close>)\<close>

text \<open>\<open>regexp.MustCompile("\s+").ReplaceAllString(s, "")\<close>: \<open>\s\<close> is tab, newline, form feed, return, space.\<close>

definition is_space :: "char \<Rightarrow> bool" where
  "is_space c \<longleftrightarrow> (of_char c :: nat) \<in> {9, 10, 12, 13, 32}"

definition RemoveSpace :: "string \<Rightarrow> string" where
  "RemoveSpace s = filter (\<lambda>c. \<not> is_space c) s"

section \<open>Build information (\<open>build_info.go\<close>)\<close>

definition ReadDepVersion :: "(string \<times> string) list option \<Rightarrow> string \<Rightarrow> string \<times> goerr" where
  "ReadDepVersion build_info path = (case build_info of
     None \<Rightarrow> ([], Some (Errorf ''unable to read build info'' []))
   | Some deps \<Rightarrow> (case map_of deps path of
       Some v \<Rightarrow> (v, None) | None \<Rightarrow> ([], Some (Errorf ''no such package %s'' [path]))))"

section \<open>Reading logs (\<open>logging.go\<close>)\<close>

datatype read_error = EOF | ReadError go_error

text \<open>What \<open>Read\<close> makes of the answer of the file: a follower never sees the end.\<close>

definition ContainerLogger_Read :: "bool \<Rightarrow> nat \<times> read_error option \<Rightarrow> nat \<times> read_error option" where
  "ContainerLogger_Read follow r = (if follow \<and> snd r = Some EOF then (0, None) else r)"

definition NewContainerLogger :: "(string \<Rightarrow> ('v, 'f option \<times> goerr) io) \<Rightarrow> string \<Rightarrow> ('v, 'f option \<times> goerr) io" where
  "NewContainerLogger open_file path = open_file path"

end
