(* ===== verification/Containerd.thy ===== *)
theory Containerd
  imports NodeSpec Sys
begin

text \<open>
  The containerd backend (\<open>backend_containerd.go\<close>). The containers themselves are kept by
  containerd, which is not part of the repository: its client, the file system, the registry
  resolver and the JSON encoder are the operations of the record \<open>cd_tools\<close>, on the world. What the
  code computes for them - the options of a container, its OCI spec, its mounts - is data here: the
  datatypes \<open>container_opt\<close> and \<open>spec_opt\<close> have one constructor per function the code applies.
\<close>

section \<open>What is passed to containerd\<close>

type_synonym image_handle = nat
type_synonym container_handle = nat
type_synonym task_handle = nat
type_synonym process_handle = nat

record port_mapping =
  pm_HostPort :: int
  pm_ContainerPort :: int
  pm_Protocol :: string
  pm_HostIP :: string

record mount =
  mo_Type :: string
  mo_Source :: string
  mo_Destination :: string
  mo_Options :: "string list"

datatype spec_opt =
    WithProcessCwd string | WithEnv "string list" | WithCPUCFS int int | WithMemoryLimit int
  | WithMounts "mount list" | WithHostNetworkNamespace | WithHostHostsFile | WithHostResolvconf
  | WithNetworkNamespacePath string
  | WithImageConfig "image_handle option" | WithImageConfigArgs "image_handle option" "string list"

datatype container_opt =
    WithImage "image_handle option" | WithImageConfigLabels "image_handle option" | WithSnapshotter
  | WithNewSnapshot string "image_handle option" | WithImageStopSignal "image_handle option" string
  | WithAdditionalContainerLabels "(string \<times> string) list" | WithNewSpec "spec_opt list"

datatype process_status = Created | Running | Pausing | Paused | Stopped | Unknown | OtherStatus string

record task_status =
  ts_Status :: process_status
  ts_ExitStatus :: int
  ts_ExitTime :: string

record container_info = ci_ID :: string  ci_CreatedAt :: string

record 'w cd_tools =
  cd_New :: "('w, bool \<times> goerr) io"
  cd_Containers :: "('w, string list \<times> goerr) io"
  cd_LoadContainer :: "string \<Rightarrow> ('w, container_handle \<times> goerr) io"
  cd_IsNotFound :: "go_error \<Rightarrow> bool"
  cd_Info :: "container_handle \<Rightarrow> ('w, container_info \<times> goerr) io"
  cd_Task :: "container_handle \<Rightarrow> ('w, task_handle \<times> goerr) io"
  cd_Status :: "task_handle \<Rightarrow> ('w, task_status \<times> goerr) io"
  cd_Start :: "task_handle \<Rightarrow> ('w, goerr) io"
  cd_Kill :: "task_handle \<Rightarrow> int \<Rightarrow> ('w, goerr) io"
  cd_TaskDelete :: "task_handle \<Rightarrow> ('w, goerr) io"
  cd_ContainerDelete :: "container_handle \<Rightarrow> ('w, goerr) io"
  cd_GetImage :: "string \<Rightarrow> ('w, image_handle option \<times> goerr) io"
  cd_ImageDelete :: "string \<Rightarrow> ('w, goerr) io"
  cd_ParseDockerRef :: "string \<Rightarrow> (string \<times> string) \<times> goerr"
  cd_Resolver :: "string \<Rightarrow> ('w, nat \<times> goerr) io"
  cd_Pull :: "string \<Rightarrow> nat \<Rightarrow> ('w, image_handle option \<times> goerr) io"
  cd_NewContainer :: "string \<Rightarrow> container_opt list \<Rightarrow> ('w, container_handle \<times> goerr) io"
  cd_NewTask :: "container_handle \<Rightarrow> bool \<Rightarrow> ('w, task_handle \<times> goerr) io"
  cd_TaskWait :: "task_handle \<Rightarrow> ('w, goerr) io"
  cd_Exec :: "task_handle \<Rightarrow> string \<Rightarrow> bool \<Rightarrow> string list \<Rightarrow> ('w, process_handle \<times> goerr) io"
  cd_ProcessWait :: "process_handle \<Rightarrow> ('w, goerr) io"
  cd_ProcessStart :: "process_handle \<Rightarrow> ('w, goerr) io"
  cd_ProcessResult :: "process_handle \<Rightarrow> ('w, int \<times> goerr) io"
  cd_ProcessDelete :: "process_handle \<Rightarrow> ('w, unit) io"
  cd_NewUUID :: "('w, string) io"
  cd_PJoin :: "string list \<Rightarrow> string"
  cd_MkdirAll :: "string \<Rightarrow> ('w, goerr) io"
  cd_MkdirTemp :: "('w, string \<times> goerr) io"
  cd_CreateFile :: "string \<Rightarrow> ('w, goerr) io"
  cd_WriteFile :: "string \<Rightarrow> string \<Rightarrow> ('w, goerr) io"
  cd_OpenFile :: "string \<Rightarrow> ('w, string option \<times> goerr) io"
  cd_MapOrder :: "nat \<Rightarrow> ('w, nat list) io"
  cd_MarshalPorts :: "port_mapping list \<Rightarrow> string \<times> goerr"
  cd_MarshalMounts :: "mount list \<Rightarrow> string \<times> goerr"
  cd_LabelPorts :: string
  cd_LabelMounts :: string
  cd_InstancePath :: "string \<Rightarrow> string"
  cd_VolumePath :: "string \<Rightarrow> string"

definition cd_err :: "goerr \<Rightarrow> goerr" where
  "cd_err err = wrap err ''containerd'' []"

lemma cd_err_simps [simp]: "cd_err None = None" "cd_err (Some e) = Some (Wrapf e ''containerd'' [])"
  "cd_err err = None \<longleftrightarrow> err = None"
  by (simp_all add: cd_err_def)

text \<open>A call whose error ends the function, wrapped; the continuation gets its value.\<close>

definition cd_get :: "('w, 'a \<times> goerr) io \<Rightarrow> ('a \<Rightarrow> ('w, goerr) io) \<Rightarrow> ('w, goerr) io" where
  "cd_get m f = bnd m (\<lambda>(a, err). if err \<noteq> None then ret (cd_err err) else f a)"

definition cd_try :: "('w, goerr) io \<Rightarrow> ('w, goerr) io \<Rightarrow> ('w, goerr) io" where
  "cd_try m k = bnd m (\<lambda>err. if err \<noteq> None then ret (cd_err err) else k)"

definition cd_instanceDir :: "'w cd_tools \<Rightarrow> inst \<Rightarrow> string" where
  "cd_instanceDir b i = cd_InstancePath b (ID i)"

definition cd_instanceLogsPath :: "'w cd_tools \<Rightarrow> inst \<Rightarrow> string" where
  "cd_instanceLogsPath b i = cd_PJoin b [cd_instanceDir b i, ''current.logs'']"

definition cd_volumeDir :: "'w cd_tools \<Rightarrow> instance_volume \<Rightarrow> string" where
  "cd_volumeDir b iv = cd_VolumePath b (iv_ID iv)"

section \<open>The options of a container\<close>

text \<open>\<open>strings.Replace(s, old, new, -1)\<close>, for a non-empty \<open>old\<close>.\<close>

function replace_all :: "string \<Rightarrow> string \<Rightarrow> string \<Rightarrow> string" where
  "replace_all old new [] = []"
| "replace_all old new (c # cs) =
     (if old \<noteq> [] \<and> has_prefix (c # cs) old then new @ replace_all old new (drop (length old) (c # cs))
      else c # replace_all old new cs)"
  by pat_completeness auto
termination by (relation "measure (\<lambda>(old, _, s). length s)") (auto simp: Suc_le_eq)

definition getPortsOpts :: "'w cd_tools \<Rightarrow> container_port list \<Rightarrow> go_error + container_opt list" where
  "getPortsOpts b containerPorts =
     (let ports = map (\<lambda>cp. \<lparr>pm_HostPort = po_HostPort cp, pm_ContainerPort = po_ContainerPort cp,
            pm_Protocol = po_Protocol cp, pm_HostIP = po_HostIP cp\<rparr>) containerPorts
      in case cd_MarshalPorts b ports of
        (json, Some e) \<Rightarrow> Inl (Wrapf e ''containerd'' [])
      | (json, None) \<Rightarrow> Inr [WithAdditionalContainerLabels [(cd_LabelPorts b, json)]])"

text \<open>A variable whose value comes from elsewhere is replaced by a dummy.\<close>

definition known_env :: "env_var \<Rightarrow> env_var" where
  "known_env e = (if ev_ValueFrom e \<noteq> None then \<lparr>ev_Name = ''DUMMY'', ev_Value = [], ev_ValueFrom = None\<rparr> else e)"

text \<open>
  The loop over the environment: each variable is replaced in all arguments before the next one is
  looked at, and its value is quoted.
\<close>

fun expand_env :: "env_var list \<Rightarrow> string list \<Rightarrow> string list \<Rightarrow> string list \<times> string list" where
  "expand_env [] imageArgs env = (imageArgs, env)"
| "expand_env (e # es) imageArgs env = (let v = known_env e in
     expand_env es (map (replace_all (''$('' @ ev_Name v @ '')'') (ev_Value v)) imageArgs)
       (env @ [ev_Name v @ ''='' @ go_quote (ev_Value v)]))"

text \<open>
  What the array behind \<open>instance.Command\<close> holds after the loop: \<open>append\<close> gives the same array when
  its capacity \<open>cap\<close> is enough, and the loop then writes through it, into the command of the pod that the
  provider holds. Pods are values here, so \<open>cd_CreateInstance\<close> does not show this effect.
\<close>

definition command_after :: "nat \<Rightarrow> container \<Rightarrow> string list" where
  "command_after cap c = (if length (c_Command c) + length (c_Args c) \<le> cap
     then take (length (c_Command c)) (fst (expand_env (c_Env c) (c_Command c @ c_Args c) []))
     else c_Command c)"

definition resource_opts :: "limits \<Rightarrow> spec_opt list" where
  "resource_opts l =
     (if lim_CpuMilli l > 0 then [WithCPUCFS (100 * lim_CpuMilli l) 100000] else [])
     @ (if lim_Memory l > 0 then [WithMemoryLimit (lim_Memory l)] else [])"

definition host_network_opts :: "spec_opt list" where
  "host_network_opts = [WithHostNetworkNamespace, WithHostHostsFile, WithHostResolvconf]"

text \<open>The network: the pod's namespace, or that of the host when asked for or when there is none.\<close>

definition network_opts :: "'w CNIManager \<Rightarrow> inst \<Rightarrow> ('w, spec_opt list) nio" where
  "network_opts nm i = (if \<not> i_HostNetwork i then
       bnd (cni_GetNetNsPath nm (om_Namespace (i_Metadata i)) (om_Name (i_Metadata i))) (\<lambda>(nsPath, err).
         if err \<noteq> None then ret host_network_opts else ret [WithNetworkNamespacePath nsPath])
     else ret host_network_opts)"

section \<open>Mounts\<close>

definition bind_mount :: "string \<Rightarrow> string \<Rightarrow> string list \<Rightarrow> mount" where
  "bind_mount source destination options =
     \<lparr>mo_Type = ''bind'', mo_Source = source, mo_Destination = destination, mo_Options = options\<rparr>"

text \<open>
  \<open>for k, v := range m\<close>: every entry once, in an order the runtime picks; what it picks counts when it is an
  order of the entries.
\<close>

definition cd_range :: "'w cd_tools \<Rightarrow> 'e list \<Rightarrow> ('w, 'e list) io" where
  "cd_range b al = bnd (cd_MapOrder b (length al)) (\<lambda>p.
     ret (if sort p = [0..<length al] then map (\<lambda>i. al ! i) p else al))"

definition project_files :: "'w cd_tools \<Rightarrow> string \<Rightarrow> (string \<times> string) list \<Rightarrow> ('w, goerr) io" where
  "project_files b path data = bnd (cd_range b data) (\<lambda>l.
     for_each l (\<lambda>(key, val). cd_WriteFile b (cd_PJoin b [path, key]) val))"

definition or_stop :: "('w, goerr) io \<Rightarrow> ('w, goerr) io \<Rightarrow> ('w, goerr) io" where
  "or_stop m k = bnd m (\<lambda>err. if err \<noteq> None then ret err else k)"

text \<open>One source of a projected volume: its files are written, a downward API is ignored.\<close>

definition project_source :: "'w cd_tools \<Rightarrow> string \<Rightarrow> instance_projection \<Rightarrow> ('w, goerr) io" where
  "project_source b path s = (case ivp_Secret s of
       Some (_, ob) \<Rightarrow> or_stop (project_files b path (s_StringData ob)) (project_files b path (s_Data ob))
     | None \<Rightarrow> if pr_DownwardAPI (ivp_Source s) \<noteq> None then ret None
     else case ivp_ConfigMap s of
       Some (_, ob) \<Rightarrow> project_files b path (cm_Data ob)
     | None \<Rightarrow> (case ivp_ServiceAccountToken s of
       Some (_, ob) \<Rightarrow> or_stop (project_files b path (s_StringData ob)) (project_files b path (s_Data ob))
     | None \<Rightarrow> ret None))"

text \<open>The files of a ConfigMap, each written to the temporary directory and mounted by itself.\<close>

primrec configmap_mounts :: "'w cd_tools \<Rightarrow> string \<Rightarrow> volume_mount \<Rightarrow> (string \<times> string) list \<Rightarrow> mount list \<Rightarrow>
    ('w, go_error + mount list) io" where
  "configmap_mounts b tempDir vm [] mounts = ret (Inr mounts)"
| "configmap_mounts b tempDir vm (kv # kvs) mounts = (case kv of (path, data) \<Rightarrow>
     let tempPath = cd_PJoin b [tempDir, path] in
     bnd (cd_WriteFile b tempPath data) (\<lambda>err. case err of Some e \<Rightarrow> ret (Inl e) | None \<Rightarrow>
       configmap_mounts b tempDir vm kvs (mounts @ [bind_mount tempPath (cd_PJoin b [vm_MountPath vm, path])
         [''rbind'', if vm_ReadOnly vm then ''ro'' else ''rw'']])))"

text \<open>The body of the loop over the mounts; \<open>mounts\<close> collects.\<close>

definition add_mount :: "'w cd_tools \<Rightarrow> volume_mount \<times> instance_volume \<Rightarrow> mount list \<Rightarrow>
    ('w, go_error + mount list) io" where
  "add_mount b vmv mounts = (case vmv of (vm, iv) \<Rightarrow>
     let v = iv_Volume iv; ro = (if vm_ReadOnly vm then [''ro''] else []) in
     case v_HostPath v of
       Some hp \<Rightarrow> bnd (deref (hp_Type hp)) (\<lambda>ty.
         bnd (if ty = ''DirectoryOrCreate'' then cd_MkdirAll b (hp_Path hp)
              else if ty = [] \<or> ty = ''Directory'' then ret None
              else ret (Some (Errorf ''volumeMount %q has unsupported hostPath.type %q'' [iv_ID iv, ty]))) (\<lambda>err.
         case err of Some e \<Rightarrow> ret (Inl e)
         | None \<Rightarrow> ret (Inr (mounts @ [bind_mount (hp_Path hp) (vm_MountPath vm) (''bind'' # ro)]))))
     | None \<Rightarrow>
     if v_EmptyDir v \<noteq> None then ret (Inr mounts)
     else if iv_Secret iv \<noteq> None then ret (Inr mounts)
     else if v_NFS v \<noteq> None then ret (Inr mounts)
     else case iv_ConfigMap iv of
       Some (_, cm) \<Rightarrow> bnd (cd_MkdirTemp b) (\<lambda>(tempDir, err). case err of Some e \<Rightarrow> ret (Inl e) | None \<Rightarrow>
         bnd (cd_range b (cm_Data cm)) (\<lambda>l. configmap_mounts b tempDir vm l mounts))
     | None \<Rightarrow> (case iv_Projected iv of
       Some srcs \<Rightarrow> (let path = cd_volumeDir b iv in
         bnd (or_stop (cd_MkdirAll b path) (for_each srcs (project_source b path))) (\<lambda>err. case err of
           Some e \<Rightarrow> ret (Inl e)
         | None \<Rightarrow> ret (Inr (mounts @ [bind_mount path (vm_MountPath vm) (''rbind'' # ro)]))))
     | None \<Rightarrow> ret (Inl (Wrapf (Errorf ''volumeMount %q has an unsupported type'' [vm_Name vm]) ''osv'' []))))"

primrec add_mounts :: "'w cd_tools \<Rightarrow> (volume_mount \<times> instance_volume) list \<Rightarrow> mount list \<Rightarrow>
    ('w, go_error + mount list) io" where
  "add_mounts b [] mounts = ret (Inr mounts)"
| "add_mounts b (m # ms) mounts = bnd (add_mount b m mounts) (\<lambda>r. case r of
     Inl e \<Rightarrow> ret (Inl e) | Inr mounts \<Rightarrow> add_mounts b ms mounts)"

definition getVolumeMountsOpts :: "'w cd_tools \<Rightarrow> (volume_mount \<times> instance_volume) list \<Rightarrow>
    ('w, go_error + container_opt list \<times> spec_opt list) io" where
  "getVolumeMountsOpts b volumeMounts = bnd (add_mounts b volumeMounts []) (\<lambda>r. case r of
     Inl e \<Rightarrow> ret (Inl e)
   | Inr mounts \<Rightarrow> (case cd_MarshalMounts b mounts of
       (json, Some e) \<Rightarrow> ret (Inl (Wrapf e ''containerd'' []))
     | (json, None) \<Rightarrow> ret (Inr ([WithAdditionalContainerLabels [(cd_LabelMounts b, json)]], [WithMounts mounts]))))"

end
