(* ===== verification/ContainerdOps.thy ===== *)
theory ContainerdOps
  imports Containerd
begin

text \<open>
  The operations of the containerd backend: its constructor, which deletes what an earlier process
  left behind, making, starting, stopping and deleting a container, running a process in one, and
  the value of the interface \<open>Backend\<close> they form.
\<close>

section \<open>Deleting, stopping, the status\<close>

text \<open>Deleting by ID: what is not there needs no deletion.\<close>

definition cd_delete_task :: "'w cd_tools \<Rightarrow> container_handle \<Rightarrow> ('w, goerr) io" where
  "cd_delete_task b c = bnd (cd_Task b c) (\<lambda>(task, err). case err of
     Some e \<Rightarrow> ret (if cd_IsNotFound b e then None else Some e)
   | None \<Rightarrow> cd_TaskDelete b task)"

definition cd_delete_id :: "'w cd_tools \<Rightarrow> string \<Rightarrow> ('w, goerr) io" where
  "cd_delete_id b k = bnd (cd_LoadContainer b k) (\<lambda>(c, err). case err of
     Some e \<Rightarrow> ret (if cd_IsNotFound b e then None else cd_err (Some e))
   | None \<Rightarrow> cd_try (cd_delete_task b c) (cd_try (cd_ContainerDelete b c) (ret None)))"

definition cd_DeleteInstance :: "'w cd_tools \<Rightarrow> inst \<Rightarrow> ('w, goerr) nio" where
  "cd_DeleteInstance b i = kio (cd_delete_id b (ID i))"

text \<open>The constructor: without a client it fails, an error in the clean-up is only logged.\<close>

definition NewContainerdBackend :: "'w cd_tools \<Rightarrow> ('w, bool \<times> goerr) nio" where
  "NewContainerdBackend b = kio (bnd (cd_New b) (\<lambda>(client, err).
     if \<not> client then ret (False, cd_err err)
     else bnd (cd_Containers b) (\<lambda>(containers, _).
       bnd (for_all containers (\<lambda>k. bnd (cd_delete_id b k) (\<lambda>_. ret ()))) (\<lambda>_. ret (True, None)))))"

definition cd_KillInstance :: "'w cd_tools \<Rightarrow> inst \<Rightarrow> int \<Rightarrow> ('w, goerr) nio" where
  "cd_KillInstance b i sig = kio (cd_get (cd_LoadContainer b (ID i)) (\<lambda>c.
     cd_get (cd_Task b c) (\<lambda>task. cd_try (cd_Kill b task sig) (ret None))))"

definition no_status :: container_status where
  "no_status = \<lparr>cst_Name = [], cst_State = no_state, cst_LastTerminationState = no_state, cst_Image = [],
     cst_ContainerID = [], cst_Started = None\<rparr>"

text \<open>
  The state made of a task's status: one that runs is said to have started at its exit time; a
  status that is none of the six leaves the state empty.
\<close>

definition task_state :: "container_info \<Rightarrow> string \<Rightarrow> task_status \<Rightarrow> container_state" where
  "task_state info cid ts = (case ts_Status ts of
     Created \<Rightarrow> no_state\<lparr>st_Waiting := Some (ApiObject ''Starting container'')\<rparr>
   | Running \<Rightarrow> no_state\<lparr>st_Running := Some (ApiObject (ts_ExitTime ts))\<rparr>
   | Pausing \<Rightarrow> no_state\<lparr>st_Running := Some (ApiObject (ts_ExitTime ts))\<rparr>
   | Paused \<Rightarrow> no_state\<lparr>st_Running := Some (ApiObject (ts_ExitTime ts))\<rparr>
   | Stopped \<Rightarrow> no_state\<lparr>st_Terminated := Some \<lparr>t_ExitCode = ts_ExitStatus ts, t_Message = ''Container stopped'',
       t_StartedAt = ci_CreatedAt info, t_FinishedAt = ts_ExitTime ts, t_ContainerID = cid\<rparr>\<rparr>
   | Unknown \<Rightarrow> no_state\<lparr>st_Terminated := Some \<lparr>t_ExitCode = ts_ExitStatus ts, t_Message = ''Container stopped'',
       t_StartedAt = ci_CreatedAt info, t_FinishedAt = ts_ExitTime ts, t_ContainerID = cid\<rparr>\<rparr>
   | OtherStatus _ \<Rightarrow> no_state)"

definition cd_GetInstanceStatus :: "'w cd_tools \<Rightarrow> inst \<Rightarrow> ('w, container_status \<times> goerr) nio" where
  "cd_GetInstanceStatus b i = kio (bnd (cd_LoadContainer b (ID i)) (\<lambda>(c, err).
     if err \<noteq> None then ret (no_status, cd_err err)
     else bnd (cd_Info b c) (\<lambda>(info, err).
     if err \<noteq> None then ret (no_status, cd_err err)
     else bnd (cd_Task b c) (\<lambda>(task, err).
     if err \<noteq> None then ret (no_status, cd_err err)
     else bnd (cd_Status b task) (\<lambda>(ts, err).
     if err \<noteq> None then ret (no_status, cd_err err)
     else ret (no_status\<lparr>cst_Name := ci_ID info, cst_State := task_state info (ID i) ts\<rparr>, None))))))"

section \<open>Making a container\<close>

text \<open>
  The image: the local one, or a pulled one when the policy asks for it. With \<open>PullNever\<close> (or an
  empty policy) the error of looking it up is dropped, and the image may be nil.
\<close>

definition cd_image :: "'w cd_tools \<Rightarrow> container \<Rightarrow> ('w, go_error + image_handle option) io" where
  "cd_image b c = bnd (cd_GetImage b (c_Image c)) (\<lambda>(img, err).
     if (err \<noteq> None \<and> c_ImagePullPolicy c = PullIfNotPresent) \<or> c_ImagePullPolicy c = PullAlways
     then bnd (if c_ImagePullPolicy c = PullAlways then bnd (cd_ImageDelete b (c_Image c)) (\<lambda>_. ret ()) else ret ()) (\<lambda>_.
       case cd_ParseDockerRef b (c_Image c) of ((r, domain), err) \<Rightarrow>
       case err of Some e \<Rightarrow> ret (Inl (Wrapf e ''containerd'' [])) | None \<Rightarrow>
       bnd (cd_Resolver b domain) (\<lambda>(resolver, err).
       case err of Some e \<Rightarrow> ret (Inl (Wrapf e ''containerd'' [])) | None \<Rightarrow>
       bnd (cd_Pull b r resolver) (\<lambda>(img, err).
       case err of Some e \<Rightarrow> ret (Inl (Wrapf e ''containerd'' [])) | None \<Rightarrow> ret (Inr img))))
     else ret (Inr img))"

text \<open>The OCI spec, in the order the options are applied.\<close>

definition spec_opts_of :: "inst \<Rightarrow> image_handle option \<Rightarrow> spec_opt list \<Rightarrow> spec_opt list \<Rightarrow> spec_opt list" where
  "spec_opts_of i img mount_opts net_opts =
     (let c = i_Container i; (imageArgs, env) = expand_env (c_Env c) (c_Command c @ c_Args c) [] in
      (if c_WorkingDir c \<noteq> [] then [WithProcessCwd (c_WorkingDir c)] else [])
      @ [WithEnv env] @ resource_opts (c_Limits c) @ mount_opts @ net_opts
      @ [if imageArgs = [] then WithImageConfig img else WithImageConfigArgs img imageArgs])"

definition container_opts_of :: "inst \<Rightarrow> image_handle option \<Rightarrow> container_opt list \<Rightarrow> spec_opt list \<Rightarrow> container_opt list" where
  "container_opts_of i img extra specOpts =
     [WithImage img, WithImageConfigLabels img, WithSnapshotter, WithNewSnapshot (ID i) img,
      WithImageStopSignal img ''SIGTERM''] @ extra @ [WithNewSpec specOpts]"

text \<open>The container, its log file, its task.\<close>

definition cd_new_container :: "'w cd_tools \<Rightarrow> inst \<Rightarrow> container_opt list \<Rightarrow> ('w, goerr) io" where
  "cd_new_container b i opts = cd_get (cd_NewContainer b (ID i) opts) (\<lambda>c.
     cd_try (cd_MkdirAll b (cd_instanceDir b i)) (cd_try (cd_CreateFile b (cd_instanceLogsPath b i))
     (cd_get (cd_NewTask b c (c_TTY (i_Container i))) (\<lambda>task. cd_try (cd_TaskWait b task) (ret None)))))"

definition cd_CreateInstance :: "'w cd_tools \<Rightarrow> 'w CNIManager \<Rightarrow> inst \<Rightarrow> ('w, goerr) nio" where
  "cd_CreateInstance b nm i = (let c = i_Container i in
     bnd (cd_DeleteInstance b i) (\<lambda>_.
     bnd (kio (cd_image b c)) (\<lambda>r. case r of Inl e \<Rightarrow> ret (Some e) | Inr img \<Rightarrow>
     case getPortsOpts b (c_Ports c) of Inl e \<Rightarrow> ret (cd_err (Some e)) | Inr ports \<Rightarrow>
     bnd (kio (getVolumeMountsOpts b (i_VolumeMounts i))) (\<lambda>r. case r of Inl e \<Rightarrow> ret (cd_err (Some e)) | Inr (labels, mounts) \<Rightarrow>
     bnd (network_opts nm i) (\<lambda>net_opts.
     kio (cd_new_container b i (container_opts_of i img (ports @ labels)
       (spec_opts_of i img mounts net_opts))))))))"

definition cd_UpdateInstance :: "'w cd_tools \<Rightarrow> 'w CNIManager \<Rightarrow> inst \<Rightarrow> ('w, goerr) nio" where
  "cd_UpdateInstance b nm i = bnd (cd_DeleteInstance b i) (\<lambda>err.
     if err \<noteq> None then ret err else cd_CreateInstance b nm i)"

section \<open>Starting, logs, running a process\<close>

definition cd_StartInstance :: "'w cd_tools \<Rightarrow> inst \<Rightarrow> ('w, goerr) nio" where
  "cd_StartInstance b i = kio (cd_get (cd_LoadContainer b (ID i)) (\<lambda>c.
     cd_get (cd_Task b c) (\<lambda>task. cd_try (cd_Start b task) (ret None))))"

definition cd_GetInstanceLogs :: "'w cd_tools \<Rightarrow> inst \<Rightarrow> ('w, string option \<times> goerr) nio" where
  "cd_GetInstanceLogs b i = kio (bnd (NewContainerLogger (cd_OpenFile b) (cd_instanceLogsPath b i)) (\<lambda>(f, err).
     if err \<noteq> None then ret (None, cd_err err) else ret (f, None)))"

text \<open>\<open>defer d\<close>: \<open>d\<close> runs when the function returns or panics.\<close>

definition deferring :: "('s, unit) io \<Rightarrow> ('s, 'a) io \<Rightarrow> ('s, 'a) io" where
  "deferring d m = (\<lambda>s. case m s of
      (Diverged, s') \<Rightarrow> (Diverged, s')
    | (r, s') \<Rightarrow> (case d s' of (Done _, s'') \<Rightarrow> (r, s'') | (Panic msg, s'') \<Rightarrow> (Panic msg, s'') | (Diverged, s'') \<Rightarrow> (Diverged, s'')))"

text \<open>\<open>tty\<close> is what \<open>attach.TTY()\<close> answers; the streams are left out.\<close>

definition cd_RunInInstance :: "'w cd_tools \<Rightarrow> bool \<Rightarrow> inst \<Rightarrow> string list \<Rightarrow> ('w, goerr) nio" where
  "cd_RunInInstance b tty i cmd = kio (cd_get (cd_LoadContainer b (ID i)) (\<lambda>c.
     cd_get (cd_Task b c) (\<lambda>task.
     bnd (cd_NewUUID b) (\<lambda>uuid.
     cd_get (cd_Exec b task (''exec-'' @ uuid) tty cmd) (\<lambda>process. deferring (cd_ProcessDelete b process)
       (cd_try (cd_ProcessWait b process) (cd_try (cd_ProcessStart b process)
       (cd_get (cd_ProcessResult b process) (\<lambda>code.
          if code \<noteq> 0 then ret (cd_err (Some (Errorf ''exec failed with exit code %d'' [itoa_int code])))
          else ret None)))))))))"

section \<open>The backend\<close>

definition ContainerdBackend :: "'w cd_tools \<Rightarrow> bool \<Rightarrow> 'w CNIManager \<Rightarrow> 'w backend" where
  "ContainerdBackend b tty nm = \<lparr>
     GetInstanceStatus = cd_GetInstanceStatus b,
     CreateInstance = cd_CreateInstance b nm,
     StartInstance = cd_StartInstance b,
     UpdateInstance = cd_UpdateInstance b nm,
     KillInstance = cd_KillInstance b,
     DeleteInstance = cd_DeleteInstance b,
     GetInstanceLogs = cd_GetInstanceLogs b,
     RunInInstance = cd_RunInInstance b tty\<rparr>"

end
