(* ===== verification/NodeWorld.thy ===== *)
theory NodeWorld
  imports NodeSpec
begin

text \<open>
  A backend with a state of its own, next to the rest of the world: the world of such a node is a
  pair. What works on the rest alone (the network managers, the system) is lifted, and cannot
  touch the backend's state; the backend's own steps cannot touch the rest. A manager keeps its
  contract when it is lifted.
\<close>

definition net_map :: "('w \<Rightarrow> 'v) \<Rightarrow> 'w net_state \<Rightarrow> 'v net_state" where
  "net_map f n = \<lparr>heap = heap n, PodAddressManager = PodAddressManager n, podNamespaces = podNamespaces n,
     podDevices = podDevices n, dn_bridge = dn_bridge n, kern = f (kern n)\<rparr>"

lemma net_map_simps [simp]:
  "heap (net_map f n) = heap n" "PodAddressManager (net_map f n) = PodAddressManager n"
  "podNamespaces (net_map f n) = podNamespaces n" "podDevices (net_map f n) = podDevices n"
  "kern (net_map f n) = f (kern n)" "net_map g (net_map f n) = net_map (g \<circ> f) n" "net_map id n = n"
  "net_map (\<lambda>w. w) n = n"
  by (simp_all add: net_map_def)

text \<open>On the rest of the world, and on the backend's own state.\<close>

definition lift_nio :: "('v, 'a) nio \<Rightarrow> ('o \<times> 'v, 'a) nio" where
  "lift_nio m = (\<lambda>n. case m (net_map snd n) of (r, n') \<Rightarrow> (r, net_map (Pair (fst (kern n))) n'))"

definition rest :: "('v, 'a) io \<Rightarrow> ('o \<times> 'v, 'a) nio" where
  "rest m = (\<lambda>n. case m (snd (kern n)) of (r, v) \<Rightarrow> (r, n\<lparr>kern := (fst (kern n), v)\<rparr>))"

definition own :: "('o, 'a) io \<Rightarrow> ('o \<times> 'v, 'a) nio" where
  "own m = (\<lambda>n. case m (fst (kern n)) of (r, st) \<Rightarrow> (r, n\<lparr>kern := (st, snd (kern n))\<rparr>))"

lemma lift_apply:
  "lift_nio m n = (case m (net_map snd n) of (r, n') \<Rightarrow> (r, net_map (Pair (fst (kern n))) n'))"
  by (simp add: lift_nio_def)

lemma rest_apply [io_simps]: "rest m n = (case m (snd (kern n)) of (r, v) \<Rightarrow> (r, n\<lparr>kern := (fst (kern n), v)\<rparr>))"
  by (simp add: rest_def)

lemma own_apply [io_simps]: "own m n = (case m (fst (kern n)) of (r, st) \<Rightarrow> (r, n\<lparr>kern := (st, snd (kern n))\<rparr>))"
  by (simp add: own_def)

definition lift_manager :: "'v CNIManager \<Rightarrow> ('o \<times> 'v) CNIManager" where
  "lift_manager nm = \<lparr>
     cni_InitContainerNetworking = lift_nio (cni_InitContainerNetworking nm),
     cni_TeardownContainerNetworking = lift_nio (cni_TeardownContainerNetworking nm),
     cni_InitPodNetwork = (\<lambda>cns pod. lift_nio (cni_InitPodNetwork nm cns pod)),
     cni_StopPodNetwork = (\<lambda>cns pod. lift_nio (cni_StopPodNetwork nm cns pod)),
     cni_GetNetNsHandle = (\<lambda>cns pod. lift_nio (cni_GetNetNsHandle nm cns pod)),
     cni_GetNetNsPath = (\<lambda>cns pod. lift_nio (cni_GetNetNsPath nm cns pod)),
     cni_CreateVMTun = (\<lambda>cns pod c. lift_nio (cni_CreateVMTun nm cns pod c)),
     cni_GetGatewayAddress = (\<lambda>cns pod. lift_nio (cni_GetGatewayAddress nm cns pod))\<rparr>"

abbreviation seen :: "('v net_state \<Rightarrow> bool) \<Rightarrow> ('o \<times> 'v) net_state \<Rightarrow> bool" where
  "seen J \<equiv> \<lambda>n. J (net_map snd n)"

lemma keeps_lift: "keeps J m \<Longrightarrow> keeps (seen J) (lift_nio m)"
  by (auto simp: keeps_def lift_nio_def o_def split: prod.split)

lemma lift_Done: "lift_nio m n = (Done a, n') \<longleftrightarrow>
    (\<exists>t. m (net_map snd n) = (Done a, t) \<and> n' = net_map (Pair (fst (kern n))) t)"
  by (auto simp: lift_nio_def split: prod.split)

lemma fst_lift: "fst (lift_nio m n) = fst (m (net_map snd n))"
  by (simp add: lift_nio_def split: prod.split)

text \<open>The lifted code sees and leaves the backend's state alone.\<close>

lemma lift_own: "fst (kern (snd (lift_nio m n))) = fst (kern n)"
  by (simp add: lift_nio_def split: prod.split)

lemma lifted_contract:
  fixes nm :: "'v CNIManager"
  assumes "cni_contract nm J"
  shows "cni_contract (lift_manager nm :: ('o \<times> 'v) CNIManager) (seen J)"
proof -
  have path: "r = (case map_of (podNamespaces n) (GetNetNs cns pod) of
      None \<Rightarrow> Done ([], Some (Errorf ''Container network namespace for %s not found'' [GetNetNs cns pod]))
    | Some _ \<Rightarrow> Done (GetNetNs cns pod, None))" if "cni_GetNetNsPath nm cns pod n = (r, t)" for cns pod n r t
    using cni_contract.path_table [OF assms, of cns pod n] that by simp
  have same: "net_map (Pair (fst (kern n))) (net_map snd n) = n" for n :: "('o \<times> 'v) net_state"
    by (cases n) (simp add: net_map_def)
  have path_reads: "net_map (Pair (fst (kern n))) t = n" if "cni_GetNetNsPath nm cns pod (net_map snd n) = (r, t)"
    for cns pod r t and n :: "('o \<times> 'v) net_state"
    using cni_contract.path_reads [OF assms, of cns pod "net_map snd n"] that same [of n] by simp
  show ?thesis
    using cni_contract.init_path [OF assms] cni_contract.stop_tables [OF assms]
    by unfold_locales
      (auto simp: lift_manager_def lift_apply o_def
        intro!: keeps_lift cni_contract.keeps_init [OF assms] cni_contract.keeps_stop [OF assms]
          cni_contract.keeps_vm [OF assms] cni_contract.keeps_gateway [OF assms]
        dest: path path_reads split: prod.splits)
qed

end
