(* ===== verification/Osv.thy ===== *)
theory Osv
  imports NodeWorld Sys
begin

text \<open>
  The OSv backend (\<open>backend_osv.go\<close>): unikernels in virtual machines through capstan and qemu.
  Those, the file system, processes and the clock are not part of the repository; they are the
  operations of the record \<open>osv_tools\<close>, on the rest of the world.

  \<open>instanceStatuses\<close> maps an instance to a pointer: the goroutine that waits for a machine keeps
  the pointer and writes to it when the machine exits, also after the entry was deleted or
  replaced. So statuses live in a list of cells, the map holds positions, and the goroutines that
  still wait are part of the state; \<open>osv_exit\<close> is what one of them does when its machine ends.
\<close>

section \<open>State\<close>

record osv_extras =
  vmProc :: "string list list"
  vmArgs :: "string list"
  vmOpts :: "string list"

record osv_waiter =
  w_status :: nat
  w_ID :: string

record osv_state =
  cells :: "container_status list"
  instanceStatuses :: "(string \<times> nat) list"
  instanceExtras :: "(string \<times> osv_extras) list"
  waiters :: "osv_waiter list"

record nat_rule = HostPort :: string  GuestPort :: string

record vm_config =
  vmc_Name :: string
  vm_Cmd :: string
  vm_InstanceDir :: string
  vm_Monitor :: string
  vm_ConfigFile :: string
  vm_AioType :: string
  vm_Image :: string
  vm_Memory :: int
  vm_Cpus :: int
  vm_Networking :: string
  vm_Bridge :: string
  vm_NatRules :: "nat_rule list"
  vm_MAC :: string
  vm_VNCFile :: string

record 'v osv_tools =
  RepoPath :: string
  ConfigDir :: string
  QemuAioType :: string
  PJoin :: "string list \<Rightarrow> string"
  PBase :: "string \<Rightarrow> string"
  SearchInstance :: "string \<Rightarrow> ('v, string \<times> string) io"
  StopVM :: "string \<Rightarrow> ('v, goerr) io"
  DeleteVM :: "string \<Rightarrow> ('v, goerr) io"
  StoreConfig :: "vm_config \<Rightarrow> ('v, goerr) io"
  LoadVMConfig :: "string \<Rightarrow> ('v, vm_config \<times> goerr) io"
  VMCommand :: "vm_config \<Rightarrow> string list \<Rightarrow> ('v, string list \<times> goerr) io"
  Stat :: "string \<Rightarrow> ('v, goerr) io"
  IsNotExist :: "go_error \<Rightarrow> bool"
  MkdirAll :: "string \<Rightarrow> ('v, goerr) io"
  RemoveAll :: "string \<Rightarrow> ('v, goerr) io"
  CreateFile :: "string \<Rightarrow> ('v, goerr) io"
  WriteFile :: "string \<Rightarrow> string \<Rightarrow> ('v, goerr) io"
  OpenFile :: "string \<Rightarrow> ('v, string option \<times> goerr) io"
  StartProc :: "string list \<Rightarrow> ('v, goerr) io"
  AvailablePort :: "('v, int \<times> goerr) io"
  Now :: "('v, string) io"
  MapOrder :: "nat \<Rightarrow> ('v, nat list) io"
  osv_registry :: "'v registry"
  MarshalInfo :: "string \<Rightarrow> string \<Rightarrow> string \<times> goerr"
  ToTarReader :: "string \<Rightarrow> string \<times> goerr"
  GetTarReader :: "string \<Rightarrow> string \<times> goerr"
  TarNext :: "string \<Rightarrow> ('v, string \<times> goerr) io"

text \<open>\<open>os.IsNotExist\<close> of nil is false.\<close>

definition is_not_exist :: "'v osv_tools \<Rightarrow> goerr \<Rightarrow> bool" where
  "is_not_exist b err = (case err of None \<Rightarrow> False | Some e \<Rightarrow> IsNotExist b e)"

definition osv_err :: "goerr \<Rightarrow> goerr" where
  "osv_err err = wrap err ''osv'' []"

lemma osv_err_simps [simp]: "osv_err None = None" "osv_err (Some e) = Some (Wrapf e ''osv'' [])"
  by (simp_all add: osv_err_def)

section \<open>Paths\<close>

definition replace_slash :: "string \<Rightarrow> string" where
  "replace_slash s = map (\<lambda>c. if c = CHR ''/'' then CHR ''_'' else c) s"

definition imageDir :: "'v osv_tools \<Rightarrow> string \<Rightarrow> string" where
  "imageDir b imageRef = PJoin b [RepoPath b, ''fledge'', replace_slash (CleanName imageRef)]"

definition imageInfoPath :: "'v osv_tools \<Rightarrow> string \<Rightarrow> string" where
  "imageInfoPath b imageRef = PJoin b [imageDir b imageRef, ''index.yaml'']"

definition imageConfPath :: "'v osv_tools \<Rightarrow> string \<Rightarrow> string" where
  "imageConfPath b imageRef = PJoin b [imageDir b imageRef, ''config.yaml'']"

definition imageDiskPath :: "'v osv_tools \<Rightarrow> string \<Rightarrow> string \<Rightarrow> string" where
  "imageDiskPath b imageRef hypervisor =
     PJoin b [imageDir b imageRef, PBase b (imageDir b imageRef)] @ ''.'' @ hypervisor"

definition instanceDir :: "'v osv_tools \<Rightarrow> inst \<Rightarrow> string" where
  "instanceDir b i = PJoin b [ConfigDir b, ''instances/qemu'', ID i]"

definition instanceConfPath :: "'v osv_tools \<Rightarrow> inst \<Rightarrow> string" where
  "instanceConfPath b i = PJoin b [instanceDir b i, ''osv.config'']"

definition instanceMoniPath :: "'v osv_tools \<Rightarrow> inst \<Rightarrow> string" where
  "instanceMoniPath b i = PJoin b [instanceDir b i, ''osv.monitor'']"

definition instanceSockPath :: "'v osv_tools \<Rightarrow> inst \<Rightarrow> string" where
  "instanceSockPath b i = PJoin b [instanceDir b i, ''osv.socket'']"

definition instanceLogsPath :: "'v osv_tools \<Rightarrow> inst \<Rightarrow> string" where
  "instanceLogsPath b i = PJoin b [instanceDir b i, ''osv.logs'']"

definition volumesDir :: "'v osv_tools \<Rightarrow> string" where
  "volumesDir b = PJoin b [ConfigDir b, ''volumes/qemu'']"

definition volumePath :: "'v osv_tools \<Rightarrow> string \<Rightarrow> string" where
  "volumePath b volumeID = PJoin b [volumesDir b, volumeID]"

section \<open>Extra arguments for mounts\<close>

definition no_extras :: osv_extras where
  "no_extras = \<lparr>vmProc = [], vmArgs = [], vmOpts = []\<rparr>"

definition extendWith :: "osv_extras \<Rightarrow> osv_extras \<Rightarrow> osv_extras" where
  "extendWith e other = \<lparr>vmProc = vmProc e @ vmProc other, vmArgs = vmArgs e @ vmArgs other,
     vmOpts = vmOpts e @ vmOpts other\<rparr>"

definition range_list :: "(nat \<Rightarrow> ('v, nat list) io) \<Rightarrow> 'e list \<Rightarrow> ('v, 'e list) io" where
  "range_list order al = bnd (order (length al)) (\<lambda>p. ret (map (\<lambda>i. al ! i) (filter (\<lambda>i. i < length al) p)))"

text \<open>The files of a ConfigMap, in the order the runtime picks; the first error stops the loop.\<close>

definition write_files :: "'v osv_tools \<Rightarrow> string \<Rightarrow> (string \<times> string) list \<Rightarrow> ('v, goerr) io" where
  "write_files b dir data = bnd (range_list (MapOrder b) data) (\<lambda>l.
     bnd (for_each l (\<lambda>(path, content). WriteFile b (PJoin b [dir, path]) content)) ret)"

definition virtiofsd :: "string \<Rightarrow> string \<Rightarrow> string list" where
  "virtiofsd socketPath dir = [''virtiofsd'', ''--socket-path'', socketPath, ''--shared-dir'', dir, ''--no-announce-submounts'']"

definition virtiofs_args :: "string \<Rightarrow> string \<Rightarrow> string \<Rightarrow> string list" where
  "virtiofs_args chardev socketPath tag =
     [''-chardev'', ''socket,id='' @ chardev @ '',path='' @ socketPath,
      ''-device'', ''vhost-user-fs-pci,queue-size=1024,chardev='' @ chardev @ '',tag='' @ tag]"

text \<open>
  In the type of an instance's volume \<open>Secret\<close>, \<open>ConfigMap\<close> and \<open>Projected\<close> are the fields that
  shadow those of the embedded volume: they are nil when the object was not found.
\<close>

definition getVolumeMountExtras ::
  "'v osv_tools \<Rightarrow> inst \<Rightarrow> nat \<Rightarrow> volume_mount \<times> instance_volume \<Rightarrow> ('v, go_error + osv_extras) io" where
  "getVolumeMountExtras b i idx vmv = (case vmv of (vm, iv) \<Rightarrow>
     let v = iv_Volume iv; dir = volumesDir b; socketPath = PJoin b [dir, iv_ID iv @ ''.sock''] in
     bnd (bnd (Stat b dir) (\<lambda>err. if is_not_exist b err then MkdirAll b dir else ret None)) (\<lambda>err.
     case err of Some e \<Rightarrow> ret (Inl e) | None \<Rightarrow>
     case v_HostPath v of
       Some hp \<Rightarrow> bnd (deref (hp_Type hp)) (\<lambda>ty.
         bnd (if ty = ''DirectoryOrCreate'' then MkdirAll b (hp_Path hp)
              else if ty = ''Directory'' then ret None
              else ret (Some (Errorf ''volumeMount %q has unsupported hostPath.type %q'' [iv_ID iv]))) (\<lambda>err.
         case err of Some e \<Rightarrow> ret (Inl e) | None \<Rightarrow>
           ret (Inr \<lparr>vmProc = [virtiofsd socketPath (hp_Path hp)],
             vmArgs = virtiofs_args (''char'' @ itoa idx) socketPath (v_Name v),
             vmOpts = [''--mount-fs=virtiofs,/dev/virtiofs'' @ itoa idx @ '','' @ vm_MountPath vm]\<rparr>)))
     | None \<Rightarrow>
     if iv_Secret iv \<noteq> None then ret (Inr no_extras)
     else if v_NFS v \<noteq> None then ret (Inr no_extras)
     else case iv_ConfigMap iv of
       Some (_, cm) \<Rightarrow>
         (let configmapsPath = PJoin b [dir, ID i @ ''_configmaps'', vm_MountPath vm] in
          bnd (MkdirAll b configmapsPath) (\<lambda>err. case err of Some e \<Rightarrow> ret (Inl e) | None \<Rightarrow>
          bnd (write_files b configmapsPath (cm_Data cm)) (\<lambda>err. case err of Some e \<Rightarrow> ret (Inl e) | None \<Rightarrow>
            ret (Inr \<lparr>vmProc = [virtiofsd socketPath configmapsPath],
              vmArgs = virtiofs_args ''char0'' socketPath (v_Name v),
              vmOpts = [''--mount-fs=virtiofs,/dev/virtiofs'' @ itoa idx @ '',/run/kubernetes/configmaps'']\<rparr>))))
     | None \<Rightarrow>
     if iv_Projected iv \<noteq> None then ret (Inr no_extras)
     else ret (Inl (Errorf ''volumeMount %q has an unsupported type: %+v'' [vm_Name vm]))))"

text \<open>The loop over the mounts: \<open>idx\<close> counts them, \<open>ex\<close> collects.\<close>

primrec mount_extras ::
  "'v osv_tools \<Rightarrow> inst \<Rightarrow> nat \<Rightarrow> osv_extras \<Rightarrow> (volume_mount \<times> instance_volume) list \<Rightarrow>
   ('v, go_error + osv_extras) io" where
  "mount_extras b i idx ex [] = ret (Inr ex)"
| "mount_extras b i idx ex (m # ms) = bnd (getVolumeMountExtras b i idx m) (\<lambda>r. case r of
     Inl e \<Rightarrow> ret (Inl e)
   | Inr other \<Rightarrow> mount_extras b i (Suc idx) (extendWith ex other) ms)"

end
