(* ===== verification/OsvBackend.thy ===== *)
theory OsvBackend
  imports Osv
begin

text \<open>
  The operations of the OSv backend: pulling an image, making, starting, stopping and deleting an
  instance, the exit of its machine, and the value of the interface \<open>Backend\<close> they form. The
  network manager \<open>nm\<close> is the one behind \<open>network.PodNetworkManager\<close>; it does not see the
  backend's state.
\<close>

type_synonym ('v, 'a) oio = "(osv_state \<times> 'v, 'a) nio"

section \<open>Pulling an image\<close>

text \<open>A step that stops the function with its error.\<close>

definition or_err :: "('s, goerr) io \<Rightarrow> ('s, goerr) io \<Rightarrow> ('s, goerr) io" where
  "or_err m k = bnd m (\<lambda>err. case err of Some e \<Rightarrow> ret (Some e) | None \<Rightarrow> k)"

definition has_suffix_qemu :: "string \<Rightarrow> bool" where
  "has_suffix_qemu n = has_prefix (rev n) (rev ''.qemu'')"

definition pull_layer :: "'v osv_tools \<Rightarrow> string \<Rightarrow> string \<Rightarrow> image_ref \<Rightarrow> image_desc \<Rightarrow> ('v, goerr) io" where
  "pull_layer b imageRef hypervisor r layerDesc = (let rc = osv_registry b in
     if d_MediaType layerDesc \<noteq> OCI1Layer \<and> d_MediaType layerDesc \<noteq> OCI1LayerGzip then
       ret (Some (Errorf ''layer media type %s is not supported'' []))
     else bnd (BlobGet rc r layerDesc) (\<lambda>(blob, err). case err of Some e \<Rightarrow> ret (Some e) | None \<Rightarrow>
     case ToTarReader b blob of (t, err) \<Rightarrow> case err of Some e \<Rightarrow> ret (Some e) | None \<Rightarrow>
     case GetTarReader b t of (tr, err) \<Rightarrow> case err of Some e \<Rightarrow> ret (Some e) | None \<Rightarrow>
     bnd (TarNext b tr) (\<lambda>(hdr, err). case err of Some e \<Rightarrow> ret (Some e) | None \<Rightarrow>
     if \<not> has_suffix_qemu hdr then
       ret (Some (Errorf ''unexpected file %s in layer of image %s'' [hdr, CommonName rc r]))
     else or_err (CreateFile b (imageDiskPath b imageRef hypervisor))
       (WriteFile b (imageDiskPath b imageRef hypervisor) tr))))"

definition pullInstanceImage :: "'v osv_tools \<Rightarrow> string \<Rightarrow> string \<Rightarrow> ('v, goerr) io" where
  "pullInstanceImage b imageRef hypervisor = (let dir = imageDir b imageRef; rc = osv_registry b in
     or_err (bnd (Stat b dir) (\<lambda>err. if \<not> is_not_exist b err then RemoveAll b dir else ret None))
     (or_err (MkdirAll b dir)
     (case RefNew rc imageRef of (r, err) \<Rightarrow> case err of Some e \<Rightarrow> ret (Some e) | None \<Rightarrow>
     if ref_Registry r = [] then
       ret (Some (Errorf ''reference %s does not contain a valid registry'' [CommonName rc r]))
     else bnd (Now b) (\<lambda>now.
     or_err (CreateFile b (imageInfoPath b imageRef))
     (case MarshalInfo b (ref_Tag r) now of (info, err) \<Rightarrow> case err of Some e \<Rightarrow> ret (Some e) | None \<Rightarrow>
     or_err (WriteFile b (imageInfoPath b imageRef) info)
     (bnd (ImageGetLayersWithClient rc r) (\<lambda>(layers, err). case err of Some e \<Rightarrow> ret (Some e) | None \<Rightarrow>
     case layers of
       [layerDesc] \<Rightarrow> pull_layer b imageRef hypervisor r layerDesc
     | _ \<Rightarrow> ret (Some (Errorf ''image %s does not contain just one layer'' [CommonName rc r])))))))))"

section \<open>Deleting and stopping\<close>

definition osv_DeleteInstance :: "'v osv_tools \<Rightarrow> inst \<Rightarrow> ('v, goerr) oio" where
  "osv_DeleteInstance b i = bnd (rest (SearchInstance b (ID i))) (\<lambda>(instanceName, platform).
     if instanceName = [] then ret (osv_err (Some (Errorf ''instance %q does not exist'' [ID i])))
     else if platform = ''qemu'' then
       bnd (rest (StopVM b (ID i))) (\<lambda>_. bnd (rest (DeleteVM b (ID i))) (\<lambda>err.
       if err \<noteq> None then ret (osv_err err)
       else bnd (own (modify (\<lambda>st. st\<lparr>instanceStatuses := AList.delete (ID i) (instanceStatuses st)\<rparr>)))
         (\<lambda>_. ret None)))
     else ret (osv_err (Some (Errorf ''platform %q is not supported'' [platform]))))"

definition osv_KillInstance :: "'v osv_tools \<Rightarrow> inst \<Rightarrow> int \<Rightarrow> ('v, goerr) oio" where
  "osv_KillInstance b i sig = bnd (rest (SearchInstance b (ID i))) (\<lambda>(instanceName, platform).
     if instanceName = [] then ret (osv_err (Some (Errorf ''instance %q does not exist'' [ID i])))
     else if platform = ''qemu'' then bnd (rest (StopVM b (ID i))) (\<lambda>err. ret (osv_err err))
     else ret (osv_err (Some (Errorf ''platform %q is not supported'' [platform]))))"

definition osv_GetInstanceStatus :: "inst \<Rightarrow> ('v, container_status \<times> goerr) oio" where
  "osv_GetInstanceStatus i = own (bnd get_st (\<lambda>st. case map_of (instanceStatuses st) (ID i) of
     Some q \<Rightarrow> ret (cells st ! q, None)
   | None \<Rightarrow> ret (\<lparr>cst_Name = [], cst_State = no_state, cst_LastTerminationState = no_state, cst_Image = [],
       cst_ContainerID = [], cst_Started = None\<rparr>, osv_err (Some (Errorf ''instance %q does not exist'' [ID i])))))"

section \<open>Making an instance\<close>

text \<open>\<open>net.HardwareAddr.String\<close>: two hex digits per byte, joined by colons.\<close>

definition mac_string :: "byte list \<Rightarrow> string" where
  "mac_string m = join_with '':'' (map (\<lambda>x. [digit (unat x div 16), digit (unat x mod 16)]) m)"

text \<open>The port rules; a port that cannot be found is left out.\<close>

primrec nat_rules :: "'v osv_tools \<Rightarrow> container_port list \<Rightarrow> ('v, nat_rule list) io" where
  "nat_rules b [] = ret []"
| "nat_rules b (p # ps) =
     bnd (if po_HostPort p = 0 then AvailablePort b else ret (po_HostPort p, None)) (\<lambda>(hostPort, err).
     if err \<noteq> None then nat_rules b ps
     else bnd (nat_rules b ps) (\<lambda>rs.
       ret (\<lparr>HostPort = itoa_int hostPort, GuestPort = itoa_int (po_ContainerPort p)\<rparr> # rs)))"

text \<open>
  The command line: the address options when there is a TAP device, the container's command and
  arguments, and the default only when all of that is empty.
\<close>

definition osv_cmdline :: "string list \<Rightarrow> container \<Rightarrow> string list" where
  "osv_cmdline net_opts c = (let cmd = net_opts @ c_Command c @ c_Args c in
     if cmd = [] then [''runscript'', ''/run/default;''] else cmd)"

definition network_options :: "'v CNIManager \<Rightarrow> inst \<Rightarrow> string \<Rightarrow> ip_ref \<Rightarrow> ('v, string list) oio" where
  "network_options nm i netDev vmIP = (if netDev = [] then ret []
     else bnd (lift_nio (cni_GetGatewayAddress nm (om_Namespace (i_Metadata i)) (om_Name (i_Metadata i)))) (\<lambda>gw.
       bnd (ip_load vmIP) (\<lambda>ip. bnd (ip_load gw) (\<lambda>gwb.
       ret [''--ip=eth0,'' @ ip_string ip @ '',255.255.255.0 --defaultgw='' @ ip_string gwb]))))"

text \<open>\<open>vmCpus\<close>, \<open>vmMemory\<close> (in MiB, rounded down)\<close>

definition vm_cpus :: "container \<Rightarrow> int" where
  "vm_cpus c = (if lim_CpuValue (c_Limits c) > 0 then lim_CpuValue (c_Limits c) else 1)"

definition vm_memory :: "container \<Rightarrow> int" where
  "vm_memory c = (if lim_Memory (c_Limits c) > 0 then lim_Memory (c_Limits c) div 2 ^ 20 else 1024)"

definition initial_extras :: "container \<Rightarrow> osv_extras" where
  "initial_extras c = \<lparr>vmProc = [],
     vmArgs = [''-object'', ''memory-backend-file,id=mem,size='' @ itoa_int (vm_memory c) @ ''M,mem-path=/dev/shm,share=on'',
               ''-numa'', ''node,memdev=mem''],
     vmOpts = [''--rootfs=zfs'', ''--verbose'']\<rparr>"

text \<open>Whether the image has to be pulled; the path that is looked at keeps its slashes.\<close>

definition ensure_image :: "'v osv_tools \<Rightarrow> container \<Rightarrow> string \<Rightarrow> ('v, goerr) io" where
  "ensure_image b c hypervisor =
     bnd (Stat b (PJoin b [RepoPath b, ''fledge'', CleanName (c_Image c)])) (\<lambda>err.
     let imageExists = \<not> is_not_exist b err in
     if (\<not> imageExists \<and> c_ImagePullPolicy c = PullIfNotPresent) \<or> c_ImagePullPolicy c = PullAlways
     then bnd (pullInstanceImage b (c_Image c) hypervisor) (\<lambda>err. ret (osv_err err))
     else ret None)"

definition store_vm :: "'v osv_tools \<Rightarrow> inst \<Rightarrow> image \<Rightarrow> string list \<Rightarrow> string \<Rightarrow> string \<Rightarrow> nat_rule list \<Rightarrow> byte list \<Rightarrow>
    ('v, goerr) io" where
  "store_vm b i im cmd networking netDev rules mac = (let c = i_Container i in
     if Hypervisor im = ''qemu'' then
       (let conf = \<lparr>vmc_Name = ID i, vm_Cmd = join_with '' '' cmd, vm_InstanceDir = instanceDir b i,
          vm_Monitor = instanceMoniPath b i, vm_ConfigFile = instanceConfPath b i, vm_AioType = QemuAioType b,
          vm_Image = imageDiskPath b (c_Image c) (Hypervisor im), vm_Memory = vm_memory c, vm_Cpus = vm_cpus c,
          vm_Networking = networking, vm_Bridge = netDev, vm_NatRules = rules, vm_MAC = mac_string mac,
          vm_VNCFile = instanceSockPath b i\<rparr> in
        bnd (or_err (MkdirAll b (instanceDir b i)) (StoreConfig b conf)) (\<lambda>err. ret (osv_err err)))
     else ret (osv_err (Some (Errorf ''platform %q is not supported'' [Hypervisor im]))))"

definition created_state :: container_state where
  "created_state = no_state\<lparr>st_Waiting := Some (ApiObject ''Instance is created'')\<rparr>"

definition put_created_status :: "inst \<Rightarrow> (osv_state, unit) io" where
  "put_created_status i = modify (\<lambda>st.
     let last_state = (case map_of (instanceStatuses st) (ID i) of
           None \<Rightarrow> no_state | Some q \<Rightarrow> cst_State (cells st ! q));
         status = \<lparr>cst_Name = last (splitIdentifierIntoParts (ID i)), cst_State = created_state,
           cst_LastTerminationState = last_state, cst_Image = c_Image (i_Container i),
           cst_ContainerID = ''capstan://'' @ ID i, cst_Started = Some False\<rparr>
     in st\<lparr>cells := cells st @ [status],
           instanceStatuses := AList.update (ID i) (length (cells st)) (instanceStatuses st)\<rparr>)"

definition osv_CreateInstance :: "'v osv_tools \<Rightarrow> 'v CNIManager \<Rightarrow> inst \<Rightarrow> ('v, goerr) oio" where
  "osv_CreateInstance b nm i = (let c = i_Container i; md = i_Metadata i in
     bnd (osv_DeleteInstance b i) (\<lambda>_.
     bnd (rest (ImageGetConfig (osv_registry b) (c_Image c))) (\<lambda>(im, err).
     if err \<noteq> None then ret (osv_err err)
     else bnd (rest (ensure_image b c (Hypervisor im))) (\<lambda>err.
     if err \<noteq> None then ret err
     else bnd (lift_nio (cni_CreateVMTun nm (om_Namespace md) (om_Name md) (c_Name c))) (\<lambda>(dev, vmIP, mac, _).
     bnd (network_options nm i dev vmIP) (\<lambda>net_opts.
     let cmd = osv_cmdline net_opts c;
         networking = (if dev \<noteq> [] then ''tap'' else if c_Ports c \<noteq> [] then ''nat'' else ''bridge'');
         netDev = (if dev \<noteq> [] then dev else ''virbr0'') in
     bnd (rest (nat_rules b (c_Ports c))) (\<lambda>rules.
     bnd (rest (mount_extras b i 0 (initial_extras c) (i_VolumeMounts i))) (\<lambda>r. case r of
       Inl e \<Rightarrow> ret (osv_err (Some e))
     | Inr extras \<Rightarrow>
       bnd (own (modify (\<lambda>st. st\<lparr>instanceExtras := AList.update (ID i) extras (instanceExtras st)\<rparr>))) (\<lambda>_.
       bnd (rest (store_vm b i im (vmOpts extras @ cmd) networking netDev rules mac)) (\<lambda>err.
       if err \<noteq> None then ret err
       else bnd (own (put_created_status i)) (\<lambda>_. ret None)))))))))))"

definition osv_UpdateInstance :: "'v osv_tools \<Rightarrow> 'v CNIManager \<Rightarrow> inst \<Rightarrow> ('v, goerr) oio" where
  "osv_UpdateInstance b nm i = bnd (osv_DeleteInstance b i) (\<lambda>err.
     if err \<noteq> None then ret err else osv_CreateInstance b nm i)"

section \<open>Starting, and the end of the machine\<close>

text \<open>\<open>instanceStatus.State = ...\<close>, through the pointer; nil panics.\<close>

definition set_state :: "nat option \<Rightarrow> container_state \<Rightarrow> (osv_state, unit) io" where
  "set_state ptr cs = bnd (deref ptr) (\<lambda>q.
     modify (\<lambda>st. st\<lparr>cells := (cells st)[q := (cells st ! q)\<lparr>cst_State := cs\<rparr>]\<rparr>))"

definition running_state :: "string \<Rightarrow> container_state" where
  "running_state now = no_state\<lparr>st_Running := Some (ApiObject now)\<rparr>"

definition osv_StartInstance :: "'v osv_tools \<Rightarrow> inst \<Rightarrow> ('v, goerr) oio" where
  "osv_StartInstance b i = bnd (rest (SearchInstance b (ID i))) (\<lambda>(instanceName, platform).
     if instanceName = [] then ret (osv_err (Some (Errorf ''instance %q does not exist'' [ID i])))
     else bnd (own get_st) (\<lambda>st. case map_of (instanceExtras st) (ID i) of
       None \<Rightarrow> ret (osv_err (Some (Errorf ''instance %q does not have extras'' [ID i])))
     | Some extras \<Rightarrow>
       if platform \<noteq> ''qemu'' then ret (osv_err (Some (Errorf ''platform %q is not supported'' [platform])))
       else bnd (rest (LoadVMConfig b instanceName)) (\<lambda>(conf, err).
       if err \<noteq> None then ret (osv_err err)
       else bnd (rest (VMCommand b conf (vmArgs extras))) (\<lambda>(cmd, err).
       if err \<noteq> None then ret (osv_err err)
       else bnd (rest (for_each (vmProc extras) (StartProc b))) (\<lambda>err.
       if err \<noteq> None then ret (osv_err err)
       else bnd (rest (CreateFile b (instanceLogsPath b i))) (\<lambda>err.
       if err \<noteq> None then ret (osv_err err)
       else bnd (rest (StartProc b cmd)) (\<lambda>err.
       if err \<noteq> None then ret (osv_err err)
       else bnd (rest (Now b)) (\<lambda>now.
       bnd (own (bnd get_st (\<lambda>st. let ptr = map_of (instanceStatuses st) (ID i) in
         bnd (set_state ptr (running_state now)) (\<lambda>_.
         modify (\<lambda>st. st\<lparr>waiters := waiters st @ [\<lparr>w_status = the ptr, w_ID = ID i\<rparr>]\<rparr>)))))
       (\<lambda>_. ret None)))))))))"

text \<open>
  The goroutine of the \<open>j\<close>-th machine, when its process ended with \<open>ex\<close>: it reads the start time
  from the running state the status has by then, and panics (which ends the whole process) when
  there is none.
\<close>

definition osv_exit :: "'v osv_tools \<Rightarrow> nat \<Rightarrow> exec_error option \<Rightarrow> ('v, unit) oio" where
  "osv_exit b j ex = bnd (own get_st) (\<lambda>st.
     if length (waiters st) \<le> j then ret ()
     else let w = waiters st ! j; (exitCode, exitMsg) = ExecParseError ex in
       bnd (own (modify (\<lambda>st. st\<lparr>waiters := take j (waiters st) @ drop (Suc j) (waiters st)\<rparr>))) (\<lambda>_.
       bnd (deref (st_Running (cst_State (cells st ! w_status w)))) (\<lambda>started.
       bnd (rest (Now b)) (\<lambda>now.
       own (set_state (Some (w_status w)) (no_state\<lparr>st_Terminated := Some
         \<lparr>t_ExitCode = exitCode, t_Message = exitMsg,
          t_StartedAt = (case started of ApiObject t \<Rightarrow> t), t_FinishedAt = now, t_ContainerID = w_ID w\<rparr>\<rparr>))))))"

definition osv_GetInstanceLogs :: "'v osv_tools \<Rightarrow> inst \<Rightarrow> ('v, string option \<times> goerr) oio" where
  "osv_GetInstanceLogs b i = bnd (rest (NewContainerLogger (OpenFile b) (instanceLogsPath b i))) (\<lambda>(f, err).
     if err \<noteq> None then ret (None, osv_err err) else ret (f, None))"

section \<open>The backend\<close>

definition OSvBackend :: "'v osv_tools \<Rightarrow> 'v CNIManager \<Rightarrow> (osv_state \<times> 'v) backend" where
  "OSvBackend b nm = \<lparr>
     GetInstanceStatus = osv_GetInstanceStatus,
     CreateInstance = osv_CreateInstance b nm,
     StartInstance = osv_StartInstance b,
     UpdateInstance = osv_UpdateInstance b nm,
     KillInstance = osv_KillInstance b,
     DeleteInstance = osv_DeleteInstance b,
     GetInstanceLogs = osv_GetInstanceLogs b,
     RunInInstance = (\<lambda>_ _. ret None)\<rparr>"

definition NewOSvBackend :: osv_state where
  "NewOSvBackend = \<lparr>cells = [], instanceStatuses = [], instanceExtras = [], waiters = []\<rparr>"

end
