(* ===== verification/OsvSpec.thy ===== *)
theory OsvSpec
  imports OsvBackend
begin

text \<open>
  What the OSv backend promises. To the node: the contract of a backend, for every invariant of
  the network that its manager keeps. By itself: the cells its statuses live in, the positions in
  its map and the goroutines that wait stay consistent, as a state machine over create, start,
  stop, delete and the end of a machine.
\<close>

section \<open>The contract of a backend\<close>

definition world_free :: "('w net_state \<Rightarrow> bool) \<Rightarrow> bool" where
  "world_free J \<longleftrightarrow> (\<forall>n w. J n \<longrightarrow> J (n\<lparr>kern := w\<rparr>))"

lemma net_map_kern [simp]: "net_map f (n\<lparr>kern := w\<rparr>) = (net_map f n)\<lparr>kern := f w\<rparr>"
  by (simp add: net_map_def)

lemma keeps_rest: "world_free J \<Longrightarrow> keeps (seen J) (rest m)"
  by (auto simp: keeps_def rest_def world_free_def split: prod.split)

lemma net_map_same [simp]: "(net_map f n)\<lparr>kern := f (kern n)\<rparr> = net_map f n"
  by (simp add: net_map_def)

lemma keeps_own: "keeps (seen J) (own m)"
  by (simp add: keeps_def own_def split: prod.split)

lemma keeps_ip_load: "keeps I (ip_load r)"
  by (simp add: ip_load_def keeps_intros)

lemmas keeps_osv = keeps_bnd keeps_ret keeps_if keeps_case_option keeps_case_prod keeps_case_sum
  keeps_rest keeps_own keeps_ip_load

lemma keeps_osv_DeleteInstance: "world_free J \<Longrightarrow> keeps (seen J) (osv_DeleteInstance b i)"
  unfolding osv_DeleteInstance_def by (intro keeps_osv)

lemma keeps_osv_StartInstance: "world_free J \<Longrightarrow> keeps (seen J) (osv_StartInstance b i)"
  unfolding osv_StartInstance_def by (intro keeps_osv)

lemma keeps_osv_CreateInstance:
  assumes "world_free J" "cni_contract nm J"
  shows "keeps (seen J) (osv_CreateInstance b nm i)"
proof -
  note manager = keeps_lift [OF cni_contract.keeps_vm [OF assms(2)]]
    keeps_lift [OF cni_contract.keeps_gateway [OF assms(2)]]
  show ?thesis
    unfolding osv_CreateInstance_def network_options_def Let_def
    by (intro keeps_osv manager keeps_osv_DeleteInstance assms(1))
qed

lemma osv_backend_contract:
  assumes "world_free J" "cni_contract nm J"
  shows "backend_contract (OSvBackend b nm) (seen J)"
  using assms
  by unfold_locales
    (auto simp: OSvBackend_def osv_GetInstanceStatus_def osv_GetInstanceLogs_def
      intro!: keeps_osv keeps_osv_CreateInstance keeps_osv_StartInstance keeps_osv_DeleteInstance)

lemma world_free_net_inv4: "world_free net_inv4"
  by (simp add: world_free_def net_inv4_kern)

interpretation osv_mr: backend_contract "OSvBackend b (multi_runtime_manager k)" "seen net_inv4" for b k
  by (rule osv_backend_contract [OF world_free_net_inv4 mr.cni_contract_axioms])

interpretation osv_pl: backend_contract "OSvBackend b (pod_local_manager k)" "seen net_inv4" for b k
  by (rule osv_backend_contract [OF world_free_net_inv4 pl.cni_contract_axioms])

interpretation osv_dm: backend_contract "OSvBackend b (default_manager k)" "seen net_inv4" for b k
  by (rule osv_backend_contract [OF world_free_net_inv4 dm.cni_contract_axioms])

section \<open>The backend as a state machine\<close>

abbreviation ost :: "(osv_state \<times> 'v) net_state \<Rightarrow> osv_state" where
  "ost n \<equiv> fst (kern n)"

definition running_cell :: "osv_state \<Rightarrow> nat \<Rightarrow> bool" where
  "running_cell st q \<longleftrightarrow> st_Running (cst_State (cells st ! q)) \<noteq> None"

text \<open>Exactly one of the three pointers of a state is set.\<close>

definition one_state :: "container_state \<Rightarrow> bool" where
  "one_state cs \<longleftrightarrow> length (filter id [st_Waiting cs \<noteq> None, st_Running cs \<noteq> None, st_Terminated cs \<noteq> None]) = 1"

lemma one_state_simps [simp]:
  "one_state created_state" "one_state (running_state now)" "one_state (no_state\<lparr>st_Terminated := Some t\<rparr>)"
  by (simp_all add: one_state_def created_state_def running_state_def no_state_def)

text \<open>
  Positions are in range and no two instances share a cell; every goroutine that waits has a cell
  of its own, and it is running.
\<close>

definition osv_ok :: "osv_state \<Rightarrow> bool" where
  "osv_ok st \<longleftrightarrow> distinct (map fst (instanceStatuses st)) \<and> distinct (map snd (instanceStatuses st))
     \<and> (\<forall>q \<in> snd ` set (instanceStatuses st). q < length (cells st))
     \<and> (\<forall>c \<in> set (cells st). one_state (cst_State c))
     \<and> distinct (map w_status (waiters st))
     \<and> (\<forall>q \<in> w_status ` set (waiters st). q < length (cells st) \<and> running_cell st q)"

lemma osv_ok_new [simp]: "osv_ok NewOSvBackend"
  by (simp add: osv_ok_def NewOSvBackend_def)

lemma osv_ok_extras: "osv_ok st \<Longrightarrow> osv_ok (st\<lparr>instanceExtras := x\<rparr>)"
  by (simp add: osv_ok_def running_cell_def)

lemma delete_as_filter: "AList.delete k al = filter (\<lambda>p. fst p \<noteq> k) al"
  by (induction al) auto

lemma osv_ok_delete: "osv_ok st \<Longrightarrow> osv_ok (st\<lparr>instanceStatuses := AList.delete k (instanceStatuses st)\<rparr>)"
  by (auto simp: osv_ok_def running_cell_def delete_as_filter distinct_map_filter)

lemma snd_update: "v \<notin> snd ` set al \<Longrightarrow> distinct (map snd al) \<Longrightarrow> distinct (map snd (AList.update k v al))
    \<and> snd ` set (AList.update k v al) \<subseteq> insert v (snd ` set al)"
  by (induction al) (auto split: if_splits)

lemma osv_ok_created:
  assumes "osv_ok st" "one_state (cst_State c)"
  shows "osv_ok (st\<lparr>cells := cells st @ [c],
    instanceStatuses := AList.update k (length (cells st)) (instanceStatuses st)\<rparr>)"
proof -
  have "length (cells st) \<notin> snd ` set (instanceStatuses st)" using assms(1) by (auto simp: osv_ok_def)
  from snd_update [OF this, of k] assms show ?thesis
    by (fastforce simp: osv_ok_def running_cell_def distinct_update nth_append)
qed

definition set_cell :: "nat \<Rightarrow> container_state \<Rightarrow> osv_state \<Rightarrow> osv_state" where
  "set_cell q cs st = st\<lparr>cells := (cells st)[q := (cells st ! q)\<lparr>cst_State := cs\<rparr>]\<rparr>"

definition add_waiter :: "nat \<Rightarrow> string \<Rightarrow> osv_state \<Rightarrow> osv_state" where
  "add_waiter q k st = st\<lparr>waiters := waiters st @ [\<lparr>w_status = q, w_ID = k\<rparr>]\<rparr>"

definition drop_waiter :: "nat \<Rightarrow> osv_state \<Rightarrow> osv_state" where
  "drop_waiter j st = st\<lparr>waiters := take j (waiters st) @ drop (Suc j) (waiters st)\<rparr>"

lemmas cell_defs = set_cell_def add_waiter_def drop_waiter_def

lemma set_cell_simps [simp]:
  "instanceStatuses (set_cell q cs st) = instanceStatuses st" "waiters (set_cell q cs st) = waiters st"
  "length (cells (set_cell q cs st)) = length (cells st)"
  "q < length (cells st) \<Longrightarrow> cells (set_cell q cs st) ! q = (cells st ! q)\<lparr>cst_State := cs\<rparr>"
  "q < length (cells st) \<Longrightarrow> running_cell (set_cell q cs st) q \<longleftrightarrow> st_Running cs \<noteq> None"
  "q \<noteq> q' \<Longrightarrow> running_cell (set_cell q cs st) q' = running_cell st q'"
  by (simp_all add: set_cell_def running_cell_def)

lemma add_waiter_simps [simp]:
  "instanceStatuses (add_waiter q k st) = instanceStatuses st" "cells (add_waiter q k st) = cells st"
  "waiters (add_waiter q k st) = waiters st @ [\<lparr>w_status = q, w_ID = k\<rparr>]"
  "running_cell (add_waiter q k st) = running_cell st"
  by (simp_all add: add_waiter_def running_cell_def fun_eq_iff)

lemma one_state_set_cell:
  "\<forall>c \<in> set (cells st). one_state (cst_State c) \<Longrightarrow> one_state cs \<Longrightarrow>
    \<forall>c \<in> set (cells (set_cell q cs st)). one_state (cst_State c)"
  by (auto simp: set_cell_def dest!: set_update_subset_insert [THEN subsetD])

lemma osv_ok_set_cell:
  assumes "osv_ok st" "one_state cs" "q \<notin> w_status ` set (waiters st)"
  shows "osv_ok (set_cell q cs st)"
proof -
  have "running_cell (set_cell q cs st) (w_status w) = running_cell st (w_status w)" if "w \<in> set (waiters st)" for w
    using assms(3) that by (intro set_cell_simps) blast
  with assms(1,2) one_state_set_cell [of st cs q] show ?thesis by (simp add: osv_ok_def)
qed

lemma osv_ok_started:
  assumes "osv_ok st" "q < length (cells st)" "\<not> running_cell st q"
  shows "osv_ok (add_waiter q k (set_cell q (running_state now) st))"
proof -
  have q: "q \<notin> w_status ` set (waiters st)" using assms(1,3) by (auto simp: osv_ok_def)
  from osv_ok_set_cell [OF assms(1) one_state_simps(2) q] q assms(2) show ?thesis
    by (simp add: osv_ok_def) (simp add: running_state_def)
qed

lemma distinct_drop_nth:
  "distinct xs \<Longrightarrow> j < length xs \<Longrightarrow>
    distinct (take j xs @ drop (Suc j) xs) \<and> set (take j xs @ drop (Suc j) xs) = set xs - {xs ! j}"
  by (induction xs arbitrary: j) (auto simp: nth_Cons split: nat.split)

lemma drop_waiter_facts:
  assumes "osv_ok st" "j < length (waiters st)"
  shows "osv_ok (drop_waiter j st)"
    and "w_status ` set (waiters (drop_waiter j st)) = w_status ` set (waiters st) - {w_status (waiters st ! j)}"
proof -
  let ?ws = "map w_status (waiters st)"
  have "distinct ?ws" using assms(1) by (simp add: osv_ok_def)
  from distinct_drop_nth [OF this, of j] assms(2)
  have "distinct (map w_status (waiters (drop_waiter j st)))"
    "w_status ` set (waiters (drop_waiter j st)) = w_status ` set (waiters st) - {w_status (waiters st ! j)}"
    by (simp_all add: drop_waiter_def take_map drop_map image_Un)
  with assms(1) show "osv_ok (drop_waiter j st)"
    "w_status ` set (waiters (drop_waiter j st)) = w_status ` set (waiters st) - {w_status (waiters st ! j)}"
    by (auto simp: osv_ok_def running_cell_def drop_waiter_def)
qed

section \<open>What the operations do to the backend's state\<close>

lemma keeps_ost_rest: "keeps (\<lambda>n. I (ost n)) (rest m)"
  by (simp add: keeps_def rest_def split: prod.split)

lemma keeps_ost_lift: "keeps (\<lambda>n. I (ost n)) (lift_nio m)"
  by (simp add: keeps_def lift_own)

lemma keeps_ost_own: "keeps I m \<Longrightarrow> keeps (\<lambda>n. I (ost n)) (own m)"
  by (auto simp: keeps_def own_def split: prod.split)

lemmas keeps_ost = keeps_bnd keeps_ret keeps_if keeps_case_option keeps_case_prod keeps_case_sum
  keeps_ost_rest keeps_ost_lift keeps_ip_load

lemma ok_DeleteInstance: "keeps (\<lambda>n. osv_ok (ost n)) (osv_DeleteInstance b i)"
  unfolding osv_DeleteInstance_def
  by (intro keeps_ost keeps_ost_own keeps_modify osv_ok_delete)

lemma ok_put_created: "keeps osv_ok (put_created_status i)"
  unfolding put_created_status_def Let_def by (intro keeps_modify osv_ok_created) simp_all

lemma ok_CreateInstance: "keeps (\<lambda>n. osv_ok (ost n)) (osv_CreateInstance b nm i)"
  unfolding osv_CreateInstance_def network_options_def Let_def
  by (intro keeps_ost keeps_ost_own [OF keeps_modify] keeps_ost_own [OF ok_put_created] ok_DeleteInstance osv_ok_extras)

text \<open>An effect on the state of the backend, on every path, also the panicking ones.\<close>

definition own_effect :: "(osv_state \<Rightarrow> osv_state \<Rightarrow> bool) \<Rightarrow> ('v, 'a) oio \<Rightarrow> bool" where
  "own_effect E m \<longleftrightarrow> (\<forall>n. E (ost n) (ost (snd (m n))))"

lemma kern_set: "kern (n\<lparr>kern := w\<rparr>) = w"
  by simp

lemma own_effectD: "own_effect E m \<Longrightarrow> m n = (r, n') \<Longrightarrow> E (ost n) (ost n')"
  by (metis own_effect_def snd_conv)

lemma effect_ret: "reflp E \<Longrightarrow> own_effect E (ret a)"
  by (simp add: own_effect_def ret_apply reflpD)

lemma effect_rest:
  assumes "reflp E" "\<And>a. own_effect E (f a)"
  shows "own_effect E (bnd (rest m) f)"
proof -
  have "E (ost n) (ost (snd (f a (n\<lparr>kern := (ost n, v)\<rparr>))))" for n a v
    using assms(2) [of a] unfolding own_effect_def by (metis fst_conv kern_set)
  with reflpD [OF assms(1)] show ?thesis
    by (auto simp: own_effect_def bnd_apply rest_apply split: prod.split outcome.split)
qed

lemma effect_get: "(\<And>st. own_effect E (f st)) \<Longrightarrow> own_effect E (bnd (own get_st) f)"
  by (simp add: own_effect_def bnd_apply own_apply get_st_apply)

lemma effect_if: "own_effect E m \<Longrightarrow> own_effect E m' \<Longrightarrow> own_effect E (if c then m else m')"
  by simp

lemma effect_case_option:
  "own_effect E m \<Longrightarrow> (\<And>a. own_effect E (f a)) \<Longrightarrow> own_effect E (case x of None \<Rightarrow> m | Some a \<Rightarrow> f a)"
  by (cases x) simp_all

lemma effect_case_prod: "(\<And>x y. own_effect E (f x y)) \<Longrightarrow> own_effect E (case p of (x, y) \<Rightarrow> f x y)"
  by (cases p) simp

lemmas effects = effect_ret effect_rest effect_get effect_if effect_case_option effect_case_prod

definition started :: "string \<Rightarrow> osv_state \<Rightarrow> osv_state \<Rightarrow> bool" where
  "started k st st' \<longleftrightarrow> st' = st \<or> (\<exists>q now. map_of (instanceStatuses st) k = Some q
     \<and> st' = add_waiter q k (set_cell q (running_state now) st))"

lemma effect_start: "own_effect (started (ID i)) (osv_StartInstance b i)"
proof -
  have "reflp (started (ID i))" by (simp add: reflp_def started_def)
  moreover have "own_effect (started (ID i)) (bnd (own (bnd get_st (\<lambda>st. let ptr = map_of (instanceStatuses st) (ID i) in
         bnd (set_state ptr (running_state now)) (\<lambda>_.
         modify (\<lambda>st. st\<lparr>waiters := waiters st @ [\<lparr>w_status = the ptr, w_ID = ID i\<rparr>]\<rparr>)))))
       (\<lambda>_. ret None))" for now
    by (auto simp: own_effect_def own_apply io_simps Let_def set_state_def deref_def started_def cell_defs
        split: option.split)
  ultimately show ?thesis
    unfolding osv_StartInstance_def by (intro effects)
qed

definition exited :: "nat \<Rightarrow> osv_state \<Rightarrow> osv_state \<Rightarrow> bool" where
  "exited j st st' \<longleftrightarrow> st' = st \<or> (j < length (waiters st) \<and> (st' = drop_waiter j st \<or>
     (\<exists>t. st' = set_cell (w_status (waiters st ! j)) (no_state\<lparr>st_Terminated := Some t\<rparr>) (drop_waiter j st))))"

lemma effect_exit: "own_effect (exited j) (osv_exit b j ex)"
  by (auto simp: own_effect_def osv_exit_def own_apply rest_apply io_simps Let_def set_state_def deref_def
      exited_def cell_defs split: option.split prod.split outcome.split)

lemma ok_started: "started (ID i) st st' \<Longrightarrow> osv_ok st \<Longrightarrow>
    (\<forall>q. map_of (instanceStatuses st) (ID i) = Some q \<longrightarrow> \<not> running_cell st q) \<Longrightarrow> osv_ok st'"
  using osv_ok_started [of st] by (fastforce simp: started_def osv_ok_def [of st] dest!: map_of_SomeD)

lemma ok_exited: "exited j st st' \<Longrightarrow> osv_ok st \<Longrightarrow> osv_ok st'"
  using drop_waiter_facts [of st j] by (auto simp: exited_def intro!: osv_ok_set_cell)

section \<open>What success means\<close>

lemma ensures_case_sum:
  "(\<And>a. ensures P (f a) Q I) \<Longrightarrow> (\<And>a. ensures P (g a) Q I) \<Longrightarrow>
    ensures P (case x of Inl a \<Rightarrow> f a | Inr a \<Rightarrow> g a) Q I"
  by (cases x) simp_all

lemma ensures_case_opt:
  "ensures P m Q I \<Longrightarrow> (\<And>a. ensures P (f a) Q I) \<Longrightarrow>
    ensures P (case x of None \<Rightarrow> m | Some a \<Rightarrow> f a) Q I"
  by (cases x) simp_all

lemma create_own_post:
  "ensures (\<lambda>_. True) (bnd (own (put_created_status i)) (\<lambda>_. ret None))
    (\<lambda>err n. err = None \<longrightarrow> (\<exists>q. map_of (instanceStatuses (ost n)) (ID i) = Some q \<and> q < length (cells (ost n))
       \<and> cst_State (cells (ost n) ! q) = created_state \<and> cst_Started (cells (ost n) ! q) = Some False)) (\<lambda>_. True)"
  by (auto simp: ensures_def io_simps put_created_status_def Let_def update_conv')

lemma create_post:
  "ensures (\<lambda>_. True) (osv_CreateInstance b nm i)
    (\<lambda>err n. err = None \<longrightarrow> (\<exists>q. map_of (instanceStatuses (ost n)) (ID i) = Some q \<and> q < length (cells (ost n))
       \<and> cst_State (cells (ost n) ! q) = created_state \<and> cst_Started (cells (ost n) ! q) = Some False)) (\<lambda>_. True)"
  unfolding osv_CreateInstance_def Let_def
  by (intro create_own_post ensures_cases ensures_case_sum ensures_case_opt anyway ensures_ret) auto

lemma start_own_post:
  "ensures (\<lambda>_. True) (bnd (own (bnd get_st (\<lambda>st. let ptr = map_of (instanceStatuses st) (ID i) in
         bnd (set_state ptr (running_state now)) (\<lambda>_.
         modify (\<lambda>st. st\<lparr>waiters := waiters st @ [\<lparr>w_status = the ptr, w_ID = ID i\<rparr>]\<rparr>)))))
       (\<lambda>_. ret None))
    (\<lambda>err n. err = None \<longrightarrow> (\<exists>q. map_of (instanceStatuses (ost n)) (ID i) = Some q
       \<and> waiters (ost n) \<noteq> [] \<and> last (waiters (ost n)) = \<lparr>w_status = q, w_ID = ID i\<rparr>)) (\<lambda>_. True)"
  by (auto simp: ensures_def own_apply io_simps Let_def set_state_def deref_def split: option.split)

lemma start_post:
  "ensures (\<lambda>_. True) (osv_StartInstance b i)
    (\<lambda>err n. err = None \<longrightarrow> (\<exists>q. map_of (instanceStatuses (ost n)) (ID i) = Some q
       \<and> waiters (ost n) \<noteq> [] \<and> last (waiters (ost n)) = \<lparr>w_status = q, w_ID = ID i\<rparr>)) (\<lambda>_. True)"
  unfolding osv_StartInstance_def
  by (intro start_own_post ensures_cases ensures_case_sum ensures_case_opt anyway ensures_ret) auto

end
