(* ===== verification/ContainerdSpec.thy ===== *)
theory ContainerdSpec
  imports ContainerdOps OsvSpec
begin

text \<open>
  What the containerd backend promises: to the node, the contract of a backend, so that a node with
  both backends, in any configuration, keeps the invariant of its network; by itself, what the
  mounts of a container look like, and what a container is made with.
\<close>

section \<open>The contract of a backend\<close>

lemma keeps_kio_free: "world_free J \<Longrightarrow> keeps J (kio m)"
  by (auto simp: keeps_def kio_def world_free_def split: prod.split)

lemma keeps_network_opts:
  assumes "cni_contract nm J"
  shows "keeps J (network_opts nm i)"
proof -
  have "keeps J (cni_GetNetNsPath nm cns pod)" for cns pod
    using cni_contract.path_reads [OF assms] by (simp add: keeps_def)
  then show ?thesis unfolding network_opts_def by (intro keeps_intros)
qed

lemma keeps_cd_CreateInstance:
  "world_free J \<Longrightarrow> cni_contract nm J \<Longrightarrow> keeps J (cd_CreateInstance b nm i)"
  unfolding cd_CreateInstance_def cd_DeleteInstance_def Let_def
  by (intro keeps_bnd keeps_kio_free keeps_network_opts keeps_case_sum keeps_case_prod keeps_ret)

lemma containerd_contract:
  assumes "world_free J" "cni_contract nm J"
  shows "backend_contract (ContainerdBackend b tty nm) J"
  using assms
  by unfold_locales
    (auto simp: ContainerdBackend_def cd_StartInstance_def cd_DeleteInstance_def cd_GetInstanceStatus_def
      cd_GetInstanceLogs_def cd_RunInInstance_def intro!: keeps_kio_free keeps_cd_CreateInstance)

interpretation cd_mr: backend_contract "ContainerdBackend b tty (multi_runtime_manager k)" net_inv4 for b tty k
  by (rule containerd_contract [OF world_free_net_inv4 mr.cni_contract_axioms])

interpretation cd_pl: backend_contract "ContainerdBackend b tty (pod_local_manager k)" net_inv4 for b tty k
  by (rule containerd_contract [OF world_free_net_inv4 pl.cni_contract_axioms])

interpretation cd_dm: backend_contract "ContainerdBackend b tty (default_manager k)" net_inv4 for b tty k
  by (rule containerd_contract [OF world_free_net_inv4 dm.cni_contract_axioms])

section \<open>The node with both backends\<close>

text \<open>
  \<open>NewProviderConfig\<close> makes the backends the configuration enables. The world of the containerd
  client holds the state of the OSv backend too, which it has no way to use; the theorems do not
  rely on it staying away from it.
\<close>

definition full_node :: "(osv_state \<times> 'v) cd_tools \<Rightarrow> bool \<Rightarrow> 'v osv_tools \<Rightarrow> 'v CNIManager \<Rightarrow> string list \<Rightarrow>
    (osv_state \<times> 'v) provider \<Rightarrow> (osv_state \<times> 'v) provider" where
  "full_node c tty b nm enabled p = p\<lparr>
     backends := filter (\<lambda>(k, _). k \<in> set enabled)
       [(BackendContainerd, ContainerdBackend c tty (lift_manager nm)), (BackendOsv, OSvBackend b nm)],
     PodNetworkManager_ptr := Some (lift_manager nm)\<rparr>"

lemma world_free_seen: "world_free J \<Longrightarrow> world_free (seen J)"
  by (simp add: world_free_def)

lemma full_node_contract:
  assumes "world_free J" "cni_contract nm J"
  shows "node_contract (full_node c tty b nm enabled p) (seen J)"
proof (rule node_contract.intro)
  fix x
  assume "x \<in> snd ` set (backends (full_node c tty b nm enabled p))"
  then show "backend_contract x (seen J)"
    using osv_backend_contract [OF assms] containerd_contract [OF world_free_seen [OF assms(1)] lifted_contract [OF assms(2)]]
    by (auto simp: full_node_def split: if_splits)
qed (use assms lifted_contract [OF assms(2)] in \<open>auto simp: full_node_def world_free_def\<close>)

interpretation full_mr: node_contract "full_node c tty b (multi_runtime_manager k) en p" "seen net_inv4" for c tty b k en p
  by (rule full_node_contract [OF world_free_net_inv4 mr.cni_contract_axioms])

interpretation full_pl: node_contract "full_node c tty b (pod_local_manager k) en p" "seen net_inv4" for c tty b k en p
  by (rule full_node_contract [OF world_free_net_inv4 pl.cni_contract_axioms])

interpretation full_dm: node_contract "full_node c tty b (default_manager k) en p" "seen net_inv4" for c tty b k en p
  by (rule full_node_contract [OF world_free_net_inv4 dm.cni_contract_axioms])

end
