(* ===== verification/OsvProps.thy ===== *)
theory OsvProps
  imports ContainerdSpec NetProps NetBlocks SimNode
begin

text \<open>
  The properties of a node that runs unikernels: what the whole node keeps of its network, the life
  of an instance from its creation to the end of its machine, when the goroutine that waits for a
  machine can bring the process down, and how mounts are numbered.
\<close>

section \<open>A concrete set of tools\<close>

definition sim_tools :: "'v osv_tools" where
  "sim_tools = \<lparr>RepoPath = ''repo'', ConfigDir = ''conf'', QemuAioType = ''threads'',
     PJoin = join_with ''/'', PBase = (\<lambda>s. last (split_on (CHR ''/'') s)),
     SearchInstance = (\<lambda>n. ret (n, ''qemu'')), StopVM = (\<lambda>_. ret None), DeleteVM = (\<lambda>_. ret None),
     StoreConfig = (\<lambda>_. ret None),
     LoadVMConfig = (\<lambda>n. ret (\<lparr>vmc_Name = n, vm_Cmd = [], vm_InstanceDir = [], vm_Monitor = [], vm_ConfigFile = [],
       vm_AioType = [], vm_Image = [], vm_Memory = 0, vm_Cpus = 1, vm_Networking = [], vm_Bridge = [],
       vm_NatRules = [], vm_MAC = [], vm_VNCFile = []\<rparr>, None)),
     VMCommand = (\<lambda>_ args. ret (''qemu'' # args, None)), Stat = (\<lambda>_. ret None), IsNotExist = (\<lambda>_. True),
     MkdirAll = (\<lambda>_. ret None), RemoveAll = (\<lambda>_. ret None), CreateFile = (\<lambda>_. ret None),
     WriteFile = (\<lambda>_ _. ret None), OpenFile = (\<lambda>_. ret (Some [], None)), StartProc = (\<lambda>_. ret None),
     AvailablePort = ret (8080, None), Now = ret ''now'', MapOrder = (\<lambda>n. ret [0..<n]),
     osv_registry = sim_registry\<lparr>DecodeImage := (\<lambda>_. (\<lparr>Backend = ''osv'', Hypervisor = ''qemu''\<rparr>, None))\<rparr>,
     MarshalInfo = (\<lambda>_ _. ([], None)), ToTarReader = (\<lambda>s. (s, None)), GetTarReader = (\<lambda>s. (s, None)),
     TarNext = (\<lambda>_. ret (''disk.qemu'', None))\<rparr>"

lemma sim_tools_simps [simp]:
  "SearchInstance sim_tools = (\<lambda>n. ret (n, ''qemu''))" "StopVM sim_tools = (\<lambda>_. ret None)"
  "DeleteVM sim_tools = (\<lambda>_. ret None)" "StoreConfig sim_tools = (\<lambda>_. ret None)"
  "MkdirAll sim_tools = (\<lambda>_. ret None)" "Stat sim_tools = (\<lambda>_. ret None)" "IsNotExist sim_tools = (\<lambda>_. True)"
  "CreateFile sim_tools = (\<lambda>_. ret None)" "StartProc sim_tools = (\<lambda>_. ret None)" "Now sim_tools = ret ''now''"
  "VMCommand sim_tools = (\<lambda>_ args. ret (''qemu'' # args, None))"
  "\<exists>conf. LoadVMConfig sim_tools k w = (Done (conf, None), w)"
  "ImageGetConfig (osv_registry sim_tools) img w = (Done (\<lparr>Backend = ''osv'', Hypervisor = ''qemu''\<rparr>, None), w)"
  by (simp_all add: sim_tools_def ret_apply ImageGetConfig_def ImageGetConfigWithClient_def get_manifest_def
      sim_registry_def config_media_types_def list_media_types_def io_simps)

lemma quiet_vm [simp]: "cni_CreateVMTun quiet_manager = (\<lambda>_ _ _. ret ([], None, [], None))"
  by (simp add: quiet_manager_def)

abbreviation vm_inst :: inst where
  "vm_inst \<equiv> sim_instance (sim_pod ''ns'' ''a'' []) (sim_container ''c'' ''img'')"

definition osv_net :: "osv_state \<Rightarrow> (osv_state \<times> unit) net_state" where
  "osv_net st = \<lparr>heap = [], PodAddressManager = None, podNamespaces = [], podDevices = [], dn_bridge = None,
     kern = (st, ())\<rparr>"

lemma osv_net_simps [simp]: "kern (osv_net st) = (st, ())" "(osv_net st)\<lparr>kern := (st', ())\<rparr> = osv_net st'"
  "net_map (Pair st') (net_map snd (osv_net st)) = osv_net st'"
  by (simp_all add: osv_net_def net_map_def)

lemma osv_net_inj [simp]: "osv_net st = osv_net st' \<longleftrightarrow> st = st'"
  by (simp add: osv_net_def)

lemma vmProc_initial [simp]: "vmProc (initial_extras c) = []"
  by (simp add: initial_extras_def)

lemma osv_net_steps:
  "rest m (osv_net st) = (fst (m ()), osv_net st)"
  "own m' (osv_net st) = (fst (m' st), osv_net (snd (m' st)))"
  "lift_nio (ret a) (osv_net st) = (Done a, osv_net st)"
  by (simp_all add: rest_apply own_apply lift_apply ret_apply split: prod.split del: net_map_simps)

lemmas osv_eval = osv_net_steps bnd_apply ret_apply get_st_apply modify_apply deref_apply

abbreviation vm_container :: container where "vm_container \<equiv> sim_container ''c'' ''img''"

lemma vm_inst_simps [simp]:
  "ID vm_inst = ''ns_a_c''" "i_Container vm_inst = vm_container" "i_VolumeMounts vm_inst = []"
  "i_Metadata vm_inst = \<lparr>om_Namespace = ''ns'', om_Name = ''a'', om_Labels = []\<rparr>"
  "c_Ports vm_container = []" "c_Command vm_container = []" "c_Args vm_container = []"
  by (simp_all add: sim_instance_def sim_pod_def sim_container_def podAndContainerToIdentifier_def
      podToIdentifier_def joinIdentifierFromParts_def identifierSeparator_def)

lemma sim_osv_delete:
  "osv_DeleteInstance sim_tools vm_inst (osv_net st)
    = (Done None, osv_net (st\<lparr>instanceStatuses := AList.delete ''ns_a_c'' (instanceStatuses st)\<rparr>))"
  by (simp add: osv_DeleteInstance_def osv_eval)

lemma sim_osv_create:
  "\<exists>st'. osv_CreateInstance sim_tools quiet_manager vm_inst (osv_net st) = (Done None, osv_net st')
     \<and> waiters st' = waiters st \<and> length (cells st') = Suc (length (cells st))
     \<and> map_of (instanceStatuses st') ''ns_a_c'' = Some (length (cells st))
     \<and> map_of (instanceExtras st') ''ns_a_c'' = Some (initial_extras vm_container)"
proof -
  have image: "ensure_image sim_tools vm_container ''qemu'' () = (Done None, ())"
    by (simp add: ensure_image_def is_not_exist_def osv_eval sim_container_def)
  have store: "store_vm sim_tools vm_inst \<lparr>Backend = ''osv'', Hypervisor = ''qemu''\<rparr> cmd n d rs mac () = (Done None, ())"
    for cmd n d rs mac by (simp add: store_vm_def or_err_def osv_eval)
  show ?thesis
    by (simp add: osv_CreateInstance_def sim_osv_delete osv_eval image store network_options_def Let_def
        put_created_status_def update_conv')
qed

lemma sim_osv_start:
  assumes "map_of (instanceExtras st) ''ns_a_c'' = Some (initial_extras vm_container)"
    and "map_of (instanceStatuses st) ''ns_a_c'' = Some q"
  shows "osv_StartInstance sim_tools vm_inst (osv_net st)
    = (Done None, osv_net (add_waiter q ''ns_a_c'' (set_cell q (running_state ''now'') st)))"
proof -
  obtain conf where "LoadVMConfig sim_tools ''ns_a_c'' () = (Done (conf, None), ())"
    by (rule exE [OF sim_tools_simps(12)])
  with assms show ?thesis
    by (simp add: osv_StartInstance_def osv_eval set_state_def cell_defs Let_def)
qed

section \<open>The network of a node with unikernels\<close>

text \<open>The contract of the node with the stronger invariant, which also keeps pods apart.\<close>

lemma world_free_net_safe: "world_free net_safe"
  by (simp add: world_free_def)

interpretation safe_mr: node_contract "full_node c tty b (multi_runtime_manager k) en p" "seen net_safe" for c tty b k en p
  by (rule full_node_contract [OF world_free_net_safe net_safe_contracts(1)])

text \<open>
  C29. The whole IPv4 node together - the provider's operations, the containerd and OSv backends, whichever
  of them are enabled, and the multi-runtime network manager they share. It starts with an IPv4 address
  manager in order and without a pod that has a network. In every state that its operations lead to, one
  after the other, whatever the kernel, the registry, containerd and capstan answer and whether or not calls
  panicked: a pod has at most seven workloads, the first one has the pod's address plus one, the next one
  plus two and so on, and no address of a pod or of its workloads is one of another pod.
\<close>

theorem node_workloads:
  assumes "PodAddressManager (net s) = Some (AM4 am)" and "am_inv4 am" and "podDevices (net s) = []"
    and "node_reach (full_node c tty b (multi_runtime_manager k) enabled p) s t"
    and "(name, d) \<in> set (podDevices (net t))" and "addressesUsed d = Some al"
  shows "length al \<le> 7 \<and> distinct (map fst al)
    \<and> (\<forall>i < length al. fst (al ! i)
         = ip_string (be_bytes (be_uint32 (ip_bytes_of (heap (net t)) (baseAddr d)) + of_nat (i + 1))))
    \<and> (\<forall>(name', d') \<in> set (podDevices (net t)).
         name' = name \<or> addresses (heap (net t)) d \<inter> addresses (heap (net t)) d' = {})"
proof -
  have "net_safe (net_map snd (net s))"
    by (rule net_safe_start [where am = am]) (simp_all add: assms(1-3))
  then have safe: "net_safe (net_map snd (net t))" using safe_mr.node_reach_keeps [OF assms(4)] by simp
  then have "net_inv4 (net_map snd (net t))" by (simp add: net_safe_def)
  moreover have "name' = name \<or> addresses (heap (net t)) d \<inter> addresses (heap (net t)) d' = {}"
    if "(name', d') \<in> set (podDevices (net t))" for name' d'
    using addresses_disjoint [OF safe, of name d name' d'] assms(5) that by auto
  ultimately show ?thesis using workloads_of_inv [of "net_map snd (net t)" name d al] assms(5,6) by auto
qed

definition osv_node :: "(osv_state \<times> sim) provider_state" where
  "osv_node = no_pods (net_map (Pair NewOSvBackend) (sim_state (AM4 sample_am4) None))"

lemma osv_node_simps [simp]: "net_map snd (net osv_node) = sim_state (AM4 sample_am4) None"
  "pods osv_node = []" "fst (kern (net osv_node)) = NewOSvBackend"
  by (simp_all add: osv_node_def no_pods_def net_map_def)

theorem node_workloads_witness:
  "\<forall>c p. \<exists>t d al. node_reach (full_node c False sim_tools (multi_runtime_manager sim_kernel) [BackendContainerd, BackendOsv] p) osv_node t
     \<and> pods t \<noteq> [] \<and> podDevices (net t) = [(''default-a'', d)] \<and> addressesUsed d = Some al \<and> length al = 1
     \<and> distinct (map fst al)"
proof (intro allI)
  fix c :: "(osv_state \<times> sim) cd_tools" and p :: "(osv_state \<times> sim) provider"
  let ?p = "full_node c False sim_tools (multi_runtime_manager sim_kernel) [BackendContainerd, BackendOsv] p" and ?pd = "sim_pod ''default'' ''a'' []"
  obtain t0 d where t0: "InitPodNetwork sim_kernel ''default'' ''a'' (sim_state (AM4 sample_am4) None) = (Done None, t0)"
    "podDevices t0 = [(''default-a'', d)]"
    "addressesUsed d = Some [(ip_string (be_bytes 0x0A010209), Some (sim_link ''vethaaaa''))]"
    using sim_InitPodNetwork by blast
  define t where "t = snd (CreatePod ?p ?pd osv_node)"
  have t: "pods t \<noteq> []" "podDevices (net t) = [(''default-a'', d)]"
    using t0 by (simp_all add: t_def CreatePod_def io_simps network_manager_def full_node_def lift_manager_def
      multi_runtime_manager_def on_net_def lift_apply)
  have reach: "node_reach ?p osv_node t"
    unfolding t_def by (rule node_next [OF node_refl node_step.create])
  have "PodAddressManager (net osv_node) = Some (AM4 sample_am4)" "podDevices (net osv_node) = []"
    by (simp_all add: osv_node_def no_pods_def net_map_def sim_state_def)
  from node_workloads [OF this(1) am_inv4_sample this(2) reach, of "''default-a''" d] t t0(3) reach
  show "\<exists>t d al. node_reach ?p osv_node t \<and> pods t \<noteq> [] \<and> podDevices (net t) = [(''default-a'', d)]
      \<and> addressesUsed d = Some al \<and> length al = 1 \<and> distinct (map fst al)"
    by fastforce
qed

section \<open>Reachable states of the backend\<close>

text \<open>
  The calls on the backend and the ends of machines, in any order, with one condition: an instance
  whose machine runs is not started again.
\<close>

inductive osv_step :: "'v osv_tools \<Rightarrow> 'v CNIManager \<Rightarrow> (osv_state \<times> 'v) net_state \<Rightarrow>
    (osv_state \<times> 'v) net_state \<Rightarrow> bool" for b nm where
  osv_create: "osv_step b nm n (snd (osv_CreateInstance b nm i n))"
| osv_start: "(\<And>q. map_of (instanceStatuses (ost n)) (ID i) = Some q \<Longrightarrow> \<not> running_cell (ost n) q) \<Longrightarrow>
    osv_step b nm n (snd (osv_StartInstance b i n))"
| osv_update: "osv_step b nm n (snd (osv_UpdateInstance b nm i n))"
| osv_kill: "osv_step b nm n (snd (osv_KillInstance b i sig n))"
| osv_delete: "osv_step b nm n (snd (osv_DeleteInstance b i n))"
| osv_status: "osv_step b nm n (snd (osv_GetInstanceStatus i n))"
| osv_exited: "osv_step b nm n (snd (osv_exit b j ex n))"

inductive osv_reach :: "'v osv_tools \<Rightarrow> 'v CNIManager \<Rightarrow> (osv_state \<times> 'v) net_state \<Rightarrow>
    (osv_state \<times> 'v) net_state \<Rightarrow> bool" for b nm n where
  osv_refl: "osv_reach b nm n n"
| osv_next: "osv_reach b nm n t \<Longrightarrow> osv_step b nm t u \<Longrightarrow> osv_reach b nm n u"

inductive_cases osv_stepE: "osv_step b nm n t"

lemma ok_UpdateInstance: "keeps (\<lambda>n. osv_ok (ost n)) (osv_UpdateInstance b nm i)"
  unfolding osv_UpdateInstance_def by (intro keeps_ost ok_DeleteInstance ok_CreateInstance)

lemma ok_KillInstance: "keeps (\<lambda>n. osv_ok (ost n)) (osv_KillInstance b i sig)"
  unfolding osv_KillInstance_def by (intro keeps_ost)

lemma ok_GetInstanceStatus: "keeps (\<lambda>n. osv_ok (ost n)) (osv_GetInstanceStatus i)"
  unfolding osv_GetInstanceStatus_def by (intro keeps_ost_own keeps_intros)

lemmas osv_keeps = ok_CreateInstance ok_UpdateInstance ok_KillInstance ok_DeleteInstance ok_GetInstanceStatus

lemma osv_step_ok:
  assumes "osv_step b nm n t" "osv_ok (ost n)"
  shows "osv_ok (ost t)"
  using assms(1)
proof cases
  case (osv_start i)
  have "started (ID i) (ost n) (ost t)" using effect_start [of i b] osv_start(1) by (simp add: own_effect_def)
  from ok_started [OF this assms(2)] osv_start(2) show ?thesis by blast
next
  case (osv_exited j ex)
  have "exited j (ost n) (ost t)" using effect_exit [of j b ex] osv_exited by (simp add: own_effect_def)
  from ok_exited [OF this assms(2)] show ?thesis .
qed (use osv_keeps [THEN keeps_snd, of n, OF assms(2)] in \<open>simp_all\<close>)

lemma osv_reach_ok: "osv_reach b nm n t \<Longrightarrow> osv_ok (ost n) \<Longrightarrow> osv_ok (ost t)"
  by (induction rule: osv_reach.induct) (auto intro: osv_step_ok)

lemma exit_running:
  assumes "j < length (waiters (ost n))" "st_Running (cst_State (cells (ost n) ! w_status (waiters (ost n) ! j))) = Some (ApiObject t0)"
    and "Now b (snd (kern n)) = (Done now, v)"
  shows "osv_exit b j ex n = (Done (), n\<lparr>kern :=
     (set_cell (w_status (waiters (ost n) ! j)) (no_state\<lparr>st_Terminated := Some
         \<lparr>t_ExitCode = fst (ExecParseError ex), t_Message = snd (ExecParseError ex), t_StartedAt = t0, t_FinishedAt = now,
          t_ContainerID = w_ID (waiters (ost n) ! j)\<rparr>\<rparr>) (drop_waiter j (ost n)), v)\<rparr>)"
  using assms by (simp add: osv_exit_def io_simps Let_def set_state_def cell_defs split: prod.split)

text \<open>
  C30. In every state the backend reaches, provided no instance is started while its machine runs - a
  guard the code lacks: without it the end of a machine does panic - and whatever capstan, the registry and the file system answer: a status that is reported has
  exactly one of its three states, and the end of any machine that is waited for is recorded
  without a panic.
\<close>

theorem osv_statuses_and_exits:
  assumes "ost n = NewOSvBackend" and "osv_reach b nm n t"
    and "\<And>v. \<exists>now v'. Now b v = (Done now, v')"
  shows "(\<forall>i st u. osv_GetInstanceStatus i t = (Done (st, None), u) \<longrightarrow> one_state (cst_State st))
    \<and> fst (osv_exit b j ex t) = Done ()"
proof -
  have ok: "osv_ok (ost t)" using osv_reach_ok [OF assms(2)] assms(1) by simp
  have "one_state (cst_State st)" if "osv_GetInstanceStatus i t = (Done (st, None), u)" for i st u
  proof -
    from that obtain q where "map_of (instanceStatuses (ost t)) (ID i) = Some q" "st = cells (ost t) ! q"
      by (auto simp: osv_GetInstanceStatus_def io_simps split: option.splits)
    with ok show ?thesis by (force simp: osv_ok_def dest: map_of_SomeD)
  qed
  moreover have "fst (osv_exit b j ex t) = Done ()"
  proof (cases "j < length (waiters (ost t))")
    case True
    with ok have "running_cell (ost t) (w_status (waiters (ost t) ! j))" by (simp add: osv_ok_def)
    then obtain t0 where "st_Running (cst_State (cells (ost t) ! w_status (waiters (ost t) ! j))) = Some (ApiObject t0)"
      unfolding running_cell_def by (metis api_object.exhaust option.exhaust)
    moreover obtain now v' where "Now b (snd (kern t)) = (Done now, v')" using assms(3) by blast
    ultimately show ?thesis using exit_running [OF True] by simp
  qed (simp add: osv_exit_def io_simps)
  ultimately show ?thesis by blast
qed

definition osv_net0 :: "(osv_state \<times> unit) net_state" where "osv_net0 = osv_net NewOSvBackend"

lemma sim_osv_run:
  obtains st1 where
    "osv_CreateInstance sim_tools quiet_manager vm_inst osv_net0 = (Done None, osv_net st1)"
    "osv_StartInstance sim_tools vm_inst (osv_net st1)
      = (Done None, osv_net (add_waiter 0 ''ns_a_c'' (set_cell 0 (running_state ''now'') st1)))"
    "waiters st1 = []" "length (cells st1) = 1" "map_of (instanceStatuses st1) ''ns_a_c'' = Some 0"
    "map_of (instanceExtras st1) ''ns_a_c'' = Some (initial_extras vm_container)"
  using sim_osv_create [of NewOSvBackend] sim_osv_start
  by (auto simp: osv_net0_def NewOSvBackend_def)

lemma ost_net0: "ost osv_net0 = NewOSvBackend" "ost (osv_net st) = st"
  by (simp_all add: osv_net0_def)

theorem osv_statuses_and_exits_witness:
  "\<exists>t. osv_reach sim_tools quiet_manager osv_net0 t \<and> waiters (ost t) = [\<lparr>w_status = 0, w_ID = ''ns_a_c''\<rparr>]
    \<and> (\<exists>st u. osv_GetInstanceStatus vm_inst t = (Done (st, None), u) \<and> one_state (cst_State st))
    \<and> fst (osv_exit sim_tools 0 None t) = Done ()"
proof -
  obtain st1 where st1: "osv_CreateInstance sim_tools quiet_manager vm_inst osv_net0 = (Done None, osv_net st1)"
    "osv_StartInstance sim_tools vm_inst (osv_net st1)
      = (Done None, osv_net (add_waiter 0 ''ns_a_c'' (set_cell 0 (running_state ''now'') st1)))"
    "waiters st1 = []" "length (cells st1) = 1" "map_of (instanceStatuses st1) ''ns_a_c'' = Some 0"
    by (rule sim_osv_run)
  let ?t = "osv_net (add_waiter 0 ''ns_a_c'' (set_cell 0 (running_state ''now'') st1)) :: (osv_state \<times> unit) net_state"
  have created: "osv_reach sim_tools quiet_manager osv_net0 (osv_net st1)"
    using osv_next [OF osv_refl osv_create [of sim_tools quiet_manager osv_net0 vm_inst]] st1(1) by simp
  have "cst_State (cells st1 ! 0) = created_state"
    using ensures_Done [OF create_post _ st1(1)] st1(5) by simp
  then have "\<not> running_cell st1 0" by (simp add: running_cell_def created_state_def no_state_def)
  then have reach: "osv_reach sim_tools quiet_manager osv_net0 ?t"
    using osv_next [OF created osv_start [of "osv_net st1" vm_inst sim_tools quiet_manager]] st1(2,5) by simp
  have status: "osv_GetInstanceStatus vm_inst ?t = (Done ((cells st1 ! 0)\<lparr>cst_State := running_state ''now''\<rparr>, None), ?t)"
    using st1(4,5) by (simp add: osv_GetInstanceStatus_def osv_eval)
  from osv_statuses_and_exits [OF ost_net0(1) reach, of 0 None] status reach st1(3)
  show ?thesis by (intro exI [of _ ?t] conjI) (auto simp: ret_apply)
qed

section \<open>Starting twice\<close>

lemma then_rest:
  assumes "\<And>a. ensures (\<lambda>n. P (ost n)) (f a) Q (\<lambda>_. True)"
  shows "ensures (\<lambda>n. P (ost n)) (bnd (rest m) f) Q (\<lambda>_. True)"
  by (rule ensures_bnd [OF _ assms]) (auto simp: ensures_def rest_apply split: prod.split outcome.split)

lemma then_get:
  assumes "\<And>a. ensures (\<lambda>n. P (ost n)) (f a) Q (\<lambda>_. True)"
  shows "ensures (\<lambda>n. P (ost n)) (bnd (own get_st) f) Q (\<lambda>_. True)"
  by (rule ensures_bnd [OF _ assms]) (auto simp: ensures_def io_simps)

lemma start_grows_post:
  "ensures (\<lambda>n. length (waiters (ost n)) = m) (osv_StartInstance b i)
    (\<lambda>err n. err = None \<longrightarrow> length (waiters (ost n)) = Suc m) (\<lambda>_. True)"
proof -
  have last: "ensures (\<lambda>n. length (waiters (ost n)) = m)
      (bnd (own (bnd get_st (\<lambda>st. let ptr = map_of (instanceStatuses st) (ID i) in
         bnd (set_state ptr (running_state now)) (\<lambda>_.
         modify (\<lambda>st. st\<lparr>waiters := waiters st @ [\<lparr>w_status = the ptr, w_ID = ID i\<rparr>]\<rparr>))))) (\<lambda>_. ret None))
    (\<lambda>err n. err = (None :: goerr) \<longrightarrow> length (waiters (ost n)) = Suc m) (\<lambda>_. True)" for now
    by (auto simp: ensures_def own_apply io_simps Let_def set_state_def deref_def split: option.split)
  show ?thesis
    unfolding osv_StartInstance_def
    by (intro last then_rest [where P = "\<lambda>st. length (waiters st) = m"]
        then_get [where P = "\<lambda>st. length (waiters st) = m"] ensures_cases ensures_case_opt ensures_ret) auto
qed

lemma start_grows:
  assumes "osv_StartInstance b i n = (Done None, n')"
  shows "length (waiters (ost n')) = Suc (length (waiters (ost n)))"
  using ensures_Done [OF start_grows_post refl assms] by simp

lemma exit_Done:
  assumes "osv_exit b j ex n = (Done (), n')" "j < length (waiters (ost n))"
  obtains t where "ost n' = set_cell (w_status (waiters (ost n) ! j)) (no_state\<lparr>st_Terminated := Some t\<rparr>) (drop_waiter j (ost n))"
    "t_ExitCode t = fst (ExecParseError ex)" "t_Message t = snd (ExecParseError ex)" "t_ContainerID t = w_ID (waiters (ost n) ! j)"
  using assms by (auto simp: osv_exit_def io_simps deref_def Let_def set_state_def cell_defs split: prod.splits outcome.splits option.splits)

lemma start_state:
  assumes "osv_StartInstance b i n = (Done None, n')"
  obtains q now where "map_of (instanceStatuses (ost n)) (ID i) = Some q"
    "ost n' = add_waiter q (ID i) (set_cell q (running_state now) (ost n))"
proof -
  have "started (ID i) (ost n) (ost n')" by (rule own_effectD [OF effect_start assms])
  moreover have "ost n' \<noteq> ost n" using start_grows [OF assms] by force
  ultimately show thesis using that by (auto simp: started_def)
qed

text \<open>
  C32. \<open>StartInstance\<close> does not look whether the machine already runs. When it succeeds twice in a
  row, both goroutines hold the same status: the first machine that ends records its exit, and the
  goroutine of the other dereferences the running state that is gone, which ends the process.
\<close>

theorem osv_double_start_crashes:
  assumes "osv_ok (ost n)"
    and "osv_StartInstance b i n = (Done None, n1)" and "osv_StartInstance b i n1 = (Done None, n2)"
    and "osv_exit b (length (waiters (ost n2)) - 1) ex n2 = (Done (), n3)"
  shows "\<exists>n4. osv_exit b (length (waiters (ost n3)) - 1) ex' n3 = (Panic ''nil pointer dereference'', n4)"
proof -
  obtain q now where q: "map_of (instanceStatuses (ost n)) (ID i) = Some q"
    and n1: "ost n1 = add_waiter q (ID i) (set_cell q (running_state now) (ost n))"
    by (rule start_state [OF assms(2)])
  obtain q' now' where "map_of (instanceStatuses (ost n1)) (ID i) = Some q'"
    and "ost n2 = add_waiter q' (ID i) (set_cell q' (running_state now') (ost n1))"
    by (rule start_state [OF assms(3)])
  with q n1 have n2: "ost n2 = add_waiter q (ID i) (set_cell q (running_state now') (ost n1))" by simp
  have range: "q < length (cells (ost n2))"
    using assms(1) q n1 n2 by (auto simp: osv_ok_def dest: map_of_SomeD)
  let ?w = "\<lparr>w_status = q, w_ID = ID i\<rparr>"
  have ws: "waiters (ost n2) = waiters (ost n) @ [?w, ?w]" using n1 n2 by simp
  from exit_Done [OF assms(4)] ws obtain t where
    n3: "ost n3 = set_cell q (no_state\<lparr>st_Terminated := Some t\<rparr>) (drop_waiter (Suc (length (waiters (ost n)))) (ost n2))"
    by (auto simp: nth_append)
  have "waiters (ost n3) = waiters (ost n) @ [?w]" using n3 ws by (simp add: drop_waiter_def)
  moreover have "st_Running (cst_State (cells (ost n3) ! q)) = None"
    using n3 range by (simp add: drop_waiter_def set_cell_def no_state_def)
  ultimately show ?thesis by (simp add: osv_exit_def io_simps nth_append split: prod.split)
qed

lemma sim_osv_exit:
  assumes "j < length (waiters st)" "st_Running (cst_State (cells st ! w_status (waiters st ! j))) = Some (ApiObject t0)"
  shows "osv_exit sim_tools j ex (osv_net st) = (Done (), osv_net
     (set_cell (w_status (waiters st ! j)) (no_state\<lparr>st_Terminated := Some
         \<lparr>t_ExitCode = fst (ExecParseError ex), t_Message = snd (ExecParseError ex), t_StartedAt = t0, t_FinishedAt = ''now'',
          t_ContainerID = w_ID (waiters st ! j)\<rparr>\<rparr>) (drop_waiter j st)))"
  using exit_running [of j "osv_net st" t0 sim_tools "''now''" "()"] assms by (simp add: ret_apply)

theorem osv_double_start_crashes_witness:
  "\<exists>(n :: (osv_state \<times> unit) net_state) n1 n2 n3 n4. osv_StartInstance sim_tools vm_inst n = (Done None, n1)
    \<and> osv_StartInstance sim_tools vm_inst n1 = (Done None, n2)
    \<and> osv_exit sim_tools 1 None n2 = (Done (), n3)
    \<and> osv_exit sim_tools 0 None n3 = (Panic ''nil pointer dereference'', n4)"
proof -
  obtain st1 where st1: "osv_CreateInstance sim_tools quiet_manager vm_inst osv_net0 = (Done None, osv_net st1)"
    "waiters st1 = []" "length (cells st1) = 1" "map_of (instanceStatuses st1) ''ns_a_c'' = Some 0"
    "map_of (instanceExtras st1) ''ns_a_c'' = Some (initial_extras vm_container)"
    by (rule sim_osv_run)
  have ok: "osv_ok (ost (osv_net st1 :: (osv_state \<times> unit) net_state))"
    using keepsD [OF ok_CreateInstance _ st1(1)] by (simp add: ost_net0)
  let ?go = "\<lambda>st. add_waiter 0 ''ns_a_c'' (set_cell 0 (running_state ''now'') st)"
  note start1 = sim_osv_start [OF st1(5,4)]
  have start2: "osv_StartInstance sim_tools vm_inst (osv_net (?go st1)) = (Done None, osv_net (?go (?go st1)))"
    by (rule sim_osv_start) (use st1(4,5) in \<open>simp_all add: cell_defs\<close>)
  have w: "waiters (?go (?go st1)) = [\<lparr>w_status = 0, w_ID = ''ns_a_c''\<rparr>, \<lparr>w_status = 0, w_ID = ''ns_a_c''\<rparr>]"
    using st1(2) by simp
  have "st_Running (cst_State (cells (?go (?go st1)) ! w_status (waiters (?go (?go st1)) ! 1))) = Some (ApiObject ''now'')"
    using w st1(3) by (simp add: running_state_def)
  from sim_osv_exit [OF _ this] w obtain st3 where
    exit1: "osv_exit sim_tools 1 None (osv_net (?go (?go st1))) = (Done (), osv_net st3)" and "length (waiters st3) = 1"
    by (simp add: drop_waiter_def)
  then have crash: "\<exists>n4. osv_exit sim_tools 0 None (osv_net st3) = (Panic ''nil pointer dereference'', n4)"
    using osv_double_start_crashes [OF ok start1 start2, of None "osv_net st3" None] st1(2) by (simp add: ost_net0)
  show ?thesis
    by (rule exI [of _ "osv_net st1"], rule exI [of _ "osv_net (?go st1)"],
        rule exI [of _ "osv_net (?go (?go st1))"], rule exI [of _ "osv_net st3"])
      (use start1 start2 exit1 crash in simp)
qed

section \<open>The life of an instance\<close>

text \<open>
  C33. From its creation to the end of its machine, an instance is reported as waiting, then as
  running, then as terminated with the exit code and the message made from the process's error;
  in all three reports \<open>Started\<close> is false.
\<close>

theorem osv_lifecycle:
  assumes "osv_ok (ost n)" and "osv_CreateInstance b nm i n = (Done None, n1)"
    and "osv_StartInstance b i n1 = (Done None, n2)"
    and "osv_exit b (length (waiters (ost n2)) - 1) ex n2 = (Done (), n3)"
  shows "\<exists>st1 st2 st3 now t. osv_GetInstanceStatus i n1 = (Done (st1, None), n1)
    \<and> osv_GetInstanceStatus i n2 = (Done (st2, None), n2) \<and> osv_GetInstanceStatus i n3 = (Done (st3, None), n3)
    \<and> cst_State st1 = created_state \<and> cst_Started st1 = Some False
    \<and> st2 = st1\<lparr>cst_State := running_state now\<rparr>
    \<and> st3 = st1\<lparr>cst_State := no_state\<lparr>st_Terminated := Some t\<rparr>\<rparr>
    \<and> (t_ExitCode t, t_Message t) = ExecParseError ex \<and> t_ContainerID t = ID i"
proof -
  obtain q where q: "map_of (instanceStatuses (ost n1)) (ID i) = Some q" "q < length (cells (ost n1))"
    "cst_State (cells (ost n1) ! q) = created_state" "cst_Started (cells (ost n1) ! q) = Some False"
    using ensures_Done [OF create_post _ assms(2)] by blast
  obtain q' now where "map_of (instanceStatuses (ost n1)) (ID i) = Some q'"
    and "ost n2 = add_waiter q' (ID i) (set_cell q' (running_state now) (ost n1))"
    by (rule start_state [OF assms(3)])
  with q have n2: "ost n2 = add_waiter q (ID i) (set_cell q (running_state now) (ost n1))" by simp
  obtain t where t: "ost n3 = set_cell q (no_state\<lparr>st_Terminated := Some t\<rparr>) (drop_waiter (length (waiters (ost n1))) (ost n2))"
    "t_ExitCode t = fst (ExecParseError ex)" "t_Message t = snd (ExecParseError ex)" "t_ContainerID t = ID i"
    by (rule exit_Done [OF assms(4)]) (use n2 in \<open>simp_all add: nth_append\<close>)
  have "osv_GetInstanceStatus i m = (Done (cells (ost m) ! q, None), m)"
    if "map_of (instanceStatuses (ost m)) (ID i) = Some q" for m :: "(osv_state \<times> 'a) net_state"
    using that by (simp add: osv_GetInstanceStatus_def io_simps)
  moreover have "cells (ost n2) ! q = (cells (ost n1) ! q)\<lparr>cst_State := running_state now\<rparr>"
    using n2 q(2) by simp
  moreover have "cells (ost n3) ! q = (cells (ost n1) ! q)\<lparr>cst_State := no_state\<lparr>st_Terminated := Some t\<rparr>\<rparr>"
    using t(1) n2 q(2) by (simp add: drop_waiter_def set_cell_def add_waiter_def)
  ultimately show ?thesis
    using q n2 t by (intro exI conjI) (auto simp: drop_waiter_def)
qed

theorem osv_lifecycle_witness:
  "\<exists>(n :: (osv_state \<times> unit) net_state) n1 n2 n3 st3 t.
    osv_CreateInstance sim_tools quiet_manager vm_inst n = (Done None, n1)
    \<and> osv_StartInstance sim_tools vm_inst n1 = (Done None, n2)
    \<and> osv_exit sim_tools 0 (Some (ExitError 3)) n2 = (Done (), n3)
    \<and> osv_GetInstanceStatus vm_inst n3 = (Done (st3, None), n3)
    \<and> cst_State st3 = no_state\<lparr>st_Terminated := Some t\<rparr> \<and> t_ExitCode t = 3"
proof -
  obtain st1 where st1: "osv_CreateInstance sim_tools quiet_manager vm_inst osv_net0 = (Done None, osv_net st1)"
    "osv_StartInstance sim_tools vm_inst (osv_net st1)
      = (Done None, osv_net (add_waiter 0 ''ns_a_c'' (set_cell 0 (running_state ''now'') st1)))"
    "waiters st1 = []" "length (cells st1) = 1"
    by (rule sim_osv_run)
  let ?st2 = "add_waiter 0 ''ns_a_c'' (set_cell 0 (running_state ''now'') st1)"
  have "st_Running (cst_State (cells ?st2 ! w_status (waiters ?st2 ! 0))) = Some (ApiObject ''now'')"
    using st1(3,4) by (simp add: running_state_def)
  from sim_osv_exit [OF _ this] st1(3) obtain st3 where
    exit: "osv_exit sim_tools 0 (Some (ExitError 3)) (osv_net ?st2) = (Done (), osv_net st3)" by simp
  have ok: "osv_ok (ost osv_net0)" by (simp add: ost_net0)
  have code: "fst (ExecParseError (Some (ExitError 3))) = 3" by (simp add: ExecParseError_def)
  from osv_lifecycle [OF ok st1(1,2), of "Some (ExitError 3)" "osv_net st3"] exit st1(3)
  obtain st t where "osv_GetInstanceStatus vm_inst (osv_net st3) = (Done (st, None), osv_net st3)"
    "cst_State st = no_state\<lparr>st_Terminated := Some t\<rparr>" "t_ExitCode t = 3"
    using code by (auto simp: ost_net0 dest: arg_cong [of "(_, _)" _ fst])
  with st1(1,2) exit show ?thesis by blast
qed

section \<open>Exit codes\<close>

text \<open>
  \<open>ExecParseError\<close> gives 0 for a process that ended well, its own code for one that exited,
  and -1 otherwise; but the message of one that exited says code 0 whatever the code was, because
  the tuple assignment formats the old value of \<open>exitCode\<close>.
\<close>

lemma ExecParseError_message:
  "fst (ExecParseError err) = (case err of None \<Rightarrow> 0 | Some (ExitError code) \<Rightarrow> code | Some (OtherError _) \<Rightarrow> - 1)
    \<and> (\<forall>code. snd (ExecParseError (Some (ExitError code))) = ''exited with code 0'')"
proof -
  have "itoa_int 0 = ''0''" by code_simp
  then show ?thesis by (simp add: ExecParseError_def split: option.split exec_error.split)
qed

section \<open>Mounts\<close>

text \<open>Which character device a mount uses, and the arguments that come with it.\<close>

definition is_configmap :: "volume_mount \<times> instance_volume \<Rightarrow> bool" where
  "is_configmap m \<longleftrightarrow> v_HostPath (iv_Volume (snd m)) = None \<and> iv_Secret (snd m) = None
     \<and> v_NFS (iv_Volume (snd m)) = None \<and> iv_ConfigMap (snd m) \<noteq> None"

definition chardev :: "nat \<times> volume_mount \<times> instance_volume \<Rightarrow> string list" where
  "chardev km = (if v_HostPath (iv_Volume (snd (snd km))) \<noteq> None then [''char'' @ itoa (fst km)]
     else if is_configmap (snd km) then [''char0''] else [])"

definition mount_args :: "'v osv_tools \<Rightarrow> nat \<times> volume_mount \<times> instance_volume \<Rightarrow> string list" where
  "mount_args b km = concat (map (\<lambda>c. virtiofs_args c (PJoin b [volumesDir b, iv_ID (snd (snd km)) @ ''.sock''])
     (v_Name (iv_Volume (snd (snd km))))) (chardev km))"

lemma stat_first:
  assumes "bnd m (\<lambda>err. case err of Some e \<Rightarrow> ret (Inl e) | None \<Rightarrow> k) s = (Done (Inr ex), t)"
  obtains s' where "k s' = (Done (Inr ex), t)"
  using assms by (auto elim!: bnd_DoneE simp: ret_apply split: option.splits)

lemma getVolumeMountExtras_args:
  assumes run: "getVolumeMountExtras b i idx m s = (Done (Inr ex), t)"
  shows "vmArgs ex = mount_args b (idx, m)"
proof -
  obtain vm iv where m: "m = (vm, iv)" by fastforce
  note kind = mount_args_def chardev_def is_configmap_def m no_extras_def
  from run show ?thesis
    unfolding getVolumeMountExtras_def m Let_def prod.case
    apply (elim stat_first)
    apply (cases "v_HostPath (iv_Volume iv)")
    subgoal
      apply (cases "iv_Secret iv"; cases "v_NFS (iv_Volume iv)"; cases "iv_ConfigMap iv"; cases "iv_Projected iv")
      by (auto elim!: stat_first simp: kind ret_apply)
    subgoal
      apply simp
      apply (erule bnd_DoneE)
      by (auto elim!: stat_first simp: kind ret_apply)
    done
qed

lemma char_inj: "''char'' @ itoa j = ''char'' @ itoa k \<longleftrightarrow> j = k"
  using radix_inj [of 10 j k] by auto

lemma chardevs_distinct:
  "\<forall>m \<in> set ms. \<not> is_configmap m \<Longrightarrow>
    distinct (concat (map chardev (enumerate idx ms)))
    \<and> set (concat (map chardev (enumerate idx ms))) \<subseteq> (\<lambda>k. ''char'' @ itoa k) ` {idx..<idx + length ms}"
proof (induction ms arbitrary: idx)
  case (Cons m ms)
  let ?rest = "concat (map chardev (enumerate (Suc idx) ms))"
  have "distinct ?rest" and sub: "set ?rest \<subseteq> (\<lambda>k. ''char'' @ itoa k) ` {Suc idx..<Suc idx + length ms}"
    using Cons.IH [of "Suc idx"] Cons.prems by auto
  moreover have "''char'' @ itoa idx \<notin> set ?rest" using sub char_inj by auto
  moreover have "chardev (idx, m) \<in> {[], [''char'' @ itoa idx]}" using Cons.prems by (auto simp: chardev_def)
  moreover have "(\<lambda>k. ''char'' @ itoa k) ` {Suc idx..<Suc idx + length ms} \<subseteq> (\<lambda>k. ''char'' @ itoa k) ` {idx..<idx + length (m # ms)}"
    by (rule image_mono) auto
  ultimately show ?case by auto
qed simp

text \<open>
  The loop over the mounts of an instance gives qemu, for each mount in order, the arguments of
  its kind. As long as no ConfigMap is mounted all character devices have different names; two
  mounted ConfigMaps always share the name \<open>char0\<close>.
\<close>

theorem osv_mount_devices:
  assumes "mount_extras b i idx ex ms s = (Done (Inr ex'), t)"
  shows "vmArgs ex' = vmArgs ex @ concat (map (mount_args b) (enumerate idx ms))
    \<and> ((\<forall>m \<in> set ms. \<not> is_configmap m) \<longrightarrow> distinct (concat (map chardev (enumerate idx ms))))
    \<and> (\<forall>j k. j < k \<and> k < length ms \<and> is_configmap (ms ! j) \<and> is_configmap (ms ! k) \<longrightarrow>
        chardev (idx + j, ms ! j) = [''char0''] \<and> chardev (idx + k, ms ! k) = [''char0''])"
proof -
  have "vmArgs ex' = vmArgs ex @ concat (map (mount_args b) (enumerate idx ms))"
    using assms
  proof (induction ms arbitrary: idx ex s)
    case Nil
    then show ?case by (simp add: io_simps)
  next
    case (Cons m ms)
    from Cons.prems obtain other s' where "getVolumeMountExtras b i idx m s = (Done (Inr other), s')"
      and rest: "mount_extras b i (Suc idx) (extendWith ex other) ms s' = (Done (Inr ex'), t)"
      by (auto simp: io_simps split: prod.splits outcome.splits sum.splits)
    have "vmArgs other = mount_args b (idx, m)"
      by (rule getVolumeMountExtras_args) fact
    with Cons.IH [OF rest] show ?case by (simp add: extendWith_def)
  qed
  with chardevs_distinct [of ms idx] show ?thesis by (auto simp: chardev_def is_configmap_def)
qed

definition sim_config_mount :: "string \<Rightarrow> volume_mount \<times> instance_volume" where
  "sim_config_mount n = (\<lparr>vm_Name = n, vm_MountPath = ''/'' @ n, vm_ReadOnly = True\<rparr>,
     \<lparr>iv_ID = n, iv_Volume = \<lparr>v_Name = n, v_HostPath = None, v_EmptyDir = None, v_Secret = None, v_NFS = None,
        v_ConfigMap = Some \<lparr>cs_Name = n, cs_Optional = None\<rparr>, v_Projected = None\<rparr>, iv_Secret = None,
      iv_ConfigMap = Some (\<lparr>cs_Name = n, cs_Optional = None\<rparr>, \<lparr>cm_Name = n, cm_Data = [(''k'', ''v'')]\<rparr>), iv_Projected = None\<rparr>)"

lemma sim_getVolumeMountExtras:
  "\<exists>ex. getVolumeMountExtras sim_tools vm_inst idx (sim_config_mount n) () = (Done (Inr ex), ())"
  by (simp add: getVolumeMountExtras_def sim_config_mount_def Let_def io_simps write_files_def range_list_def
      sim_tools_def is_not_exist_def)

theorem osv_mount_devices_witness:
  "\<exists>ex. mount_extras sim_tools vm_inst 0 no_extras [sim_config_mount ''p'', sim_config_mount ''q''] () = (Done (Inr ex), ())
    \<and> chardev (0, sim_config_mount ''p'') = [''char0''] \<and> chardev (1, sim_config_mount ''q'') = [''char0'']"
proof -
  let ?ms = "[sim_config_mount ''p'', sim_config_mount ''q'']"
  obtain e1 where e1: "getVolumeMountExtras sim_tools vm_inst 0 (sim_config_mount ''p'') () = (Done (Inr e1), ())"
    using sim_getVolumeMountExtras by blast
  obtain e2 where e2: "getVolumeMountExtras sim_tools vm_inst (Suc 0) (sim_config_mount ''q'') () = (Done (Inr e2), ())"
    using sim_getVolumeMountExtras by blast
  have run: "mount_extras sim_tools vm_inst 0 no_extras ?ms () = (Done (Inr (extendWith (extendWith no_extras e1) e2)), ())"
    using e1 e2 by (simp add: io_simps)
  have cm: "is_configmap (sim_config_mount n)" for n by (simp add: is_configmap_def sim_config_mount_def)
  from osv_mount_devices [OF run] have "\<forall>j k. j < k \<and> k < length ?ms \<and> is_configmap (?ms ! j) \<and> is_configmap (?ms ! k) \<longrightarrow>
        chardev (0 + j, ?ms ! j) = [''char0''] \<and> chardev (0 + k, ?ms ! k) = [''char0'']" by blast
  from this [rule_format, of 0 1] cm run show ?thesis by auto
qed

end
