(* ===== verification/ContainerdProps.thy ===== *)
theory ContainerdProps
  imports ContainerdSpec SimNode
begin

text \<open>
  The properties of the containerd backend: how the environment is put into the arguments, what a
  container is mounted, made and networked with, what a missing secret does, and that a process
  run in a container is always released.
\<close>

section \<open>Arguments\<close>

lemma expand_env_eq:
  "expand_env es imageArgs env =
    (map (\<lambda>a. fold (\<lambda>e. replace_all (''$('' @ ev_Name (known_env e) @ '')'') (ev_Value (known_env e))) es a) imageArgs,
     env @ map (\<lambda>e. ev_Name (known_env e) @ ''='' @ go_quote (ev_Value (known_env e))) es)"
  by (induction es arbitrary: imageArgs env) (simp_all add: Let_def comp_def)

lemma replace_all_absent: "x \<in> set old \<Longrightarrow> x \<notin> set s \<Longrightarrow> replace_all old new s = s"
proof (induction s)
  case (Cons c cs)
  then have "\<not> has_prefix (c # cs) old" by (metis has_prefix_def in_set_takeD)
  with Cons show ?case by simp
qed simp

lemma fold_unchanged: "(\<And>x. x \<in> set xs \<Longrightarrow> f x a = a) \<Longrightarrow> fold f xs a = a"
  by (induction xs) auto

text \<open>
  What the arguments are meant to be: an argument is made of text and of references \<open>$(NAME)\<close>, and its value
  has, for each reference, the value of the first variable of that name, or the reference itself when there
  is none. A variable with a source is no variable of its own name: it counts as an empty one called \<open>DUMMY\<close>.
\<close>

datatype arg_part = Literal string | Reference string

fun part_text :: "arg_part \<Rightarrow> string" where
  "part_text (Literal s) = s"
| "part_text (Reference n) = ''$('' @ n @ '')''"

definition arg_text :: "arg_part list \<Rightarrow> string" where
  "arg_text ps = concat (map part_text ps)"

definition var_of :: "env_var \<Rightarrow> string \<times> string" where
  "var_of e = (if ev_ValueFrom e = None then (ev_Name e, ev_Value e) else (''DUMMY'', []))"

fun part_value :: "env_var list \<Rightarrow> arg_part \<Rightarrow> string" where
  "part_value es (Literal s) = s"
| "part_value es (Reference n) = (case map_of (map var_of es) n of None \<Rightarrow> ''$('' @ n @ '')'' | Some v \<Rightarrow> v)"

definition clean_name :: "string \<Rightarrow> bool" where
  "clean_name n \<longleftrightarrow> CHR ''$'' \<notin> set n \<and> CHR '')'' \<notin> set n"

fun clean_part :: "arg_part \<Rightarrow> bool" where
  "clean_part (Literal s) \<longleftrightarrow> CHR ''$'' \<notin> set s"
| "clean_part (Reference n) \<longleftrightarrow> clean_name n"

lemma known_env_var: "ev_Name (known_env e) = fst (var_of e)" "ev_Value (known_env e) = snd (var_of e)"
  by (simp_all add: known_env_def var_of_def)

lemma replace_skip:
  "CHR ''$'' \<notin> set s \<Longrightarrow> replace_all (CHR ''$'' # old) v (s @ t) = s @ replace_all (CHR ''$'' # old) v t"
  by (induction s) (auto simp: has_prefix_iff)

lemma ref_prefix:
  assumes "clean_name n" "clean_name m"
  shows "has_prefix (''$('' @ n @ '')'' @ t) (''$('' @ m @ '')'') \<longleftrightarrow> n = m"
proof
  have before: "takeWhile (\<lambda>c. c \<noteq> CHR '')'') (k @ CHR '')'' # u) = k" if "clean_name k" for k u
    using that by (subst takeWhile_append2) (auto simp: clean_name_def)
  assume "has_prefix (''$('' @ n @ '')'' @ t) (''$('' @ m @ '')'')"
  then obtain u where "n @ CHR '')'' # t = m @ CHR '')'' # u" by (auto simp: has_prefix_iff)
  with before [OF assms(1), of t] before [OF assms(2), of u] show "n = m" by simp
qed (auto simp: has_prefix_iff)

lemma replace_ref:
  assumes "clean_name n" "clean_name m"
  shows "replace_all (''$('' @ m @ '')'') v (part_text (Reference n) @ t)
    = (if n = m then v else part_text (Reference n)) @ replace_all (''$('' @ m @ '')'') v t"
proof (cases "n = m")
  case True
  with ref_prefix [OF assms, of t] show ?thesis by simp
next
  case False
  with ref_prefix [OF assms, of t]
  have "replace_all (''$('' @ m @ '')'') v (part_text (Reference n) @ t)
      = CHR ''$'' # replace_all (''$('' @ m @ '')'') v ((''('' @ n @ '')'') @ t)" by simp
  also have "\<dots> = CHR ''$'' # (''('' @ n @ '')'') @ replace_all (''$('' @ m @ '')'') v t"
    using assms(1) replace_skip [of "''('' @ n @ '')''" "''('' @ m @ '')''" v t] by (simp add: clean_name_def)
  finally show ?thesis using False by simp
qed

text \<open>Replacing one variable in an argument is replacing its references.\<close>

fun put_value :: "string \<times> string \<Rightarrow> arg_part \<Rightarrow> arg_part" where
  "put_value (m, v) (Reference n) = (if n = m then Literal v else Reference n)"
| "put_value mv (Literal s) = Literal s"

lemma replace_in_arg:
  assumes "clean_name m" "\<forall>p \<in> set ps. clean_part p"
  shows "replace_all (''$('' @ m @ '')'') v (arg_text ps) = arg_text (map (put_value (m, v)) ps)"
  using assms(2)
proof (induction ps)
  case Nil
  then show ?case by (simp add: arg_text_def)
next
  case (Cons p ps)
  then have IH: "replace_all (''$('' @ m @ '')'') v (concat (map part_text ps))
      = concat (map part_text (map (put_value (m, v)) ps))" by (simp add: arg_text_def)
  show ?case
  proof (cases p)
    case (Literal s)
    with Cons.prems IH replace_skip [of s "''('' @ m @ '')''" v] show ?thesis by (simp add: arg_text_def)
  next
    case (Reference n)
    with Cons.prems have "clean_name n" by simp
    from replace_ref [OF this assms(1), of v "concat (map part_text ps)"] IH Reference show ?thesis
      by (simp add: arg_text_def)
  qed
qed

lemma fold_replace_arg:
  assumes "\<forall>(n, v) \<in> set (map var_of es). clean_name n \<and> CHR ''$'' \<notin> set v" "\<forall>p \<in> set ps. clean_part p"
  shows "fold (\<lambda>e. replace_all (''$('' @ ev_Name (known_env e) @ '')'') (ev_Value (known_env e))) es (arg_text ps)
    = concat (map (part_value es) ps)"
  using assms
proof (induction es arbitrary: ps)
  case Nil
  have "part_value [] p = part_text p" for p by (cases p) simp_all
  then show ?case by (simp add: arg_text_def)
next
  case (Cons e es)
  obtain m v where e: "var_of e = (m, v)" by fastforce
  with Cons.prems(1) have mv: "clean_name m" "CHR ''$'' \<notin> set v" by auto
  have clean: "\<forall>p \<in> set (map (put_value (m, v)) ps). clean_part p"
  proof
    fix q
    assume "q \<in> set (map (put_value (m, v)) ps)"
    then obtain p where "p \<in> set ps" "q = put_value (m, v) p" by auto
    with Cons.prems(2) mv(2) show "clean_part q" by (cases p) auto
  qed
  have "part_value es (put_value (m, v) p) = part_value (e # es) p" for p
    using e by (cases p) auto
  then have "concat (map (part_value es) (map (put_value (m, v)) ps)) = concat (map (part_value (e # es)) ps)"
    by (simp add: comp_def)
  with Cons.IH [of "map (put_value (m, v)) ps"] Cons.prems(1) clean replace_in_arg [OF mv(1) Cons.prems(2), of v] e
  show ?case by (simp add: known_env_var)
qed

text \<open>Characters that \<open>%q\<close> leaves alone.\<close>

definition unescaped :: "char \<Rightarrow> bool" where
  "unescaped c \<longleftrightarrow> (let n = of_char c :: nat in n \<noteq> 0x22 \<and> n \<noteq> 0x5C \<and> 0x20 \<le> n \<and> n < 0x7F)"

lemma quote_unescaped: "\<forall>c \<in> set s. unescaped c \<Longrightarrow> go_quote s = CHR 0x22 # s @ [CHR 0x22]"
proof -
  assume "\<forall>c \<in> set s. unescaped c"
  then have "concat (map quote_char s) = s"
  proof (induction s)
    case (Cons c s)
    then have c: "unescaped c" by simp
    then have "quote_char c = [c]" by (simp add: quote_char_def unescaped_def Let_def)
    with Cons show ?case by simp
  qed simp
  then show ?thesis by (simp add: go_quote_def)
qed

text \<open>
  C36. The nested loops over environment and arguments compute what the arguments are meant to be: for
  arguments made of text without a dollar sign and of references, and variables whose values have no dollar
  sign, every reference is replaced by the value of the first variable of its name, and nothing else changes;
  a variable with a source (\<open>valueFrom\<close>) is not replaced. The environment that is passed on has one entry
  per variable, whose value stands in quotes: for printable text without quotes and backslashes exactly
  \<open>NAME="value"\<close>, and \<open>DUMMY=""\<close> for a variable with a source.
\<close>

theorem expand_env_substitutes:
  assumes "\<forall>(n, v) \<in> set (map var_of es). clean_name n \<and> CHR ''$'' \<notin> set v"
    and "\<forall>ps \<in> set args. \<forall>p \<in> set ps. clean_part p"
  shows "fst (expand_env es (map arg_text args) []) = map (\<lambda>ps. concat (map (part_value es) ps)) args
    \<and> length (snd (expand_env es (map arg_text args) [])) = length es
    \<and> (\<forall>k < length es. (\<forall>c \<in> set (snd (var_of (es ! k))). unescaped c) \<longrightarrow>
        snd (expand_env es (map arg_text args) []) ! k
          = fst (var_of (es ! k)) @ [CHR ''='', CHR 0x22] @ snd (var_of (es ! k)) @ [CHR 0x22])"
proof (intro conjI)
  have "fold (\<lambda>e. replace_all (''$('' @ ev_Name (known_env e) @ '')'') (ev_Value (known_env e))) es (arg_text ps)
      = concat (map (part_value es) ps)" if "ps \<in> set args" for ps
    using fold_replace_arg [OF assms(1)] assms(2) that by blast
  then show "fst (expand_env es (map arg_text args) []) = map (\<lambda>ps. concat (map (part_value es) ps)) args"
    unfolding expand_env_eq by simp
qed (auto simp: expand_env_eq known_env_var quote_unescaped)

text \<open>Two references to one variable, an unknown name, a variable with a source.\<close>

definition sim_env :: "env_var list" where
  "sim_env = [\<lparr>ev_Name = ''A'', ev_Value = ''x y'', ev_ValueFrom = None\<rparr>,
     \<lparr>ev_Name = ''KEY'', ev_Value = ''z'', ev_ValueFrom = Some (ApiObject [])\<rparr>]"

theorem expand_env_substitutes_witness:
  "fst (expand_env sim_env [''run'', ''$(A)-$(A)'', ''$(B)$(KEY)''] []) = [''run'', ''x y-x y'', ''$(B)$(KEY)'']
   \<and> snd (expand_env sim_env [''run'', ''$(A)-$(A)'', ''$(B)$(KEY)''] []) ! 1 = ''DUMMY='' @ [CHR 0x22, CHR 0x22]"
  using expand_env_substitutes [of sim_env
      "[[Literal ''run''], [Reference ''A'', Literal ''-'', Reference ''A''], [Reference ''B'', Reference ''KEY'']]"]
  by (simp add: sim_env_def var_of_def clean_name_def arg_text_def)

text \<open>A value with a reference in it is expanded again, by the variables after its own only.\<close>

lemma expand_again:
  "fst (expand_env [\<lparr>ev_Name = ''A'', ev_Value = ''x$(B)'', ev_ValueFrom = None\<rparr>, \<lparr>ev_Name = ''B'', ev_Value = ''y$(A)'', ev_ValueFrom = None\<rparr>]
     [''$(A)''] []) = [''xy$(A)'']"
  by (simp add: known_env_def has_prefix_def)

text \<open>
  When the array of the command has room for the arguments - always when there are none - the
  expansion is written into the command of the pod itself.
\<close>

lemma command_overwritten:
  "c_Args c = [] \<Longrightarrow> length (c_Command c) \<le> cap \<Longrightarrow>
    command_after cap c = fst (expand_env (c_Env c) (c_Command c) [])"
  by (simp add: command_after_def expand_env_eq)

section \<open>Mounts\<close>

text \<open>What one mount of an instance contributes.\<close>

definition mount_group :: "'w cd_tools \<Rightarrow> volume_mount \<times> instance_volume \<Rightarrow> mount list \<Rightarrow> bool" where
  "mount_group b m g = (case m of (vm, iv) \<Rightarrow>
     let v = iv_Volume iv; ro = (if vm_ReadOnly vm then [''ro''] else []) in
     case v_HostPath v of
       Some hp \<Rightarrow> g = [bind_mount (hp_Path hp) (vm_MountPath vm) (''bind'' # ro)]
     | None \<Rightarrow>
     if v_EmptyDir v \<noteq> None \<or> iv_Secret iv \<noteq> None \<or> v_NFS v \<noteq> None then g = []
     else case iv_ConfigMap iv of
       Some (_, cm) \<Rightarrow> (\<exists>dir l v v'. cd_MkdirTemp b v = (Done (dir, None), v') \<and> mset l = mset (cm_Data cm)
         \<and> g = map (\<lambda>(path, _). bind_mount (cd_PJoin b [dir, path]) (cd_PJoin b [vm_MountPath vm, path])
             [''rbind'', if vm_ReadOnly vm then ''ro'' else ''rw'']) l)
     | None \<Rightarrow> iv_Projected iv \<noteq> None \<and> g = [bind_mount (cd_volumeDir b iv) (vm_MountPath vm) (''rbind'' # ro)])"

lemma configmap_mounts_group:
  "configmap_mounts b dir vm l mounts w = (Done (Inr r), w') \<Longrightarrow>
    r = mounts @ map (\<lambda>(path, _). bind_mount (cd_PJoin b [dir, path]) (cd_PJoin b [vm_MountPath vm, path])
       [''rbind'', if vm_ReadOnly vm then ''ro'' else ''rw'']) l"
proof (induction l arbitrary: mounts w)
  case (Cons kv kvs)
  obtain p d where kv: "kv = (p, d)" by fastforce
  from Cons.prems obtain w1 where
    "configmap_mounts b dir vm kvs (mounts @ [bind_mount (cd_PJoin b [dir, p]) (cd_PJoin b [vm_MountPath vm, p])
         [''rbind'', if vm_ReadOnly vm then ''ro'' else ''rw'']]) w1 = (Done (Inr r), w')"
    by (auto simp: kv Let_def ret_apply elim!: bnd_DoneE split: option.splits)
  from Cons.IH [OF this] show ?case by (simp add: kv)
qed (simp add: ret_apply)

lemma mset_in_order:
  assumes "sort p = [0..<length al]"
  shows "image_mset (\<lambda>i. al ! i) (mset p) = mset al"
proof -
  have "mset p = mset [0..<length al]" by (metis assms mset_sort)
  then have "image_mset (\<lambda>i. al ! i) (mset p) = mset (map (\<lambda>i. al ! i) [0..<length al])" by (simp only: mset_map)
  then show ?thesis by (simp only: map_nth)
qed

lemma cd_range_Done: "cd_range b al w = (Done l, w') \<Longrightarrow> mset l = mset al"
  by (auto simp: cd_range_def ret_apply mset_in_order elim!: bnd_DoneE split: if_splits)

lemma add_mount_group:
  assumes run: "add_mount b m mounts w = (Done (Inr r), w')"
  shows "\<exists>g. r = mounts @ g \<and> mount_group b m g"
proof -
  obtain vm iv where m: "m = (vm, iv)" by fastforce
  show ?thesis
  proof (cases "v_HostPath (iv_Volume iv)")
    case (Some hp)
    with run show ?thesis
      by (auto simp: add_mount_def m mount_group_def Let_def ret_apply elim!: bnd_DoneE split: option.splits)
  next
    case host: None
    show ?thesis
    proof (cases "v_EmptyDir (iv_Volume iv) \<noteq> None \<or> iv_Secret iv \<noteq> None \<or> v_NFS (iv_Volume iv) \<noteq> None")
      case True
      with run host show ?thesis
        by (auto simp: add_mount_def m mount_group_def Let_def ret_apply split: if_splits)
    next
      case False
      show ?thesis
      proof (cases "iv_ConfigMap iv")
        case (Some p)
        obtain cs cm where p: "p = (cs, cm)" by fastforce
        from run host False Some p have "bnd (cd_MkdirTemp b) (\<lambda>(tempDir, err). case err of Some e \<Rightarrow> ret (Inl e) | None \<Rightarrow>
           bnd (cd_range b (cm_Data cm)) (\<lambda>l. configmap_mounts b tempDir vm l mounts)) w = (Done (Inr r), w')"
          by (simp add: add_mount_def m Let_def)
        then obtain dir err w0 where dir: "cd_MkdirTemp b w = (Done (dir, err), w0)" and "(case err of Some e \<Rightarrow> ret (Inl e) | None \<Rightarrow>
           bnd (cd_range b (cm_Data cm)) (\<lambda>l. configmap_mounts b dir vm l mounts)) w0 = (Done (Inr r), w')"
          by (rule bnd_DoneE) (auto split: prod.splits)
        then obtain l w1 w2 where err: "err = None" and "cd_range b (cm_Data cm) w1 = (Done l, w2)"
          and cms: "configmap_mounts b dir vm l mounts w2 = (Done (Inr r), w')"
          by (cases err) (auto simp: ret_apply elim: bnd_DoneE)
        then have "mset l = mset (cm_Data cm)" by (blast dest: cd_range_Done)
        with configmap_mounts_group [OF cms] dir err host False Some p show ?thesis
          by (auto simp: mount_group_def m Let_def)
      next
        case None
        with run host False show ?thesis
          by (auto simp: add_mount_def m mount_group_def Let_def ret_apply elim!: bnd_DoneE split: option.splits)
      qed
    qed
  qed
qed

lemma add_mounts_groups:
  "add_mounts b ms mounts w = (Done (Inr r), w') \<Longrightarrow>
    \<exists>gs. r = mounts @ concat gs \<and> list_all2 (mount_group b) ms gs"
proof (induction ms arbitrary: mounts w)
  case (Cons m ms)
  from Cons.prems obtain x w1 where x: "add_mount b m mounts w = (Done x, w1)"
    "(case x of Inl e \<Rightarrow> ret (Inl e) | Inr mounts \<Rightarrow> add_mounts b ms mounts) w1 = (Done (Inr r), w')"
    unfolding add_mounts.simps by (rule bnd_DoneE)
  then obtain mid where "add_mount b m mounts w = (Done (Inr mid), w1)"
    and rest: "add_mounts b ms mid w1 = (Done (Inr r), w')"
    by (cases x) (auto simp: ret_apply)
  from add_mount_group [OF this(1)] obtain g where g: "mid = mounts @ g" "mount_group b m g" by blast
  obtain gs where "r = mid @ concat gs" "list_all2 (mount_group b) ms gs" using Cons.IH [OF rest] by blast
  with g show ?case by (intro exI [of _ "g # gs"]) simp
qed (auto simp: ret_apply)

lemma mount_group_read_only:
  "mount_group b (vm, iv) g \<Longrightarrow> \<forall>mo \<in> set g. mo_Type mo = ''bind'' \<and> (''ro'' \<in> set (mo_Options mo) \<longleftrightarrow> vm_ReadOnly vm)"
  by (auto simp: mount_group_def Let_def bind_mount_def split: option.splits if_splits)

lemma getVolumeMountsOpts_Done:
  assumes "getVolumeMountsOpts b ms w = (Done (Inr (labels, opts)), w')"
  obtains mounts w1 where "add_mounts b ms [] w = (Done (Inr mounts), w1)" "opts = [WithMounts mounts]"
proof -
  from assms obtain r w1 where "add_mounts b ms [] w = (Done r, w1)"
    "(case r of Inl e \<Rightarrow> ret (Inl e) | Inr mounts \<Rightarrow> (case cd_MarshalMounts b mounts of
       (json, Some e) \<Rightarrow> ret (Inl (Wrapf e ''containerd'' []))
     | (json, None) \<Rightarrow> ret (Inr ([WithAdditionalContainerLabels [(cd_LabelMounts b, json)]], [WithMounts mounts])))) w1
      = (Done (Inr (labels, opts)), w')"
    unfolding getVolumeMountsOpts_def by (rule bnd_DoneE)
  then obtain mounts where run: "add_mounts b ms [] w = (Done (Inr mounts), w1)" and opts: "opts = [WithMounts mounts]"
    by (cases r) (auto simp: ret_apply split: prod.splits option.splits)
  with that show thesis by blast
qed

text \<open>
  C35. When the mounts of a container can be made, each contributes what its volume says, in order: a
  bind mount of its path, exactly one bind mount per file of a ConfigMap, from a temporary directory and in an
  order the runtime picks, one of the projected directory, and nothing for an empty directory, a secret or NFS. What is mounted for a read-only mount is read-only,
  and nothing else is.
\<close>

theorem containerd_mounts:
  assumes "getVolumeMountsOpts b ms w = (Done (Inr (labels, opts)), w')"
  shows "\<exists>gs. opts = [WithMounts (concat gs)] \<and> list_all2 (mount_group b) ms gs
    \<and> (\<forall>k < length ms. \<forall>mo \<in> set (gs ! k). mo_Type mo = ''bind''
         \<and> (''ro'' \<in> set (mo_Options mo) \<longleftrightarrow> vm_ReadOnly (fst (ms ! k))))"
proof -
  obtain mounts w1 where run: "add_mounts b ms [] w = (Done (Inr mounts), w1)" and opts: "opts = [WithMounts mounts]"
    by (rule getVolumeMountsOpts_Done [OF assms])
  from add_mounts_groups [OF run] obtain gs where "mounts = concat gs" and gs: "list_all2 (mount_group b) ms gs"
    by auto
  moreover have "\<forall>mo \<in> set (gs ! k). mo_Type mo = ''bind'' \<and> (''ro'' \<in> set (mo_Options mo) \<longleftrightarrow> vm_ReadOnly (fst (ms ! k)))"
    if "k < length ms" for k
    using list_all2_nthD [OF gs that] mount_group_read_only [of b "fst (ms ! k)" "snd (ms ! k)" "gs ! k"] by simp
  ultimately show ?thesis using opts by blast
qed

section \<open>A concrete containerd\<close>

definition sim_cd :: "'w cd_tools" where
  "sim_cd = \<lparr>cd_New = ret (True, None), cd_Containers = ret ([], None), cd_LoadContainer = (\<lambda>_. ret (0, None)),
     cd_IsNotFound = (\<lambda>_. True), cd_Info = (\<lambda>_. ret (\<lparr>ci_ID = [], ci_CreatedAt = []\<rparr>, None)),
     cd_Task = (\<lambda>_. ret (0, None)), cd_Status = (\<lambda>_. ret (\<lparr>ts_Status = Running, ts_ExitStatus = 0, ts_ExitTime = []\<rparr>, None)),
     cd_Start = (\<lambda>_. ret None), cd_Kill = (\<lambda>_ _. ret None), cd_TaskDelete = (\<lambda>_. ret None),
     cd_ContainerDelete = (\<lambda>_. ret None), cd_GetImage = (\<lambda>_. ret (Some 0, None)), cd_ImageDelete = (\<lambda>_. ret None),
     cd_ParseDockerRef = (\<lambda>s. ((s, ''docker.io''), None)), cd_Resolver = (\<lambda>_. ret (0, None)),
     cd_Pull = (\<lambda>_ _. ret (Some 1, None)), cd_NewContainer = (\<lambda>_ _. ret (0, None)), cd_NewTask = (\<lambda>_ _. ret (0, None)),
     cd_TaskWait = (\<lambda>_. ret None), cd_Exec = (\<lambda>_ _ _ _. ret (5, None)), cd_ProcessWait = (\<lambda>_. ret None),
     cd_ProcessStart = (\<lambda>_. ret None), cd_ProcessResult = (\<lambda>_. ret (2, None)), cd_ProcessDelete = (\<lambda>_. ret ()),
     cd_NewUUID = ret ''1'', cd_PJoin = join_with ''/'', cd_MkdirAll = (\<lambda>_. ret None), cd_MkdirTemp = ret (''/tmp/x'', None),
     cd_CreateFile = (\<lambda>_. ret None), cd_WriteFile = (\<lambda>_ _. ret None), cd_OpenFile = (\<lambda>_. ret (Some [], None)),
     cd_MapOrder = (\<lambda>n. ret [0..<n]), cd_MarshalPorts = (\<lambda>_. ([], None)), cd_MarshalMounts = (\<lambda>_. ([], None)),
     cd_LabelPorts = ''ports'', cd_LabelMounts = ''mounts'', cd_InstancePath = (\<lambda>s. s), cd_VolumePath = (\<lambda>s. s)\<rparr>"

lemma sim_cd_simps [simp]:
  "cd_LoadContainer sim_cd = (\<lambda>_. ret (0, None))" "cd_Task sim_cd = (\<lambda>_. ret (0, None))"
  "cd_TaskDelete sim_cd = (\<lambda>_. ret None)" "cd_ContainerDelete sim_cd = (\<lambda>_. ret None)"
  "cd_GetImage sim_cd = (\<lambda>_. ret (Some 0, None))" "cd_NewContainer sim_cd = (\<lambda>_ _. ret (0, None))"
  "cd_NewTask sim_cd = (\<lambda>_ _. ret (0, None))" "cd_TaskWait sim_cd = (\<lambda>_. ret None)"
  "cd_MkdirAll sim_cd = (\<lambda>_. ret None)" "cd_CreateFile sim_cd = (\<lambda>_. ret None)"
  "cd_MarshalPorts sim_cd = (\<lambda>_. ([], None))" "cd_MarshalMounts sim_cd = (\<lambda>_. ([], None))"
  "cd_NewUUID sim_cd = ret ''1''" "cd_Exec sim_cd = (\<lambda>_ _ _ _. ret (5, None))"
  "cd_ProcessWait sim_cd = (\<lambda>_. ret None)" "cd_ProcessStart sim_cd = (\<lambda>_. ret None)"
  "cd_ProcessResult sim_cd = (\<lambda>_. ret (2, None))" "cd_ProcessDelete sim_cd = (\<lambda>_. ret ())"
  by (simp_all add: sim_cd_def)

definition sim_host_mount :: "bool \<Rightarrow> volume_mount \<times> instance_volume" where
  "sim_host_mount ro = (\<lparr>vm_Name = ''data'', vm_MountPath = ''/data'', vm_ReadOnly = ro\<rparr>,
     \<lparr>iv_ID = ''ns_a_data'', iv_Volume = \<lparr>v_Name = ''data'', v_HostPath = Some \<lparr>hp_Path = ''/srv'', hp_Type = Some ''Directory''\<rparr>,
        v_EmptyDir = None, v_Secret = None, v_NFS = None, v_ConfigMap = None, v_Projected = None\<rparr>, iv_Secret = None,
      iv_ConfigMap = None, iv_Projected = None\<rparr>)"

theorem containerd_mounts_witness:
  "\<exists>labels opts gs. getVolumeMountsOpts sim_cd [sim_host_mount True, sim_host_mount False] () = (Done (Inr (labels, opts)), ())
    \<and> opts = [WithMounts (concat gs)]
    \<and> (\<forall>mo \<in> set (gs ! 0). ''ro'' \<in> set (mo_Options mo)) \<and> (\<forall>mo \<in> set (gs ! 1). ''ro'' \<notin> set (mo_Options mo))"
proof -
  let ?ms = "[sim_host_mount True, sim_host_mount False]"
  obtain labels opts where run: "getVolumeMountsOpts sim_cd ?ms () = (Done (Inr (labels, opts)), ())"
    by (simp add: getVolumeMountsOpts_def add_mount_def sim_host_mount_def Let_def io_simps sim_cd_def)
  from containerd_mounts [OF run] obtain gs where gs: "opts = [WithMounts (concat gs)]"
    "\<forall>k < length ?ms. \<forall>mo \<in> set (gs ! k). mo_Type mo = ''bind'' \<and> (''ro'' \<in> set (mo_Options mo) \<longleftrightarrow> vm_ReadOnly (fst (?ms ! k)))"
    by blast
  have "vm_ReadOnly (fst (sim_host_mount r)) = r" for r by (simp add: sim_host_mount_def)
  with gs(2) have "\<forall>mo \<in> set (gs ! 0). ''ro'' \<in> set (mo_Options mo)" "\<forall>mo \<in> set (gs ! 1). ''ro'' \<notin> set (mo_Options mo)"
    by (auto dest: spec [of _ 0] spec [of _ 1])
  with run gs(1) show ?thesis by blast
qed

section \<open>Secrets that are not there\<close>

text \<open>
  An optional secret that does not exist (and any missing secret without \<open>optional: false\<close>) gives
  a volume without the secret, and no backend can mount it: containerd answers that its type is not
  supported, and the OSv backend never comes to its end with the arguments for it.
\<close>

theorem missing_optional_secret_refused:
  assumes "newInstanceVolume rm pd v w = (Done (Inr iv), w')"
    and "v_HostPath v = None" "v_EmptyDir v = None" "v_Secret v = Some ss" "v_NFS v = None"
    and "\<And>w. \<exists>err w'. rm_GetSecret rm (ss_SecretName ss) (p_Namespace pd) w = (Done (None, err), w')"
  shows "add_mount b (vm, iv) mounts s = (Done (Inl (Wrapf (Errorf ''volumeMount %q has an unsupported type'' [vm_Name vm]) ''osv'' [])), s)
    \<and> fst (getVolumeMountExtras ob i idx (vm, iv) s') \<noteq> Done (Inr ex)"
proof -
  obtain err w1 where "rm_GetSecret rm (ss_SecretName ss) (p_Namespace pd) w = (Done (None, err), w1)"
    using assms(6) by blast
  with assms(1-5) have iv: "iv_Volume iv = v" "iv_Secret iv = None" "iv_ConfigMap iv = None" "iv_Projected iv = None"
    by (auto simp: newInstanceVolume_def Let_def io_simps split: if_splits)
  with assms(2-5) show ?thesis
    by (auto simp: add_mount_def getVolumeMountExtras_def Let_def io_simps split: prod.splits outcome.splits option.splits if_splits)
qed

definition sim_secret_volume :: volume where
  "sim_secret_volume = \<lparr>v_Name = ''cert'', v_HostPath = None, v_EmptyDir = None,
     v_Secret = Some \<lparr>ss_SecretName = ''tls'', ss_Optional = Some True\<rparr>, v_NFS = None, v_ConfigMap = None, v_Projected = None\<rparr>"

theorem missing_optional_secret_refused_witness:
  "\<exists>iv. newInstanceVolume sim_listers (sim_pod ''ns'' ''a'' []) sim_secret_volume () = (Done (Inr iv), ())
    \<and> (\<exists>e. add_mount sim_cd (\<lparr>vm_Name = ''cert'', vm_MountPath = ''/c'', vm_ReadOnly = True\<rparr>, iv) [] () = (Done (Inl e), ()))"
proof -
  have get: "\<exists>err w'. rm_GetSecret sim_listers ''tls'' (p_Namespace (sim_pod ''ns'' ''a'' [])) w = (Done (None, err), w')" for w :: unit
    by (simp add: rm_GetSecret_def sim_listers_def io_simps)
  obtain iv where iv: "newInstanceVolume sim_listers (sim_pod ''ns'' ''a'' []) sim_secret_volume () = (Done (Inr iv), ())"
    by (simp add: newInstanceVolume_def sim_secret_volume_def Let_def io_simps rm_GetSecret_def sim_listers_def
        required_missing_def)
  have "add_mount sim_cd (\<lparr>vm_Name = ''cert'', vm_MountPath = ''/c'', vm_ReadOnly = True\<rparr>, iv) [] ()
      = (Done (Inl (Wrapf (Errorf ''volumeMount %q has an unsupported type'' [vm_Name
           \<lparr>vm_Name = ''cert'', vm_MountPath = ''/c'', vm_ReadOnly = True\<rparr>]) ''osv'' [])), ())"
    by (rule missing_optional_secret_refused [THEN conjunct1, OF iv, of "\<lparr>ss_SecretName = ''tls'', ss_Optional = Some True\<rparr>"])
      (use get in \<open>simp_all add: sim_secret_volume_def\<close>)
  with iv show ?thesis by blast
qed

section \<open>What a container is made with\<close>

text \<open>The network of an instance, when \<open>N\<close> are the namespaces of the pods.\<close>

definition network_of :: "(string \<times> int) list \<Rightarrow> inst \<Rightarrow> spec_opt list" where
  "network_of N i = (let netns = GetNetNs (om_Namespace (i_Metadata i)) (om_Name (i_Metadata i)) in
     if i_HostNetwork i \<or> map_of N netns = None then host_network_opts else [WithNetworkNamespacePath netns])"

lemma network_opts_Done:
  assumes "cni_contract nm J" "network_opts nm i n = (Done opts, t)"
  shows "t = n \<and> opts = network_of (podNamespaces n) i"
proof (cases "i_HostNetwork i")
  case True
  with assms(2) show ?thesis by (simp add: network_opts_def network_of_def ret_apply)
next
  case False
  let ?path = "cni_GetNetNsPath nm (om_Namespace (i_Metadata i)) (om_Name (i_Metadata i)) n"
  have "?path = (fst ?path, n)"
    using cni_contract.path_reads [OF assms(1), of "om_Namespace (i_Metadata i)" "om_Name (i_Metadata i)" n]
    by (metis prod.collapse)
  with cni_contract.path_table [OF assms(1), of "om_Namespace (i_Metadata i)" "om_Name (i_Metadata i)" n]
    False assms(2) show ?thesis
    by (auto simp: network_opts_def network_of_def Let_def bnd_apply ret_apply split: option.splits)
qed

lemma spec_opts_network:
  "set (spec_opts_of i img [WithMounts ms] net_opts)
     \<subseteq> {WithProcessCwd p | p. True} \<union> {WithEnv e | e. True} \<union> {WithCPUCFS q p | q p. True} \<union> {WithMemoryLimit l | l. True}
       \<union> {WithMounts ms} \<union> set net_opts \<union> {WithImageConfig img} \<union> {WithImageConfigArgs img a | a. True}"
  "set net_opts \<subseteq> set (spec_opts_of i img [WithMounts ms] net_opts)"
  by (cases "expand_env (c_Env (i_Container i)) (c_Command (i_Container i) @ c_Args (i_Container i)) []";
      auto simp: spec_opts_of_def resource_opts_def Let_def)+

definition made_with :: "'w cd_tools \<Rightarrow> inst \<Rightarrow> spec_opt list \<Rightarrow> bool" where
  "made_with b i net_opts \<longleftrightarrow> (\<exists>img extra mounts w c w'.
     cd_NewContainer b (ID i) (container_opts_of i img extra (spec_opts_of i img [WithMounts mounts] net_opts)) w
       = (Done (c, None), w'))"

lemma kio_namespaces:
  "(\<And>w a w'. m w = (Done a, w') \<Longrightarrow> Q a) \<Longrightarrow>
    ensures (\<lambda>n. podNamespaces n = N) (kio m) (\<lambda>a n. podNamespaces n = N \<and> Q a) (\<lambda>_. True)"
  by (auto simp: ensures_def kio_apply split: prod.splits outcome.splits)

lemma after_kio:
  assumes "\<And>a. ensures (\<lambda>n. podNamespaces n = N) (f a) Q (\<lambda>_. True)"
  shows "ensures (\<lambda>n. podNamespaces n = N) (bnd (kio m) f) Q (\<lambda>_. True)"
  by (rule ensures_bnd [OF kio_namespaces [where Q = "\<lambda>_. True"]]) (use assms in simp_all)

lemma cd_new_container_post:
  "ensures P (kio (cd_new_container b i (container_opts_of i img extra (spec_opts_of i img [WithMounts mounts] net_opts))))
    (\<lambda>err n. err = None \<longrightarrow> made_with b i net_opts) (\<lambda>_. True)"
  unfolding made_with_def
  by (fastforce simp: ensures_def kio_apply cd_new_container_def cd_get_def bnd_apply ret_apply
      split: prod.splits outcome.splits if_splits)

lemma cd_create_made:
  assumes "cni_contract nm J"
  shows "ensures (\<lambda>n. podNamespaces n = N) (cd_CreateInstance b nm i)
    (\<lambda>err n. err = None \<longrightarrow> made_with b i (network_of N i)) (\<lambda>_. True)"
proof -
  have net: "ensures (\<lambda>n. podNamespaces n = N) (network_opts nm i)
      (\<lambda>opts n. podNamespaces n = N \<and> opts = network_of N i) (\<lambda>_. True)"
    by (auto simp: ensures_def dest!: network_opts_Done [OF assms] split: prod.splits outcome.splits)
  have mounts: "ensures (\<lambda>n. podNamespaces n = N) (kio (getVolumeMountsOpts b ms))
      (\<lambda>r n. podNamespaces n = N \<and> (\<forall>labels opts. r = Inr (labels, opts) \<longrightarrow> (\<exists>mounts. opts = [WithMounts mounts])))
      (\<lambda>_. True)" for ms
    by (rule kio_namespaces) (auto elim: getVolumeMountsOpts_Done)
  have last: "ensures (\<lambda>n. podNamespaces n = N) (bnd (network_opts nm i) (\<lambda>net_opts.
      kio (cd_new_container b i (container_opts_of i img extra (spec_opts_of i img [WithMounts ms] net_opts)))))
    (\<lambda>err n. err = None \<longrightarrow> made_with b i (network_of N i)) (\<lambda>_. True)" for img extra ms
    by (rule ensures_bnd [OF net], rule ensures_by_state) (use cd_new_container_post in blast)
  have tail: "ensures (\<lambda>n. podNamespaces n = N)
      (bnd (kio (getVolumeMountsOpts b (i_VolumeMounts i))) (\<lambda>r. case r of Inl e \<Rightarrow> ret (cd_err (Some e)) | Inr (labels, opts) \<Rightarrow>
       bnd (network_opts nm i) (\<lambda>net_opts. kio (cd_new_container b i (container_opts_of i img (ports @ labels)
         (spec_opts_of i img opts net_opts))))))
    (\<lambda>err n. err = None \<longrightarrow> made_with b i (network_of N i)) (\<lambda>_. True)" for img ports
  proof (rule ensures_bnd [OF mounts], rule ensures_by_state)
    fix r :: "go_error + container_opt list \<times> spec_opt list" and s :: "'a net_state"
    assume s: "podNamespaces s = N \<and> (\<forall>labels opts. r = Inr (labels, opts) \<longrightarrow> (\<exists>mounts. opts = [WithMounts mounts]))"
    show "ensures (\<lambda>n. n = s) (case r of Inl e \<Rightarrow> ret (cd_err (Some e)) | Inr (labels, opts) \<Rightarrow>
         bnd (network_opts nm i) (\<lambda>net_opts. kio (cd_new_container b i (container_opts_of i img (ports @ labels)
           (spec_opts_of i img opts net_opts)))))
       (\<lambda>err n. err = None \<longrightarrow> made_with b i (network_of N i)) (\<lambda>_. True)"
    proof (cases r)
      case (Inr lo)
      with s obtain labels ms where r: "r = Inr (labels, [WithMounts ms])" by (cases lo) blast
      show ?thesis
        unfolding r sum.case prod.case by (rule ensures_pre [OF last]) (use s in simp)
    qed (simp add: ensures_ret)
  qed
  show ?thesis
    unfolding cd_CreateInstance_def Let_def cd_DeleteInstance_def
    by (intro tail after_kio ensures_case_sum ensures_ret) auto
qed

text \<open>
  C34. When the containerd backend has made a container, with any of the network managers, the OCI spec it
  gave to containerd puts the container in the network namespace of its pod, unless the pod asks for
  the network of the host - or has no namespace: after a failed set-up of the pod's network, which
  \<open>CreatePod\<close> ignores, its containers run in the network of the host.
\<close>

theorem containerd_network:
  assumes "nm \<in> {multi_runtime_manager k, pod_local_manager k, default_manager k}"
    and "cd_CreateInstance b nm i n = (Done None, t)"
  shows "\<exists>img extra so w c w'. cd_NewContainer b (ID i) (container_opts_of i img extra so) w = (Done (c, None), w')
    \<and> (let netns = GetNetNs (om_Namespace (i_Metadata i)) (om_Name (i_Metadata i));
           on_host = (i_HostNetwork i \<or> map_of (podNamespaces n) netns = None)
        in (WithHostNetworkNamespace \<in> set so \<longleftrightarrow> on_host)
         \<and> (\<forall>p. WithNetworkNamespacePath p \<in> set so \<longleftrightarrow> \<not> on_host \<and> p = netns))"
proof -
  have "cni_contract nm net_inv4"
    using assms(1) mr.cni_contract_axioms pl.cni_contract_axioms dm.cni_contract_axioms by blast
  from ensures_Done [OF cd_create_made [OF this] _ assms(2)]
  have "made_with b i (network_of (podNamespaces n) i)" by simp
  then obtain img extra ms w c w' where
    made: "cd_NewContainer b (ID i) (container_opts_of i img extra
        (spec_opts_of i img [WithMounts ms] (network_of (podNamespaces n) i))) w = (Done (c, None), w')"
    unfolding made_with_def by blast
  let ?so = "spec_opts_of i img [WithMounts ms] (network_of (podNamespaces n) i)"
  have "x \<in> set ?so \<longleftrightarrow> x \<in> set (network_of (podNamespaces n) i)"
    if "x = WithHostNetworkNamespace \<or> (\<exists>p. x = WithNetworkNamespacePath p)" for x
    using spec_opts_network [where i = i and img = img and ms = ms and net_opts = "network_of (podNamespaces n) i"] that by blast
  then have so: "(let netns = GetNetNs (om_Namespace (i_Metadata i)) (om_Name (i_Metadata i));
           on_host = (i_HostNetwork i \<or> map_of (podNamespaces n) netns = None)
        in (WithHostNetworkNamespace \<in> set ?so \<longleftrightarrow> on_host)
         \<and> (\<forall>p. WithNetworkNamespacePath p \<in> set ?so \<longleftrightarrow> \<not> on_host \<and> p = netns))"
    by (auto simp: network_of_def host_network_opts_def Let_def)
  show ?thesis
    by (intro exI conjI, rule made, rule so)
qed

theorem containerd_network_witness:
  "\<exists>t. cd_CreateInstance sim_cd (multi_runtime_manager sim_kernel) (sim_instance (sim_pod ''ns'' ''a'' []) (sim_container ''c'' ''img''))
      (sim_state (AM4 sample_am4) None) = (Done None, t)
    \<and> (\<exists>img extra so w c w'. cd_NewContainer sim_cd ''ns_a_c''
        (container_opts_of (sim_instance (sim_pod ''ns'' ''a'' []) (sim_container ''c'' ''img'')) img extra so) (w :: sim) = (Done (c, None), w')
      \<and> WithHostNetworkNamespace \<in> set so)"
proof -
  let ?i = "sim_instance (sim_pod ''ns'' ''a'' []) (sim_container ''c'' ''img'')"
  let ?n = "sim_state (AM4 sample_am4) None"
  have path: "cni_GetNetNsPath (multi_runtime_manager sim_kernel) ''ns'' ''a'' ?n
      = (Done ([], Some (Errorf ''Container network namespace for %s not found'' [GetNetNs ''ns'' ''a''])), ?n)"
    using mr.path_table [of sim_kernel "''ns''" "''a''" ?n] mr.path_reads [of sim_kernel "''ns''" "''a''" ?n]
    by (simp add: sim_state_def prod_eq_iff)
  have i: "om_Namespace (i_Metadata ?i) = ''ns''" "om_Name (i_Metadata ?i) = ''a''" "ID ?i = ''ns_a_c''"
    "i_VolumeMounts ?i = []" "c_ImagePullPolicy (i_Container ?i) = PullIfNotPresent" "c_Ports (i_Container ?i) = []"
    by (simp_all add: sim_instance_def sim_pod_def sim_container_def podAndContainerToIdentifier_def
        podToIdentifier_def joinIdentifierFromParts_def identifierSeparator_def)
  have "\<exists>t. cd_CreateInstance sim_cd (multi_runtime_manager sim_kernel) ?i ?n = (Done None, t)"
    by (simp add: cd_CreateInstance_def cd_DeleteInstance_def cd_delete_id_def cd_delete_task_def cd_try_def cd_get_def
        cd_image_def getPortsOpts_def getVolumeMountsOpts_def network_opts_def cd_new_container_def i path io_simps Let_def)
  then obtain t where t: "cd_CreateInstance sim_cd (multi_runtime_manager sim_kernel) ?i ?n = (Done None, t)" by blast
  have "map_of (podNamespaces ?n) (GetNetNs ''ns'' ''a'') = None" by (simp add: sim_state_def)
  with containerd_network [OF _ t, of sim_kernel] t i show ?thesis by (auto simp: Let_def)
qed

section \<open>Processes in a container\<close>

lemma deferring_runs:
  assumes "\<And>w. \<exists>w'. d w = (Done (), w')" "deferring d m s = (r, t)" "r \<noteq> Diverged"
  shows "\<exists>s'. m s = (r, s') \<and> d s' = (Done (), t)"
proof -
  obtain x s' where m: "m s = (x, s')" by fastforce
  obtain s'' where "d s' = (Done (), s'')" using assms(1) by blast
  with assms(2,3) m show ?thesis by (cases x) (auto simp: deferring_def)
qed

text \<open>
  C37. Once containerd has made the process of \<open>RunInInstance\<close>, it is deleted again as the last thing
  that happens, whether waiting for it, starting it or its exit fails or even panics; and no error is
  answered only if it exited with code 0.
\<close>

theorem containerd_exec_released:
  assumes "cd_RunInInstance b tty i cmd n = (r, t)" and "r \<noteq> Diverged"
    and "cd_LoadContainer b (ID i) (kern n) = (Done (c, None), w1)" and "cd_Task b c w1 = (Done (task, None), w2)"
    and "cd_NewUUID b w2 = (Done u, w3)" and "cd_Exec b task (''exec-'' @ u) tty cmd w3 = (Done (p, None), w4)"
    and "\<And>w. \<exists>w'. cd_ProcessDelete b p w = (Done (), w')"
  shows "\<exists>w. cd_ProcessDelete b p w = (Done (), kern t)
    \<and> (r = Done None \<longrightarrow> (\<exists>w5. cd_ProcessResult b p w5 = (Done (0, None), w)))"
proof -
  let ?body = "cd_try (cd_ProcessWait b p) (cd_try (cd_ProcessStart b p) (cd_get (cd_ProcessResult b p) (\<lambda>code.
      if code \<noteq> 0 then ret (cd_err (Some (Errorf ''exec failed with exit code %d'' [itoa_int code]))) else ret None)))"
  have "deferring (cd_ProcessDelete b p) ?body w4 = (r, kern t)"
    using assms(1,3-6)
    by (auto simp: cd_RunInInstance_def kio_apply cd_get_def bnd_apply split: prod.splits)
  from deferring_runs [OF assms(7) this assms(2)] obtain w where
    body: "?body w4 = (r, w)" and del: "cd_ProcessDelete b p w = (Done (), kern t)" by blast
  have "\<exists>w5. cd_ProcessResult b p w5 = (Done (0, None), w)" if "r = Done None"
    using body that
    by (auto simp: cd_try_def cd_get_def ret_apply elim!: bnd_DoneE split: if_splits) blast
  with del show ?thesis by blast
qed

theorem containerd_exec_released_witness:
  "\<exists>e w. cd_RunInInstance sim_cd False (sim_instance (sim_pod ''ns'' ''a'' []) (sim_container ''c'' ''img'')) [''ls''] (sim_state (AM4 sample_am4) None) = (Done (Some e), sim_state (AM4 sample_am4) None)
    \<and> cd_ProcessDelete sim_cd 5 w = (Done (), sim_world None)"
proof -
  let ?n = "sim_state (AM4 sample_am4) None"
  obtain e where run: "cd_RunInInstance sim_cd False (sim_instance (sim_pod ''ns'' ''a'' []) (sim_container ''c'' ''img'')) [''ls''] ?n = (Done (Some e), ?n)"
    by (simp add: cd_RunInInstance_def cd_get_def cd_try_def deferring_def io_simps)
  have "\<exists>w. cd_ProcessDelete sim_cd 5 w = (Done (), kern ?n)
    \<and> (Done (Some e) = Done None \<longrightarrow> (\<exists>w5. cd_ProcessResult sim_cd 5 w5 = (Done (0, None), w)))"
    by (rule containerd_exec_released [OF run]) (simp_all add: ret_apply)
  with run show ?thesis by (auto simp: sim_state_def)
qed

end
