(* ===== verification/Options.thy ===== *)
theory Options
  imports Sys
begin

text \<open>
  What the agent is told to do: the options of the command (\<open>cmd/fledge/internal/commands/root/opts.go\<close>,
  \<open>flag.go\<close>, \<open>node.go\<close>, \<open>http.go\<close>), how \<open>main\<close> patches them (\<open>fledge.go\<close>), and the configuration
  file (\<open>pkg/config/config.go\<close>). The environment is a function from names to optional values; reading
  and decoding files, the home directory and the addresses of the host are parameters. Durations are
  in nanoseconds.
\<close>

section \<open>The environment\<close>

type_synonym environment = "string \<Rightarrow> string option"

definition getEnv :: "environment \<Rightarrow> string \<Rightarrow> string \<Rightarrow> string" where
  "getEnv env key defaultValue = (case env key of Some value \<Rightarrow> value | None \<Rightarrow> defaultValue)"

text \<open>\<open>os.Getenv\<close>: a variable that is not set is the empty string.\<close>

definition os_Getenv :: "environment \<Rightarrow> string \<Rightarrow> string" where
  "os_Getenv env key = getEnv env key []"

text \<open>\<open>strconv.Atoi\<close>: an optional sign and decimal digits, within 64 bits.\<close>

definition atoi :: "string \<Rightarrow> go_error + int" where
  "atoi s = (let bad = Inl (Errorf ''strconv.Atoi: parsing %q'' [s]);
       (neg, ds) = (case s of [] \<Rightarrow> (False, []) | c # cs \<Rightarrow>
          if c = CHR ''-'' then (True, cs) else if c = CHR ''+'' then (False, cs) else (False, s))
     in if ds = [] then bad else case digits_val 10 0 ds of
          None \<Rightarrow> bad
        | Some n \<Rightarrow> let i = (if neg then - int n else int n) in
            if - (2 ^ 63) \<le> i \<and> i < 2 ^ 63 then Inr i else bad)"

section \<open>The options\<close>

record opts =
  KubeConfigPath :: string
  KubeNamespace :: string
  KubeClusterDomain :: string
  ListenPort :: "32 word"
  NodeName :: string
  OperatingSystem :: string
  Provider :: string
  ProviderConfigPath :: string
  TaintKey :: string
  TaintEffect :: string
  DisableTaint :: bool
  MetricsAddr :: string
  PodSyncWorkers :: int
  InformerResyncPeriod :: int
  EnableNodeLease :: bool
  TraceExporters :: "string list"
  TraceSampleRate :: string
  TraceTags :: "(string \<times> string) list option"
  TraceServiceName :: string
  StartupTimeout :: int
  StreamIdleTimeout :: int
  StreamCreationTimeout :: int
  Version :: string
  ConfigPath :: string
  StoragePath :: string
  NetworkMode :: string
  AgentMode :: string
  DiskConfigDir :: string
  EnableWarrens :: bool
  UseIPv6 :: bool

definition DefaultNodeName :: string where "DefaultNodeName = ''virtual-kubelet''"
definition LegacyMode :: string where "LegacyMode = ''legacy''"
definition MultiRuntimeMode :: string where "MultiRuntimeMode = ''multiruntime''"
definition FullMultiRuntime :: string where "FullMultiRuntime = ''fullmultiruntime''"
definition StandaloneMode :: string where "StandaloneMode = ''standalone''"
definition ClusterMode :: string where "ClusterMode = ''cluster''"

abbreviation second :: int where "second \<equiv> 1000000000"

definition or_default :: "string \<Rightarrow> string \<Rightarrow> string" where
  "or_default s d = (if s = [] then d else s)"

definition or_default_int :: "int \<Rightarrow> int \<Rightarrow> int" where
  "or_default_int i d = (if i = 0 then d else i)"

text \<open>
  The port of the kubelet: from the environment, which must hold a number of at most
  \<open>1<<31 - 1\<close>; the conversion to 32 bits wraps a smaller one around.
\<close>

definition default_port :: "environment \<Rightarrow> 32 word \<Rightarrow> go_error + 32 word" where
  "default_port env port = (if port \<noteq> 0 then Inr port
     else let kp = os_Getenv env ''KUBELET_PORT'' in
     if kp = [] then Inr 10250
     else case atoi kp of
       Inl e \<Rightarrow> Inl (Wrapf e ''error parsing KUBELET_PORT environment variable'' [])
     | Inr p \<Rightarrow> if p > 2 ^ 31 - 1 then Inl (Errorf ''KUBELET_PORT environment variable is too large'' [])
         else Inr (word_of_int p))"

text \<open>\<open>home\<close> is the home directory, empty when there is none.\<close>

definition default_kubeconfig :: "environment \<Rightarrow> (string list \<Rightarrow> string) \<Rightarrow> string \<Rightarrow> string \<Rightarrow> string" where
  "default_kubeconfig env pjoin home path = (if path \<noteq> [] then path
     else let p = os_Getenv env ''KUBECONFIG'' in
     if p \<noteq> [] then p else if home \<noteq> [] then pjoin [home, ''.kube'', ''config''] else [])"

text \<open>
  \<open>SetDefaultOpts\<close>, up to the port and from there on; an error leaves what was set before it.
  Without an agent mode, IPv6 and Warrens are switched off as well.
\<close>

definition defaults_before :: "environment \<Rightarrow> opts \<Rightarrow> opts" where
  "defaults_before env c = c\<lparr>
     OperatingSystem := or_default (OperatingSystem c) ''linux'',
     NodeName := or_default (NodeName c) (getEnv env ''DEFAULT_NODE_NAME'' DefaultNodeName),
     InformerResyncPeriod := or_default_int (InformerResyncPeriod c) (60 * second),
     MetricsAddr := or_default (MetricsAddr c) '':10255'',
     PodSyncWorkers := or_default_int (PodSyncWorkers c) 10,
     TraceServiceName := or_default (TraceServiceName c) DefaultNodeName\<rparr>"

definition defaults_after :: "environment \<Rightarrow> (string list \<Rightarrow> string) \<Rightarrow> string \<Rightarrow> opts \<Rightarrow> opts" where
  "defaults_after env pjoin home c =
     (let c = c\<lparr>
        KubeNamespace := or_default (KubeNamespace c) [],
        KubeClusterDomain := or_default (KubeClusterDomain c) ''cluster.local'',
        TaintKey := or_default (TaintKey c) ''virtual-kubelet.io/provider'',
        TaintEffect := or_default (TaintEffect c) ''NoSchedule'',
        KubeConfigPath := default_kubeconfig env pjoin home (KubeConfigPath c),
        StreamIdleTimeout := or_default_int (StreamIdleTimeout c) (30 * second),
        StreamCreationTimeout := or_default_int (StreamCreationTimeout c) (30 * second)\<rparr>;
        c = (if AgentMode c = [] then c\<lparr>AgentMode := StandaloneMode, UseIPv6 := False, EnableWarrens := False\<rparr> else c)
      in c\<lparr>
        NetworkMode := or_default (NetworkMode c) FullMultiRuntime,
        ConfigPath := or_default (ConfigPath c) ''default.json'',
        Provider := or_default (Provider c) ''backend'',
        DiskConfigDir := or_default (DiskConfigDir c) ''.''\<rparr>)"

definition SetDefaultOpts :: "environment \<Rightarrow> (string list \<Rightarrow> string) \<Rightarrow> string \<Rightarrow> opts \<Rightarrow> opts \<times> goerr" where
  "SetDefaultOpts env pjoin home c = (let c = defaults_before env c in
     case default_port env (ListenPort c) of
       Inl e \<Rightarrow> (c, Some e)
     | Inr port \<Rightarrow> (defaults_after env pjoin home (c\<lparr>ListenPort := port\<rparr>), None))"

section \<open>The taint and the API server\<close>

record taint = tn_Key :: string  tn_Value :: string  tn_Effect :: string

definition getTaint :: "environment \<Rightarrow> opts \<Rightarrow> taint option \<times> goerr" where
  "getTaint env c =
     (let key = or_default (TaintKey c) ''virtual-kubelet.io/provider'';
          eff = or_default (TaintEffect c) ''NoSchedule'';
          key = getEnv env ''VKUBELET_TAINT_KEY'' key;
          value = getEnv env ''VKUBELET_TAINT_VALUE'' (Provider c);
          effectEnv = getEnv env ''VKUBELET_TAINT_EFFECT'' eff
      in if effectEnv \<in> {''NoSchedule'', ''NoExecute'', ''PreferNoSchedule''}
         then (Some \<lparr>tn_Key = key, tn_Value = value, tn_Effect = effectEnv\<rparr>, None)
         else (None, Some (Errorf ''taint effect %q is not supported'' [effectEnv])))"

record api_config =
  CertPath :: string
  KeyPath :: string
  CACertPath :: string
  ac_Addr :: string
  ac_MetricsAddr :: string
  ac_StreamIdleTimeout :: int
  ac_StreamCreationTimeout :: int

definition getAPIConfig :: "environment \<Rightarrow> opts \<Rightarrow> api_config \<times> goerr" where
  "getAPIConfig env c = (\<lparr>CertPath = os_Getenv env ''APISERVER_CERT_LOCATION'',
     KeyPath = os_Getenv env ''APISERVER_KEY_LOCATION'', CACertPath = os_Getenv env ''APISERVER_CA_CERT_LOCATION'',
     ac_Addr = '':'' @ itoa_int (sint (ListenPort c)), ac_MetricsAddr = MetricsAddr c,
     ac_StreamIdleTimeout = StreamIdleTimeout c, ac_StreamCreationTimeout = StreamCreationTimeout c\<rparr>, None)"

section \<open>The flags (\<open>flag.go\<close>)\<close>

text \<open>
  \<open>mapVar\<close> is a map, nil for None: \<open>Set\<close> takes one \<open>key=value\<close> per key and panics on the nil map,
  \<open>String\<close> walks the map in the order \<open>ord\<close>.
\<close>

type_synonym mapVar = "(string \<times> string) list option"

definition split_once :: "char \<Rightarrow> string \<Rightarrow> (string \<times> string) option" where
  "split_once x s = (case dropWhile (\<lambda>c. c \<noteq> x) s of [] \<Rightarrow> None | _ # v \<Rightarrow> Some (takeWhile (\<lambda>c. c \<noteq> x) s, v))"

definition mapVar_Set :: "string \<Rightarrow> (mapVar, goerr) io" where
  "mapVar_Set s = (case split_once (CHR ''='') s of
     None \<Rightarrow> ret (Some (Errorf ''invalid format, must be `key=value`: %s'' [s]))
   | Some (k, v) \<Rightarrow> bnd get_st (\<lambda>mv. case mv of
       None \<Rightarrow> panic ''assignment to entry in nil map''
     | Some m \<Rightarrow> if map_of m k \<noteq> None then ret (Some (Errorf ''duplicate key: %s'' [k]))
         else bnd (modify (\<lambda>_. Some (AList.update k v m))) (\<lambda>_. ret None)))"

definition mapVar_String :: "((string \<times> string) list \<Rightarrow> (string \<times> string) list) \<Rightarrow> mapVar \<Rightarrow> string" where
  "mapVar_String ord mv = foldl (\<lambda>s (k, v). if s = [] then k @ ''='' @ v else s @ '', '' @ k @ ''='' @ v) []
     (ord (case mv of None \<Rightarrow> [] | Some m \<Rightarrow> m))"

definition mapVar_Type :: string where "mapVar_Type = ''map''"

text \<open>
  \<open>installFlags\<close>: registering a flag sets its variable to the default. Most flags have the variable
  itself as default; these do not. \<open>storage\<close> is \<open>storage.DefaultPath()\<close>, also the default of the mode.
\<close>

definition installFlags :: "string \<Rightarrow> opts \<Rightarrow> opts" where
  "installFlags storage c = c\<lparr>ConfigPath := ''default.json'', StoragePath := storage,
     NetworkMode := ''fullmultiruntime'', AgentMode := storage, DiskConfigDir := ''.'',
     EnableWarrens := False, UseIPv6 := False\<rparr>"

section \<open>The configuration file\<close>

record config =
  ServerCertPath :: string
  ServerKeyPath :: string
  NodeInternalIP :: "string option"
  NodeExternalIP :: "string option"
  cfg_NodeName :: string
  cfg_DisableTaint :: bool
  MetricsAddress :: string
  cfg_PodSyncWorkers :: int
  CNIPrefix :: string
  Debug :: bool
  TunnelPort :: int

text \<open>
  The loop over the fields by reflection: a variable that is set and not empty overrides a field of
  type string or int; the fields of other types (the addresses, the flags) stay as they are.
\<close>

definition env_string :: "environment \<Rightarrow> string \<Rightarrow> string \<Rightarrow> string" where
  "env_string env tag old = (let v = os_Getenv env (''FLEDGE_'' @ tag) in if v = [] then old else v)"

definition env_int :: "environment \<Rightarrow> string \<Rightarrow> int \<Rightarrow> go_error + int" where
  "env_int env tag old = (let v = os_Getenv env (''FLEDGE_'' @ tag) in if v = [] then Inr old else atoi v)"

definition override_config :: "environment \<Rightarrow> config \<Rightarrow> go_error + config" where
  "override_config env cfg =
     (let cfg = cfg\<lparr>ServerCertPath := env_string env ''SERVER_CERT_PATH'' (ServerCertPath cfg),
          ServerKeyPath := env_string env ''SERVER_KEY_PATH'' (ServerKeyPath cfg),
          cfg_NodeName := env_string env ''NODE_NAME'' (cfg_NodeName cfg),
          MetricsAddress := env_string env ''METRICS_ADDRESS'' (MetricsAddress cfg)\<rparr>
      in case env_int env ''POD_SYNC_WORKERS'' (cfg_PodSyncWorkers cfg) of
        Inl e \<Rightarrow> Inl e
      | Inr n \<Rightarrow>
      (let cfg = cfg\<lparr>cfg_PodSyncWorkers := n, CNIPrefix := env_string env ''CNI_PREFIX'' (CNIPrefix cfg)\<rparr>
       in case env_int env ''TUNNEL_PORT'' (TunnelPort cfg) of
         Inl e \<Rightarrow> Inl e | Inr n \<Rightarrow> Inr (cfg\<lparr>TunnelPort := n\<rparr>)))"

text \<open>The two fields with \<open>validate:"nonzero"\<close>.\<close>

definition validate_config :: "config \<Rightarrow> goerr" where
  "validate_config cfg = (if ServerCertPath cfg = [] \<or> ServerKeyPath cfg = []
     then Some (Errorf ''zero value'' []) else None)"

record 'w config_tools =
  OpenConfig :: "string \<Rightarrow> ('w, string \<times> goerr) io"
  DecodeConfig :: "string \<Rightarrow> config option \<times> goerr"
  ct_InternalIP :: "('w, string option) io"
  ct_ExternalIP :: "('w, string option) io"
  ct_HostName :: "('w, string) io"

text \<open>
  \<open>LoadConfig\<close>; the configuration it answers is what it assigns to \<open>Cfg\<close>. The decoder gets a
  pointer to the pointer, so that a file that says \<open>null\<close> leaves nil, which is dereferenced.
\<close>

definition LoadConfig :: "'w config_tools \<Rightarrow> environment \<Rightarrow> string \<Rightarrow> ('w, go_error + config) io" where
  "LoadConfig ct env path = bnd (OpenConfig ct path) (\<lambda>(text, err). case err of Some e \<Rightarrow> ret (Inl e) | None \<Rightarrow>
     case DecodeConfig ct text of (ptr, err) \<Rightarrow> case err of Some e \<Rightarrow> ret (Inl e) | None \<Rightarrow>
     bnd (deref ptr) (\<lambda>cfg.
     case override_config env cfg of Inl e \<Rightarrow> ret (Inl e) | Inr cfg \<Rightarrow>
     case validate_config cfg of Some e \<Rightarrow> ret (Inl e) | None \<Rightarrow>
     bnd (if NodeInternalIP cfg = None then ct_InternalIP ct else ret (NodeInternalIP cfg)) (\<lambda>int_ip.
     bnd (if NodeExternalIP cfg = None then ct_ExternalIP ct else ret (NodeExternalIP cfg)) (\<lambda>ext_ip.
     bnd (if cfg_NodeName cfg = [] then ct_HostName ct else ret (cfg_NodeName cfg)) (\<lambda>name.
     ret (Inr (cfg\<lparr>NodeInternalIP := int_ip, NodeExternalIP := ext_ip, cfg_NodeName := name,
       cfg_PodSyncWorkers := or_default_int (cfg_PodSyncWorkers cfg) 10\<rparr>)))))))"

section \<open>Patching the flags (\<open>fledge.go\<close>)\<close>

text \<open>
  The flags of the command that runs, each with whether it was given and its value, and the
  environment of the process.
\<close>

record patch_state =
  flags :: "(string \<times> bool \<times> string) list"
  process_env :: environment

definition patchOpt :: "string \<Rightarrow> string \<Rightarrow> (patch_state, unit) io" where
  "patchOpt name value = bnd get_st (\<lambda>s. bnd (deref (map_of (flags s) name)) (\<lambda>(changed, _).
     if changed then ret () else modify (\<lambda>s. s\<lparr>flags := AList.update name (False, value) (flags s)\<rparr>)))"

definition setenv :: "string \<Rightarrow> string \<Rightarrow> (patch_state, unit) io" where
  "setenv key value = modify (\<lambda>s. s\<lparr>process_env := (process_env s)(key \<mapsto> value)\<rparr>)"

definition format_bool :: "bool \<Rightarrow> string" where
  "format_bool b = (if b then ''true'' else ''false'')"

text \<open>\<open>net.IP.String\<close> of a missing address.\<close>

definition ip_text :: "string option \<Rightarrow> string" where
  "ip_text ip = (case ip of None \<Rightarrow> ''<nil>'' | Some s \<Rightarrow> s)"

text \<open>
  \<open>patchOpts\<close>: its options are a copy, so the version it computes is lost, and no definition stands
  for it. \<open>metrics-addr\<close> is patched twice.
\<close>

definition patchOpts :: "string \<Rightarrow> config \<Rightarrow> (patch_state, unit) io" where
  "patchOpts goos cfg =
     bnd (for_all [(''nodename'', cfg_NodeName cfg), (''os'', goos), (''provider'', ''backend''),
         (''provider-config'', ''backend.json''), (''metrics-addr'', MetricsAddress cfg),
         (''disable-taint'', format_bool (cfg_DisableTaint cfg)),
         (''pod-sync-workers'', itoa_int (cfg_PodSyncWorkers cfg)), (''enable-node-lease'', ''true''),
         (''metrics-addr'', ip_text (NodeInternalIP cfg))] (\<lambda>(name, value). patchOpt name value)) (\<lambda>_.
     for_all [(''APISERVER_CERT_LOCATION'', ServerCertPath cfg), (''APISERVER_KEY_LOCATION'', ServerKeyPath cfg),
         (''APISERVER_CA_CERT_LOCATION'', ServerCertPath cfg), (''VKUBELET_POD_IP'', ip_text (NodeInternalIP cfg))]
       (\<lambda>(key, value). setenv key value))"

end
