(* ===== verification/Agent.thy ===== *)
theory Agent
  imports Options Pods ContainerdOps OsvBackend
begin

text \<open>
  The agent (\<open>cmd/fledge\<close>): the store of providers (\<open>internal/provider/store.go\<close>), how the standalone
  mode starts (\<open>root.go\<close>) - address space, access to other nodes, container networking, the provider,
  the pods found on disk - and the handlers of its web service (\<open>internal/fledgews\<close>). The globals
  \<open>network.PodAddressManager\<close> and \<open>network.PodNetworkManager\<close> that the start-up assigns are the field of
  the state of \<open>pkg/network\<close> and the manager the provider is made with.

  Reading files, decoding JSON and the external parts of the backends are parameters.
\<close>

section \<open>The store of providers (\<open>store.go\<close>)\<close>

text \<open>A nil function cannot be registered; the last registration of a name counts.\<close>

type_synonym 'f store = "(string \<times> 'f) list"

definition NewStore :: "'f store" where
  "NewStore = []"

definition Register :: "string \<Rightarrow> 'f option \<Rightarrow> ('f store, goerr) io" where
  "Register name f = (case f of
     None \<Rightarrow> ret (Some (Errorf ''provided init function cannot not be nil'' []))
   | Some f \<Rightarrow> bnd (modify (AList.update name f)) (\<lambda>_. ret None))"

definition store_Get :: "'f store \<Rightarrow> string \<Rightarrow> 'f option" where
  "store_Get s name = map_of s name"

definition store_List :: "(string list \<Rightarrow> string list) \<Rightarrow> 'f store \<Rightarrow> string list" where
  "store_List ord s = ord (map fst s)"

definition store_Exists :: "'f store \<Rightarrow> string \<Rightarrow> bool" where
  "store_Exists s name \<longleftrightarrow> map_of s name \<noteq> None"

definition ValidOperatingSystems :: "string list" where
  "ValidOperatingSystems = [''linux'', ''windows'']"

section \<open>The provider of the agent\<close>

text \<open>The resource manager of a standalone agent is a nil pointer: every question to it panics.\<close>

definition nil_manager :: "'w listers" where
  "nil_manager =
     \<lparr>PodGet = (\<lambda>_ _. panic ''nil pointer dereference''), PodList = panic ''nil pointer dereference'',
      SecretGet = (\<lambda>_ _. panic ''nil pointer dereference''), SecretList = (\<lambda>_. panic ''nil pointer dereference''),
      ConfigMapGet = (\<lambda>_ _. panic ''nil pointer dereference''),
      ServiceAccountGet = (\<lambda>_ _. panic ''nil pointer dereference''),
      ServiceAccountList = (\<lambda>_. panic ''nil pointer dereference''),
      ServiceList = panic ''nil pointer dereference'', IsNotFound = (\<lambda>_. False)\<rparr>"

record 'w init_config =
  ic_ConfigPath :: string
  ic_NodeName :: string
  ic_OperatingSystem :: string
  ic_InternalIP :: string
  ic_DaemonPort :: "32 word"
  ic_KubeClusterDomain :: string
  ic_ResourceManager :: "'w listers"

text \<open>An \<open>InitFunc\<close>, with the global network manager as an argument of its own.\<close>

type_synonym 'v init_func =
  "'v CNIManager \<Rightarrow> (osv_state \<times> 'v) init_config \<Rightarrow> (osv_state \<times> 'v, go_error + (osv_state \<times> 'v) provider) nio"

record 'v agent_tools =
  at_containerd :: "(osv_state \<times> 'v) cd_tools"
  at_osv :: "'v osv_tools"
  at_ReadConfig :: "string \<Rightarrow> (osv_state \<times> 'v, string \<times> goerr) io"
  at_Unmarshal :: "string \<Rightarrow> provider_config \<times> goerr"
  at_ReadDir :: "string \<Rightarrow> ('v, (string \<times> bool) list \<times> goerr) io"
  at_ReadFile :: "string \<Rightarrow> ('v, string \<times> goerr) io"
  at_DecodePod :: "string \<Rightarrow> pod \<times> goerr"

text \<open>The constructors of the two backends, on the state they share.\<close>

definition new_containerd :: "'v agent_tools \<Rightarrow> 'v CNIManager \<Rightarrow>
    (osv_state \<times> 'v, (osv_state \<times> 'v) backend \<times> goerr) nio" where
  "new_containerd at nm = bnd (NewContainerdBackend (at_containerd at)) (\<lambda>(_, err).
     ret (ContainerdBackend (at_containerd at) False (lift_manager nm), err))"

definition new_osv :: "'v agent_tools \<Rightarrow> 'v CNIManager \<Rightarrow> (osv_state \<times> 'v, (osv_state \<times> 'v) backend \<times> goerr) nio" where
  "new_osv at nm = bnd (own (modify (\<lambda>_. NewOSvBackend))) (\<lambda>_. ret (OSvBackend (at_osv at) nm, None))"

text \<open>\<open>registerBackend\<close>; \<open>base\<close> holds what the provider gets from elsewhere.\<close>

definition backend_init :: "'v agent_tools \<Rightarrow> (osv_state \<times> 'v) provider \<Rightarrow> 'v init_func" where
  "backend_init at base nm ic = NewProvider (at_ReadConfig at (ic_ConfigPath ic)) (at_Unmarshal at)
     (new_containerd at nm) (new_osv at nm)
     (base\<lparr>nodeName := ic_NodeName ic, internalIP := ic_InternalIP ic,
        resourceManager := ic_ResourceManager ic, PodNetworkManager_ptr := Some (lift_manager nm)\<rparr>)"

definition registerBackend :: "'v agent_tools \<Rightarrow> (osv_state \<times> 'v) provider \<Rightarrow> ('v init_func store, unit) io" where
  "registerBackend at base = bnd (Register ''backend'' (Some (backend_init at base))) (\<lambda>_. ret ())"

definition getProviderWithConfig :: "environment \<Rightarrow> opts \<Rightarrow> (osv_state \<times> 'v) listers \<Rightarrow> 'v init_func store \<Rightarrow> 'v CNIManager \<Rightarrow>
    (osv_state \<times> 'v, go_error + (osv_state \<times> 'v) provider) nio" where
  "getProviderWithConfig env c rm s nm =
     (let initConfig = \<lparr>ic_ConfigPath = ProviderConfigPath c, ic_NodeName = NodeName c,
          ic_OperatingSystem = OperatingSystem c, ic_InternalIP = os_Getenv env ''VKUBELET_POD_IP'',
          ic_DaemonPort = ListenPort c, ic_KubeClusterDomain = KubeClusterDomain c,
          ic_ResourceManager = rm\<rparr>
      in case store_Get s (opts.Provider c) of
        None \<Rightarrow> ret (Inl (Errorf ''provider %q not found'' [opts.Provider c]))
      | Some f \<Rightarrow> bnd (f nm initConfig) (\<lambda>r. case r of
          Inl e \<Rightarrow> ret (Inl (Wrapf e ''error initializing provider %s'' [opts.Provider c]))
        | Inr p \<Rightarrow> ret (Inr p)))"

section \<open>Starting\<close>

definition no_am4 :: ipv4am where
  "no_am4 = \<lparr>baseSubnetIP = 0, maxSubnetIP = 0, subnetMask = [], subIPsPerPod = 0, gatewayIP = 0, usedPodAddresses = []\<rparr>"

definition no_am6 :: ipv6am where
  "no_am6 = \<lparr>baseSubnetIP6 = [], subnetReservedIPs6 = 0, subIPsPerPod6 = 0, maxSubnetIP6 = 0, subnetMask6 = 0,
     usedPodAddresses6 = []\<rparr>"

text \<open>The address space; the manager is published once it is initialised.\<close>

definition init_address_space :: "host_env \<Rightarrow> opts \<Rightarrow> ('v, unit) nio" where
  "init_address_space henv c = (\<lambda>n.
     if UseIPv6 c then (case InitStandaloneAddressSpace6 henv no_am6 of
         (Done _, am) \<Rightarrow> (Done (), n\<lparr>PodAddressManager := Some (AM6 am)\<rparr>)
       | (Panic msg, _) \<Rightarrow> (Panic msg, n) | (Diverged, _) \<Rightarrow> (Diverged, n))
     else (case InitStandaloneAddressSpace henv no_am4 of
         (Done _, am) \<Rightarrow> (Done (), n\<lparr>PodAddressManager := Some (AM4 am)\<rparr>)
       | (Panic msg, _) \<Rightarrow> (Panic msg, n) | (Diverged, _) \<Rightarrow> (Diverged, n)))"

definition network_mode :: "'v kernel \<Rightarrow> opts \<Rightarrow> 'v CNIManager" where
  "network_mode k c = (if NetworkMode c = LegacyMode then default_manager k
     else if NetworkMode c = MultiRuntimeMode then multi_runtime_manager k
     else pod_local_manager k)"

definition start_network :: "'v kernel \<Rightarrow> host_env \<Rightarrow> opts \<Rightarrow> ('v, go_error + 'v CNIManager) nio" where
  "start_network k henv c =
     bnd (init_address_space henv c) (\<lambda>_.
     bnd (if EnableWarrens c then InitExternalAccessW else InitExternalAccess k) (\<lambda>err.
     case err of Some e \<Rightarrow> ret (Inl e) | None \<Rightarrow>
     (let nm = network_mode k c in
      bnd (cni_InitContainerNetworking nm) (\<lambda>err.
      case err of Some e \<Rightarrow> ret (Inl e) | None \<Rightarrow> ret (Inr nm)))))"

text \<open>
  A file of the configuration directory: one whose name ends in \<open>.fljson\<close> is read - by its bare name,
  from the working directory - and the pod in it is created; errors are logged.
\<close>

definition load_pod_file :: "'v agent_tools \<Rightarrow> (osv_state \<times> 'v) provider \<Rightarrow> string \<times> bool \<Rightarrow> (osv_state \<times> 'v, unit) pio" where
  "load_pod_file at p file = (case file of (name, is_dir) \<Rightarrow>
     if is_dir \<or> last (split_on (CHR ''.'') name) \<noteq> ''fljson'' then ret ()
     else bnd (on_net (rest (at_ReadFile at name))) (\<lambda>(bytes, _).
       case at_DecodePod at bytes of (pd, err) \<Rightarrow>
       if err \<noteq> None then ret () else bnd (CreatePod p pd) (\<lambda>_. ret ())))"

text \<open>\<open>StartStandalone\<close>, up to the point where the web service listens.\<close>

definition start_standalone :: "'v agent_tools \<Rightarrow> 'v kernel \<Rightarrow> environment \<Rightarrow> host_env \<Rightarrow> 'v init_func store \<Rightarrow> opts \<Rightarrow>
    (osv_state \<times> 'v, go_error + (osv_state \<times> 'v) provider) pio" where
  "start_standalone at k env henv s c =
     bnd (on_net (lift_nio (start_network k henv c))) (\<lambda>r. case r of Inl e \<Rightarrow> ret (Inl e) | Inr nm \<Rightarrow>
     bnd (on_net (getProviderWithConfig env c nil_manager s nm)) (\<lambda>r. case r of Inl e \<Rightarrow> ret (Inl e) | Inr p \<Rightarrow>
     bnd (on_net (rest (at_ReadDir at (DiskConfigDir c)))) (\<lambda>(files, _).
     bnd (for_all files (load_pod_file at p)) (\<lambda>_. ret (Inr p)))))"

text \<open>
  The end of \<open>StartStandalone\<close>, when its context is done or the web service fails: the access to
  other nodes and the networks of the pods are taken down; it answers nil.
\<close>

definition stop_standalone :: "'v kernel \<Rightarrow> opts \<Rightarrow> 'v CNIManager \<Rightarrow> (osv_state \<times> 'v, goerr) pio" where
  "stop_standalone k c nm =
     bnd (on_net (lift_nio (if EnableWarrens c then TeardownExternalAccessW else TeardownExternalAccess k))) (\<lambda>_.
     bnd (on_net (lift_nio (cni_TeardownContainerNetworking nm))) (\<lambda>_. ret None))"

text \<open>\<open>runRootCommand\<close>: which mode is started; cluster mode is the library's.\<close>

definition runRootCommand :: "(opts \<Rightarrow> ('s, goerr) io) \<Rightarrow> (opts \<Rightarrow> ('s, goerr) io) \<Rightarrow> opts \<Rightarrow> ('s, goerr) io" where
  "runRootCommand startCluster startStandalone c =
     (if OperatingSystem c \<notin> set ValidOperatingSystems then
        ret (Some (Errorf ''operating system %q is not supported'' [OperatingSystem c]))
      else if AgentMode c = ClusterMode then startCluster c else startStandalone c)"

section \<open>The web service\<close>

text \<open>
  The handlers of \<open>/deployPod\<close> and \<open>/deletePod\<close>: the answer is the list of errors written, all with
  status 400; none means status 200. They do not return after writing one, and ignore what the
  provider answers. \<open>prov\<close> and \<open>ctx\<close> are the pointers \<open>PodProvider\<close> and \<open>Ctx\<close>.
\<close>

definition request_errors :: "goerr \<Rightarrow> 'p option \<Rightarrow> bool \<Rightarrow> go_error list" where
  "request_errors err prov ctx = (case err of None \<Rightarrow> [] | Some e \<Rightarrow> [e])
     @ (if prov = None \<or> \<not> ctx then [Errorf ''FLEDGE pod provider not (yet) initialized'' []] else [])"

definition handle_pod :: "((osv_state \<times> 'v) provider \<Rightarrow> pod \<Rightarrow> (osv_state \<times> 'v, goerr) pio) \<Rightarrow> 'v agent_tools \<Rightarrow>
    (osv_state \<times> 'v) provider option \<Rightarrow> bool \<Rightarrow> string \<Rightarrow> (osv_state \<times> 'v, go_error list) pio" where
  "handle_pod call at prov ctx body = (case at_DecodePod at body of (pd, err) \<Rightarrow>
     bnd (deref prov) (\<lambda>p. bnd (deref (if ctx then Some () else None)) (\<lambda>_.
     bnd (call p pd) (\<lambda>_. ret (request_errors err prov ctx)))))"

definition ws_DeployPod :: "'v agent_tools \<Rightarrow> (osv_state \<times> 'v) provider option \<Rightarrow> bool \<Rightarrow> string \<Rightarrow> (osv_state \<times> 'v, go_error list) pio" where
  "ws_DeployPod = handle_pod CreatePod"

definition ws_DeletePod :: "'v agent_tools \<Rightarrow> (osv_state \<times> 'v) provider option \<Rightarrow> bool \<Rightarrow> string \<Rightarrow> (osv_state \<times> 'v, go_error list) pio" where
  "ws_DeletePod = handle_pod DeletePod"

datatype handler = StatsSummary | DeployPod_handler | DeletePod_handler | GetPods_handler

text \<open>The routes: name, method, pattern, handler; \<open>GetPods\<close> has none.\<close>

definition kubroutes :: "(string \<times> string \<times> string \<times> handler) list" where
  "kubroutes = [(''statsSummary'', ''GET'', ''/stats/summary/'', StatsSummary),
     (''deployPod'', ''POST'', ''/deployPod'', DeployPod_handler),
     (''deletePod'', ''DELETE'', ''/deletePod'', DeletePod_handler)]"

end
