(* ===== verification/OptionsProps.thy ===== *)
theory OptionsProps
  imports Options
begin

text \<open>
  The properties of the options: filling in defaults is final, keeps what was given, and fails only on
  a bad port; what an agent does that is started without flags; patching a flag respects the command
  line.
\<close>

lemma or_default_simps [simp]:
  "or_default (or_default s d) d = or_default s d" "s \<noteq> [] \<Longrightarrow> or_default s d = s" "or_default [] d = d"
  "or_default_int (or_default_int i j) j = or_default_int i j" "i \<noteq> 0 \<Longrightarrow> or_default_int i j = i"
  "or_default s d = [] \<longleftrightarrow> s = [] \<and> d = []"
  by (auto simp: or_default_def or_default_int_def)

lemma default_port_again: "default_port env port = Inr q \<Longrightarrow> default_port env q = Inr q"
  by (auto simp: default_port_def Let_def split: sum.splits if_splits)

lemma default_kubeconfig_again [simp]:
  "default_kubeconfig env pjoin home (default_kubeconfig env pjoin home path) = default_kubeconfig env pjoin home path"
  by (auto simp: default_kubeconfig_def Let_def)

lemma SetDefaultOpts_ok:
  "SetDefaultOpts env pjoin home c = (c', None) \<longleftrightarrow> (\<exists>port. default_port env (ListenPort c) = Inr port
     \<and> c' = defaults_after env pjoin home ((defaults_before env c)\<lparr>ListenPort := port\<rparr>))"
  by (auto simp: SetDefaultOpts_def Let_def defaults_before_def split: sum.split)

lemma settled_mode: "AgentMode (defaults_after env pjoin home c) = (if AgentMode c = [] then StandaloneMode else AgentMode c)"
  by (simp add: defaults_after_def Let_def)

lemma StandaloneMode_nonempty [simp]: "StandaloneMode \<noteq> []" "FullMultiRuntime \<noteq> []" "DefaultNodeName \<noteq> []"
  by (simp_all add: StandaloneMode_def FullMultiRuntime_def DefaultNodeName_def)

lemma defaults_idempotent:
  assumes "default_port env port = Inr q"
  shows "SetDefaultOpts env pjoin home (defaults_after env pjoin home ((defaults_before env c)\<lparr>ListenPort := q\<rparr>))
    = (defaults_after env pjoin home ((defaults_before env c)\<lparr>ListenPort := q\<rparr>), None)"
  using default_port_again [OF assms]
  by (cases c) (simp add: SetDefaultOpts_def defaults_before_def defaults_after_def Let_def)

text \<open>
  C40. What filling in the defaults makes of the options, field by field. It fails exactly when no port was given
  and \<open>KUBELET_PORT\<close> is set to something that is no number or above the greatest 32-bit integer. Otherwise
  a text that was given is kept and an empty one gets the default of its field; a duration or number of
  workers that is zero gets its default; the port is the one given, the one of \<open>KUBELET_PORT\<close>, or 10250; the
  path of the cluster's configuration comes from \<open>KUBECONFIG\<close> or the home directory; without an agent mode
  the agent is standalone and IPv6 and Warrens are switched off, whatever was given; the other fields stay.
  Doing it again changes nothing.
\<close>

theorem SetDefaultOpts_settles:
  "case SetDefaultOpts env pjoin home c of (c', err) \<Rightarrow>
     (err \<noteq> None \<longleftrightarrow> ListenPort c = 0 \<and> os_Getenv env ''KUBELET_PORT'' \<noteq> []
        \<and> (\<forall>n. atoi (os_Getenv env ''KUBELET_PORT'') = Inr n \<longrightarrow> n > 2 ^ 31 - 1))
   \<and> (err = None \<longrightarrow>
       SetDefaultOpts env pjoin home c' = (c', None)
     \<and> (\<forall>(field, dflt) \<in> {(OperatingSystem, ''linux''), (NodeName, getEnv env ''DEFAULT_NODE_NAME'' ''virtual-kubelet''),
           (MetricsAddr, '':10255''), (TraceServiceName, ''virtual-kubelet''), (KubeNamespace, []),
           (KubeClusterDomain, ''cluster.local''), (TaintKey, ''virtual-kubelet.io/provider''), (TaintEffect, ''NoSchedule''),
           (AgentMode, ''standalone''), (NetworkMode, ''fullmultiruntime''), (ConfigPath, ''default.json''),
           (opts.Provider, ''backend''), (DiskConfigDir, ''.''), (StoragePath, []), (ProviderConfigPath, []),
           (opts.Version, [])}. field c' = (if field c = [] then dflt else field c))
     \<and> KubeConfigPath c' = (if KubeConfigPath c \<noteq> [] then KubeConfigPath c
          else if os_Getenv env ''KUBECONFIG'' \<noteq> [] then os_Getenv env ''KUBECONFIG''
          else if home \<noteq> [] then pjoin [home, ''.kube'', ''config''] else [])
     \<and> PodSyncWorkers c' = (if PodSyncWorkers c = 0 then 10 else PodSyncWorkers c)
     \<and> InformerResyncPeriod c' = (if InformerResyncPeriod c = 0 then 60 * 10 ^ 9 else InformerResyncPeriod c)
     \<and> StreamIdleTimeout c' = (if StreamIdleTimeout c = 0 then 30 * 10 ^ 9 else StreamIdleTimeout c)
     \<and> StreamCreationTimeout c' = (if StreamCreationTimeout c = 0 then 30 * 10 ^ 9 else StreamCreationTimeout c)
     \<and> ListenPort c' = (if ListenPort c \<noteq> 0 then ListenPort c
          else if os_Getenv env ''KUBELET_PORT'' = [] then 10250
          else word_of_int (projr (atoi (os_Getenv env ''KUBELET_PORT''))))
     \<and> UseIPv6 c' = (AgentMode c \<noteq> [] \<and> UseIPv6 c) \<and> EnableWarrens c' = (AgentMode c \<noteq> [] \<and> EnableWarrens c)
     \<and> DisableTaint c' = DisableTaint c \<and> EnableNodeLease c' = EnableNodeLease c \<and> StartupTimeout c' = StartupTimeout c
     \<and> TraceExporters c' = TraceExporters c \<and> TraceSampleRate c' = TraceSampleRate c \<and> TraceTags c' = TraceTags c)"
proof (cases "default_port env (ListenPort c)")
  case (Inl e)
  then have run: "SetDefaultOpts env pjoin home c = (defaults_before env c, Some e)"
    by (simp add: SetDefaultOpts_def defaults_before_def Let_def)
  show ?thesis
    unfolding run prod.case
    using Inl by (auto simp: default_port_def Let_def split: if_splits sum.splits)
next
  case (Inr port)
  have run: "SetDefaultOpts env pjoin home c
      = (defaults_after env pjoin home ((defaults_before env c)\<lparr>ListenPort := port\<rparr>), None)"
    using Inr by (simp add: SetDefaultOpts_def defaults_before_def Let_def)
  have port: "port = (if ListenPort c \<noteq> 0 then ListenPort c
      else if os_Getenv env ''KUBELET_PORT'' = [] then 10250
      else word_of_int (projr (atoi (os_Getenv env ''KUBELET_PORT''))))"
    and ok: "\<not> (ListenPort c = 0 \<and> os_Getenv env ''KUBELET_PORT'' \<noteq> []
        \<and> (\<forall>n. atoi (os_Getenv env ''KUBELET_PORT'') = Inr n \<longrightarrow> n > 2 ^ 31 - 1))"
    using Inr by (auto simp: default_port_def Let_def split: if_splits sum.splits)
  show ?thesis
    unfolding run prod.case defaults_idempotent [OF Inr]
    using ok
    by (simp add: port defaults_before_def defaults_after_def Let_def default_kubeconfig_def or_default_def
        or_default_int_def StandaloneMode_def FullMultiRuntime_def DefaultNodeName_def)
qed

definition empty_opts :: opts where
  "empty_opts = \<lparr>KubeConfigPath = [], KubeNamespace = [], KubeClusterDomain = [], ListenPort = 0, NodeName = [],
     OperatingSystem = [], Provider = [], ProviderConfigPath = [], TaintKey = [], TaintEffect = [],
     DisableTaint = False, MetricsAddr = [], PodSyncWorkers = 0, InformerResyncPeriod = 0, EnableNodeLease = False,
     TraceExporters = [], TraceSampleRate = [], TraceTags = None, TraceServiceName = [], StartupTimeout = 0,
     StreamIdleTimeout = 0, StreamCreationTimeout = 0, Version = [], ConfigPath = [], StoragePath = [],
     NetworkMode = [], AgentMode = [], DiskConfigDir = [], EnableWarrens = False, UseIPv6 = False\<rparr>"

theorem SetDefaultOpts_settles_witness:
  "\<exists>c'. SetDefaultOpts (\<lambda>_. None) concat [] (empty_opts\<lparr>TaintKey := ''key'', UseIPv6 := True\<rparr>) = (c', None)
     \<and> SetDefaultOpts (\<lambda>_. None) concat [] c' = (c', None) \<and> TaintKey c' = ''key'' \<and> OperatingSystem c' = ''linux''
     \<and> ListenPort c' = 10250 \<and> \<not> UseIPv6 c'"
proof -
  let ?c = "empty_opts\<lparr>TaintKey := ''key'', UseIPv6 := True\<rparr>"
  obtain c' where c': "SetDefaultOpts (\<lambda>_. None) concat [] ?c = (c', None)"
    by (simp add: SetDefaultOpts_def Let_def default_port_def defaults_before_def os_Getenv_def getEnv_def empty_opts_def)
  from SetDefaultOpts_settles [where env = "\<lambda>_. None" and pjoin = concat and home = "[]" and c = ?c] c'
  show ?thesis by (simp add: empty_opts_def os_Getenv_def getEnv_def)
qed

text \<open>
  Flags: registering them throws away what the options held for the network mode, the agent mode and the
  IP version, so that an agent started without any flag runs the way of the flags' defaults.
\<close>

lemma flags_win: "installFlags storage (c\<lparr>NetworkMode := n, AgentMode := a, UseIPv6 := i\<rparr>)
    = installFlags storage c"
  by (simp add: installFlags_def)

text \<open>The flag of the trace tags writes to a nil map as long as the options have none.\<close>

lemma trace_tag_panics:
  "fst (mapVar_Set ''zone=a'' (TraceTags (fst (SetDefaultOpts env pjoin home empty_opts)))) = Panic ''assignment to entry in nil map''"
proof -
  have "TraceTags (fst (SetDefaultOpts env pjoin home empty_opts)) = None"
    by (simp add: SetDefaultOpts_def Let_def defaults_before_def defaults_after_def empty_opts_def split: sum.split)
  then show ?thesis by (simp add: mapVar_Set_def split_once_def io_simps)
qed

text \<open>Patching a flag keeps what the command line said, and panics on a flag the command does not have.\<close>

lemma patchOpt_result:
  "patchOpt name value s = (case map_of (flags s) name of
     None \<Rightarrow> (Panic ''nil pointer dereference'', s)
   | Some (changed, _) \<Rightarrow> (Done (), if changed then s else s\<lparr>flags := AList.update name (False, value) (flags s)\<rparr>))"
  by (auto simp: patchOpt_def io_simps split: option.split)

end
