(* ===== verification/AgentProps.thy ===== *)
theory AgentProps
  imports Agent OptionsProps ContainerdProps OsvProps NetProps AddressProps NetBlocks
begin

text \<open>
  The properties of the agent: from its start, in standalone mode, through everything its web service
  is asked and every machine that ends, the network stays right; what the web service answers; what a
  pod with a volume from the cluster does without one; and how the options get their defaults.
\<close>

section \<open>Starting\<close>

lemma init_address_space_inv:
  assumes "\<not> UseIPv6 c" "\<not> cfgDebug henv"
  shows "ensures (\<lambda>n. podDevices n = []) (init_address_space henv c) (\<lambda>_. net_safe) (\<lambda>_. True)"
proof -
  have "am_inv4 am" if "InitStandaloneAddressSpace henv no_am4 = (Done u, am)" for u am
    using standalone_subnet [OF assms(2), of no_am4] that by (auto split: if_splits)
  with assms(1) show ?thesis
    by (auto simp: ensures_def init_address_space_def intro!: net_safe_start split: prod.splits outcome.splits)
qed

lemma neutral_setupCNI0: "neutral (setupCNI0 k)"
  unfolding setupCNI0_def by (intro neutral_intros)

lemma keeps_access: "keeps net_safe (InitExternalAccess k)"
  unfolding InitExternalAccess_def by (rule keeps_neutral_safe) (intro neutral_intros)

lemma keeps_init_networking:
  fixes k :: "'v kernel"
  shows "keeps net_safe (cni_InitContainerNetworking (network_mode k c))"
proof -
  have MR: "keeps net_safe (InitContainerNetworking :: ('v, goerr) nio)"
    unfolding InitContainerNetworking_def
    by (intro keeps_bnd keeps_modify keeps_ret) (rule net_safe_clear)
  have PL: "keeps net_safe (InitContainerNetworkingPL k)"
    unfolding InitContainerNetworkingPL_def
    by (intro keeps_bnd keeps_modify keeps_ret keeps_neutral_safe neutral_intros) (rule net_safe_clear)
  have D: "keeps net_safe (InitContainerNetworkingD k)"
    unfolding InitContainerNetworkingD_def
    by (intro keeps_bnd keeps_if keeps_case_prod keeps_modify keeps_ret keeps_deref keeps_neutral_safe [OF neutral_setupCNI0])
      simp_all
  from MR PL D show ?thesis by (simp add: network_mode_def manager_defs)
qed

lemma start_network_inv:
  assumes "\<not> UseIPv6 c" "\<not> cfgDebug henv"
  shows "ensures (\<lambda>n. podDevices n = []) (start_network k henv c)
    (\<lambda>r n. net_safe n \<and> (\<forall>nm. r = Inr nm \<longrightarrow> nm = network_mode k c)) (\<lambda>_. True)"
proof -
  have access: "keeps net_safe (if EnableWarrens c then InitExternalAccessW else InitExternalAccess k)"
    by (simp add: InitExternalAccessW_def keeps_ret keeps_access)
  show ?thesis
    unfolding start_network_def Let_def
    by (intro ensures_bnd [OF init_address_space_inv [OF assms]] keeps_then [OF access] ensures_case_opt ensures_ret
        keeps_then [OF keeps_init_networking]) auto
qed

section \<open>The provider\<close>

lemma setup_backends_made:
  assumes "\<And>n x e t. newC n = (Done (x, e), t) \<Longrightarrow> P x" "\<And>n x e t. newO n = (Done (x, e), t) \<Longrightarrow> P x"
  shows "setup_backends newC newO es bs n = (Done (Inr bs'), t) \<Longrightarrow> \<forall>x \<in> snd ` set bs. P x \<Longrightarrow> \<forall>x \<in> snd ` set bs'. P x"
proof (induction es arbitrary: bs n)
  case Nil
  then show ?case by (simp add: ret_apply)
next
  case (Cons e es)
  have upd: "\<forall>y \<in> snd ` set (AList.update e x bs). P y" if "P x" for x
    using that Cons.prems(2) by (force dest!: update_mem)
  from Cons.prems(1) obtain x n1 where "P x" "setup_backends newC newO es (AList.update e x bs) n1 = (Done (Inr bs'), t)"
    using assms by (auto simp: ret_apply elim!: bnd_DoneE split: if_splits option.splits) blast+
  with Cons.IH [OF _ upd] show ?case by blast
qed

lemma keeps_setup_backends:
  "keeps I newC \<Longrightarrow> keeps I newO \<Longrightarrow> keeps I (setup_backends newC newO es bs)"
  by (induction es arbitrary: bs) (auto intro!: keeps_bnd keeps_ret split: option.split)

lemma backend_init_contract:
  fixes at :: "'v agent_tools"
  assumes "world_free J" "cni_contract nm J"
  shows "ensures (seen J) (backend_init at base nm ic)
    (\<lambda>r n. seen J n \<and> (\<forall>p. r = Inr p \<longrightarrow> node_contract p (seen J))) (\<lambda>_. True)"
proof -
  have free: "world_free (seen J :: (osv_state \<times> 'v) net_state \<Rightarrow> bool)" by (rule world_free_seen [OF assms(1)])
  have C: "keeps (seen J) (new_containerd at nm)"
    unfolding new_containerd_def NewContainerdBackend_def
    by (intro keeps_bnd keeps_kio_free [OF free] keeps_case_prod keeps_ret)
  have Osv: "keeps (seen J) (new_osv at nm)"
    unfolding new_osv_def by (intro keeps_bnd keeps_own keeps_ret)
  let ?ok = "\<lambda>x. backend_contract x (seen J :: (osv_state \<times> 'v) net_state \<Rightarrow> bool)"
  let ?p = "base\<lparr>nodeName := ic_NodeName ic, internalIP := ic_InternalIP ic,
        resourceManager := ic_ResourceManager ic, PodNetworkManager_ptr := Some (lift_manager nm)\<rparr>"
  have made: "?ok x" if "new_containerd at nm n = (Done (x, e), t) \<or> new_osv at nm n = (Done (x, e), t)" for n x e t
    using that osv_backend_contract [OF assms] containerd_contract [OF free lifted_contract [OF assms(2)]]
    by (auto simp: new_containerd_def new_osv_def ret_apply elim!: bnd_DoneE)
  have built: "ensures (seen J) (setup_backends (new_containerd at nm) (new_osv at nm) es [])
      (\<lambda>r n. seen J n \<and> (\<forall>bs. r = Inr bs \<longrightarrow> (\<forall>x \<in> snd ` set bs. ?ok x))) (\<lambda>_. True)" for es
  proof (rule ensuresI)
    fix s r t
    assume s: "seen J s" and run: "setup_backends (new_containerd at nm) (new_osv at nm) es [] s = (r, t)"
    show "case r of Done a \<Rightarrow> seen J t \<and> (\<forall>bs. a = Inr bs \<longrightarrow> (\<forall>x \<in> snd ` set bs. ?ok x)) | _ \<Rightarrow> True"
    proof -
      have "\<forall>x \<in> snd ` set bs. ?ok x" if "r = Done (Inr bs)" for bs
        by (rule setup_backends_made [where n = s and t = t and newC = "new_containerd at nm" and newO = "new_osv at nm"
              and es = es and bs = "[]"]) (use made run that in auto)
      with keepsD [OF keeps_setup_backends [OF C Osv] s run] show ?thesis by (auto split: outcome.split)
    qed
  qed
  have node: "node_contract (?p\<lparr>pconfig := cfg, backends := bs\<rparr>) (seen J)" if "\<forall>x \<in> snd ` set bs. ?ok x" for cfg bs
    using that lifted_contract [OF assms(2)] free
    by (intro node_contract.intro) (auto simp: world_free_def)
  have config: "ensures (seen J) (NewProviderConfig (new_containerd at nm) (new_osv at nm) ?p cfg)
      (\<lambda>r n. seen J n \<and> (\<forall>p. r = Inr p \<longrightarrow> node_contract p (seen J))) (\<lambda>_. True)" for cfg
    unfolding NewProviderConfig_def Let_def
    by (rule ensures_bnd [OF built], rule ensures_by_state)
      (auto split: sum.split intro!: ensures_ret node)
  show ?thesis
    unfolding backend_init_def NewProvider_def
    by (intro keeps_then [OF keeps_kio_free [OF free]] ensures_case_sum ensures_ret config) auto
qed

section \<open>The running agent\<close>

text \<open>
  What happens to a running agent: requests to its web service, statistics (which only look at the
  host), and machines of the OSv backend that end.
\<close>

inductive agent_step :: "'v agent_tools \<Rightarrow> (osv_state \<times> 'v) provider \<Rightarrow> (osv_state \<times> 'v) provider_state \<Rightarrow>
    (osv_state \<times> 'v) provider_state \<Rightarrow> bool" for at p where
  agent_deploy: "agent_step at p s (snd (ws_DeployPod at (Some p) True body s))"
| agent_delete: "agent_step at p s (snd (ws_DeletePod at (Some p) True body s))"
| agent_stats: "agent_step at p s (snd (on_net (rest (look :: ('v, unit) io)) s))"
| agent_exit: "agent_step at p s (snd (on_net (osv_exit (at_osv at) j ex) s))"

inductive agent_reach :: "'v agent_tools \<Rightarrow> (osv_state \<times> 'v) provider \<Rightarrow> (osv_state \<times> 'v) provider_state \<Rightarrow>
    (osv_state \<times> 'v) provider_state \<Rightarrow> bool" for at p s where
  agent_refl: "agent_reach at p s s"
| agent_next: "agent_reach at p s t \<Longrightarrow> agent_step at p t u \<Longrightarrow> agent_reach at p s u"

inductive_cases agent_stepE: "agent_step at p s t"

lemma keeps_net_part: "keeps J m \<Longrightarrow> keeps (\<lambda>s. J (net s)) (on_net m)"
  by (auto simp: keeps_def on_net_def split: prod.split)

lemma keeps_handle_pod:
  "(\<And>pd. keeps I (call p pd)) \<Longrightarrow> keeps I (handle_pod call at (Some p) ctx body)"
  by (auto simp: handle_pod_def deref_def split: prod.split intro!: keeps_bnd keeps_ret keeps_panic)

lemma keeps_osv_exit: "world_free J \<Longrightarrow> keeps (seen J) (osv_exit b j ex)"
  unfolding osv_exit_def Let_def by (intro keeps_osv keeps_deref)

lemma agent_step_keeps:
  assumes "node_contract p (seen J)" "world_free J" "agent_step at p s t" "seen J (net s)"
  shows "seen J (net t)"
proof -
  note inv = node_contract.as_invariant [OF assms(1)]
  have dep: "keeps (\<lambda>s. seen J (net s)) (handle_pod CreatePod at (Some p) True body)" for body
    by (rule keeps_handle_pod) (rule node_invariant.keeps_CreatePod [OF inv])
  have del: "keeps (\<lambda>s. seen J (net s)) (handle_pod DeletePod at (Some p) True body)" for body
    by (rule keeps_handle_pod) (rule node_invariant.keeps_DeletePod [OF inv])
  show ?thesis
    using assms(3,4) keeps_snd [OF dep] keeps_snd [OF del]
      keeps_net_part [OF keeps_rest [OF assms(2)], THEN keeps_snd]
      keeps_net_part [OF keeps_osv_exit [OF assms(2)], THEN keeps_snd]
    by (elim agent_stepE) (auto simp: ws_DeployPod_def ws_DeletePod_def)
qed

lemma agent_reach_keeps:
  "agent_reach at p s t \<Longrightarrow> node_contract p (seen J) \<Longrightarrow> world_free J \<Longrightarrow> seen J (net s) \<Longrightarrow> seen J (net t)"
  by (induction rule: agent_reach.induct) (auto intro: agent_step_keeps)

section \<open>Starting in standalone mode\<close>

lemma network_mode_contract: "cni_contract (network_mode k c) net_safe"
  by (simp add: network_mode_def net_safe_contracts)

lemma ensures_lift:
  "ensures P m Q (\<lambda>_. True) \<Longrightarrow> ensures (\<lambda>n. P (net_map snd n)) (lift_nio m) (\<lambda>r n. Q r (net_map snd n)) (\<lambda>_. True)"
  by (fastforce simp: ensures_def lift_apply comp_def split: prod.splits outcome.splits)

lemma ensures_on_net:
  "ensures P m Q (\<lambda>_. True) \<Longrightarrow> ensures (\<lambda>s. P (net s)) (on_net m) (\<lambda>r s. Q r (net s)) (\<lambda>_. True)"
  by (fastforce simp: ensures_def on_net_def split: prod.split outcome.split)

lemma keeps_load_pod_file:
  assumes "node_contract p (seen J)" "world_free J"
  shows "keeps (\<lambda>s. seen J (net s)) (load_pod_file at p file)"
  unfolding load_pod_file_def
  by (intro keeps_case_prod keeps_if keeps_ret keeps_bnd keeps_net_part [OF keeps_rest [OF assms(2)]]
      node_invariant.keeps_CreatePod [OF node_contract.as_invariant [OF assms(1)]])

lemma provider_contract:
  assumes "store_Get st (opts.Provider c) = Some (backend_init at base)"
  shows "ensures (seen net_safe) (getProviderWithConfig env c rm st (network_mode k c))
    (\<lambda>r n. seen net_safe n \<and> (\<forall>p. r = Inr p \<longrightarrow> node_contract p (seen net_safe))) (\<lambda>_. True)"
  unfolding getProviderWithConfig_def Let_def assms option.case
  by (rule ensures_bnd [OF backend_init_contract [OF world_free_net_safe network_mode_contract]],
      rule ensures_by_state) (auto split: sum.split intro!: ensures_ret)

lemma standalone_start:
  fixes at :: "'v agent_tools"
  assumes "\<not> UseIPv6 c" "\<not> cfgDebug henv" "store_Get st (opts.Provider c) = Some (backend_init at base)"
  shows "ensures (\<lambda>s. podDevices (net s) = []) (start_standalone at k env henv st c)
    (\<lambda>r s. \<forall>p. r = Inr p \<longrightarrow> seen net_safe (net s) \<and> node_contract p (seen net_safe)) (\<lambda>_. True)"
proof -
  let ?I = "\<lambda>s. seen net_safe (net s)"
  have network: "ensures (\<lambda>s. podDevices (net s) = []) (on_net (lift_nio (start_network k henv c)))
      (\<lambda>r s. ?I s \<and> (\<forall>nm. r = Inr nm \<longrightarrow> nm = network_mode k c)) (\<lambda>_. True)"
    using ensures_on_net [OF ensures_lift [OF start_network_inv [OF assms(1,2)]]] by simp
  have load: "ensures (\<lambda>s. ?I s \<and> node_contract p (seen net_safe))
      (bnd (on_net (rest (at_ReadDir at dir))) (\<lambda>(files, _).
        bnd (for_all files (load_pod_file at p)) (\<lambda>_. ret (Inr p))))
      (\<lambda>r s. \<forall>p. r = Inr p \<longrightarrow> ?I s \<and> node_contract p (seen net_safe)) (\<lambda>_. True)" for p dir
  proof (rule ensures_by_state)
    fix s :: "(osv_state \<times> 'v) provider_state"
    assume s: "?I s \<and> node_contract p (seen net_safe)"
    have all: "keeps ?I (for_all files (load_pod_file at p))" for files
      by (rule keeps_for_all) (rule keeps_load_pod_file [OF conjunct2 [OF s] world_free_net_safe])
    show "ensures (\<lambda>t. t = s) (bnd (on_net (rest (at_ReadDir at dir))) (\<lambda>(files, _).
        bnd (for_all files (load_pod_file at p)) (\<lambda>_. ret (Inr p))))
      (\<lambda>r s. \<forall>p. r = Inr p \<longrightarrow> ?I s \<and> node_contract p (seen net_safe)) (\<lambda>_. True)"
      by (rule ensures_pre [where P' = ?I])
        (auto simp: s intro!: keeps_then [OF keeps_net_part [OF keeps_rest [OF world_free_net_safe]]] keeps_then [OF all] ensures_ret)
  qed
  show ?thesis
    unfolding start_standalone_def
  proof (rule ensures_bnd [OF network])
    fix r :: "go_error + 'v CNIManager"
    show "ensures (\<lambda>s. ?I s \<and> (\<forall>nm. r = Inr nm \<longrightarrow> nm = network_mode k c))
       (case r of Inl e \<Rightarrow> ret (Inl e) | Inr nm \<Rightarrow>
         bnd (on_net (getProviderWithConfig env c nil_manager st nm)) (\<lambda>r. case r of Inl e \<Rightarrow> ret (Inl e) | Inr p \<Rightarrow>
         bnd (on_net (rest (at_ReadDir at (DiskConfigDir c)))) (\<lambda>(files, _).
         bnd (for_all files (load_pod_file at p)) (\<lambda>_. ret (Inr p)))))
       (\<lambda>r s. \<forall>p. r = Inr p \<longrightarrow> ?I s \<and> node_contract p (seen net_safe)) (\<lambda>_. True)"
    proof (cases r)
      case (Inl e)
      then show ?thesis by (simp add: ensures_ret)
    next
      case (Inr nm)
      have provider: "ensures ?I (on_net (getProviderWithConfig env c nil_manager st (network_mode k c)))
          (\<lambda>r s. ?I s \<and> (\<forall>p. r = Inr p \<longrightarrow> node_contract p (seen net_safe))) (\<lambda>_. True)"
        by (rule ensures_on_net [OF provider_contract [OF assms(3)]])
      have rest: "ensures (\<lambda>s. ?I s \<and> (\<forall>p. r = Inr p \<longrightarrow> node_contract p (seen net_safe)))
          (case r of Inl e \<Rightarrow> ret (Inl e) | Inr p \<Rightarrow>
            bnd (on_net (rest (at_ReadDir at (DiskConfigDir c)))) (\<lambda>(files, _).
            bnd (for_all files (load_pod_file at p)) (\<lambda>_. ret (Inr p))))
          (\<lambda>r s. \<forall>p. r = Inr p \<longrightarrow> ?I s \<and> node_contract p (seen net_safe)) (\<lambda>_. True)"
        for r :: "go_error + (osv_state \<times> 'v) provider"
        using load by (cases r) (auto intro: ensures_ret ensures_pre)
      show ?thesis
        by (rule ensures_by_state, simp add: Inr, rule ensures_pre [OF ensures_bnd [OF provider rest]]) simp
    qed
  qed
qed


section \<open>A concrete agent\<close>

definition sim_opts :: opts where
  "sim_opts = fst (SetDefaultOpts (\<lambda>_. None) concat [] (empty_opts\<lparr>NetworkMode := MultiRuntimeMode\<rparr>))"

lemma sim_opts_simps [simp]:
  "NetworkMode sim_opts = MultiRuntimeMode" "\<not> UseIPv6 sim_opts" "\<not> EnableWarrens sim_opts"
  "opts.Provider sim_opts = ''backend''"
  by (simp_all add: sim_opts_def SetDefaultOpts_def defaults_before_def defaults_after_def default_port_def
      os_Getenv_def getEnv_def or_default_def empty_opts_def Let_def MultiRuntimeMode_def)

definition sim_agent :: "sim agent_tools" where
  "sim_agent = \<lparr>at_containerd = sim_cd, at_osv = sim_tools, at_ReadConfig = (\<lambda>_. ret ([], None)),
     at_Unmarshal = (\<lambda>_. (defaultConfig, None)), at_ReadDir = (\<lambda>_. ret ([(''a.fljson'', False)], None)),
     at_ReadFile = (\<lambda>_. ret (''a'', None)), at_DecodePod = (\<lambda>n. (sim_pod ''default'' n [], None))\<rparr>"

lemma sim_agent_simps [simp]:
  "at_ReadConfig sim_agent = (\<lambda>_. ret ([], None))" "at_Unmarshal sim_agent = (\<lambda>_. (defaultConfig, None))"
  "at_ReadDir sim_agent = (\<lambda>_. ret ([(''a.fljson'', False)], None))" "at_ReadFile sim_agent = (\<lambda>_. ret (''a'', None))"
  "at_DecodePod sim_agent = (\<lambda>n. (sim_pod ''default'' n [], None))" "at_containerd sim_agent = sim_cd"
  by (simp_all add: sim_agent_def)

definition sim_stored :: "(osv_state \<times> sim) provider \<Rightarrow> sim init_func store" where
  "sim_stored base = snd (registerBackend sim_agent base NewStore)"

lemma sim_stored_simps [simp]: "store_Get (sim_stored base) ''backend'' = Some (backend_init sim_agent base)"
  by (simp add: sim_stored_def registerBackend_def Register_def NewStore_def store_Get_def io_simps)

lemma global_net: "\<exists>net. GlobalCNINet am = (Some net, None)"
proof -
  have "parse_cidr ''10.0.0.0/8'' \<noteq> None" by code_simp
  then show ?thesis by (auto simp: GlobalCNINet_def)
qed

text \<open>The start of the concrete agent: its pod from disk has its network.\<close>

lemma sim_network_start:
  "\<exists>am. usedPodAddresses am = [] \<and> baseSubnetIP am + 8 < maxSubnetIP am \<and> subIPsPerPod am = 8
     \<and> start_network sim_kernel sample_env sim_opts (sim_state (AM4 no_am4) None)
       = (Done (Inr (multi_runtime_manager sim_kernel)), sim_state (AM4 am) None)"
proof -
  have "\<not> cfgDebug sample_env" by (simp add: sample_env_def)
  from standalone_subnet [OF this, of no_am4] obtain am where
    am: "InitStandaloneAddressSpace sample_env no_am4 = (Done (), am)" "am_inv4 am" "usedPodAddresses am = []"
      "unat (maxSubnetIP am) = unat (baseSubnetIP am) + 255"
    by (auto simp: sample_hash)
  have "baseSubnetIP am + 8 < maxSubnetIP am"
    using am(4) unsigned_less [where 'a = nat and w = "maxSubnetIP am"] by (simp add: word_less_nat_alt unat_word_ariths)
  moreover have "subIPsPerPod am = 8" using am(2) by (simp add: am_inv4_def)
  moreover obtain net where "GlobalCNINet am = (Some net, None)" using global_net by blast
  then have "start_network sim_kernel sample_env sim_opts (sim_state (AM4 no_am4) None)
       = (Done (Inr (multi_runtime_manager sim_kernel)), sim_state (AM4 am) None)"
    using am by (simp add: start_network_def init_address_space_def Let_def sim_state_def network_mode_def
      InitExternalAccess_def sim_getPublicIface am_GlobalCNINet_def sim_simps multi_runtime_manager_def
      InitContainerNetworking_def sim_world_def MultiRuntimeMode_def LegacyMode_def)
  ultimately show ?thesis using am by blast
qed


text \<open>
  The standalone agent has no resource manager: a pod with a volume of a secret panics in
  \<open>newInstanceVolume\<close>.
\<close>

lemma nil_manager_panics:
  assumes "v_HostPath v = None" "v_EmptyDir v = None" "v_Secret v \<noteq> None"
  shows "fst (newInstanceVolume nil_manager pd v w) = Panic ''nil pointer dereference''"
  using assms by (auto simp: newInstanceVolume_def nil_manager_def rm_GetSecret_def Let_def io_simps)

end
