(* ===== verification/Tracing.thy ===== *)
theory Tracing
  imports Options
begin

text \<open>
  Tracing of the agent (\<open>tracing.go\<close> and \<open>tracing_register*.go\<close> in \<open>cmd/fledge/internal/commands/root\<close>):
  the registry of exporters, what the two exporters are made from, and how the sampling rate is read.
  Making exporters, registering them with opencensus and the page server are parameters.
\<close>

section \<open>Exporters\<close>

record trace_options =
  to_Tags :: "(string \<times> string) list option"
  to_ServiceName :: string

type_synonym ('w, 'e) exporter_init = "trace_options \<Rightarrow> ('w, go_error + 'e) io"

definition RegisterTracingExporter :: "string \<Rightarrow> 'f \<Rightarrow> (string \<times> 'f) list \<Rightarrow> (string \<times> 'f) list" where
  "RegisterTracingExporter name f exporters = AList.update name f exporters"

definition GetTracingExporter :: "(string \<times> ('w, 'e) exporter_init) list \<Rightarrow> string \<Rightarrow> trace_options \<Rightarrow>
    ('w, go_error + 'e) io" where
  "GetTracingExporter exporters name t = (case map_of exporters name of
     None \<Rightarrow> ret (Inl (Errorf ''tracing exporter %q not found'' [name]))
   | Some f \<Rightarrow> f t)"

definition AvailableTraceExporters :: "(string list \<Rightarrow> string list) \<Rightarrow> (string \<times> 'f) list \<Rightarrow> string list" where
  "AvailableTraceExporters ord exporters = ord (map fst exporters)"

text \<open>What the constructor of the library is called with.\<close>

record jaeger_options =
  jo_CollectorEndpoint :: string
  jo_AgentEndpoint :: string
  jo_Username :: string
  jo_Password :: string
  jo_ServiceName :: string
  jo_Tags :: "(string \<times> string) list"

definition NewJaegerExporter :: "environment \<Rightarrow> ((string \<times> string) list \<Rightarrow> (string \<times> string) list) \<Rightarrow>
    (jaeger_options \<Rightarrow> ('w, go_error + 'e) io) \<Rightarrow> ('w, 'e) exporter_init" where
  "NewJaegerExporter env ord new t =
     (let j = \<lparr>jo_CollectorEndpoint = os_Getenv env ''JAEGER_COLLECTOR_ENDPOINT'',
          jo_AgentEndpoint = os_Getenv env ''JAEGER_AGENT_ENDPOINT'', jo_Username = os_Getenv env ''JAEGER_USER'',
          jo_Password = os_Getenv env ''JAEGER_PASSWORD'', jo_ServiceName = to_ServiceName t, jo_Tags = []\<rparr>
      in if jo_CollectorEndpoint j = [] \<and> jo_AgentEndpoint j = []
         then ret (Inl (Errorf ''must specify either JAEGER_COLLECTOR_ENDPOINT or JAEGER_AGENT_ENDPOINT'' []))
         else new (j\<lparr>jo_Tags := ord (case to_Tags t of None \<Rightarrow> [] | Some m \<Rightarrow> m)\<rparr>))"

datatype agent_option = WithServiceName string | WithAddress string | WithInsecure

definition NewOCAgentExporter :: "environment \<Rightarrow> (agent_option list \<Rightarrow> ('w, go_error + 'e) io) \<Rightarrow> ('w, 'e) exporter_init" where
  "NewOCAgentExporter env new t =
     (let endpoint = os_Getenv env ''OCAGENT_ENDPOINT''; opts = [WithServiceName (to_ServiceName t)];
          insecure = os_Getenv env ''OCAGENT_INSECURE''
      in if endpoint = [] then ret (Inl (Errorf ''must set endpoint address in OCAGENT_ENDPOINT'' []))
      else let opts = opts @ [WithAddress endpoint] in
      if insecure \<in> {''0'', ''no'', ''n'', ''off'', []} then new opts
      else if insecure \<in> {''1'', ''yes'', ''y'', ''on''} then new (opts @ [WithInsecure])
      else ret (Inl (Errorf ''invalid value for OCAGENT_INSECURE'' [])))"

section \<open>Setting up\<close>

text \<open>\<open>strings.ToLower\<close>, for ASCII.\<close>

definition to_lower :: "string \<Rightarrow> string" where
  "to_lower s = map (\<lambda>c. let n = (of_char c :: nat) in if 65 \<le> n \<and> n \<le> 90 then char_of (n + 32) else c) s"

datatype sampler = AlwaysSample | NeverSample | ProbabilitySampler int

text \<open>
  The sampler of a rate, in percent; None is the library's default. The error for a rate out of range
  is made by wrapping nil, which is nil, so such a rate is accepted and the default is used.
\<close>

definition trace_sampler :: "string \<Rightarrow> goerr \<times> sampler option" where
  "trace_sampler rate = (let r = to_lower rate in
     if r = [] then (None, None)
     else if r = ''always'' then (None, Some AlwaysSample)
     else if r = ''never'' then (None, Some NeverSample)
     else case atoi rate of
       Inl e \<Rightarrow> (Some (Wrapf e ''unsupported trace sample rate'' []), None)
     | Inr n \<Rightarrow> if n < 0 \<or> n > 100 then (wrap None ''trace sample rate must be between 0 and 100'' [], None)
         else (None, Some (ProbabilitySampler n)))"

definition reservedTagNames :: "string list" where
  "reservedTagNames = [''operatingSystem'', ''provider'', ''nodeName'']"

record ('w, 'e) trace_tools =
  tt_Tags :: "(string \<times> string) list \<Rightarrow> ('w, (string \<times> string) list) io"
  tt_Exporters :: "(string \<times> ('w, 'e) exporter_init) list"
  tt_RegisterExporter :: "'e \<Rightarrow> ('w, unit) io"
  tt_setupZpages :: "('w, unit) io"
  tt_ApplyConfig :: "sampler \<Rightarrow> ('w, unit) io"

primrec register_exporters :: "('w, 'e) trace_tools \<Rightarrow> trace_options \<Rightarrow> string list \<Rightarrow> ('w, goerr) io" where
  "register_exporters tt t [] = ret None"
| "register_exporters tt t (e # es) =
     (if e = ''zpages'' then bnd (tt_setupZpages tt) (\<lambda>_. register_exporters tt t es)
      else bnd (GetTracingExporter (tt_Exporters tt) e t) (\<lambda>r. case r of
        Inl er \<Rightarrow> ret (Some er)
      | Inr x \<Rightarrow> bnd (tt_RegisterExporter tt x) (\<lambda>_. register_exporters tt t es)))"

definition trace_tags :: "opts \<Rightarrow> (string \<times> string) list" where
  "trace_tags c = AList.update ''nodeName'' (NodeName c) (AList.update ''provider'' (opts.Provider c)
     (AList.update ''operatingSystem'' (OperatingSystem c) (case TraceTags c of None \<Rightarrow> [] | Some m \<Rightarrow> m)))"

definition setupTracing :: "('w, 'e) trace_tools \<Rightarrow> opts \<Rightarrow> ('w, goerr) io" where
  "setupTracing tt c =
     bnd (tt_Tags tt (case TraceTags c of None \<Rightarrow> [] | Some m \<Rightarrow> m)) (\<lambda>tags.
     case find (\<lambda>(k, _). k \<in> set reservedTagNames) tags of
       Some (k, _) \<Rightarrow> ret (Some (Errorf ''invalid trace tag %q, must not use a reserved tag key'' [k]))
     | None \<Rightarrow>
     bnd (register_exporters tt \<lparr>to_Tags = Some (trace_tags c), to_ServiceName = TraceServiceName c\<rparr> (TraceExporters c)) (\<lambda>err.
     if err \<noteq> None then ret err
     else if TraceExporters c = [] then ret None
     else case trace_sampler (TraceSampleRate c) of
       (Some e, _) \<Rightarrow> ret (Some e)
     | (None, None) \<Rightarrow> ret None
     | (None, Some s) \<Rightarrow> bnd (tt_ApplyConfig tt s) (\<lambda>_. ret None)))"

text \<open>\<open>wrap\<close> of a nil error: a rate that is no percentage is not an error, and no sampler either.\<close>

lemma rate_out_of_range:
  assumes "atoi rate = Inr n" and "n < 0 \<or> n > 100"
    and "to_lower rate \<notin> {[], ''always'', ''never''}"
  shows "trace_sampler rate = (None, None)"
  using assms by (auto simp: trace_sampler_def Let_def)

lemma rate_out_of_range_example: "trace_sampler ''250'' = (None, None)"
  by code_simp

end
