(* ===== verification/Host.thy ===== *)
theory Host
  imports Complex_Main Pods Sys
begin

text \<open>
  What the node tells Kubernetes about its host: the commands and files of \<open>pkg/system\<close> and the node
  status of \<open>pkg/provider/node.go\<close>. Quantities are \<open>k8s.io/apimachinery\<close>'s and stand behind the record
  \<open>quantities\<close>; the approximate floats the code divides are read as the rational numbers they are.
\<close>

section \<open>Quantities\<close>

record 'q quantities =
  q_parse :: "string \<Rightarrow> 'q \<times> goerr"
  q_zero :: 'q
  q_add :: "'q \<Rightarrow> 'q \<Rightarrow> 'q"
  q_float :: "'q \<Rightarrow> rat"

text \<open>
  A quotient of floats at most \<open>b\<close>: dividing 0 by 0 is not a number, which is never at most anything,
  and dividing by 0 is infinite otherwise.
\<close>

definition ratio_le :: "rat \<Rightarrow> rat \<Rightarrow> rat \<Rightarrow> bool" where
  "ratio_le x y b = (if y = 0 then x < 0 else x / y \<le> b)"

section \<open>The host (\<open>pkg/system\<close>)\<close>

definition CpuCount :: "'w kernel \<Rightarrow> 'q quantities \<Rightarrow> ('w, 'q \<times> goerr) nio" where
  "CpuCount k Q = bnd (ExecShellCommand k ''nproc'') (\<lambda>(cpuCount, _). ret (q_parse Q (RemoveSpace cpuCount)))"

text \<open>
  \<open>memoryQuantity\<close>: the first match of \<open>field: +([0-9]+) ([A-Za-z])B\<close> in \<open>/proc/meminfo\<close>, whose letter
  is read as a binary unit.
\<close>

definition letter :: "char \<Rightarrow> bool" where
  "letter c = (let n = (of_char c :: nat) in 65 \<le> n \<and> n \<le> 90 \<or> 97 \<le> n \<and> n \<le> 122)"

definition decimal :: "char \<Rightarrow> bool" where
  "decimal c = (let n = (of_char c :: nat) in 48 \<le> n \<and> n \<le> 57)"

definition to_upper :: "char \<Rightarrow> char" where
  "to_upper c = (let n = (of_char c :: nat) in if 97 \<le> n \<and> n \<le> 122 then char_of (n - 32) else c)"

definition match_here :: "string \<Rightarrow> string \<Rightarrow> (string \<times> char) option" where
  "match_here field s = (if \<not> has_prefix s (field @ '':'') then None
     else let r = drop (Suc (length field)) s; r1 = dropWhile (\<lambda>c. c = CHR '' '') r;
       ds = takeWhile decimal r1 in
     if r1 = r \<or> ds = [] then None
     else case dropWhile decimal r1 of
       c1 # c2 # c3 # _ \<Rightarrow> if c1 = CHR '' '' \<and> letter c2 \<and> c3 = CHR ''B'' then Some (ds, c2) else None
     | _ \<Rightarrow> None)"

fun find_match :: "string \<Rightarrow> string \<Rightarrow> (string \<times> char) option" where
  "find_match field [] = match_here field []"
| "find_match field (c # cs) = (case match_here field (c # cs) of Some m \<Rightarrow> Some m | None \<Rightarrow> find_match field cs)"

definition memoryQuantity :: "('w, string \<times> goerr) io \<Rightarrow> 'q quantities \<Rightarrow> string \<Rightarrow> ('w, 'q \<times> goerr) nio" where
  "memoryQuantity meminfo Q field = bnd (kio meminfo) (\<lambda>(contents, err).
     if err \<noteq> None then ret (q_zero Q, err)
     else case find_match field contents of
       None \<Rightarrow> panic ''index out of range''
     | Some (ds, u) \<Rightarrow> ret (q_parse Q (ds @ [to_upper u] @ ''i'')))"

definition MemoryTotal :: "('w, string \<times> goerr) io \<Rightarrow> 'q quantities \<Rightarrow> ('w, 'q \<times> goerr) nio" where
  "MemoryTotal meminfo Q = memoryQuantity meminfo Q ''MemTotal''"

definition MemoryFree :: "('w, string \<times> goerr) io \<Rightarrow> 'q quantities \<Rightarrow> ('w, 'q \<times> goerr) nio" where
  "MemoryFree meminfo Q = memoryQuantity meminfo Q ''MemFree''"

definition MemoryAvailable :: "('w, string \<times> goerr) io \<Rightarrow> 'q quantities \<Rightarrow> ('w, 'q \<times> goerr) nio" where
  "MemoryAvailable meminfo Q = memoryQuantity meminfo Q ''MemAvailable''"

definition IsMemoryPressure :: "('w, string \<times> goerr) io \<Rightarrow> 'q quantities \<Rightarrow> ('w, bool) nio" where
  "IsMemoryPressure meminfo Q = bnd (MemoryTotal meminfo Q) (\<lambda>(memTotal, _).
     bnd (MemoryAvailable meminfo Q) (\<lambda>(memAvailable, _).
     ret (ratio_le (q_float Q memAvailable) (q_float Q memTotal) (1 / 10))))"

definition storageQuantity :: "'w kernel \<Rightarrow> 'q quantities \<Rightarrow> string \<Rightarrow> ('w, 'q \<times> goerr) nio" where
  "storageQuantity k Q field =
     bnd (ExecShellCommand k (''findmnt / --output='' @ field @ '' --noheadings --raw --bytes'')) (\<lambda>(stdout, err).
     if err \<noteq> None then ret (q_zero Q, err) else ret (q_parse Q (RemoveSpace stdout)))"

definition StorageSize :: "'w kernel \<Rightarrow> 'q quantities \<Rightarrow> ('w, 'q \<times> goerr) nio" where
  "StorageSize k Q = storageQuantity k Q ''SIZE''"

definition StorageUsed :: "'w kernel \<Rightarrow> 'q quantities \<Rightarrow> ('w, 'q \<times> goerr) nio" where
  "StorageUsed k Q = storageQuantity k Q ''USED''"

definition StorageAvailable :: "'w kernel \<Rightarrow> 'q quantities \<Rightarrow> ('w, 'q \<times> goerr) nio" where
  "StorageAvailable k Q = storageQuantity k Q ''AVAIL''"

definition storage_below :: "'w kernel \<Rightarrow> 'q quantities \<Rightarrow> rat \<Rightarrow> ('w, bool) nio" where
  "storage_below k Q b = bnd (StorageSize k Q) (\<lambda>(storTotal, _). bnd (StorageAvailable k Q) (\<lambda>(storAvailable, _).
     ret (ratio_le (q_float Q storAvailable) (q_float Q storTotal) b)))"

definition IsStoragePressure :: "'w kernel \<Rightarrow> 'q quantities \<Rightarrow> ('w, bool) nio" where
  "IsStoragePressure k Q = storage_below k Q (1 / 10)"

definition IsStorageFull :: "'w kernel \<Rightarrow> 'q quantities \<Rightarrow> ('w, bool) nio" where
  "IsStorageFull k Q = storage_below k Q (1 / 100)"

text \<open>\<open>net.ParseIP\<close> answers nil for what is no address; \<open>parse_ip\<close> answers the empty slice.\<close>

definition ExternalIP :: "'w kernel \<Rightarrow> ('w, ip_bytes) nio" where
  "ExternalIP k = bnd (ExecShellCommand k ''curl ifconfig.me'') (\<lambda>(ip, _). ret (parse_ip (RemoveSpace ip)))"

definition InternalIP :: "'w kernel \<Rightarrow> ('w, ip_bytes) nio" where
  "InternalIP k = bnd (ExecShellCommand k (''hostname -I | awk '' @ [CHR 0x27] @ ''{print $1}'' @ [CHR 0x27]))
     (\<lambda>(ip, _). ret (parse_ip (RemoveSpace ip)))"

definition HostName :: "'w kernel \<Rightarrow> ('w, string) nio" where
  "HostName k = bnd (ExecShellCommand k ''hostname'') (\<lambda>(hostname, _). ret (RemoveSpace hostname))"

definition IsNetworkAvailable :: "'w kernel \<Rightarrow> ('w, bool) nio" where
  "IsNetworkAvailable k = bnd (ExecShellCommand k ''ping -c1 1.1.1.1'') (\<lambda>(_, err). ret (err = None))"

definition AvailablePort_of :: "('w, goerr) io \<Rightarrow> ('w, int \<times> goerr) io \<Rightarrow> ('w, int \<times> goerr) io" where
  "AvailablePort_of resolve listen = bnd resolve (\<lambda>err. if err \<noteq> None then ret (0, err)
     else bnd listen (\<lambda>(port, err). if err \<noteq> None then ret (0, err) else ret (port, None)))"

section \<open>The node (\<open>node.go\<close>)\<close>

type_synonym 'q resources = "(string \<times> 'q) list"

datatype address_type = NodeHostName | NodeInternalIP_type

record node_condition =
  nc_Type :: string
  nc_Status :: bool
  nc_Reason :: string
  nc_Message :: string

record 'q node =
  nd_Addresses :: "(address_type \<times> string) list"
  nd_Allocatable :: "'q resources"
  nd_Capacity :: "'q resources"
  nd_Conditions :: "node_condition list"
  nd_Port :: "32 word"
  nd_Architecture :: string
  nd_OperatingSystem :: string
  nd_KubeletVersion :: string
  nd_Labels :: "(string \<times> string) list option"

definition nodeAddresses :: "'w provider \<Rightarrow> ('w, (address_type \<times> string) list) nio" where
  "nodeAddresses p = bnd (HostName (runtime_kernel p)) (\<lambda>h.
     ret [(NodeHostName, h), (NodeInternalIP_type, internalIP p)])"

text \<open>
  The sums over the containers. \<open>ResourceList.Name\<close> answers a pointer to a copy of the entry, a new cell
  of the heap of quantities, and \<open>Add\<close> changes that cell. A container has its limits and requests,
  each a map that may be nil.
\<close>

definition rl_Name :: "'q quantities \<Rightarrow> 'q resources \<Rightarrow> string \<Rightarrow> ('q list, nat) io" where
  "rl_Name Q rl name = bnd get_st (\<lambda>h.
     bnd (modify (\<lambda>h. h @ [case map_of rl name of Some q \<Rightarrow> q | None \<Rightarrow> q_zero Q])) (\<lambda>_. ret (length h)))"

definition q_Add :: "'q quantities \<Rightarrow> nat \<Rightarrow> 'q \<Rightarrow> ('q list, unit) io" where
  "q_Add Q ptr q = modify (\<lambda>h. h[ptr := q_add Q (h ! ptr) q])"

definition counted_names :: "string list" where
  "counted_names = [''cpu'', ''memory'', ''storage'', ''ephemeral-storage'']"

definition add_usage :: "'q quantities \<Rightarrow> 'q resources \<Rightarrow> 'q resources option \<Rightarrow> string \<Rightarrow> ('q list, unit) io" where
  "add_usage Q whole used name = (case used of None \<Rightarrow> ret ()
   | Some rl \<Rightarrow> bnd (rl_Name Q rl name) (\<lambda>quantity. bnd (rl_Name Q whole name) (\<lambda>sum.
       bnd get_st (\<lambda>h. q_Add Q sum (h ! quantity)))))"

definition count_container :: "'q quantities \<Rightarrow> (container \<Rightarrow> 'q resources option \<times> 'q resources option) \<Rightarrow>
    'q resources \<times> 'q resources \<Rightarrow> container \<Rightarrow> ('q list, unit) io" where
  "count_container Q res acc c = (case (res c, acc) of ((lm, req), (limits, requests)) \<Rightarrow>
     for_all counted_names (\<lambda>name. bnd (add_usage Q limits lm name) (\<lambda>_. add_usage Q requests req name)))"

definition count_pods :: "'q quantities \<Rightarrow> (container \<Rightarrow> 'q resources option \<times> 'q resources option) \<Rightarrow>
    'q resources \<times> 'q resources \<Rightarrow> pod list \<Rightarrow> ('q list, 'q resources \<times> 'q resources) io" where
  "count_pods Q res acc pds = bnd (for_all pds (\<lambda>pd. for_all (ps_Containers (p_Spec pd)) (count_container Q res acc)))
     (\<lambda>_. ret acc)"

text \<open>A loop of its own state within a function of the provider.\<close>

definition local_state :: "'h \<Rightarrow> ('h, 'a) io \<Rightarrow> ('s, 'a) io" where
  "local_state h m = (\<lambda>s. (fst (m h), s))"

definition nodeCapacity :: "'w provider \<Rightarrow> ('w, string \<times> goerr) io \<Rightarrow> 'q quantities \<Rightarrow>
    (container \<Rightarrow> 'q resources option \<times> 'q resources option) \<Rightarrow> ('w, 'q resources) pio" where
  "nodeCapacity p meminfo Q res =
     (let k = runtime_kernel p; get = (\<lambda>rl name. case map_of rl name of Some q \<Rightarrow> q | None \<Rightarrow> q_zero Q) in
      bnd (GetPods p) (\<lambda>(pds, _).
      bnd (on_net (CpuCount k Q)) (\<lambda>(cpu, _).
      bnd (on_net (MemoryTotal meminfo Q)) (\<lambda>(memory, _).
      bnd (on_net (StorageSize k Q)) (\<lambda>(size, _).
      bnd (local_state [] (count_pods Q res ([], []) pds)) (\<lambda>(limits, requests).
      ret [(''cpu'', cpu), (''memory'', memory), (''storage'', size), (''pods'', fst (q_parse Q ''10'')),
        (''limits.cpu'', get limits ''cpu''), (''limits.memory'', get limits ''memory''),
        (''limits.ephemeral-storage'', get limits ''ephemeral-storage''),
        (''requests.cpu'', get requests ''cpu''), (''requests.memory'', get requests ''memory''),
        (''requests.storage'', get requests ''storage''),
        (''requests.ephemeral-storage'', get requests ''ephemeral-storage'')]))))))"

definition nodeConditions :: "'w kernel \<Rightarrow> ('w, string \<times> goerr) io \<Rightarrow> 'q quantities \<Rightarrow> ('w, node_condition list) nio" where
  "nodeConditions k meminfo Q =
     bnd (IsMemoryPressure meminfo Q) (\<lambda>memory.
     bnd (IsStoragePressure k Q) (\<lambda>disk.
     bnd (IsStorageFull k Q) (\<lambda>full.
     bnd (IsNetworkAvailable k) (\<lambda>network.
     ret [\<lparr>nc_Type = ''Ready'', nc_Status = True, nc_Reason = ''KubeletReady'', nc_Message = ''kubelet is ready.''\<rparr>,
       \<lparr>nc_Type = ''MemoryPressure'', nc_Status = memory, nc_Reason = ''KubeletHasSufficientMemory'',
         nc_Message = ''kubelet has sufficient memory available''\<rparr>,
       \<lparr>nc_Type = ''DiskPressure'', nc_Status = disk, nc_Reason = ''KubeletHasNoDiskPressure'',
         nc_Message = ''kubelet has no disk pressure''\<rparr>,
       \<lparr>nc_Type = ''OutOfDisk'', nc_Status = full, nc_Reason = ''KubeletHasSufficientDisk'',
         nc_Message = ''kubelet has sufficient disk space available''\<rparr>,
       \<lparr>nc_Type = ''NetworkUnavailable'', nc_Status = \<not> network, nc_Reason = ''RouteCreated'',
         nc_Message = ''RouteController created a route''\<rparr>]))))"

text \<open>Writing a label into the map of the node, which panics when there is none.\<close>

definition set_label :: "string \<Rightarrow> string \<Rightarrow> ('w provider_state \<times> 'q node, unit) io" where
  "set_label k v = bnd get_st (\<lambda>(_, n). case nd_Labels n of None \<Rightarrow> panic ''assignment to entry in nil map''
     | Some l \<Rightarrow> modify (\<lambda>(s, n). (s, n\<lparr>nd_Labels := Some (AList.update k v l)\<rparr>)))"

definition on_provider :: "('w, 'a) pio \<Rightarrow> ('w provider_state \<times> 'q node, 'a) io" where
  "on_provider m = (\<lambda>(s, n). case m s of (r, s') \<Rightarrow> (r, (s', n)))"

definition ConfigureNode :: "'w provider \<Rightarrow> 32 word \<Rightarrow> string \<Rightarrow> string \<Rightarrow> ('w, string \<times> goerr) io \<Rightarrow> 'q quantities \<Rightarrow>
    (container \<Rightarrow> 'q resources option \<times> 'q resources option) \<Rightarrow> ('w provider_state \<times> 'q node, unit) io" where
  "ConfigureNode p port goarch goos meminfo Q res =
     bnd (on_provider (on_net (nodeAddresses p))) (\<lambda>a. bnd (modify (\<lambda>(s, n). (s, n\<lparr>nd_Addresses := a\<rparr>))) (\<lambda>_.
     bnd (on_provider (nodeCapacity p meminfo Q res)) (\<lambda>c. bnd (modify (\<lambda>(s, n). (s, n\<lparr>nd_Allocatable := c\<rparr>))) (\<lambda>_.
     bnd (on_provider (nodeCapacity p meminfo Q res)) (\<lambda>c. bnd (modify (\<lambda>(s, n). (s, n\<lparr>nd_Capacity := c\<rparr>))) (\<lambda>_.
     bnd (on_provider (on_net (nodeConditions (runtime_kernel p) meminfo Q))) (\<lambda>cs.
     bnd (modify (\<lambda>(s, n). (s, n\<lparr>nd_Conditions := cs, nd_Port := port, nd_Architecture := goarch,
       nd_OperatingSystem := goos\<rparr>))) (\<lambda>_.
     bnd (set_label ''kubernetes.io/arch'' goarch) (\<lambda>_.
     bnd (set_label ''kubernetes.io/os'' goos) (\<lambda>_.
     bnd (set_label ''alpha.service-controller.kubernetes.io/exclude-balancer'' ''true'') (\<lambda>_.
     set_label ''node.kubernetes.io/exclude-from-external-load-balancers'' ''true'')))))))))))"

text \<open>\<open>addAttributes\<close> of \<open>trace.go\<close>: pairs of names and values, added to the span in order.\<close>

fun addAttributes :: "('c \<Rightarrow> string \<Rightarrow> string \<Rightarrow> 'c) \<Rightarrow> 'c \<Rightarrow> string list \<Rightarrow> 'c" where
  "addAttributes withField ctx (k # v # rest) =
     (if odd (length rest) then ctx else addAttributes withField (withField ctx k v) rest)"
| "addAttributes withField ctx _ = ctx"

end
