(* ===== verification/Fledge.thy ===== *)
theory Fledge
  imports Complex_Main Host Options
begin

text \<open>
  \<open>pkg/fledge\<close>: control groups (\<open>CgroupManagement.go\<close>), volumes written to disk and the ranking of pod
  conditions (\<open>Utils.go\<close>), and the taint (\<open>Taint.go\<close>). Nothing else in the repository calls this
  package. The two control-group libraries, the client of the API server, the shell and the file
  system are parameters.
\<close>

section \<open>Control groups\<close>

datatype cg_resources = MemoryLimit int | CpuLimit "int \<times> 64 word"

text \<open>
  The libraries: \<open>'g\<close> is a group of version 1, \<open>'m\<close> a manager of version 2. Methods of a manager are
  given the pointer, which may be nil.
\<close>

record ('w, 'g, 'm) cg_tools =
  Mode_unified :: "('w, bool) io"
  New_static :: "string \<Rightarrow> ('w, 'g option \<times> goerr) io"
  g_New :: "'g \<Rightarrow> string \<Rightarrow> ('w, 'g option \<times> goerr) io"
  g_Delete :: "'g \<Rightarrow> ('w, goerr) io"
  g_Update :: "'g \<Rightarrow> cg_resources \<Rightarrow> ('w, goerr) io"
  g_AddProc :: "'g \<Rightarrow> 64 word \<Rightarrow> ('w, goerr) io"
  NewSystemd :: "string \<Rightarrow> ('w, goerr) io"
  LoadSystemd :: "string \<Rightarrow> ('w, 'm option \<times> goerr) io"
  m_DeleteSystemd :: "'m option \<Rightarrow> ('w, goerr) io"
  m_Update :: "'m option \<Rightarrow> cg_resources \<Rightarrow> ('w, goerr) io"
  m_AddProc :: "'m option \<Rightarrow> 64 word \<Rightarrow> ('w, goerr) io"

text \<open>
  The globals. \<open>MainGroup\<close> and the entries of \<open>Cgroups\<close> are pointers to interface values: None is the
  nil pointer, \<open>Some None\<close> points to a nil interface. The map is nil until \<open>InitCgroups\<close> makes it.
\<close>

type_synonym 'g group_ptr = "'g option option"

record ('w, 'g) cg_state =
  MainGroup :: "'g group_ptr"
  Cgroups :: "(string \<times> 'g group_ptr) list option"
  CgV2 :: bool
  cg_world :: 'w

definition cg :: "('w, 'a) io \<Rightarrow> (('w, 'g) cg_state, 'a) io" where
  "cg m = (\<lambda>s. case m (cg_world s) of (r, w) \<Rightarrow> (r, s\<lparr>cg_world := w\<rparr>))"

lemma cg_apply [io_simps]: "cg m s = (case m (cg_world s) of (r, w) \<Rightarrow> (r, s\<lparr>cg_world := w\<rparr>))"
  by (simp add: cg_def)

definition InitCgroups :: "('w, 'g, 'm) cg_tools \<Rightarrow> (('w, 'g) cg_state, unit) io" where
  "InitCgroups T = bnd (cg (Mode_unified T)) (\<lambda>unified.
     if unified then modify (\<lambda>s. s\<lparr>CgV2 := True\<rparr>)
     else bnd (modify (\<lambda>s. s\<lparr>CgV2 := False\<rparr>)) (\<lambda>_.
       bnd (cg (New_static T ''/vkubelet'')) (\<lambda>(maingroup, _).
       modify (\<lambda>s. s\<lparr>MainGroup := Some maingroup, Cgroups := Some []\<rparr>))))"

definition GetCgroup :: "string \<Rightarrow> string \<Rightarrow> string \<Rightarrow> string" where
  "GetCgroup ns podname ctr = ns @ ''-'' @ podname @ ''-'' @ ctr"

definition slice_name :: "string \<Rightarrow> string" where
  "slice_name cgName = cgName @ ''.slice''"

text \<open>Looking up and assigning: a nil map reads as empty and panics when written.\<close>

definition cg_lookup :: "string \<Rightarrow> ('w, 'g) cg_state \<Rightarrow> 'g group_ptr option" where
  "cg_lookup cgName s = (case Cgroups s of None \<Rightarrow> None | Some m \<Rightarrow> map_of m cgName)"

definition cg_assign :: "string \<Rightarrow> 'g group_ptr \<Rightarrow> (('w, 'g) cg_state, unit) io" where
  "cg_assign cgName g = bnd get_st (\<lambda>s. case Cgroups s of None \<Rightarrow> panic ''assignment to entry in nil map''
     | Some m \<Rightarrow> modify (\<lambda>s. s\<lparr>Cgroups := Some (AList.update cgName g m)\<rparr>))"

text \<open>\<open>*Cgroups[cgName]\<close> and a method on it: a nil pointer or a nil interface panics.\<close>

definition cg_group :: "string \<Rightarrow> (('w, 'g) cg_state, 'g) io" where
  "cg_group cgName = bnd get_st (\<lambda>s. bnd (deref (Option.bind (cg_lookup cgName s) id)) deref)"

definition CreateCgroup :: "('w, 'g, 'm) cg_tools \<Rightarrow> string \<Rightarrow> (('w, 'g) cg_state, unit) io" where
  "CreateCgroup T cgName = bnd get_st (\<lambda>s.
     if CgV2 s then bnd (cg (NewSystemd T (slice_name cgName))) (\<lambda>_. ret ())
     else bnd (bnd (deref (MainGroup s)) deref) (\<lambda>main.
       bnd (cg (g_New T main cgName)) (\<lambda>(newGroup, _). cg_assign cgName (Some newGroup))))"

definition CgroupExists :: "('w, 'g, 'm) cg_tools \<Rightarrow> string \<Rightarrow> (('w, 'g) cg_state, bool) io" where
  "CgroupExists T cgName = bnd get_st (\<lambda>s.
     if CgV2 s then bnd (cg (LoadSystemd T (slice_name cgName))) (\<lambda>(m, err). ret (m \<noteq> None \<and> err = None))
     else let entry = cg_lookup cgName s; exists = entry \<noteq> None; val = Option.bind entry id
       in ret (exists \<or> val = None))"

definition CreateCgroupIfNotExists :: "('w, 'g, 'm) cg_tools \<Rightarrow> string \<Rightarrow> string \<Rightarrow> string \<Rightarrow> (('w, 'g) cg_state, string) io" where
  "CreateCgroupIfNotExists T ns podname ctr = (let cgName = GetCgroup ns podname ctr in
     bnd (CgroupExists T cgName) (\<lambda>there.
     bnd (if there then ret () else CreateCgroup T cgName) (\<lambda>_. ret cgName)))"

definition DeleteCgroup :: "('w, 'g, 'm) cg_tools \<Rightarrow> string \<Rightarrow> (('w, 'g) cg_state, unit) io" where
  "DeleteCgroup T cgName = bnd get_st (\<lambda>s.
     if CgV2 s then bnd (cg (LoadSystemd T (slice_name cgName))) (\<lambda>(m, _).
       bnd (cg (m_DeleteSystemd T m)) (\<lambda>_. ret ()))
     else bnd (cg_group cgName) (\<lambda>group. bnd (cg (g_Delete T group)) (\<lambda>_. cg_assign cgName None)))"

definition SetMemoryLimit :: "('w, 'g, 'm) cg_tools \<Rightarrow> string \<Rightarrow> int \<Rightarrow> (('w, 'g) cg_state, unit) io" where
  "SetMemoryLimit T cgName limit = bnd get_st (\<lambda>s.
     if CgV2 s then bnd (cg (LoadSystemd T (slice_name cgName))) (\<lambda>(m, err).
       if err \<noteq> None then ret () else bnd (cg (m_Update T m (MemoryLimit limit))) (\<lambda>_. ret ()))
     else bnd (cg_group cgName) (\<lambda>group. bnd (cg (g_Update T group (MemoryLimit limit))) (\<lambda>_. ret ())))"

text \<open>\<open>int64(100000 * cpus)\<close> rounds towards zero.\<close>

definition cpu_quota :: "rat \<Rightarrow> int" where
  "cpu_quota cpus = (let q = 100000 * cpus in if q < 0 then \<lceil>q\<rceil> else \<lfloor>q\<rfloor>)"

definition SetCpuLimit :: "('w, 'g, 'm) cg_tools \<Rightarrow> string \<Rightarrow> rat \<Rightarrow> (('w, 'g) cg_state, unit) io" where
  "SetCpuLimit T cgName cpus = bnd get_st (\<lambda>s. let limit = CpuLimit (cpu_quota cpus, 100000) in
     if CgV2 s then bnd (cg (LoadSystemd T (slice_name cgName))) (\<lambda>(m, err).
       if err = None then ret () else bnd (cg (m_Update T m limit)) (\<lambda>_. ret ()))
     else bnd (cg_group cgName) (\<lambda>group. bnd (cg (g_Update T group limit)) (\<lambda>_. ret ())))"

definition MovePid :: "('w, 'g, 'm) cg_tools \<Rightarrow> string \<Rightarrow> 64 word \<Rightarrow> (('w, 'g) cg_state, unit) io" where
  "MovePid T cgName pid = bnd get_st (\<lambda>s.
     if CgV2 s then bnd (cg (LoadSystemd T (slice_name cgName))) (\<lambda>(m, _). bnd (cg (m_AddProc T m pid)) (\<lambda>_. ret ()))
     else bnd (cg_group cgName) (\<lambda>group. bnd (cg (g_AddProc T group pid)) (\<lambda>_. ret ())))"

section \<open>Volumes (\<open>Utils.go\<close>)\<close>

definition MakeVolume :: "'w kernel \<Rightarrow> string \<Rightarrow> string \<Rightarrow> ('w, string) nio" where
  "MakeVolume k podname volname = (let volDir = ''/var/fledge/mounts/'' @ podname @ ''/'' @ volname in
     bnd (ExecShellCommand k (''mkdir -p '' @ volDir)) (\<lambda>_. ret volDir))"

definition CreateVolumeFiles :: "'w kernel \<Rightarrow> (string \<Rightarrow> string \<Rightarrow> ('w, goerr) io) \<Rightarrow> pod \<Rightarrow> string \<Rightarrow>
    (string \<times> string) list \<Rightarrow> ('w, unit) nio" where
  "CreateVolumeFiles k write pd volName data = bnd (MakeVolume k (p_Name pd) volName) (\<lambda>volDir.
     bnd (range_map k data) (\<lambda>files. for_all files (\<lambda>(filename, contents).
       bnd (kio (write (volDir @ ''/'' @ filename) contents)) (\<lambda>_. ret ()))))"

text \<open>
  \<open>client\<close> is the global \<open>K8sClient\<close>, a pointer: how it gets the data of a secret of \<open>kube-system\<close>.
  ConfigMap volumes do nothing.
\<close>

definition CreateVolumes :: "'w kernel \<Rightarrow> (string \<Rightarrow> string \<Rightarrow> ('w, goerr) io) \<Rightarrow>
    (string \<Rightarrow> ('w, (string \<times> string) list \<times> goerr) io) option \<Rightarrow> pod \<Rightarrow> ('w, unit) nio" where
  "CreateVolumes k write client pd = for_all (ps_Volumes (p_Spec pd)) (\<lambda>vol.
     case v_Secret vol of None \<Rightarrow> ret ()
     | Some secret \<Rightarrow> bnd (deref client) (\<lambda>get. bnd (kio (get (ss_SecretName secret))) (\<lambda>(data, err).
         if err \<noteq> None then ret () else CreateVolumeFiles k write pd (v_Name vol) data)))"

definition GetHostMountPath :: "'w kernel \<Rightarrow> pod \<Rightarrow> volume \<Rightarrow> ('w, string option) nio" where
  "GetHostMountPath k pd vol = (case v_HostPath vol of
     Some hp \<Rightarrow> ret (Some (hp_Path hp))
   | None \<Rightarrow> if v_Secret vol = None \<or> v_ConfigMap vol = None
       then bnd (MakeVolume k (p_Name pd) (v_Name vol)) (\<lambda>mountPath. ret (Some mountPath))
       else ret None)"

section \<open>The highest condition of a pod\<close>

record pod_condition = pc_Type :: string  pc_Status :: string

definition no_condition :: pod_condition where
  "no_condition = \<lparr>pc_Type = [], pc_Status = []\<rparr>"

text \<open>The four variables of the loop: scheduled, initialized, ready, unschedulable.\<close>

definition note_condition :: "pod_condition \<Rightarrow> pod_condition \<times> pod_condition \<times> pod_condition \<times> pod_condition \<Rightarrow>
    pod_condition \<times> pod_condition \<times> pod_condition \<times> pod_condition" where
  "note_condition condition vars = (case vars of (scheduled, initialized, podReady, podUnschedulable) \<Rightarrow>
     if pc_Type condition = ''PodScheduled'' then (condition, initialized, podReady, podUnschedulable)
     else if pc_Type condition = ''Ready'' then (scheduled, initialized, condition, podUnschedulable)
     else if pc_Type condition = ''Unschedulable'' then (scheduled, initialized, podReady, condition)
     else if pc_Type condition = ''Initialized'' then (scheduled, condition, podReady, podUnschedulable)
     else vars)"

definition GetHighestPodStatus :: "pod_condition list \<Rightarrow> pod_condition option" where
  "GetHighestPodStatus conditions =
     (case fold note_condition conditions (no_condition, no_condition, no_condition, no_condition) of
       (scheduled, initialized, podReady, podUnschedulable) \<Rightarrow>
         if pc_Status podUnschedulable = ''True'' then Some podUnschedulable
         else if pc_Status podReady = ''True'' then Some podReady
         else if pc_Status initialized = ''True'' then Some initialized
         else if pc_Status scheduled = ''True'' then Some scheduled
         else None)"

section \<open>The taint (\<open>Taint.go\<close>)\<close>

definition GetTaint_fledge :: "string \<Rightarrow> string \<Rightarrow> string \<Rightarrow> taint option \<times> goerr" where
  "GetTaint_fledge prov key value =
     (let (key, value) = (if key = [] then (''virtual-kubelet.io/provider'', prov) else (key, value))
      in (Some \<lparr>tn_Key = key, tn_Value = value, tn_Effect = ''NoSchedule''\<rparr>, None))"

definition getEnv_fledge :: "environment \<Rightarrow> string \<Rightarrow> string \<Rightarrow> string" where
  "getEnv_fledge env key defaultValue = (case env key of Some value \<Rightarrow> value | None \<Rightarrow> defaultValue)"

end
