(* ===== verification/FledgeProps.thy ===== *)
theory FledgeProps
  imports Fledge SimKernel
begin

text \<open>
  The properties of \<open>pkg/fledge\<close> and of the node status: which condition of a pod is the highest one,
  against an order on the milestones of a pod; what a wrong test does to control groups; and that
  the capacity of a node does not depend on what it runs.
\<close>

section \<open>Milestones of a pod\<close>

text \<open>
  The milestones \<open>GetHighestPodStatus\<close> looks at, in the order in which the code prefers them. The comment above
  the code gives the same order and one milestone more, \<open>PodInitialized (false)\<close> between the first two, which the
  code does not have.
\<close>

datatype milestone = Scheduled | Initialized | Ready | Unschedulable

instantiation milestone :: linorder
begin

fun milestone_rank :: "milestone \<Rightarrow> nat" where
  "milestone_rank Scheduled = 0"
| "milestone_rank Initialized = 1"
| "milestone_rank Ready = 2"
| "milestone_rank Unschedulable = 3"

definition less_eq_milestone :: "milestone \<Rightarrow> milestone \<Rightarrow> bool" where
  "less_eq_milestone a b \<longleftrightarrow> milestone_rank a \<le> milestone_rank b"

definition less_milestone :: "milestone \<Rightarrow> milestone \<Rightarrow> bool" where
  "less_milestone a b \<longleftrightarrow> milestone_rank a < milestone_rank b"

lemma milestone_rank_inj: "milestone_rank a = milestone_rank b \<Longrightarrow> a = b"
  by (cases a; cases b) simp_all

instance
  by standard (auto simp: less_eq_milestone_def less_milestone_def intro: milestone_rank_inj)

end

definition milestone_name :: "milestone \<Rightarrow> string" where
  "milestone_name m = (case m of Scheduled \<Rightarrow> ''PodScheduled'' | Initialized \<Rightarrow> ''Initialized''
     | Ready \<Rightarrow> ''Ready'' | Unschedulable \<Rightarrow> ''Unschedulable'')"

text \<open>The last condition of the type of a milestone, and the milestones whose last condition is true.\<close>

definition last_of :: "pod_condition list \<Rightarrow> milestone \<Rightarrow> pod_condition option" where
  "last_of cs m = find (\<lambda>c. pc_Type c = milestone_name m) (rev cs)"

definition reached :: "pod_condition list \<Rightarrow> milestone set" where
  "reached cs = {m. \<exists>c. last_of cs m = Some c \<and> pc_Status c = ''True''}"

definition noted :: "pod_condition list \<Rightarrow> milestone \<Rightarrow> pod_condition" where
  "noted cs m = (case last_of cs m of None \<Rightarrow> no_condition | Some c \<Rightarrow> c)"

lemma last_of_snoc: "last_of (cs @ [c]) m = (if pc_Type c = milestone_name m then Some c else last_of cs m)"
  by (simp add: last_of_def)

lemma fold_note:
  "fold note_condition cs (no_condition, no_condition, no_condition, no_condition)
    = (noted cs Scheduled, noted cs Initialized, noted cs Ready, noted cs Unschedulable)"
proof (induction cs rule: rev_induct)
  case Nil
  show ?case by (simp add: noted_def last_of_def)
next
  case (snoc c cs)
  then show ?case
    by (auto simp: note_condition_def noted_def last_of_snoc milestone_name_def)
qed

lemma noted_true: "pc_Status (noted cs m) = ''True'' \<longleftrightarrow> m \<in> reached cs"
  by (auto simp: noted_def reached_def no_condition_def split: option.split)

lemma noted_reached: "m \<in> reached cs \<Longrightarrow> last_of cs m = Some (noted cs m)"
  by (auto simp: reached_def noted_def)

lemma finite_reached: "finite (reached cs)"
proof (rule finite_subset)
  show "reached cs \<subseteq> {Scheduled, Initialized, Ready, Unschedulable}" using milestone.exhaust by blast
qed simp

lemma Max_reached:
  "m \<in> reached cs \<Longrightarrow> (\<And>n. m < n \<Longrightarrow> n \<notin> reached cs) \<Longrightarrow> Max (reached cs) = m"
  by (rule Max_eqI [OF finite_reached]) (auto simp: not_le [symmetric])

lemma milestones_above:
  "\<not> Unschedulable < n" "Ready < n \<longleftrightarrow> n = Unschedulable" "Initialized < n \<longleftrightarrow> n = Ready \<or> n = Unschedulable"
  "Scheduled < n \<longleftrightarrow> n = Initialized \<or> n = Ready \<or> n = Unschedulable"
  by (cases n; simp add: less_milestone_def; fail)+

text \<open>
  C38. The nested choice of \<open>GetHighestPodStatus\<close> answers the greatest milestone of the pod: nil when the
  last condition of none of the four types is true, otherwise the last condition of the greatest type
  for which it is. Earlier conditions of a type, and other types, do not matter. A condition that is false is
  never answered, also not \<open>PodInitialized\<close>, although the comment ranks its false value above \<open>PodScheduled\<close>.
\<close>

theorem GetHighestPodStatus_max:
  "GetHighestPodStatus cs = (if reached cs = {} then None else last_of cs (Max (reached cs)))"
proof -
  let ?r = "reached cs"
  consider "Unschedulable \<in> ?r" | "Unschedulable \<notin> ?r" "Ready \<in> ?r"
    | "Unschedulable \<notin> ?r" "Ready \<notin> ?r" "Initialized \<in> ?r"
    | "Unschedulable \<notin> ?r" "Ready \<notin> ?r" "Initialized \<notin> ?r" "Scheduled \<in> ?r"
    | "Unschedulable \<notin> ?r" "Ready \<notin> ?r" "Initialized \<notin> ?r" "Scheduled \<notin> ?r"
    by blast
  then show ?thesis
  proof cases
    case 1
    then have "Max ?r = Unschedulable" by (intro Max_reached) (auto simp: milestones_above)
    with 1 noted_reached [OF 1] show ?thesis by (auto simp: GetHighestPodStatus_def fold_note noted_true)
  next
    case 2
    then have "Max ?r = Ready" by (intro Max_reached) (auto simp: milestones_above)
    with 2 noted_reached [OF 2(2)] show ?thesis by (auto simp: GetHighestPodStatus_def fold_note noted_true)
  next
    case 3
    then have "Max ?r = Initialized" by (intro Max_reached) (auto simp: milestones_above)
    with 3 noted_reached [OF 3(3)] show ?thesis by (auto simp: GetHighestPodStatus_def fold_note noted_true)
  next
    case 4
    then have "Max ?r = Scheduled" by (intro Max_reached) (auto simp: milestones_above)
    with 4 noted_reached [OF 4(4)] show ?thesis by (auto simp: GetHighestPodStatus_def fold_note noted_true)
  next
    case 5
    have "m \<notin> ?r" for m using 5 by (cases m) simp_all
    then have "?r = {}" by blast
    with 5 show ?thesis by (simp add: GetHighestPodStatus_def fold_note noted_true)
  qed
qed

text \<open>The case in which code and comment differ.\<close>

lemma initialized_false_passed_over:
  assumes "pc_Type sc = ''PodScheduled''" "pc_Status sc = ''True''" "pc_Type ini = ''Initialized''" "pc_Status ini = ''False''"
  shows "GetHighestPodStatus [sc, ini] = Some sc"
  using assms by (simp add: GetHighestPodStatus_def note_condition_def no_condition_def)

section \<open>Control groups\<close>

text \<open>
  With version 1 every group seems to exist: the test is true as soon as the entry is nil. So
  \<open>CreateCgroupIfNotExists\<close> never creates one, and the calls that use the group then panic.
\<close>

lemma v1_group_never_created:
  assumes "\<not> CgV2 s"
  shows "CreateCgroupIfNotExists T ns podname ctr s = (Done (GetCgroup ns podname ctr), s)"
proof -
  have "entry \<noteq> None \<or> Option.bind entry id = None" for entry :: "'a group_ptr option" by (cases entry) simp_all
  then show ?thesis
    using assms by (auto simp: CreateCgroupIfNotExists_def CgroupExists_def io_simps Let_def)
qed

lemma v1_limit_of_new_group_panics:
  assumes "\<not> CgV2 s" and "cg_lookup (GetCgroup ns podname ctr) s = None"
  shows "fst (bnd (CreateCgroupIfNotExists T ns podname ctr) (\<lambda>cgName. SetMemoryLimit T cgName limit) s)
    = Panic ''nil pointer dereference''"
  using assms by (simp add: io_simps v1_group_never_created SetMemoryLimit_def cg_group_def)

text \<open>With version 2 the CPU limit is set only when the group could not be loaded.\<close>

lemma v2_cpu_limit_not_set:
  assumes "CgV2 s" and "LoadSystemd T (slice_name cgName) (cg_world s) = (Done (m, None), w)"
  shows "SetCpuLimit T cgName cpus s = (Done (), s\<lparr>cg_world := w\<rparr>)"
  using assms by (simp add: SetCpuLimit_def io_simps Let_def)

section \<open>The capacity of a node\<close>

lemma local_state_Done: "local_state h m s = (Done a, t) \<longleftrightarrow> fst (m h) = Done a \<and> t = s"
  by (auto simp: local_state_def)

lemma count_pods_Done: "fst (count_pods Q res acc pds h) = Done a \<Longrightarrow> a = acc"
  by (auto simp: count_pods_def bnd_apply ret_apply split: prod.splits outcome.splits)

lemma nodeCapacity_no_usage:
  assumes "nodeCapacity p meminfo Q res s = (Done rl, t)"
    and "name \<in> {''limits.cpu'', ''limits.memory'', ''limits.ephemeral-storage'', ''requests.cpu'',
      ''requests.memory'', ''requests.storage'', ''requests.ephemeral-storage''}"
  shows "map_of rl name = Some (q_zero Q)"
  using assms unfolding nodeCapacity_def Let_def
  by (elim bnd_DoneE) (auto simp: local_state_Done ret_apply elim!: bnd_DoneE dest!: count_pods_Done split: prod.splits)

text \<open>Adding attributes to a span: the pairs in order, and nothing when one is missing its value.\<close>

lemma addAttributes_pairs:
  "addAttributes f ctx (concat (map (\<lambda>(k, v). [k, v]) ps)) = foldl (\<lambda>c (k, v). f c k v) ctx ps"
proof (induction ps arbitrary: ctx)
  case (Cons p ps)
  have "even (length (concat (map (\<lambda>(k, v). [k, v]) ps)))" for ps :: "(string \<times> string) list"
    by (induction ps) auto
  with Cons show ?case by (cases p) simp
qed simp

lemma addAttributes_odd: "odd (length attrs) \<Longrightarrow> addAttributes f ctx attrs = ctx"
  by (cases attrs rule: list.exhaust; cases "tl attrs") auto

end
