(* ===== verification/Startup.thy ===== *)
theory Startup
  imports Agent
begin

text \<open>
  From the command line to the options the agent runs with: the flags of the root command
  (\<open>flag.go\<close>), what \<open>main\<close> does before it (\<open>main.go\<close>), and the small commands. The flag library is a
  parameter where it reads numbers, durations and lists; it calls the pre-run hooks of \<open>main\<close>, then
  the command. The command has options of its own, a copy of those of \<open>main\<close> that the flags point to.
\<close>

section \<open>The flags\<close>

record flag_parsers =
  fp_int :: "string \<Rightarrow> go_error + int"
  fp_duration :: "string \<Rightarrow> go_error + int"
  fp_list :: "string \<Rightarrow> string list \<Rightarrow> go_error + string list"

definition string_flags :: "(string \<times> (string \<Rightarrow> opts \<Rightarrow> opts)) list" where
  "string_flags = [
     (''kubeconfig'', \<lambda>v c. c\<lparr>KubeConfigPath := v\<rparr>), (''namespace'', \<lambda>v c. c\<lparr>KubeNamespace := v\<rparr>),
     (''cluster-domain'', \<lambda>v c. c\<lparr>KubeClusterDomain := v\<rparr>), (''nodename'', \<lambda>v c. c\<lparr>NodeName := v\<rparr>),
     (''os'', \<lambda>v c. c\<lparr>OperatingSystem := v\<rparr>), (''provider'', \<lambda>v c. c\<lparr>opts.Provider := v\<rparr>),
     (''provider-config'', \<lambda>v c. c\<lparr>ProviderConfigPath := v\<rparr>), (''metrics-addr'', \<lambda>v c. c\<lparr>MetricsAddr := v\<rparr>),
     (''taint'', \<lambda>v c. c\<lparr>TaintKey := v\<rparr>), (''trace-service-name'', \<lambda>v c. c\<lparr>TraceServiceName := v\<rparr>),
     (''trace-sample-rate'', \<lambda>v c. c\<lparr>TraceSampleRate := v\<rparr>), (''config'', \<lambda>v c. c\<lparr>ConfigPath := v\<rparr>),
     (''storage'', \<lambda>v c. c\<lparr>StoragePath := v\<rparr>), (''networkMode'', \<lambda>v c. c\<lparr>NetworkMode := v\<rparr>),
     (''agentMode'', \<lambda>v c. c\<lparr>AgentMode := v\<rparr>), (''diskConfigDir'', \<lambda>v c. c\<lparr>DiskConfigDir := v\<rparr>)]"

definition bool_flags :: "(string \<times> (bool \<Rightarrow> opts \<Rightarrow> opts)) list" where
  "bool_flags = [(''disable-taint'', \<lambda>b c. c\<lparr>DisableTaint := b\<rparr>), (''enable-node-lease'', \<lambda>b c. c\<lparr>EnableNodeLease := b\<rparr>),
     (''enableWarrens'', \<lambda>b c. c\<lparr>EnableWarrens := b\<rparr>), (''useIPv6'', \<lambda>b c. c\<lparr>UseIPv6 := b\<rparr>)]"

definition duration_flags :: "(string \<times> (int \<Rightarrow> opts \<Rightarrow> opts)) list" where
  "duration_flags = [(''full-resync-period'', \<lambda>d c. c\<lparr>InformerResyncPeriod := d\<rparr>),
     (''startup-timeout'', \<lambda>d c. c\<lparr>StartupTimeout := d\<rparr>), (''stream-idle-timeout'', \<lambda>d c. c\<lparr>StreamIdleTimeout := d\<rparr>),
     (''stream-creation-timeout'', \<lambda>d c. c\<lparr>StreamCreationTimeout := d\<rparr>)]"

text \<open>\<open>strconv.ParseBool\<close>.\<close>

definition parse_bool :: "string \<Rightarrow> go_error + bool" where
  "parse_bool s = (if s \<in> {''1'', ''t'', ''T'', ''TRUE'', ''true'', ''True''} then Inr True
     else if s \<in> {''0'', ''f'', ''F'', ''FALSE'', ''false'', ''False''} then Inr False
     else Inl (Errorf ''strconv.ParseBool: parsing %q'' [s]))"

text \<open>Setting a flag: a value that does not parse is an error and leaves the options.\<close>

definition set_parsed :: "go_error + 'x \<Rightarrow> ('x \<Rightarrow> opts \<Rightarrow> opts) \<Rightarrow> (opts, goerr) io" where
  "set_parsed r f = (case r of Inl e \<Rightarrow> ret (Some e) | Inr x \<Rightarrow> bnd (modify (f x)) (\<lambda>_. ret None))"

definition set_flag :: "flag_parsers \<Rightarrow> string \<Rightarrow> string \<Rightarrow> (opts, goerr) io" where
  "set_flag fp name v = (case map_of string_flags name of Some f \<Rightarrow> set_parsed (Inr v) f
   | None \<Rightarrow> (case map_of bool_flags name of Some f \<Rightarrow> set_parsed (parse_bool v) f
   | None \<Rightarrow> (case map_of duration_flags name of Some f \<Rightarrow> set_parsed (fp_duration fp v) f
   | None \<Rightarrow>
     if name = ''pod-sync-workers'' then set_parsed (fp_int fp v) (\<lambda>i c. c\<lparr>PodSyncWorkers := i\<rparr>)
     else if name = ''trace-exporter'' then
       bnd get_st (\<lambda>c. set_parsed (fp_list fp v (TraceExporters c)) (\<lambda>es c. c\<lparr>TraceExporters := es\<rparr>))
     else if name = ''trace-tag'' then
       (\<lambda>c. case mapVar_Set v (TraceTags c) of (r, m) \<Rightarrow> (r, c\<lparr>TraceTags := m\<rparr>))
     else ret (Some (Errorf ''unknown flag: --%s'' [name])))))"

text \<open>The command line, a list of flags with values; the first bad one ends it.\<close>

primrec parse_args :: "flag_parsers \<Rightarrow> (string \<times> string) list \<Rightarrow> (opts, goerr) io" where
  "parse_args fp [] = ret None"
| "parse_args fp (a # as) = bnd (set_flag fp (fst a) (snd a)) (\<lambda>err.
     case err of Some e \<Rightarrow> ret (Some e) | None \<Rightarrow> parse_args fp as)"

section \<open>Before the command runs\<close>

text \<open>
  The process: the flags \<open>patchOpts\<close> looks up and the environment, the root of the storage, and the
  rest of the world.
\<close>

record 'w proc =
  pr_patch :: patch_state
  pr_root :: string
  pr_world :: 'w

definition on_patch :: "(patch_state, 'a) io \<Rightarrow> ('w proc, 'a) io" where
  "on_patch m = (\<lambda>s. case m (pr_patch s) of (r, t) \<Rightarrow> (r, s\<lparr>pr_patch := t\<rparr>))"

definition on_root :: "(string, 'a) io \<Rightarrow> ('w proc, 'a) io" where
  "on_root m = (\<lambda>s. case m (pr_root s) of (r, t) \<Rightarrow> (r, s\<lparr>pr_root := t\<rparr>))"

definition on_world :: "('w, 'a) io \<Rightarrow> ('w proc, 'a) io" where
  "on_world m = (\<lambda>s. case m (pr_world s) of (r, t) \<Rightarrow> (r, s\<lparr>pr_world := t\<rparr>))"

lemma on_apply [io_simps]:
  "on_patch m s = (case m (pr_patch s) of (r, t) \<Rightarrow> (r, s\<lparr>pr_patch := t\<rparr>))"
  "on_root m' s = (case m' (pr_root s) of (r, t) \<Rightarrow> (r, s\<lparr>pr_root := t\<rparr>))"
  "on_world m'' s = (case m'' (pr_world s) of (r, t) \<Rightarrow> (r, s\<lparr>pr_world := t\<rparr>))"
  by (simp_all add: on_patch_def on_root_def on_world_def)

text \<open>
  \<open>PersistentPreRunE\<close> of \<open>main\<close>, on the options \<open>c\<close> of \<open>main\<close>; the log level is left out. A
  configuration that is loaded is patched into the flags.
\<close>

definition persistentPreRun :: "'w config_tools \<Rightarrow> string \<Rightarrow> paths \<Rightarrow> opts \<Rightarrow> ('w proc, goerr) io" where
  "persistentPreRun ct goos e c =
     bnd (if ConfigPath c = [] then ret None
       else bnd get_st (\<lambda>s. bnd (on_world (LoadConfig ct (process_env (pr_patch s)) (ConfigPath c))) (\<lambda>r. case r of
         Inl er \<Rightarrow> ret (Some (Wrapf er ''could not parse config'' []))
       | Inr cfg \<Rightarrow> bnd (on_patch (patchOpts goos cfg)) (\<lambda>_. ret None)))) (\<lambda>err.
     if err \<noteq> None then ret err
     else bnd (on_root (SetRootPath (if StoragePath c = [] then DefaultPath e else StoragePath c))) (\<lambda>_. ret None))"

text \<open>\<open>PreRunE\<close> of \<open>main\<close>: an error of \<open>SetDefaultOpts\<close> is reported now.\<close>

definition preRun :: "goerr \<Rightarrow> ('s, goerr) io" where
  "preRun optsErr = ret optsErr"

text \<open>
  Patching a flag that was not given writes the value through to the options of the command; what
  does not parse is ignored.
\<close>

definition patchable :: "string list" where
  "patchable = [''nodename'', ''os'', ''provider'', ''provider-config'', ''metrics-addr'', ''disable-taint'',
     ''pod-sync-workers'', ''enable-node-lease'']"

definition write_through :: "flag_parsers \<Rightarrow> (string \<times> bool \<times> string) list \<Rightarrow> (opts, unit) io" where
  "write_through fp fs = for_all fs (\<lambda>(name, changed, v).
     if changed then ret () else bnd (set_flag fp name v) (\<lambda>_. ret ()))"

text \<open>
  \<open>main\<close> for the root command with the arguments \<open>args\<close>: the options, the flags, the pre-run hooks,
  and then \<open>run\<close>, which is \<open>runRootCommand\<close> with the options of the command.
\<close>

definition main_root :: "flag_parsers \<Rightarrow> 'w config_tools \<Rightarrow> string \<Rightarrow> paths \<Rightarrow> environment \<Rightarrow> (opts \<Rightarrow> ('w proc, goerr) io) \<Rightarrow>
    opts \<Rightarrow> (string \<times> string) list \<Rightarrow> ('w proc, goerr) io" where
  "main_root fp ct goos e env run zero args =
     (case SetDefaultOpts env (PathJoin e) (UserHomeDir e) zero of (c, optsErr) \<Rightarrow>
      case parse_args fp args (installFlags (DefaultPath e) c) of
        (Panic msg, _) \<Rightarrow> panic msg
      | (Diverged, _) \<Rightarrow> diverge
      | (Done (Some er), _) \<Rightarrow> ret (Some er)
      | (Done None, c') \<Rightarrow>
      bnd (modify (\<lambda>s. s\<lparr>pr_patch := (pr_patch s)\<lparr>flags := map (\<lambda>n. (n, n \<in> fst ` set args, [])) patchable\<rparr>\<rparr>)) (\<lambda>_.
      bnd (persistentPreRun ct goos e c) (\<lambda>err. if err \<noteq> None then ret err else
      bnd (preRun optsErr) (\<lambda>err. if err \<noteq> None then ret err else
      bnd get_st (\<lambda>s. case write_through fp (flags (pr_patch s)) c' of
        (Done _, c'') \<Rightarrow> run c''
      | (Panic msg, _) \<Rightarrow> panic msg
      | (Diverged, _) \<Rightarrow> diverge)))))"

section \<open>The small commands\<close>

text \<open>\<open>providers\<close>: what it prints, and the status it exits with.\<close>

definition providers_cmd :: "(string list \<Rightarrow> string list) \<Rightarrow> 'f store \<Rightarrow> string list \<Rightarrow> string list \<times> nat" where
  "providers_cmd ord s args = (case args of
     [] \<Rightarrow> (store_List ord s, 0)
   | [name] \<Rightarrow> if store_Exists s name then ([name], 0) else ([''no such provider '' @ name], 1)
   | _ \<Rightarrow> ([], 0))"

definition version_cmd :: "string \<Rightarrow> string \<Rightarrow> string" where
  "version_cmd version buildTime = ''Version: '' @ version @ '', Built: '' @ buildTime"

end
