(* ===== verification/StartupProps.thy ===== *)
theory StartupProps
  imports Startup OptionsProps
begin

text \<open>
  The properties of the start: which options the root command runs with, given the command line, the
  configuration file and the defaults.
\<close>

section \<open>Patching the flags\<close>

text \<open>The flags \<open>main\<close> patches: which were given, and the values of the others.\<close>

definition flag_table :: "(string \<Rightarrow> bool) \<Rightarrow> (string \<Rightarrow> string) \<Rightarrow> (string \<times> bool \<times> string) list" where
  "flag_table given val = map (\<lambda>n. (n, given n, if given n then [] else val n)) patchable"

lemma distinct_patchable: "distinct patchable"
  by (simp add: patchable_def)

lemma map_of_keys: "n \<in> set ns \<Longrightarrow> map_of (map (\<lambda>n. (n, f n)) ns) n = Some (f n)"
  by (induction ns) auto

lemma update_keys:
  "distinct ns \<Longrightarrow> n \<in> set ns \<Longrightarrow> AList.update n x (map (\<lambda>n. (n, f n)) ns) = map (\<lambda>m. (m, if m = n then x else f m)) ns"
  by (induction ns) auto

lemma patchOpt_table:
  assumes "n \<in> set patchable"
  shows "patchOpt n v \<lparr>flags = flag_table given val, process_env = E\<rparr>
    = (Done (), \<lparr>flags = flag_table given (val(n := v)), process_env = E\<rparr>)"
proof -
  have "AList.update n (False, v) (flag_table given val) = flag_table given (val(n := v))" if "\<not> given n"
    unfolding flag_table_def update_keys [OF distinct_patchable assms] by (rule map_cong) (use that in auto)
  moreover have "flag_table given (val(n := v)) = flag_table given val" if "given n"
    unfolding flag_table_def by (rule map_cong) (use that in auto)
  ultimately show ?thesis
    by (simp add: patchOpt_result) (simp add: flag_table_def map_of_keys [OF assms])
qed

text \<open>What the configuration says of each flag; the address of the node wins over that of the metrics.\<close>

definition patched :: "string \<Rightarrow> config \<Rightarrow> (string \<Rightarrow> string) \<Rightarrow> string \<Rightarrow> string" where
  "patched goos cfg val = val(''nodename'' := cfg_NodeName cfg, ''os'' := goos, ''provider'' := ''backend'',
     ''provider-config'' := ''backend.json'', ''metrics-addr'' := MetricsAddress cfg,
     ''disable-taint'' := format_bool (cfg_DisableTaint cfg), ''pod-sync-workers'' := itoa_int (cfg_PodSyncWorkers cfg),
     ''enable-node-lease'' := ''true'', ''metrics-addr'' := ip_text (NodeInternalIP cfg))"

definition patched_env :: "config \<Rightarrow> environment \<Rightarrow> environment" where
  "patched_env cfg E = E(''APISERVER_CERT_LOCATION'' \<mapsto> ServerCertPath cfg, ''APISERVER_KEY_LOCATION'' \<mapsto> ServerKeyPath cfg,
     ''APISERVER_CA_CERT_LOCATION'' \<mapsto> ServerCertPath cfg, ''VKUBELET_POD_IP'' \<mapsto> ip_text (NodeInternalIP cfg))"

lemma patchable_names:
  "''nodename'' \<in> set patchable" "''os'' \<in> set patchable" "''provider'' \<in> set patchable"
  "''provider-config'' \<in> set patchable" "''metrics-addr'' \<in> set patchable" "''disable-taint'' \<in> set patchable"
  "''pod-sync-workers'' \<in> set patchable" "''enable-node-lease'' \<in> set patchable"
  by (simp_all add: patchable_def)

lemma patchOpts_table:
  "patchOpts goos cfg \<lparr>flags = flag_table given val, process_env = E\<rparr>
    = (Done (), \<lparr>flags = flag_table given (patched goos cfg val), process_env = patched_env cfg E\<rparr>)"
  by (simp only: patchOpts_def for_all.simps bnd_apply prod.case outcome.case patchOpt_table [OF patchable_names(1)]
    patchOpt_table [OF patchable_names(2)] patchOpt_table [OF patchable_names(3)] patchOpt_table [OF patchable_names(4)]
    patchOpt_table [OF patchable_names(5)] patchOpt_table [OF patchable_names(6)] patchOpt_table [OF patchable_names(7)]
    patchOpt_table [OF patchable_names(8)] ret_apply setenv_def modify_apply patch_state.simps patched_def patched_env_def)

section \<open>Writing through to the options\<close>

lemma parse_format_bool: "parse_bool (format_bool b) = Inr b" "parse_bool ''true'' = Inr True"
  by (simp_all add: parse_bool_def format_bool_def)

definition pick :: "bool \<Rightarrow> 'a \<Rightarrow> 'a \<Rightarrow> 'a" where
  "pick given old new = (if given then old else new)"

lemma pick_opts:
  "pick b c (c\<lparr>NodeName := v\<rparr>) = c\<lparr>NodeName := pick b (NodeName c) v\<rparr>"
  "pick b c (c\<lparr>OperatingSystem := v\<rparr>) = c\<lparr>OperatingSystem := pick b (OperatingSystem c) v\<rparr>"
  "pick b c (c\<lparr>opts.Provider := v\<rparr>) = c\<lparr>opts.Provider := pick b (opts.Provider c) v\<rparr>"
  "pick b c (c\<lparr>ProviderConfigPath := v\<rparr>) = c\<lparr>ProviderConfigPath := pick b (ProviderConfigPath c) v\<rparr>"
  "pick b c (c\<lparr>MetricsAddr := v\<rparr>) = c\<lparr>MetricsAddr := pick b (MetricsAddr c) v\<rparr>"
  "pick b c (c\<lparr>DisableTaint := x\<rparr>) = c\<lparr>DisableTaint := pick b (DisableTaint c) x\<rparr>"
  "pick b c (c\<lparr>PodSyncWorkers := i\<rparr>) = c\<lparr>PodSyncWorkers := pick b (PodSyncWorkers c) i\<rparr>"
  "pick b c (c\<lparr>EnableNodeLease := x\<rparr>) = c\<lparr>EnableNodeLease := pick b (EnableNodeLease c) x\<rparr>"
  by (simp_all add: pick_def)

lemma set_flags:
  assumes "fp_int fp (itoa_int i) = Inr i"
  shows "set_flag fp ''nodename'' v c = (Done None, c\<lparr>NodeName := v\<rparr>)"
    "set_flag fp ''os'' v c = (Done None, c\<lparr>OperatingSystem := v\<rparr>)"
    "set_flag fp ''provider'' v c = (Done None, c\<lparr>opts.Provider := v\<rparr>)"
    "set_flag fp ''provider-config'' v c = (Done None, c\<lparr>ProviderConfigPath := v\<rparr>)"
    "set_flag fp ''metrics-addr'' v c = (Done None, c\<lparr>MetricsAddr := v\<rparr>)"
    "set_flag fp ''disable-taint'' (format_bool b) c = (Done None, c\<lparr>DisableTaint := b\<rparr>)"
    "set_flag fp ''pod-sync-workers'' (itoa_int i) c = (Done None, c\<lparr>PodSyncWorkers := i\<rparr>)"
    "set_flag fp ''enable-node-lease'' ''true'' c = (Done None, c\<lparr>EnableNodeLease := True\<rparr>)"
  using assms
  by (simp_all add: set_flag_def string_flags_def bool_flags_def duration_flags_def set_parsed_def io_simps
    parse_format_bool)

lemma write_step:
  "set_flag fp n v c = (Done None, c') \<Longrightarrow>
    (if given then ret () else bnd (set_flag fp n (if given then [] else v)) (\<lambda>_. ret ())) c = (Done (), pick given c c')"
  by (simp add: pick_def io_simps)

definition patch_with :: "string \<Rightarrow> config \<Rightarrow> (string \<Rightarrow> bool) \<Rightarrow> opts \<Rightarrow> opts" where
  "patch_with goos cfg given c = c\<lparr>
     NodeName := pick (given ''nodename'') (NodeName c) (cfg_NodeName cfg),
     OperatingSystem := pick (given ''os'') (OperatingSystem c) goos,
     opts.Provider := pick (given ''provider'') (opts.Provider c) ''backend'',
     ProviderConfigPath := pick (given ''provider-config'') (ProviderConfigPath c) ''backend.json'',
     MetricsAddr := pick (given ''metrics-addr'') (MetricsAddr c) (ip_text (NodeInternalIP cfg)),
     DisableTaint := pick (given ''disable-taint'') (DisableTaint c) (cfg_DisableTaint cfg),
     PodSyncWorkers := pick (given ''pod-sync-workers'') (PodSyncWorkers c) (cfg_PodSyncWorkers cfg),
     EnableNodeLease := pick (given ''enable-node-lease'') (EnableNodeLease c) True\<rparr>"

lemma patched_values:
  "patched goos cfg val ''nodename'' = cfg_NodeName cfg" "patched goos cfg val ''os'' = goos"
  "patched goos cfg val ''provider'' = ''backend''" "patched goos cfg val ''provider-config'' = ''backend.json''"
  "patched goos cfg val ''metrics-addr'' = ip_text (NodeInternalIP cfg)"
  "patched goos cfg val ''disable-taint'' = format_bool (cfg_DisableTaint cfg)"
  "patched goos cfg val ''pod-sync-workers'' = itoa_int (cfg_PodSyncWorkers cfg)"
  "patched goos cfg val ''enable-node-lease'' = ''true''"
  by (simp_all add: patched_def)

lemma write_through_table:
  assumes fp: "fp_int fp (itoa_int (cfg_PodSyncWorkers cfg)) = Inr (cfg_PodSyncWorkers cfg)"
  shows "write_through fp (flag_table given (patched goos cfg val)) c = (Done (), patch_with goos cfg given c)"
  unfolding write_through_def flag_table_def patchable_def list.map for_all.simps prod.case patched_values
  by (simp only: bnd_apply prod.case outcome.case write_step [OF set_flags(1) [OF fp]] write_step [OF set_flags(2) [OF fp]]
    write_step [OF set_flags(3) [OF fp]] write_step [OF set_flags(4) [OF fp]] write_step [OF set_flags(5) [OF fp]]
    write_step [OF set_flags(6) [OF fp]] write_step [OF set_flags(7) [OF fp]] write_step [OF set_flags(8) [OF fp]]
    ret_apply pick_opts) (simp add: patch_with_def)

section \<open>The options of the root command\<close>

lemma SetDefaultOpts_paths:
  "SetDefaultOpts env pjoin home zero = (c, None) \<Longrightarrow> ConfigPath c = or_default (ConfigPath zero) ''default.json'' \<and> StoragePath c = StoragePath zero"
  by (auto simp: SetDefaultOpts_ok defaults_after_def defaults_before_def Let_def)

text \<open>
  C39. Which options the root command runs with. The command line comes first, then - for eight of the
  flags - the configuration file, whose metrics address is always replaced by the address of the node;
  everything else is what the flags say. The file that is loaded and the root of the storage do not
  depend on the command line: \<open>--config\<close> and \<open>--storage\<close> have no effect on them.
\<close>

theorem root_command_options:
  assumes defaults: "SetDefaultOpts env (PathJoin e) (UserHomeDir e) zero = (c, None)" "ConfigPath zero = []" "StoragePath zero = []"
    and line: "parse_args fp args (installFlags (DefaultPath e) c) = (Done None, c')"
    and loaded: "LoadConfig ct (process_env (pr_patch s)) ''default.json'' (pr_world s) = (Done (Inr cfg), w)"
    and ints: "fp_int fp (itoa_int (cfg_PodSyncWorkers cfg)) = Inr (cfg_PodSyncWorkers cfg)"
  shows "\<exists>t. main_root fp ct goos e env run zero args s = run (patch_with goos cfg (\<lambda>n. n \<in> fst ` set args) c') t
    \<and> pr_root t = DefaultPath e \<and> pr_world t = w
    \<and> process_env (pr_patch t) = patched_env cfg (process_env (pr_patch s))"
proof -
  let ?given = "\<lambda>n. n \<in> fst ` set args"
  have table: "map (\<lambda>n. (n, n \<in> fst ` set args, [])) patchable = flag_table ?given (\<lambda>_. [])"
    by (simp add: flag_table_def)
  have paths: "ConfigPath c = ''default.json''" "StoragePath c = []"
    using SetDefaultOpts_paths [OF defaults(1)] defaults(2,3) by (simp_all add: or_default_def)
  have patch: "(pr_patch s)\<lparr>flags := x\<rparr> = \<lparr>flags = x, process_env = process_env (pr_patch s)\<rparr>" for x
    by (cases "pr_patch s") simp
  show ?thesis
    unfolding main_root_def defaults(1) line prod.case outcome.case option.case table
    by (simp add: io_simps persistentPreRun_def paths loaded patch patchOpts_table preRun_def SetRootPath_def
      write_through_table [OF ints]) (intro exI conjI, rule refl, simp_all)
qed

definition sample_cfg :: config where
  "sample_cfg = \<lparr>ServerCertPath = ''cert.pem'', ServerKeyPath = ''key.pem'', NodeInternalIP = Some ''10.0.0.1'',
     NodeExternalIP = Some ''10.0.0.1'', cfg_NodeName = ''from-file'', cfg_DisableTaint = False, MetricsAddress = '':9'',
     cfg_PodSyncWorkers = 10, CNIPrefix = [], Debug = False, TunnelPort = 0\<rparr>"

definition sample_tools :: "unit config_tools" where
  "sample_tools = \<lparr>OpenConfig = (\<lambda>path. ret ([], if path = ''default.json'' then None else Some (Errorf path []))),
     DecodeConfig = (\<lambda>_. (Some sample_cfg, None)), ct_InternalIP = ret None, ct_ExternalIP = ret None, ct_HostName = ret []\<rparr>"

definition sample_parsers :: flag_parsers where
  "sample_parsers = \<lparr>fp_int = atoi, fp_duration = atoi, fp_list = (\<lambda>v _. Inr [v])\<rparr>"

definition sample_paths :: paths where
  "sample_paths = \<lparr>UserHomeDir = [], PathJoin = join_with ''/''\<rparr>"

definition sample_proc :: "unit proc" where
  "sample_proc = \<lparr>pr_patch = \<lparr>flags = [], process_env = (\<lambda>_. None)\<rparr>, pr_root = [], pr_world = ()\<rparr>"

lemma sample_config_loads: "LoadConfig sample_tools (\<lambda>_. None) ''default.json'' () = (Done (Inr sample_cfg), ())"
  by (simp add: LoadConfig_def sample_tools_def io_simps sample_cfg_def override_config_def env_string_def env_int_def
    os_Getenv_def getEnv_def validate_config_def or_default_int_def)

lemma atoi_ten: "atoi (itoa_int 10) = Inr 10"
  by code_simp

text \<open>An agent that is told another name, configuration file and storage, and asks for a port.\<close>

theorem root_command_options_witness:
  "\<exists>t. main_root sample_parsers sample_tools ''linux'' sample_paths (\<lambda>_. None) (\<lambda>c. ret (Some (Errorf (NodeName c) [MetricsAddr c])))
      empty_opts [(''nodename'', ''edge''), (''config'', ''mine.json''), (''storage'', ''/data'')] sample_proc
      = (Done (Some (Errorf ''edge'' [''10.0.0.1''])), t) \<and> pr_root t = ''/var/lib/fledge''"
proof -
  let ?args = "[(''nodename'', ''edge''), (''config'', ''mine.json''), (''storage'', ''/data'')]"
  obtain c where c: "SetDefaultOpts (\<lambda>_. None) (PathJoin sample_paths) (UserHomeDir sample_paths) empty_opts = (c, None)"
    by (simp add: SetDefaultOpts_def Let_def default_port_def defaults_before_def os_Getenv_def getEnv_def empty_opts_def)
  have line: "parse_args sample_parsers ?args (installFlags (DefaultPath sample_paths) c)
      = (Done None, (installFlags (DefaultPath sample_paths) c)\<lparr>NodeName := ''edge'', ConfigPath := ''mine.json'', StoragePath := ''/data''\<rparr>)"
    by (simp add: set_flag_def string_flags_def set_parsed_def io_simps)
  have loaded: "LoadConfig sample_tools (process_env (pr_patch sample_proc)) ''default.json'' (pr_world sample_proc) = (Done (Inr sample_cfg), ())"
    by (simp add: sample_proc_def sample_config_loads)
  have paths: "ConfigPath empty_opts = []" "StoragePath empty_opts = []" by (simp_all add: empty_opts_def)
  have ints: "fp_int sample_parsers (itoa_int (cfg_PodSyncWorkers sample_cfg)) = Inr (cfg_PodSyncWorkers sample_cfg)"
    by (simp add: sample_parsers_def sample_cfg_def atoi_ten)
  from root_command_options [OF c paths line loaded ints, of "''linux''" "\<lambda>c. ret (Some (Errorf (NodeName c) [MetricsAddr c]))"]
  show ?thesis
    by (auto simp: ret_apply patch_with_def pick_def sample_cfg_def ip_text_def DefaultPath_def sample_paths_def)
qed

end
