(* ===== verification/Cluster.thy ===== *)
theory Cluster
  imports Complex_Main Agent Host Tracing
begin

text \<open>
  The cluster mode: \<open>StartVkubelet\<close> of \<open>root.go\<close>, and the authentication of its web server
  (\<open>auth.go\<close>). The node itself - its controllers, its server, what it does with the options it is
  given - is the library of virtual-kubelet, the record \<open>cluster_tools\<close>. In this mode nothing sets the
  global network manager, so every call of a provider to it dereferences nil.
\<close>

section \<open>Authentication\<close>

abbreviation minute :: int where "minute \<equiv> 60 * second"

record 'ca webhook_config =
  wc_ClientCA :: "'ca option"
  wc_CacheTTL :: int
  wc_AllowCacheTTL :: int
  wc_DenyCacheTTL :: int

text \<open>The two factories of the libraries, given the configuration and the client in it.\<close>

record ('s, 'ca, 'authn, 'authz) auth_tools =
  au_NewDynamicCA :: "string \<Rightarrow> string \<Rightarrow> ('s, 'ca option \<times> goerr) io"
  au_NewAuthn :: "'ca webhook_config \<Rightarrow> ('s, 'authn \<times> goerr) io"
  au_NewAuthz :: "'ca webhook_config \<Rightarrow> ('s, 'authz \<times> goerr) io"

record ('authn, 'authz) authWrapper =
  aw_Request :: 'authn
  aw_NodeName :: string
  aw_Authorizer :: 'authz

primrec run_auth_options :: "('c \<Rightarrow> ('s, 'c \<times> goerr) io) list \<Rightarrow> 'c \<Rightarrow> ('s, go_error + 'c) io" where
  "run_auth_options [] cfg = ret (Inr cfg)"
| "run_auth_options (o1 # os) cfg = bnd (o1 cfg) (\<lambda>(cfg, err). case err of
     Some e \<Rightarrow> ret (Inl e) | None \<Rightarrow> run_auth_options os cfg)"

definition WebhookAuth :: "('s, 'ca, 'authn, 'authz) auth_tools \<Rightarrow> string \<Rightarrow>
    ('ca webhook_config \<Rightarrow> ('s, 'ca webhook_config \<times> goerr) io) list \<Rightarrow>
    ('s, go_error + ('authn, 'authz) authWrapper) io" where
  "WebhookAuth au node os =
     bnd (run_auth_options os \<lparr>wc_ClientCA = None, wc_CacheTTL = 2 * minute, wc_AllowCacheTTL = 5 * minute,
       wc_DenyCacheTTL = 30 * second\<rparr>) (\<lambda>r. case r of Inl e \<Rightarrow> ret (Inl e) | Inr cfg \<Rightarrow>
     bnd (au_NewAuthn au cfg) (\<lambda>(authn, err). case err of Some e \<Rightarrow> ret (Inl e) | None \<Rightarrow>
     bnd (au_NewAuthz au cfg) (\<lambda>(authz, err). case err of Some e \<Rightarrow> ret (Inl e) | None \<Rightarrow>
     ret (Inr \<lparr>aw_Request = authn, aw_NodeName = node, aw_Authorizer = authz\<rparr>))))"

text \<open>The handler of the server, as it is wrapped: \<open>None\<close> inside \<open>WithAuth\<close> is \<open>NoAuth\<close>.\<close>

datatype 'auth http_handler = Mux | Instrumented "'auth http_handler" | WithAuth "'auth option" "'auth http_handler"

definition setAuth :: "('s, 'ca, 'authn, 'authz) auth_tools \<Rightarrow> string \<Rightarrow> api_config \<Rightarrow>
    ('authn, 'authz) authWrapper http_handler \<Rightarrow> ('s, ('authn, 'authz) authWrapper http_handler \<times> goerr) io" where
  "setAuth au node apiCfg h = (if CACertPath apiCfg = [] then ret (Instrumented (WithAuth None h), None)
     else bnd (WebhookAuth au node [\<lambda>cfg. bnd (au_NewDynamicCA au ''ca-cert-bundle'' (CACertPath apiCfg)) (\<lambda>(ca, err).
         ret (cfg\<lparr>wc_ClientCA := ca\<rparr>, err))]) (\<lambda>r. case r of
       Inl e \<Rightarrow> ret (h, Some e)
     | Inr auth \<Rightarrow> ret (Instrumented (WithAuth (Some auth) h), None)))"

definition maybeCA :: "string \<Rightarrow> string option" where
  "maybeCA p = (if p = [] then None else Some p)"

section \<open>The node\<close>

text \<open>The configuration of the library, as far as the code writes it.\<close>

record node_config =
  nf_KubeconfigPath :: string
  nf_InformerResyncPeriod :: int
  nf_Taints :: "taint list"
  nf_Architecture :: string
  nf_OperatingSystem :: string
  nf_HTTPListenAddr :: string
  nf_StreamCreationTimeout :: int
  nf_StreamIdleTimeout :: int
  nf_DebugHTTP :: bool
  nf_NumWorkers :: int

definition configure_node :: "opts \<Rightarrow> api_config \<Rightarrow> taint option \<Rightarrow> string \<Rightarrow> node_config \<Rightarrow> node_config" where
  "configure_node c apiConfig tn goarch cfg = cfg\<lparr>
     nf_KubeconfigPath := KubeConfigPath c, nf_InformerResyncPeriod := InformerResyncPeriod c,
     nf_Taints := nf_Taints cfg @ (case tn of None \<Rightarrow> [] | Some t \<Rightarrow> [t]),
     nf_Architecture := goarch, nf_OperatingSystem := OperatingSystem c,
     nf_HTTPListenAddr := ac_Addr apiConfig, nf_StreamCreationTimeout := ac_StreamCreationTimeout apiConfig,
     nf_StreamIdleTimeout := ac_StreamIdleTimeout apiConfig, nf_DebugHTTP := True, nf_NumWorkers := PodSyncWorkers c\<rparr>"

text \<open>
  The options \<open>NewNode\<close> is given, in order: the configuration with the multiplexer as handler, the
  authentication, the certificates, and the routes of the provider.
\<close>

datatype ('s, 'auth) node_option =
    Configure "node_config \<Rightarrow> node_config"
  | Authenticate "'auth http_handler \<Rightarrow> ('s, 'auth http_handler \<times> goerr) io"
  | WithTLSConfig string string "string option"
  | AttachProviderRoutes

text \<open>The state of the cluster mode is that of the provider and the node object of the library.\<close>

type_synonym ('v, 'q) cluster_state = "(osv_state \<times> 'v) provider_state \<times> 'q node"

record ('s, 'v, 'auth, 'cm) cluster_tools =
  cl_NewResourceManager :: "('s, go_error + (osv_state \<times> 'v) listers) io"
  cl_NewNode :: "string \<Rightarrow> ('s, go_error + (osv_state \<times> 'v) provider) io \<Rightarrow> ('s, 'auth) node_option list \<Rightarrow>
     ('s, go_error + 'cm) io"
  cl_Run :: "'cm \<Rightarrow> ('s, unit) io"
  cl_Stop :: "'cm \<Rightarrow> ('s, unit) io"
  cl_WaitReady :: "'cm \<Rightarrow> int \<Rightarrow> ('s, goerr) io"
  cl_ContextDone :: "'cm \<Rightarrow> ('s, bool) io"
  cl_Err :: "'cm \<Rightarrow> ('s, goerr) io"

text \<open>What a nil pointer to a network manager does.\<close>

definition nil_net :: "'v CNIManager" where
  "nil_net = \<lparr>
     cni_InitContainerNetworking = panic ''nil pointer dereference'',
     cni_TeardownContainerNetworking = panic ''nil pointer dereference'',
     cni_InitPodNetwork = (\<lambda>_ _. panic ''nil pointer dereference''),
     cni_StopPodNetwork = (\<lambda>_ _. panic ''nil pointer dereference''),
     cni_GetNetNsHandle = (\<lambda>_ _. panic ''nil pointer dereference''),
     cni_GetNetNsPath = (\<lambda>_ _. panic ''nil pointer dereference''),
     cni_CreateVMTun = (\<lambda>_ _ _. panic ''nil pointer dereference''),
     cni_GetGatewayAddress = (\<lambda>_ _. panic ''nil pointer dereference'')\<rparr>"

text \<open>
  The function \<open>NewNode\<close> calls to make the provider; the second provider it answers is nil.
  \<open>host\<close> holds the architecture and the system of the binary.
\<close>

definition newProvider :: "(('v, 'q) cluster_state, 'v, 'auth, 'cm) cluster_tools \<Rightarrow> environment \<Rightarrow> opts \<Rightarrow>
    'v init_func store \<Rightarrow> string \<times> string \<Rightarrow> (osv_state \<times> 'v, string \<times> goerr) io \<Rightarrow> 'q quantities \<Rightarrow>
    (container \<Rightarrow> 'q resources option \<times> 'q resources option) \<Rightarrow>
    (('v, 'q) cluster_state, go_error + (osv_state \<times> 'v) provider) io" where
  "newProvider cl env c st host meminfo Q res =
     bnd (cl_NewResourceManager cl) (\<lambda>r. case r of
       Inl e \<Rightarrow> ret (Inl (Wrapf e ''could not create resource manager'' []))
     | Inr rm \<Rightarrow>
     bnd (on_provider (on_net (getProviderWithConfig env c rm st nil_net))) (\<lambda>r. case r of
       Inl e \<Rightarrow> ret (Inl e)
     | Inr p \<Rightarrow>
     bnd (ConfigureNode p (ListenPort c) (fst host) (snd host) meminfo Q res) (\<lambda>_.
     bnd (modify (\<lambda>(s, n). (s, n\<lparr>nd_KubeletVersion := opts.Version c\<rparr>))) (\<lambda>_.
     ret (Inr p)))))"

definition StartVkubelet :: "(('v, 'q) cluster_state, 'v, ('authn, 'authz) authWrapper, 'cm) cluster_tools \<Rightarrow>
    (('v, 'q) cluster_state, 'ca, 'authn, 'authz) auth_tools \<Rightarrow> (('v, 'q) cluster_state, 'e) trace_tools \<Rightarrow>
    environment \<Rightarrow> 'v init_func store \<Rightarrow> string \<times> string \<Rightarrow> (osv_state \<times> 'v, string \<times> goerr) io \<Rightarrow> 'q quantities \<Rightarrow>
    (container \<Rightarrow> 'q resources option \<times> 'q resources option) \<Rightarrow> opts \<Rightarrow> (('v, 'q) cluster_state, goerr) io" where
  "StartVkubelet cl au tt env st host meminfo Q res c =
     (if PodSyncWorkers c = 0 then ret (Some (Errorf ''pod sync workers must be greater than 0'' []))
      else case (if DisableTaint c then (None, None) else getTaint env c) of (tn, err) \<Rightarrow>
      if err \<noteq> None then ret err
      else case getAPIConfig env c of (apiConfig, err) \<Rightarrow>
      if err \<noteq> None then ret err
      else
        bnd (cl_NewNode cl (NodeName c) (newProvider cl env c st host meminfo Q res)
          [Configure (configure_node c apiConfig tn (fst host)), Authenticate (setAuth au (NodeName c) apiConfig),
           WithTLSConfig (CertPath apiConfig) (KeyPath apiConfig) (maybeCA (CACertPath apiConfig)),
           AttachProviderRoutes]) (\<lambda>r. case r of Inl e \<Rightarrow> ret (Some e) | Inr cm \<Rightarrow>
        bnd (setupTracing tt c) (\<lambda>err. if err \<noteq> None then ret err else
        bnd (cl_Run cl cm) (\<lambda>_.
        deferring (cl_Stop cl cm) (
          bnd (cl_WaitReady cl cm (StartupTimeout c)) (\<lambda>err. if err \<noteq> None then ret err else
          bnd (cl_ContextDone cl cm) (\<lambda>done. if done then ret None else cl_Err cl cm)))))))"

end
