(* ===== verification/ClusterProps.thy ===== *)
theory ClusterProps
  imports Cluster AgentProps
begin

text \<open>
  The property of the cluster mode: with the provider it makes, no pod can be created.
\<close>

section \<open>No pod runs in cluster mode\<close>

lemma NewProvider_manager:
  assumes "NewProvider read un newC newO p n = (Done (Inr q), t)"
  shows "PodNetworkManager_ptr q = PodNetworkManager_ptr p"
  using assms
  by (auto simp: NewProvider_def NewProviderConfig_def Let_def ret_apply elim!: bnd_DoneE split: sum.splits)

lemma net_map_back: "net_map (Pair (fst (kern n)) \<circ> snd) n = n"
  by (cases n) (simp add: net_map_def)

lemma CreatePod_nil_net:
  assumes "PodNetworkManager_ptr p = Some (lift_manager nil_net)" "\<not> is_k8s_app pd"
  shows "CreatePod p pd s = (Panic ''nil pointer dereference'', s\<lparr>pods := AList.update (podToIdentifier pd) pd (pods s)\<rparr>)"
  using assms
  by (cases s) (simp add: CreatePod_def network_manager_def io_simps lift_manager_def nil_net_def lift_apply net_map_back)

lemma newProvider_manager:
  assumes "store_Get st (opts.Provider c) = Some (backend_init ag base)"
    and "newProvider cl env c st host meminfo Q res s = (Done (Inr p), t)"
  shows "PodNetworkManager_ptr p = Some (lift_manager nil_net)"
  using assms(2) assms(1)
  by (auto simp: newProvider_def getProviderWithConfig_def Let_def backend_init_def ret_apply on_provider_def on_net_def
      elim!: bnd_DoneE split: sum.splits prod.splits dest!: NewProvider_manager)

text \<open>
  C31. In cluster mode nothing sets the global network manager: with every provider the cluster mode
  makes, whatever the cluster, the kernel and the configuration answer, creating any pod that is not one
  of Kubernetes' own applications dereferences nil - after recording the pod, so that the node goes on
  to report it - and nothing else happens.
\<close>

theorem cluster_CreatePod_panics:
  assumes "store_Get st (opts.Provider c) = Some (backend_init ag base)"
    and "newProvider cl env c st host meminfo Q res s = (Done (Inr p), t)"
    and "\<not> is_k8s_app pd"
  shows "CreatePod p pd u = (Panic ''nil pointer dereference'', u\<lparr>pods := AList.update (podToIdentifier pd) pd (pods u)\<rparr>)"
  using CreatePod_nil_net [OF newProvider_manager [OF assms(1,2)] assms(3)] .

text \<open>A cluster that is there, on a host whose commands print nothing; quantities are integers.\<close>

definition sim_quantities :: "int quantities" where
  "sim_quantities = \<lparr>q_parse = (\<lambda>s. (case atoi s of Inl e \<Rightarrow> (0, Some e) | Inr i \<Rightarrow> (i, None))), q_zero = 0,
     q_add = (+), q_float = rat_of_int\<rparr>"

definition sim_cluster :: "((sim, int) cluster_state, sim, unit, unit) cluster_tools" where
  "sim_cluster = \<lparr>cl_NewResourceManager = ret (Inr sim_listers),
     cl_NewNode = (\<lambda>_ np _. bnd np (\<lambda>r. case r of Inl e \<Rightarrow> ret (Inl e) | Inr _ \<Rightarrow> ret (Inr ()))),
     cl_Run = (\<lambda>_. ret ()), cl_Stop = (\<lambda>_. ret ()), cl_WaitReady = (\<lambda>_ _. ret None),
     cl_ContextDone = (\<lambda>_. ret True), cl_Err = (\<lambda>_. ret None)\<rparr>"

definition sim_node_object :: "int node" where
  "sim_node_object = \<lparr>nd_Addresses = [], nd_Allocatable = [], nd_Capacity = [], nd_Conditions = [], nd_Port = 0,
     nd_Architecture = [], nd_OperatingSystem = [], nd_KubeletVersion = [], nd_Labels = Some []\<rparr>"

definition quiet_host :: "'w provider \<Rightarrow> 'w provider" where
  "quiet_host base = base\<lparr>runtime_kernel := (runtime_kernel base)
     \<lparr>ShellOutput := \<lambda>_. ret ([], None), RangeOrder := \<lambda>_. ret []\<rparr>\<rparr>"

definition sim_meminfo :: string where
  "sim_meminfo = ''MemTotal:  8 kB MemAvailable: 4 kB''"

lemma find_sim: "find_match ''MemTotal'' sim_meminfo = Some (''8'', CHR ''k'')" "find_match ''MemAvailable'' sim_meminfo = Some (''4'', CHR ''k'')"
  by code_simp+

text \<open>On a quiet host a node with a map of labels is configured.\<close>

definition quiet :: "'w kernel \<Rightarrow> bool" where
  "quiet k \<longleftrightarrow> ShellOutput k = (\<lambda>_. ret ([], None)) \<and> RangeOrder k = (\<lambda>_. ret [])"

lemma quiet_calls:
  assumes "quiet k"
  shows "ExecShellCommand k cmd m = (Done ([], None), m)" "range_map k [] m = (Done [], m)"
  using assms by (simp_all add: quiet_def ExecShellCommand_def range_map_def io_simps)

lemma quiet_storage:
  assumes "quiet k"
  shows "storageQuantity k Q field m = (Done (q_parse Q []), m)" "CpuCount k Q m = (Done (q_parse Q []), m)"
    "HostName k m = (Done [], m)" "IsNetworkAvailable k m = (Done True, m)"
  using quiet_calls [OF assms]
  by (simp_all add: storageQuantity_def CpuCount_def HostName_def IsNetworkAvailable_def io_simps RemoveSpace_def)

lemma upper_k: "to_upper CHR ''k'' = CHR ''K''"
  by code_simp

lemma sim_memory:
  "MemoryTotal (ret (sim_meminfo, None)) Q m = (Done (q_parse Q ''8Ki''), m)"
  "MemoryAvailable (ret (sim_meminfo, None)) Q m = (Done (q_parse Q ''4Ki''), m)"
  by (simp_all add: MemoryTotal_def MemoryAvailable_def memoryQuantity_def io_simps find_sim upper_k)

lemma quiet_conditions:
  assumes "quiet k"
  shows "\<exists>cs. nodeConditions k (ret (sim_meminfo, None)) Q m = (Done cs, m)"
  by (simp add: nodeConditions_def IsMemoryPressure_def IsStoragePressure_def IsStorageFull_def storage_below_def
      StorageSize_def StorageAvailable_def io_simps quiet_storage [OF assms] sim_memory split: prod.split)

lemma quiet_capacity:
  assumes "quiet (runtime_kernel p)" "pods s = []"
  shows "\<exists>rl. nodeCapacity p (ret (sim_meminfo, None)) Q res s = (Done rl, s)"
  using assms(2)
  by (simp add: nodeCapacity_def Let_def GetPods_def on_net_def io_simps quiet_calls [OF assms(1)]
      quiet_storage [OF assms(1)] StorageSize_def sim_memory local_state_def count_pods_def split: prod.split)

lemma ConfigureNode_quiet:
  assumes "quiet (runtime_kernel p)" "pods s = []" "nd_Labels n = Some l"
  shows "\<exists>t. ConfigureNode p port goarch goos (ret (sim_meminfo, None)) Q res (s, n) = (Done (), t)"
proof -
  obtain rl where rl: "nodeCapacity p (ret (sim_meminfo, None)) Q res s = (Done rl, s)"
    using quiet_capacity [OF assms(1,2)] by blast
  obtain cs where cs: "nodeConditions (runtime_kernel p) (ret (sim_meminfo, None)) Q (net s) = (Done cs, net s)"
    using quiet_conditions [OF assms(1)] by blast
  show ?thesis
    using assms(3) by (simp add: ConfigureNode_def nodeAddresses_def on_provider_def on_net_def io_simps rl cs
      quiet_storage [OF assms(1)] set_label_def)
qed

lemma quiet_provider:
  "\<exists>p m. getProviderWithConfig (\<lambda>_. None) sim_opts rm (sim_stored (quiet_host base)) nm
      (net_map (Pair NewOSvBackend) (sim_state am None)) = (Done (Inr p), m)
    \<and> quiet (runtime_kernel p)"
  by (simp add: quiet_def io_simps getProviderWithConfig_def Let_def backend_init_def NewProvider_def loadConfig_def
      default_config_def NewProviderConfig_def defaultConfig_def new_containerd_def NewContainerdBackend_def sim_cd_def
      BackendContainerd_def quiet_host_def)

theorem cluster_CreatePod_panics_witness:
  "\<forall>base :: (osv_state \<times> sim) provider. \<exists>p t.
     newProvider sim_cluster (\<lambda>_. None) sim_opts (sim_stored (quiet_host base)) (''amd64'', ''linux'')
       (ret (sim_meminfo, None)) sim_quantities (\<lambda>_. (None, None))
       (no_pods (net_map (Pair NewOSvBackend) (sim_state (AM4 no_am4) None)), sim_node_object) = (Done (Inr p), t)
     \<and> fst (CreatePod p (sim_pod ''default'' ''a'' []) (fst t)) = Panic ''nil pointer dereference''"
proof
  fix base :: "(osv_state \<times> sim) provider"
  let ?n = "net_map (Pair NewOSvBackend) (sim_state (AM4 no_am4) None)"
  let ?new = "newProvider sim_cluster (\<lambda>_. None) sim_opts (sim_stored (quiet_host base)) (''amd64'', ''linux'')
       (ret (sim_meminfo, None)) sim_quantities (\<lambda>_. (None, None)) (no_pods ?n, sim_node_object)"
  obtain p m where p: "getProviderWithConfig (\<lambda>_. None) sim_opts sim_listers (sim_stored (quiet_host base)) nil_net ?n
      = (Done (Inr p), m)" "quiet (runtime_kernel p)"
    using quiet_provider by blast
  have "pods ((no_pods ?n)\<lparr>net := m\<rparr>) = []" "nd_Labels sim_node_object = Some []"
    by (simp_all add: no_pods_def sim_node_object_def)
  then obtain t where t: "ConfigureNode p (ListenPort sim_opts) ''amd64'' ''linux'' (ret (sim_meminfo, None)) sim_quantities (\<lambda>_. (None, None))
      ((no_pods ?n)\<lparr>net := m\<rparr>, sim_node_object) = (Done (), t)"
    using ConfigureNode_quiet [OF p(2)] by blast
  have new: "\<exists>t'. ?new = (Done (Inr p), t')"
    using p(1) t by (simp add: newProvider_def sim_cluster_def io_simps on_provider_def on_net_def no_pods_def)
  then obtain t' where t': "?new = (Done (Inr p), t')" by blast
  have "\<not> is_k8s_app (sim_pod ''default'' ''a'' [])" by simp
  from cluster_CreatePod_panics [OF _ t' this] t'
  show "\<exists>p t. ?new = (Done (Inr p), t) \<and> fst (CreatePod p (sim_pod ''default'' ''a'' []) (fst t)) = Panic ''nil pointer dereference''"
    by (metis fst_conv sim_opts_simps(4) sim_stored_simps)
qed

end
