(* ===== verification/Stats.thy ===== *)
theory Stats
  imports Complex_Main Agent
begin

text \<open>
  \<open>StatsSummary\<close> of \<open>fledgews/Handlers.go\<close>: what \<open>GET /stats/summary/\<close> answers, made from the output of
  shell commands, and the global total it adds to. \<open>strconv.ParseFloat\<close> is a parameter; its floats
  are read as the rational numbers they are. The time stamps and the encoding of the answer are left
  out. \<open>GetPods\<close> of the same file, which has no route, encodes what the provider answers.
\<close>

text \<open>\<open>strings.TrimSuffix(s, newline)\<close>, and \<open>\s+\<close> replaced by one blank.\<close>

definition trim_suffix :: "string \<Rightarrow> string" where
  "trim_suffix s = (if s \<noteq> [] \<and> last s = CHR 0x0A then butlast s else s)"

fun collapse :: "bool \<Rightarrow> string \<Rightarrow> string" where
  "collapse inside [] = []"
| "collapse inside (c # cs) = (if is_space c then (if inside then [] else '' '') @ collapse True cs else c # collapse False cs)"

definition columns :: "string \<Rightarrow> string list" where
  "columns s = split_on CHR '' '' (collapse False s)"

definition decimal_digits :: "string \<Rightarrow> bool" where
  "decimal_digits s = (s \<noteq> [] \<and> list_all (\<lambda>c. c \<in> set ''0123456789'') s)"

text \<open>\<open>strconv.ParseUint(s, 10, 64)\<close> with its error dropped: 0 or, out of range, the greatest value.\<close>

definition parse_uint :: "string \<Rightarrow> 64 word" where
  "parse_uint s = (if \<not> decimal_digits s then 0
     else case digits_val 10 0 s of None \<Rightarrow> 0 | Some n \<Rightarrow> if n < 2 ^ 64 then of_nat n else - 1)"

text \<open>\<open>strconv.Atoi\<close> with its error dropped, in the same way.\<close>

definition atoi_value :: "string \<Rightarrow> int" where
  "atoi_value s = (case atoi s of Inr n \<Rightarrow> n
   | Inl _ \<Rightarrow> (case s of [] \<Rightarrow> 0 | c # cs \<Rightarrow>
       if c = CHR ''-'' then (if decimal_digits cs then - (2 ^ 63) else 0)
       else if decimal_digits (if c = CHR ''+'' then cs else s) then 2 ^ 63 - 1 else 0))"

text \<open>The index expression of a slice.\<close>

definition index_at :: "'a list \<Rightarrow> nat \<Rightarrow> ('s, 'a) io" where
  "index_at xs i = (if i < length xs then ret (xs ! i) else panic ''index out of range'')"

text \<open>
  \<open>uint64((100 - cpuIdle) * 10000000) * uint64(numCpus)\<close>: the conversion rounds towards zero, the
  product wraps around.
\<close>

definition cpu_nanos :: "rat \<Rightarrow> int \<Rightarrow> 64 word" where
  "cpu_nanos cpuIdle numCpus = (let x = (100 - cpuIdle) * 10000000
     in word_of_int (if x < 0 then \<lceil>x\<rceil> else \<lfloor>x\<rfloor>) * word_of_int numCpus)"

record node_stats =
  ns_NodeName :: string
  ns_UsageNanoCores :: "64 word"
  ns_UsageCoreNanoSeconds :: "64 word"
  ns_UsageBytes :: "64 word"
  ns_AvailableBytes :: "64 word"
  ns_WorkingSetBytes :: "64 word"

text \<open>The state is the network's with its kernel, which runs the commands, and \<open>totalNanoCores\<close>.\<close>

type_synonym ('w, 'a) sio = "('w net_state \<times> 64 word, 'a) io"

definition sh :: "'w kernel \<Rightarrow> string \<Rightarrow> ('w, string) sio" where
  "sh k cmd = (\<lambda>(n, x). case ExecShellCommand k cmd n of
     (Done (stdout, _), n') \<Rightarrow> (Done stdout, (n', x))
   | (Panic msg, n') \<Rightarrow> (Panic msg, (n', x)) | (Diverged, n') \<Rightarrow> (Diverged, (n', x)))"

definition quoted :: "string \<Rightarrow> string" where
  "quoted s = CHR 0x27 # s @ [CHR 0x27]"

definition free_memory :: "'w kernel \<Rightarrow> ('w, 64 word \<times> 64 word) sio" where
  "free_memory k =
     bnd (sh k (''free | grep '' @ quoted ''Mem:'')) (\<lambda>memStatsStr.
     let cats = columns memStatsStr in
     bnd (index_at cats 6) (\<lambda>f. bnd (index_at cats 1) (\<lambda>sz.
     bnd (sh k (''free | grep '' @ quoted ''+'')) (\<lambda>memStatsStr.
     bnd (if memStatsStr \<noteq> [] then bnd (index_at (columns memStatsStr) 2) (\<lambda>f. ret (parse_uint f)) else ret (parse_uint f)) (\<lambda>memFree.
     ret (memFree, parse_uint sz))))))"

definition ws_StatsSummary :: "'w kernel \<Rightarrow> (string \<Rightarrow> rat) \<Rightarrow> 'p option \<Rightarrow> ('w, node_stats) sio" where
  "ws_StatsSummary k parse_float prov =
     bnd (sh k ''hostname'') (\<lambda>nodenameStr.
     bnd (sh k (''mpstat 1 1 | grep '' @ quoted ''all'')) (\<lambda>cpuStatsStr.
     bnd (sh k ''nproc'') (\<lambda>nProc.
     let numCpus = atoi_value (trim_newlines nProc);
         cpuCats = columns (hd (split_on CHR 0x0A cpuStatsStr));
         cpuNanos = cpu_nanos (parse_float (last cpuCats)) numCpus in
     bnd (modify (\<lambda>(n, totalNanoCores). (n, totalNanoCores + cpuNanos))) (\<lambda>_.
     bnd get_st (\<lambda>st.
     bnd (free_memory k) (\<lambda>(memFree, memSize).
     bnd (sh k (''ip a | grep -o -E '' @ quoted ''[0-9]{1,2}: [a-z0-9]*: '' @ '' | grep -o -E '' @ quoted ''[a-z0-9]{2,}'')) (\<lambda>ifacesStr.
     bnd (for_all (split_on CHR 0x0A ifacesStr) (\<lambda>iface.
       bnd (sh k (''ifconfig '' @ iface @ ''| grep '' @ quoted ''bytes'')) (\<lambda>_. ret ()))) (\<lambda>_.
     bnd (deref prov) (\<lambda>_.
     ret \<lparr>ns_NodeName = trim_suffix nodenameStr, ns_UsageNanoCores = cpuNanos, ns_UsageCoreNanoSeconds = snd st,
       ns_UsageBytes = memSize - memFree, ns_AvailableBytes = memFree, ns_WorkingSetBytes = memSize - memFree\<rparr>)))))))))"

text \<open>\<open>GetPods\<close>: the pods, or the one error that is written.\<close>

definition ws_GetPods :: "'w provider option \<Rightarrow> bool \<Rightarrow> ('w, go_error + pod list) pio" where
  "ws_GetPods prov ctx = bnd (deref prov) (\<lambda>p. bnd (deref (if ctx then Some () else None)) (\<lambda>_.
     bnd (GetPods p) (\<lambda>(pds, err). case err of Some e \<Rightarrow> ret (Inl e) | None \<Rightarrow> ret (Inr pds))))"

section \<open>What the statistics say\<close>

text \<open>
  The memory in use and the free memory add up to the whole, around the end of 64 bits; the total of
  the processors grows by the usage of the moment with every request, whatever time has passed.
\<close>

lemma sh_total: "sh k cmd (n, x) = (r, (n', x')) \<Longrightarrow> x' = x"
  by (auto simp: sh_def split: prod.splits outcome.splits)

lemma sh_Done: "sh k cmd s = (Done x, t) \<Longrightarrow> snd t = snd s"
  by (cases s; cases t) (simp add: sh_total)

lemma index_Done: "index_at xs i s = (Done x, t) \<Longrightarrow> t = s"
  by (auto simp: index_at_def io_simps split: if_splits)

lemma free_memory_total: "free_memory k s = (Done x, t) \<Longrightarrow> snd t = snd s"
  unfolding free_memory_def Let_def
  by (auto simp: ret_apply elim!: bnd_DoneE split: if_splits dest!: sh_Done index_Done)

lemma for_all_sh_total: "for_all xs (\<lambda>x. bnd (sh k (f x)) (\<lambda>_. ret ())) s = (Done u, t) \<Longrightarrow> snd t = snd s"
  by (induction xs arbitrary: s) (auto simp: ret_apply elim!: bnd_DoneE dest!: sh_Done)

lemma stats_summary:
  assumes "ws_StatsSummary k parse_float prov s = (Done r, t)"
  shows "snd t = snd s + ns_UsageNanoCores r" "ns_UsageCoreNanoSeconds r = snd t"
    "ns_WorkingSetBytes r = ns_UsageBytes r"
  using assms unfolding ws_StatsSummary_def Let_def
  by (cases prov; auto simp: ret_apply get_st_apply modify_apply deref_apply elim!: bnd_DoneE split: prod.splits option.splits
      dest!: sh_Done free_memory_total for_all_sh_total)+

end
