(* ===== verification/Spec2Isabelle.thy ===== *)
theory Spec2Isabelle
  imports AddressProps AddressPool RaceProps NetProps NetTermination BlockProps NetProps6 PodProps NodeProps OsvProps ContainerdProps AgentProps
    Tracing FledgeProps StartupProps ClusterProps Stats
begin

text \<open>
  FLEDGE: a node agent that runs the pods of a Kubernetes cluster, or of its own web service, as
  containers (containerd) and as unikernels in virtual machines (OSv on qemu), side by side in one pod
  network. This is a model of its Go code under \<open>src/\<close>, and what is proved of it.

  \<^bold>\<open>The program.\<close> \<open>main\<close> fills in the options, reads the configuration file, patches the flags and runs the
  root command (\<open>cmd/fledge\<close>). In standalone mode that derives an address space from the machine,
  starts one of three network managers (\<open>pkg/network\<close>), makes the provider with the backends its
  configuration enables (\<open>pkg/provider\<close>), creates the pods found on disk and serves requests; in
  cluster mode the library of virtual-kubelet calls the same provider. Creating a pod makes the network
  manager take a block of addresses for it, set up a bridge, a network namespace and BPF programs; then
  each container becomes an instance of its backend, which asks the manager for the namespace
  (containerd) or for a tap device with the next address of the block (OSv). Volumes come from the host
  or, through the resource manager (\<open>pkg/manager\<close>), from the cluster.

  \<^bold>\<open>Effects.\<close> Code with effects is a function of type \<open>('s, 'a) io\<close>: from a state to an outcome - a value,
  a panic with its message, or no return - and the next state (\<open>GoPrelude\<close>). Errors of the code are values
  (\<open>goerr\<close>); a nil dereference, an index out of range, a write to a nil map and a failed conversion are
  panics. \<open>net_state\<close> holds the globals of the network package with the heap of byte arrays that
  \<open>net.IP\<close> slices share; \<open>provider_state\<close> adds the tables of the provider. Integers keep their width
  where it matters (addresses, ports, counters), Go maps are association lists, and \<open>range\<close> over a map
  takes an order from the world. What is not in the repository - netlink, eBPF, the shell, files,
  processes, clock, containerd, registries, the Kubernetes and command-line libraries - is a parameter: a record of
  operations on an arbitrary world (\<open>kernel\<close>, \<open>cd_tools\<close>, \<open>osv_tools\<close>, \<open>listers\<close>, \<open>registry\<close>, ...), about
  which the theorems assume nothing unless they say so.

  \<^bold>\<open>Theories and sources.\<close>
    \<^item> \<open>GoPrelude\<close>, \<open>GoStrings\<close>, \<open>GoNet\<close>: effects and their rules, strings, \<open>net.IP\<close> and its text forms. \<open>IpText\<close>:
      printed addresses are read back.
    \<^item> \<open>AddressManager\<close>: \<open>IP4.go\<close>, \<open>IP6.go\<close>. \<open>AddressSpec\<close>: first-fit search, invariants, the contract as the
      locale \<open>address_manager\<close>, interpreted by both managers. \<open>AddressProps\<close>: disjoint blocks, first fit, round
      trip, capacity, standalone subnets. \<open>AddressPool\<close>: both refine one abstract pool of blocks. \<open>AddressRace\<close>,
      \<open>RaceProps\<close>: requests at the same time, goroutines that interleave between their accesses to the map.
    \<^item> \<open>Kernel\<close>, \<open>EBPF\<close>, \<open>ContainerNet\<close>, \<open>MultiRuntime\<close>, \<open>PodLocal\<close>, \<open>DefaultNet\<close>: \<open>pkg/network\<close> without the address
      managers (\<open>EBPF.go\<close>, \<open>ContainerNetworking.go\<close>, \<open>NetNsManagement.go\<close>, \<open>MultiRuntimeNetworking.go\<close>,
      \<open>MultiRuntimePodLocalNetworking.go\<close>, \<open>DefaultNetworking.go\<close>, \<open>LegacyAccess.go\<close>, \<open>WarrensAccess.go\<close>).
      \<open>NetLogic\<close>: a logic for any kernel. \<open>NetSpec\<close>: the invariant of the pod tables. \<open>NetManagers\<close>: the Go
      interface \<open>CNIManager\<close>, its calls as a step relation and its contract, interpreted by the three managers.
      \<open>NetFrozen\<close>: what steps leave alone, seen through a view of the pods (a locale). \<open>NetBlocks\<close>: the blocks
      of different pods, a second instance of that contract. \<open>NetBlocks6\<close>, \<open>NetProps6\<close>: IPv6 pods. \<open>NetProps\<close>: addresses of
      workloads, routes, namespaces. \<open>BlockProps\<close>: no shared addresses, a full subnet. \<open>NetTermination\<close>: every call returns, and a wait that does not. \<open>SimKernel\<close>: a
      concrete kernel for witnesses.
    \<^item> \<open>Kube\<close> (\<open>resource.go\<close> and the part of the API the code uses), \<open>Identifiers\<close> (\<open>identifier.go\<close>),
      \<open>Storage\<close> (\<open>pkg/storage\<close>), \<open>Instances\<close> (\<open>instance*.go\<close>, \<open>backend.go\<close>, \<open>backend_dummy.go\<close>, \<open>provider.go\<close>,
      \<open>config.go\<close>), \<open>Pods\<close> (\<open>pod.go\<close>, \<open>container.go\<close>, \<open>metrics.go\<close>). \<open>PodSpec\<close>, \<open>NodeSpec\<close>: the contracts of
      backends and of a node as locales; \<open>PodProps\<close>, \<open>NodeProps\<close>: identifiers, phases, the life of a pod.
    \<^item> \<open>Osv\<close>, \<open>OsvBackend\<close>, \<open>OsvSpec\<close>, \<open>OsvProps\<close>: \<open>backend_osv.go\<close>, whose machines end in steps of their own;
      \<open>NodeWorld\<close> puts the state of a backend beside the rest of the world.
    \<^item> \<open>Sys\<close> (\<open>pkg/util\<close>, \<open>logging.go\<close>), \<open>Containerd\<close>, \<open>ContainerdOps\<close>, \<open>ContainerdSpec\<close>, \<open>ContainerdProps\<close>: \<open>backend_containerd.go\<close>.
    \<^item> \<open>Options\<close> (\<open>opts.go\<close>, \<open>flag.go\<close>, \<open>node.go\<close>, \<open>http.go\<close>, \<open>pkg/config\<close>, \<open>fledge.go\<close>), \<open>Startup\<close> (\<open>main.go\<close>, the small
      commands), \<open>Agent\<close> (standalone mode, web service, store of providers), \<open>Cluster\<close> (cluster mode, \<open>auth.go\<close>),
      \<open>Stats\<close> (statistics), \<open>Tracing\<close> (\<open>tracing*.go\<close>); \<open>OptionsProps\<close>, \<open>StartupProps\<close>, \<open>AgentProps\<close>, \<open>ClusterProps\<close>.
    \<^item> \<open>Host\<close> (\<open>pkg/system\<close>, \<open>node.go\<close> and \<open>trace.go\<close> of the provider), \<open>Fledge\<close> (\<open>pkg/fledge\<close>), \<open>FledgeProps\<close>.

  \<^bold>\<open>What is shown.\<close> Safety of addresses from the search for a block up to the whole agent: granted blocks are
  disjoint, and from the start of the agent, through any requests and ends of machines, a pod has at
  most seven workloads with distinct addresses and shares none of its addresses with another pod. On an IPv6 node
  that holds while nothing fails, although the offsets of workloads grow like triangular numbers. These
  are theorems about requests served one after the other. Requests that overlap get an answer unless Go's
  runtime ends the process, but can get the same block, as nothing there takes a lock; a lock around the
  choice of a block and its entry would keep the blocks apart. Functional
  results of each operation on every branch, and
  where the code does not do what it means to, what it does instead: those theorems are listed with
  the lines in the manifest. Refinement of the address managers to a pool; equivalence of loops with
  their meaning; round trips of identifiers and addresses; bounds of the subnets; termination of the
  network calls.

  \<^bold>\<open>Loops.\<close> The searches for an address and the retries around netlink have no bound in the code. They
  are \<open>partial_function (option)\<close>, and not returning is an outcome. The search ends by the invariant of
  the address manager. The retries end when every single call of the kernel does what is documented of it
  (\<open>reliable_kernel\<close>, which says nothing of the loops; \<open>sim_kernel\<close> is one), and there is no way out of them when it
  does not: that is shown for a namespace that cannot be entered. All other loops are structural recursion. No fuel is used.

  \<^bold>\<open>Not modelled.\<close> Time stamps, logging, the encoding of answers, the streams of attached processes and the
  copying of logs. Concurrency, except in \<open>AddressRace\<close>: requests, machines that end and calls of the library
  are whole steps in any order, without interleaving inside them. The code has a lock in the store of
  providers only, so that the theorems about several requests are about requests that do not overlap. Goroutines
  and signals of \<open>main\<close>, the metrics server and the page server of the tracing library. The
  floating-point numbers of the host information are rational numbers. The BPF programs
  themselves, which are C code loaded by name, and \<open>volume.go\<close>, all of which is commented out. The commands
  and flags are those of the root command; their parsing belongs to the library.
  Termination is shown for the address managers and the network managers only. The addresses of IPv6 workloads are followed
  on runs in which no call fails, as a failed one moves the base of a pod. The containerd backend writes the
  expanded arguments of a container back into the array that its pod's command may share; what is in the
  array then is \<open>command_after\<close>, and pods are values that the operations do not change through such an alias.
\<close>

end
